(* ===== verification/Prelude.thy ===== *)
theory Prelude
  imports Main "HOL-Library.Multiset"
begin

text \<open>
  Shared vocabulary of the development.  A Rust \<open>Result<T, E>\<close> is the sum \<open>E + T\<close>
  (\<open>Inl\<close> the error); a method that reads and writes a store is a function from the store to
  a result and the new store, and the \<open>?\<close> operator is \<open>io_bind\<close>: the error returns early and
  keeps whatever was written before it.  A Rust \<open>String\<close> is the list of its UTF-8 bytes, so
  \<open>length\<close> is Rust's \<open>len()\<close>; an \<open>i64\<close> is an \<open>int\<close>, with the width written out where an
  operation depends on it.  The collections \<open>io\<close> and \<open>store_simps\<close> gather the equations the
  component proofs unfold.
\<close>

named_theorems io \<open>unfolding a stateful computation\<close>
named_theorems store_simps \<open>effect of a store operation on the parts of the store\<close>

type_synonym ('e, 'a) result = "'e + 'a"
type_synonym ('s, 'e, 'a) io = "'s \<Rightarrow> ('e, 'a) result \<times> 's"

section \<open>Results\<close>

definition map_err :: "('e \<Rightarrow> 'f) \<Rightarrow> ('e, 'a) result \<Rightarrow> ('f, 'a) result" where
  "map_err f r = (case r of Inl e \<Rightarrow> Inl (f e) | Inr a \<Rightarrow> Inr a)"

definition is_ok :: "('e, 'a) result \<Rightarrow> bool" where
  "is_ok r = (case r of Inl _ \<Rightarrow> False | Inr _ \<Rightarrow> True)"

lemma map_err_simps [simp]:
  "map_err f (Inl e) = Inl (f e)"
  "map_err f (Inr a) = Inr a"
  by (simp_all add: map_err_def)

lemma map_err_eq_Inr [simp]: "map_err f r = Inr a \<longleftrightarrow> r = Inr a"
  by (cases r) simp_all

lemma is_ok_simps [simp]: "is_ok (Inl e) = False" "is_ok (Inr a) = True"
  by (simp_all add: is_ok_def)

section \<open>Stateful computations\<close>

definition io_ret :: "'a \<Rightarrow> ('s, 'e, 'a) io" where
  "io_ret a = (\<lambda>s. (Inr a, s))"

definition io_err :: "'e \<Rightarrow> ('s, 'e, 'a) io" where
  "io_err e = (\<lambda>s. (Inl e, s))"

definition io_bind :: "('s, 'e, 'a) io \<Rightarrow> ('a \<Rightarrow> ('s, 'e, 'b) io) \<Rightarrow> ('s, 'e, 'b) io" where
  "io_bind m f = (\<lambda>s. case m s of (Inl e, s') \<Rightarrow> (Inl e, s') | (Inr a, s') \<Rightarrow> f a s')"

definition io_lift :: "('e, 'a) result \<Rightarrow> ('s, 'e, 'a) io" where
  "io_lift r = (\<lambda>s. (r, s))"

definition io_map_err :: "('e \<Rightarrow> 'f) \<Rightarrow> ('s, 'e, 'a) io \<Rightarrow> ('s, 'f, 'a) io" where
  "io_map_err f m = (\<lambda>s. case m s of (r, s') \<Rightarrow> (map_err f r, s'))"

text \<open>\<open>let _ = m.await;\<close> runs a computation for its effect and drops its result.\<close>

definition io_ignore :: "('s, 'e, 'a) io \<Rightarrow> 's \<Rightarrow> 's" where
  "io_ignore m s = snd (m s)"

lemmas io_defs [io] = io_ret_def io_err_def io_bind_def io_lift_def io_map_err_def io_ignore_def

lemma io_bind_ret [simp]: "io_bind (io_ret a) f = f a"
  by (simp add: io)

lemma io_bind_err [simp]: "io_bind (io_err e) f = io_err e"
  by (simp add: io)

lemma io_bind_assoc: "io_bind (io_bind m f) g = io_bind m (\<lambda>a. io_bind (f a) g)"
  by (auto simp: io fun_eq_iff split: prod.splits sum.splits)

lemma io_bind_Inr_iff:
  "io_bind m f s = (Inr b, s'') \<longleftrightarrow> (\<exists>a s'. m s = (Inr a, s') \<and> f a s' = (Inr b, s''))"
  by (auto simp: io_bind_def split: prod.splits sum.splits)

lemma io_map_err_Inr_iff [simp]:
  "io_map_err g m s = (Inr b, s') \<longleftrightarrow> m s = (Inr b, s')"
  by (auto simp: io_map_err_def split: prod.splits)

lemma io_bind_Inl_iff:
  "io_bind m f s = (Inl e, s'') \<longleftrightarrow>
     m s = (Inl e, s'') \<or> (\<exists>a s'. m s = (Inr a, s') \<and> f a s' = (Inl e, s''))"
  by (auto simp: io_bind_def split: prod.splits sum.splits)

lemma io_map_err_Inl_iff [simp]:
  "io_map_err g m s = (Inl e, s') \<longleftrightarrow> (\<exists>e'. m s = (Inl e', s') \<and> e = g e')"
  by (auto simp: io_map_err_def map_err_def split: prod.splits sum.splits)

lemma io_ret_iff [simp]: "io_ret a s = (r, s') \<longleftrightarrow> r = Inr a \<and> s' = s"
  by (auto simp: io_ret_def)

lemma io_err_iff [simp]: "io_err e s = (r, s') \<longleftrightarrow> r = Inl e \<and> s' = s"
  by (auto simp: io_err_def)

lemma io_lift_iff [simp]: "io_lift x s = (r, s') \<longleftrightarrow> x = r \<and> s' = s"
  by (auto simp: io_lift_def)

lemmas io_iff = io_bind_Inr_iff io_bind_Inl_iff

section \<open>Lists as tables\<close>

text \<open>
  \<open>iter().find(p)\<close> is the library's \<open>List.find\<close>; \<open>iter_mut().find(p)\<close> followed by an update of
  what was found rewrites the first match only.
\<close>

fun update_first :: "('a \<Rightarrow> bool) \<Rightarrow> ('a \<Rightarrow> 'a) \<Rightarrow> 'a list \<Rightarrow> 'a list" where
  "update_first p f [] = []"
| "update_first p f (x # xs) = (if p x then f x # xs else x # update_first p f xs)"

lemma length_update_first [simp]: "length (update_first p f xs) = length xs"
  by (induction xs) auto

lemma update_first_none: "\<forall>x \<in> set xs. \<not> p x \<Longrightarrow> update_first p f xs = xs"
  by (induction xs) auto

lemma map_update_first:
  assumes "\<And>x. p x \<Longrightarrow> g (f x) = g x"
  shows "map g (update_first p f xs) = map g xs"
  using assms by (induction xs) auto

lemma set_update_first: "set (update_first p f xs) \<subseteq> set xs \<union> f ` {x \<in> set xs. p x}"
  by (induction xs) auto

lemma find_append: "List.find p (xs @ ys) = (case List.find p xs of Some x \<Rightarrow> Some x | None \<Rightarrow> List.find p ys)"
  by (induction xs) auto

lemma find_None_iff_all: "List.find p xs = None \<longleftrightarrow> (\<forall>x \<in> set xs. \<not> p x)"
  by (induction xs) auto

lemma find_Some_in: "List.find p xs = Some x \<Longrightarrow> x \<in> set xs \<and> p x"
  by (induction xs) (auto split: if_splits)

lemma find_update_first_same:
  assumes "\<And>x. p x \<Longrightarrow> p (f x)"
  shows "List.find p (update_first p f xs) = map_option f (List.find p xs)"
  using assms by (induction xs) auto

lemma find_update_first_other:
  assumes "\<And>x. p x \<Longrightarrow> \<not> q x" and "\<And>x. p x \<Longrightarrow> \<not> q (f x)"
  shows "List.find q (update_first p f xs) = List.find q xs"
  using assms by (induction xs) auto

text \<open>A key column without duplicates makes \<open>find\<close> by key a lookup.\<close>

lemma find_distinct_key:
  assumes "distinct (map k xs)" "x \<in> set xs"
  shows "List.find (\<lambda>y. k y = k x) xs = Some x"
  using assms by (induction xs) (auto simp: image_iff rev_image_eqI)

text \<open>An association list stands for a \<open>HashMap\<close>: insertion replaces the entry of its key.\<close>

fun map_insert :: "'k \<Rightarrow> 'v \<Rightarrow> ('k \<times> 'v) list \<Rightarrow> ('k \<times> 'v) list" where
  "map_insert k v [] = [(k, v)]"
| "map_insert k v ((k', v') # m) = (if k' = k then (k, v) # m else (k', v') # map_insert k v m)"

lemma map_of_map_insert [simp]: "map_of (map_insert k v m) = (map_of m)(k \<mapsto> v)"
  by (induction m) auto

lemma keys_map_insert: "fst ` set (map_insert k v m) = insert k (fst ` set m)"
  by (simp flip: dom_map_of_conv_image_fst)

lemma distinct_map_insert: "distinct (map fst m) \<Longrightarrow> distinct (map fst (map_insert k v m))"
proof (induction m)
  case (Cons kv m)
  then show ?case
    using keys_map_insert [of k v m] by (cases kv) (auto simp flip: set_map)
qed simp

section \<open>Sorting and cutting\<close>

text \<open>
  \<open>sort_by\<close>, \<open>sort_by_key\<close> are stable; \<open>le x y\<close> says that \<open>x\<close> may stand before \<open>y\<close>.
\<close>

fun insert_by :: "('a \<Rightarrow> 'a \<Rightarrow> bool) \<Rightarrow> 'a \<Rightarrow> 'a list \<Rightarrow> 'a list" where
  "insert_by le x [] = [x]"
| "insert_by le x (y # ys) = (if le x y then x # y # ys else y # insert_by le x ys)"

definition sort_by :: "('a \<Rightarrow> 'a \<Rightarrow> bool) \<Rightarrow> 'a list \<Rightarrow> 'a list" where
  "sort_by le xs = foldr (insert_by le) xs []"

lemma set_insert_by [simp]: "set (insert_by le x xs) = insert x (set xs)"
  by (induction xs) auto

lemma length_insert_by [simp]: "length (insert_by le x xs) = Suc (length xs)"
  by (induction xs) auto

lemma sort_by_simps [simp]: "sort_by le [] = []" "sort_by le (x # xs) = insert_by le x (sort_by le xs)"
  by (simp_all add: sort_by_def)

lemma set_sort_by [simp]: "set (sort_by le xs) = set xs"
  by (induction xs) auto

lemma length_sort_by [simp]: "length (sort_by le xs) = length xs"
  by (induction xs) auto

lemma mset_insert_by [simp]: "mset (insert_by le x xs) = add_mset x (mset xs)"
  by (induction xs) auto

lemma mset_sort_by [simp]: "mset (sort_by le xs) = mset xs"
  by (induction xs) auto

lemma distinct_sort_by: "distinct (map k (sort_by le xs)) \<longleftrightarrow> distinct (map k xs)"
  by (metis mset_map mset_sort_by mset_eq_imp_distinct_iff)

lemma insert_by_sorted:
  assumes "\<And>x y z. le x y \<Longrightarrow> le y z \<Longrightarrow> le x z" "\<And>x y. le x y \<or> le y x" "sorted_wrt le xs"
  shows "sorted_wrt le (insert_by le x xs)"
  using assms(3)
proof (induction xs)
  case (Cons y ys)
  then show ?case using assms(2) [of x y] by (auto dest: assms(1))
qed simp

lemma sort_by_sorted:
  assumes "\<And>x y z. le x y \<Longrightarrow> le y z \<Longrightarrow> le x z" "\<And>x y. le x y \<or> le y x"
  shows "sorted_wrt le (sort_by le xs)"
  by (induction xs) (simp_all add: insert_by_sorted [OF assms])

text \<open>The same for an order that is one only on the elements at hand.\<close>

lemma insert_by_sorted_on:
  assumes "\<And>x y z. x \<in> A \<Longrightarrow> y \<in> A \<Longrightarrow> z \<in> A \<Longrightarrow> le x y \<Longrightarrow> le y z \<Longrightarrow> le x z"
    and "\<And>x y. x \<in> A \<Longrightarrow> y \<in> A \<Longrightarrow> le x y \<or> le y x" "sorted_wrt le xs" "set xs \<subseteq> A" "x \<in> A"
  shows "sorted_wrt le (insert_by le x xs)"
  using assms(3,4)
proof (induction xs)
  case (Cons y ys)
  then have y: "y \<in> A" "set ys \<subseteq> A" by auto
  show ?case
  proof (cases "le x y")
    case True
    with Cons.prems y assms(1) [OF assms(5) y(1)] show ?thesis by auto
  next
    case False
    with assms(2) [OF assms(5) y(1)] have "le y x" by blast
    with False Cons y show ?thesis by auto
  qed
qed simp

lemma sort_by_sorted_on:
  assumes "\<And>x y z. x \<in> A \<Longrightarrow> y \<in> A \<Longrightarrow> z \<in> A \<Longrightarrow> le x y \<Longrightarrow> le y z \<Longrightarrow> le x z"
    and "\<And>x y. x \<in> A \<Longrightarrow> y \<in> A \<Longrightarrow> le x y \<or> le y x" "set xs \<subseteq> A"
  shows "sorted_wrt le (sort_by le xs)"
  using assms(3)
proof (induction xs)
  case (Cons x xs)
  then show ?case by (simp add: insert_by_sorted_on [OF assms(1,2)])
qed simp

text \<open>The window \<open>v[offset..min(offset + limit, len)]\<close>, empty when it starts past the end.\<close>

definition window :: "nat \<Rightarrow> nat \<Rightarrow> 'a list \<Rightarrow> 'a list" where
  "window off lim xs = take lim (drop off xs)"

lemma length_window: "length (window off lim xs) \<le> lim"
  by (simp add: window_def)

end
