(* ===== verification/Floats.thy ===== *)
theory Floats
  imports Prelude Complex_Main "HOL-Library.Log_Nat"
begin

text \<open>
  Rust's \<open>f64\<close> and \<open>f32\<close>: a value is a NaN, an infinity or a finite rational, and every
  arithmetic operation is the exact result rounded to the format, to nearest with ties to even
  and with gradual underflow, as IEEE 754 prescribes.  The sign of zero is the one thing left
  out: it shows in no comparison, and in a division only when the divisor is a negative zero.
  Rounding is monotone and leaves representable numbers alone; with these two facts a bound on a
  score follows from the value of the same formula at a corner, which the kernel evaluates.
\<close>

section \<open>Formats and values\<close>

datatype fl = NaN | PInf | NInf | Fin rat

type_synonym f64 = fl
type_synonym f32 = fl

record fmt =
  prec :: nat   \<comment> \<open>bits of significand\<close>
  emin :: int   \<comment> \<open>exponent of the least positive value\<close>
  emax :: int   \<comment> \<open>the least power of two out of range is \<open>2 powi emax\<close>\<close>

definition binary64 :: fmt where "binary64 = \<lparr>prec = 53, emin = -1074, emax = 1024\<rparr>"
definition binary32 :: fmt where "binary32 = \<lparr>prec = 24, emin = -149, emax = 128\<rparr>"

definition p2 :: "int \<Rightarrow> rat" where
  "p2 k = (if 0 \<le> k then 2 ^ nat k else 1 / 2 ^ nat (- k))"

text \<open>Powers by halving the exponent, so that evaluation stays short.\<close>

function pow2 :: "int \<Rightarrow> int" where
  "pow2 k = (if k \<le> 0 then 1 else let h = pow2 (k div 2) in if even k then h * h else 2 * (h * h))"
  by pat_completeness auto
termination
  by (relation "measure nat") auto

declare pow2.simps [simp del]

lemma pow2_eq: "0 \<le> k \<Longrightarrow> pow2 k = 2 ^ nat k"
proof (induction k rule: pow2.induct)
  case (1 k)
  show ?case
  proof (cases "k = 0")
    case False
    with 1 have k: "0 < k" and h: "pow2 (k div 2) = 2 ^ nat (k div 2)" by auto
    have "nat k = (if even k then nat (k div 2) + nat (k div 2) else Suc (nat (k div 2) + nat (k div 2)))"
      using k by (auto elim!: evenE oddE)
    with k h show ?thesis by (subst pow2.simps) (simp add: Let_def power_add)
  qed (simp add: pow2.simps)
qed

lemma p2_code [code]: "p2 k = (if 0 \<le> k then of_int (pow2 k) else Fract 1 (pow2 (- k)))"
  by (simp add: p2_def pow2_eq Fract_of_int_quotient)

lemma p2_powi: "p2 k = 2 powi k"
  by (simp add: p2_def power_int_def field_simps)

lemma p2_pos [simp]: "0 < p2 k"
  by (simp add: p2_def)

lemma p2_nonneg [simp]: "0 \<le> p2 k"
  by (simp add: less_imp_le)

lemma p2_neq0 [simp]: "p2 k \<noteq> 0"
  by (rule less_imp_neq [symmetric]) simp

lemma p2_add: "p2 (a + b) = p2 a * p2 b"
  by (simp add: p2_powi power_int_add)

lemma p2_less_iff [simp]: "p2 a < p2 b \<longleftrightarrow> a < b"
proof -
  have "p2 a < p2 b" if "a < b" for a b
    using that by (simp add: p2_powi power_int_strict_increasing)
  then show ?thesis
    by (metis linorder_less_linear order_less_asym)
qed

lemma p2_le_iff [simp]: "p2 a \<le> p2 b \<longleftrightarrow> a \<le> b"
  by (simp add: linorder_not_less [symmetric])

lemma p2_int: "0 \<le> k \<Longrightarrow> p2 k = of_int (2 ^ nat k)"
  by (simp add: p2_def)

section \<open>The exponent of a positive rational\<close>

text \<open>Bit lengths of numerator and denominator give the exponent up to one.\<close>

definition ilog2 :: "rat \<Rightarrow> int" where
  "ilog2 q = (let (a, b) = quotient_of q; k = bitlen a - bitlen b
              in if p2 k \<le> q then k else k - 1)"

lemma ilog2_code [code]:
  "ilog2 q = (let (a, b) = quotient_of q; k = bitlen a - bitlen b
              in if (if 0 \<le> k then pow2 k * b \<le> a else b \<le> a * pow2 (- k)) then k else k - 1)"
proof -
  obtain a b where ab: "quotient_of q = (a, b)" by fastforce
  then have b: "0 < b" using quotient_of_denom_pos by blast
  from ab have q: "q = of_int a / of_int b" by (rule quotient_of_div)
  have "p2 k \<le> q \<longleftrightarrow> (if 0 \<le> k then pow2 k * b \<le> a else b \<le> a * pow2 (- k))" for k
  proof (cases "0 \<le> k")
    case True
    have "p2 k \<le> q \<longleftrightarrow> of_int (pow2 k * b) \<le> (of_int a :: rat)"
      using True b by (simp add: q p2_def pow2_eq pos_le_divide_eq)
    with True show ?thesis by (simp only: of_int_le_iff if_True)
  next
    case False
    have "p2 k \<le> q \<longleftrightarrow> of_int b \<le> (of_int (a * pow2 (- k)) :: rat)"
      using False b by (simp add: q p2_def pow2_eq field_simps)
    with False show ?thesis by (simp only: of_int_le_iff if_False)
  qed
  then show ?thesis by (simp add: ilog2_def ab)
qed

lemma bitlen_p2:
  assumes "0 < (a::int)"
  shows "p2 (bitlen a - 1) \<le> of_int a" and "of_int a < p2 (bitlen a)"
proof -
  from assms have b: "0 < bitlen a" using bitlen_nonneg [of a] bitlen_eq_zero_iff [of a] by linarith
  from bitlen_bounds [OF assms] have "2 ^ nat (bitlen a - 1) \<le> a" "a < 2 ^ nat (bitlen a)" by auto
  then have "of_int (2 ^ nat (bitlen a - 1)) \<le> (of_int a :: rat)" "(of_int a :: rat) < of_int (2 ^ nat (bitlen a))"
    by (simp_all only: of_int_le_iff of_int_less_iff)
  with b show "p2 (bitlen a - 1) \<le> of_int a" and "of_int a < p2 (bitlen a)"
    by (simp_all add: p2_int)
qed

lemma ilog2_bounds:
  assumes "0 < q"
  shows "p2 (ilog2 q) \<le> q" and "q < p2 (ilog2 q + 1)"
proof -
  obtain a b where ab: "quotient_of q = (a, b)" by fastforce
  then have b: "0 < b" using quotient_of_denom_pos by blast
  from ab have q: "q = of_int a / of_int b" by (rule quotient_of_div)
  with assms b have a: "0 < a" by (simp add: zero_less_divide_iff)
  have lo: "p2 (bitlen a - bitlen b - 1) * of_int b \<le> of_int a"
  proof -
    have "p2 (bitlen a - bitlen b - 1) * of_int b \<le> p2 (bitlen a - bitlen b - 1) * p2 (bitlen b)"
      using bitlen_p2(2) [OF b] by simp
    also have "\<dots> = p2 (bitlen a - 1)" by (simp flip: p2_add)
    also have "\<dots> \<le> of_int a" by (rule bitlen_p2 [OF a])
    finally show ?thesis .
  qed
  have hi: "of_int a < p2 (bitlen a - bitlen b + 1) * of_int b"
  proof -
    have "of_int a < p2 (bitlen a)" by (rule bitlen_p2 [OF a])
    also have "\<dots> = p2 (bitlen a - bitlen b + 1) * p2 (bitlen b - 1)" by (simp flip: p2_add)
    also have "\<dots> \<le> p2 (bitlen a - bitlen b + 1) * of_int b" using bitlen_p2(1) [OF b] by simp
    finally show ?thesis .
  qed
  from lo hi b have "p2 (bitlen a - bitlen b - 1) \<le> q" "q < p2 (bitlen a - bitlen b + 1)"
    by (simp_all add: q pos_le_divide_eq pos_divide_less_eq)
  then show "p2 (ilog2 q) \<le> q" and "q < p2 (ilog2 q + 1)"
    by (auto simp: ilog2_def ab Let_def)
qed

lemma ilog2_mono:
  assumes "0 < q" "q \<le> r"
  shows "ilog2 q \<le> ilog2 r"
proof -
  from assms have "p2 (ilog2 q) < p2 (ilog2 r + 1)"
    using ilog2_bounds(1) [OF assms(1)] ilog2_bounds(2) [of r] by linarith
  then show ?thesis by simp
qed

lemma ilog2_less: "0 < q \<Longrightarrow> q < p2 k \<Longrightarrow> ilog2 q < k"
  using ilog2_bounds(1) [of q] p2_less_iff [of "ilog2 q" k] by linarith

section \<open>Rounding\<close>

definition round_even :: "rat \<Rightarrow> int" where
  "round_even q = (let f = \<lfloor>q\<rfloor>; r = q - of_int f
                   in if r < 1/2 then f else if 1/2 < r then f + 1
                      else if even f then f else f + 1)"

lemma round_even_floor: "\<lfloor>q\<rfloor> \<le> round_even q" "round_even q \<le> \<lfloor>q\<rfloor> + 1"
  by (auto simp: round_even_def Let_def)

lemma round_even_int [simp]: "round_even (of_int n) = n"
  by (simp add: round_even_def)

lemma round_even_mono:
  assumes "q \<le> r"
  shows "round_even q \<le> round_even r"
proof (cases "\<lfloor>q\<rfloor> = \<lfloor>r\<rfloor>")
  case True
  with assms show ?thesis by (auto simp: round_even_def Let_def)
next
  case False
  with floor_mono [OF assms] have "\<lfloor>q\<rfloor> + 1 \<le> \<lfloor>r\<rfloor>" by simp
  with round_even_floor(2) [of q] round_even_floor(1) [of r] show ?thesis by linarith
qed

lemma round_even_ge_int: "of_int n \<le> q \<Longrightarrow> n \<le> round_even q"
  using round_even_mono [of "of_int n" q] by simp

lemma round_even_le_int: "q \<le> of_int n \<Longrightarrow> round_even q \<le> n"
  using round_even_mono [of q "of_int n"] by simp

definition ulp_exp :: "fmt \<Rightarrow> rat \<Rightarrow> int" where
  "ulp_exp m q = max (emin m) (ilog2 q - int (prec m) + 1)"

definition round_pos :: "fmt \<Rightarrow> rat \<Rightarrow> rat" where
  "round_pos m q = (let e = ulp_exp m q in of_int (round_even (q / p2 e)) * p2 e)"

lemma round_even_code [code]:
  "round_even q = (let (a, b) = quotient_of q; f = a div b; r = 2 * (a - f * b)
                   in if r < b then f else if b < r then f + 1 else if even f then f else f + 1)"
proof -
  obtain a b where ab: "quotient_of q = (a, b)" by fastforce
  then have b: "0 < b" using quotient_of_denom_pos by blast
  from ab have q: "q = of_int a / of_int b" by (rule quotient_of_div)
  have f: "\<lfloor>q\<rfloor> = a div b" by (simp add: q floor_divide_of_int_eq)
  have "q - of_int (a div b) < 1/2 \<longleftrightarrow> of_int (2 * (a - a div b * b)) < (of_int b :: rat)"
    and "1/2 < q - of_int (a div b) \<longleftrightarrow> (of_int b :: rat) < of_int (2 * (a - a div b * b))"
    using b by (simp_all add: q field_simps)
  then have "q - of_int (a div b) < 1/2 \<longleftrightarrow> 2 * (a - a div b * b) < b"
    and "1/2 < q - of_int (a div b) \<longleftrightarrow> b < 2 * (a - a div b * b)"
    by (simp_all only: of_int_less_iff)
  then show ?thesis by (simp add: round_even_def Let_def f ab)
qed

text \<open>A magnitude that rounds to \<open>2 powi emax\<close> or beyond is an infinity.\<close>

definition overflows :: "fmt \<Rightarrow> rat \<Rightarrow> bool" where
  "overflows m r \<longleftrightarrow> 0 < r \<and> emax m \<le> ilog2 r"

lemma overflows_iff: "overflows m r \<longleftrightarrow> p2 (emax m) \<le> r"
proof
  assume "overflows m r"
  then show "p2 (emax m) \<le> r"
    using ilog2_bounds(1) [of r] p2_le_iff [of "emax m" "ilog2 r"]
    unfolding overflows_def by linarith
next
  assume *: "p2 (emax m) \<le> r"
  then have "0 < r" using p2_pos [of "emax m"] by linarith
  moreover have "p2 (emax m) < p2 (ilog2 r + 1)"
    using * ilog2_bounds(2) [OF \<open>0 < r\<close>] by linarith
  ultimately show "overflows m r" by (simp add: overflows_def)
qed

text \<open>Rounding the rational result of an operation to a value of the format.\<close>

definition rnd :: "fmt \<Rightarrow> rat \<Rightarrow> fl" where
  "rnd m q =
     (if q = 0 then Fin 0
      else if 0 < q then (let r = round_pos m q in if overflows m r then PInf else Fin r)
      else (let r = round_pos m (- q) in if overflows m r then NInf else Fin (- r)))"

lemma round_pos_nonneg: "0 < q \<Longrightarrow> 0 \<le> round_pos m q"
  using round_even_ge_int [of 0 "q / p2 (ulp_exp m q)"]
  by (simp add: round_pos_def Let_def zero_le_mult_iff)

lemma round_pos_mono:
  assumes "0 < q" "q \<le> r" "0 < prec m"
  shows "round_pos m q \<le> round_pos m r"
proof (cases "ulp_exp m q = ulp_exp m r")
  case True
  with assms(2) show ?thesis
    by (auto simp: round_pos_def Let_def intro!: mult_right_mono round_even_mono divide_right_mono)
next
  case False
  let ?x = "ulp_exp m q" and ?y = "ulp_exp m r" and ?k = "ilog2 r"
  from assms have r: "0 < r" by simp
  from ilog2_mono [OF assms(1,2)] False have less: "?x < ?y" and y: "?y = ?k - int (prec m) + 1"
    and qk: "ilog2 q < ?k"
    by (auto simp: ulp_exp_def max_def split: if_splits)
  from y assms(3) have yk: "?y \<le> ?k" by simp
  have "round_pos m q \<le> p2 ?k"
  proof -
    have "q < p2 ?k"
      using ilog2_bounds(2) [OF assms(1)] qk p2_le_iff [of "ilog2 q + 1" ?k] by linarith
    then have "q / p2 ?x \<le> p2 (?k - ?x)"
      by (simp add: pos_divide_le_eq flip: p2_add)
    then have "round_even (q / p2 ?x) \<le> 2 ^ nat (?k - ?x)"
      using less yk by (intro round_even_le_int) (simp add: p2_def)
    then have "of_int (round_even (q / p2 ?x)) \<le> p2 (?k - ?x)"
      using less yk by (simp add: p2_int del: of_int_power)
    then have "round_pos m q \<le> p2 (?k - ?x) * p2 ?x"
      by (simp add: round_pos_def Let_def)
    then show ?thesis by (simp flip: p2_add)
  qed
  also have "p2 ?k \<le> round_pos m r"
  proof -
    have "p2 (?k - ?y) \<le> r / p2 ?y"
      using ilog2_bounds(1) [OF r] by (simp add: pos_le_divide_eq flip: p2_add)
    then have "2 ^ nat (?k - ?y) \<le> round_even (r / p2 ?y)"
      using yk by (intro round_even_ge_int) (simp add: p2_def)
    then have "p2 (?k - ?y) \<le> of_int (round_even (r / p2 ?y))"
      using yk by (simp add: p2_int del: of_int_power)
    then have "p2 (?k - ?y) * p2 ?y \<le> round_pos m r"
      by (simp add: round_pos_def Let_def)
    then show ?thesis by (simp flip: p2_add)
  qed
  finally show ?thesis .
qed


section \<open>Comparison\<close>

text \<open>Every comparison with a NaN is false.\<close>

fun fle :: "fl \<Rightarrow> fl \<Rightarrow> bool" where
  "fle NaN y = False"
| "fle x NaN = False"
| "fle NInf y = True"
| "fle x PInf = True"
| "fle (Fin a) (Fin b) = (a \<le> b)"
| "fle x y = False"

fun flt :: "fl \<Rightarrow> fl \<Rightarrow> bool" where
  "flt NaN y = False"
| "flt x NaN = False"
| "flt (Fin a) (Fin b) = (a < b)"
| "flt NInf NInf = False"
| "flt PInf PInf = False"
| "flt NInf y = True"
| "flt x PInf = True"
| "flt x y = False"

lemma fle_refl: "x \<noteq> NaN \<Longrightarrow> fle x x"
  by (cases x) auto

lemma fle_trans: "fle x y \<Longrightarrow> fle y z \<Longrightarrow> fle x z"
  by (cases x; cases y; cases z) auto

lemma flt_iff_not_fle: "x \<noteq> NaN \<Longrightarrow> y \<noteq> NaN \<Longrightarrow> flt x y \<longleftrightarrow> \<not> fle y x"
  by (cases x; cases y) auto

lemma fle_Fin_iff: "fle (Fin a) x \<longleftrightarrow> x = PInf \<or> (\<exists>q. x = Fin q \<and> a \<le> q)"
  by (cases x) auto

lemma fle_Fin_iff2: "fle x (Fin b) \<longleftrightarrow> x = NInf \<or> (\<exists>q. x = Fin q \<and> q \<le> b)"
  by (cases x) auto

lemma rnd_mono:
  assumes "q \<le> r" "0 < prec m"
  shows "fle (rnd m q) (rnd m r)"
proof -
  have pos: "fle (rnd m q) (rnd m r)" if "0 < q"
    using that assms round_pos_mono [of q r m] by (auto simp: rnd_def Let_def overflows_iff)
  have neg: "fle (rnd m q) (rnd m r)" if "r < 0"
    using that assms round_pos_mono [of "- r" "- q" m] by (auto simp: rnd_def Let_def overflows_iff)
  have mid: "fle (rnd m q) (rnd m r)" if "q \<le> 0" "0 \<le> r"
    using that round_pos_nonneg [of r m] round_pos_nonneg [of "- q" m]
    by (auto simp: rnd_def Let_def less_le)
  from pos neg mid show ?thesis by (meson linorder_not_less)
qed

section \<open>Arithmetic\<close>

fun fneg :: "fl \<Rightarrow> fl" where
  "fneg NaN = NaN" | "fneg PInf = NInf" | "fneg NInf = PInf" | "fneg (Fin a) = Fin (- a)"

fun fabs :: "fl \<Rightarrow> fl" where
  "fabs NaN = NaN" | "fabs (Fin a) = Fin \<bar>a\<bar>" | "fabs _ = PInf"

definition inf_of_sign :: "rat \<Rightarrow> fl" where
  "inf_of_sign a = (if a = 0 then NaN else if 0 < a then PInf else NInf)"

fun fadd :: "fmt \<Rightarrow> fl \<Rightarrow> fl \<Rightarrow> fl" where
  "fadd m (Fin a) (Fin b) = rnd m (a + b)"
| "fadd m NaN y = NaN"
| "fadd m x NaN = NaN"
| "fadd m PInf NInf = NaN"
| "fadd m NInf PInf = NaN"
| "fadd m PInf y = PInf"
| "fadd m x PInf = PInf"
| "fadd m NInf y = NInf"
| "fadd m x NInf = NInf"

definition fsub :: "fmt \<Rightarrow> fl \<Rightarrow> fl \<Rightarrow> fl" where
  "fsub m x y = fadd m x (fneg y)"

fun fmul :: "fmt \<Rightarrow> fl \<Rightarrow> fl \<Rightarrow> fl" where
  "fmul m (Fin a) (Fin b) = rnd m (a * b)"
| "fmul m NaN y = NaN"
| "fmul m x NaN = NaN"
| "fmul m PInf (Fin b) = inf_of_sign b"
| "fmul m NInf (Fin b) = inf_of_sign (- b)"
| "fmul m (Fin a) PInf = inf_of_sign a"
| "fmul m (Fin a) NInf = inf_of_sign (- a)"
| "fmul m PInf PInf = PInf"
| "fmul m NInf NInf = PInf"
| "fmul m PInf NInf = NInf"
| "fmul m NInf PInf = NInf"

fun fdiv :: "fmt \<Rightarrow> fl \<Rightarrow> fl \<Rightarrow> fl" where
  "fdiv m (Fin a) (Fin b) = (if b = 0 then inf_of_sign a else rnd m (a / b))"
| "fdiv m NaN y = NaN"
| "fdiv m x NaN = NaN"
| "fdiv m PInf (Fin b) = (if 0 \<le> b then PInf else NInf)"
| "fdiv m NInf (Fin b) = (if 0 \<le> b then NInf else PInf)"
| "fdiv m (Fin a) y = Fin 0"
| "fdiv m x y = NaN"

text \<open>\<open>min\<close> and \<open>max\<close> return the other argument when one is a NaN.\<close>

fun fmin :: "fl \<Rightarrow> fl \<Rightarrow> fl" where
  "fmin NaN y = y"
| "fmin x NaN = x"
| "fmin x y = (if fle x y then x else y)"

fun fmax :: "fl \<Rightarrow> fl \<Rightarrow> fl" where
  "fmax NaN y = y"
| "fmax x NaN = x"
| "fmax x y = (if fle x y then y else x)"

text \<open>\<open>clamp\<close> panics (\<open>None\<close>) unless \<open>lo <= hi\<close>; a NaN goes through.\<close>

definition fclamp :: "fl \<Rightarrow> fl \<Rightarrow> fl \<Rightarrow> fl" where
  "fclamp x lo hi = (if flt x lo then lo else if flt hi x then hi else x)"

definition fclamp_checked :: "fl \<Rightarrow> fl \<Rightarrow> fl \<Rightarrow> fl option" where
  "fclamp_checked x lo hi = (if fle lo hi then Some (fclamp x lo hi) else None)"

text \<open>\<open>(lo..=hi).contains(&x)\<close>.\<close>

definition in_range :: "fl \<Rightarrow> fl \<Rightarrow> fl \<Rightarrow> bool" where
  "in_range lo hi x \<longleftrightarrow> fle lo x \<and> fle x hi"

text \<open>\<open>round\<close> goes to the nearest integer, halves away from zero; it is exact.\<close>

definition round_away :: "rat \<Rightarrow> int" where
  "round_away q = (if 0 \<le> q then \<lfloor>q + 1/2\<rfloor> else - \<lfloor>- q + 1/2\<rfloor>)"

fun fround :: "fl \<Rightarrow> fl" where
  "fround (Fin q) = Fin (of_int (round_away q))"
| "fround x = x"

text \<open>Conversions: \<open>as f64\<close> rounds, \<open>as i64\<close> truncates and saturates, a NaN becomes 0.\<close>

definition of_i64 :: "fmt \<Rightarrow> int \<Rightarrow> fl" where
  "of_i64 m n = rnd m (of_int n)"

definition trunc_rat :: "rat \<Rightarrow> int" where
  "trunc_rat q = (if 0 \<le> q then \<lfloor>q\<rfloor> else - \<lfloor>- q\<rfloor>)"

fun to_i64 :: "fl \<Rightarrow> int" where
  "to_i64 (Fin q) = max (- (2 ^ 63)) (min (2 ^ 63 - 1) (trunc_rat q))"
| "to_i64 PInf = 2 ^ 63 - 1"
| "to_i64 NInf = - (2 ^ 63)"
| "to_i64 NaN = 0"

fun fcast :: "fmt \<Rightarrow> fl \<Rightarrow> fl" where
  "fcast m (Fin q) = rnd m q"
| "fcast m x = x"

text \<open>A decimal literal is the nearest value of the format.\<close>

abbreviation lit64 :: "rat \<Rightarrow> f64" where "lit64 q \<equiv> rnd binary64 q"
abbreviation lit32 :: "rat \<Rightarrow> f32" where "lit32 q \<equiv> rnd binary32 q"

definition fsum :: "fmt \<Rightarrow> fl list \<Rightarrow> fl" where
  "fsum m xs = foldl (fadd m) (Fin 0) xs"

section \<open>Intervals\<close>

text \<open>
  \<open>between a b x\<close>: the value is finite and lies in \<open>[a, b]\<close>.  Each operation maps intervals to
  the interval between the rounded corners, so a bound on a formula is found by evaluating the
  formula at its corners.
\<close>

definition between :: "rat \<Rightarrow> rat \<Rightarrow> fl \<Rightarrow> bool" where
  "between a b x \<longleftrightarrow> (case x of Fin q \<Rightarrow> a \<le> q \<and> q \<le> b | _ \<Rightarrow> False)"

lemma between_Fin [simp]: "between a b (Fin q) \<longleftrightarrow> a \<le> q \<and> q \<le> b"
  by (simp add: between_def)

lemma between_iff: "between a b x \<longleftrightarrow> (\<exists>q. x = Fin q \<and> a \<le> q \<and> q \<le> b)"
  by (cases x) (auto simp: between_def)

lemma between_fle: "between a b x \<longleftrightarrow> fle (Fin a) x \<and> fle x (Fin b)"
  by (cases x) (auto simp: between_def)

lemma between_weaken: "between a b x \<Longrightarrow> a' \<le> a \<Longrightarrow> b \<le> b' \<Longrightarrow> between a' b' x"
  by (auto simp: between_iff)

lemma between_in_range: "between a b x \<Longrightarrow> in_range (Fin a) (Fin b) x"
  by (simp add: between_fle in_range_def)

lemma prec_pos [simp]: "0 < prec binary64" "0 < prec binary32"
  by (simp_all add: binary64_def binary32_def)

lemma between_rnd:
  assumes "a \<le> q" "q \<le> b" "rnd m a = Fin c" "rnd m b = Fin d" "0 < prec m"
  shows "between c d (rnd m q)"
  using rnd_mono [OF assms(1,5)] rnd_mono [OF assms(2,5)] assms(3,4) by (simp add: between_fle)

lemma between_fadd:
  assumes "between a b x" "between c d y" "rnd m (a + c) = Fin e" "rnd m (b + d) = Fin f"
    and "0 < prec m"
  shows "between e f (fadd m x y)"
proof -
  from assms(1,2) obtain q r where "x = Fin q" "y = Fin r" "a + c \<le> q + r" "q + r \<le> b + d"
    by (auto simp: between_iff)
  with assms(3-) show ?thesis by (simp add: between_rnd)
qed

lemma between_fmul:
  assumes "between a b x" "between c d y" "0 \<le> a" "0 \<le> c"
    and "rnd m (a * c) = Fin e" "rnd m (b * d) = Fin f" "0 < prec m"
  shows "between e f (fmul m x y)"
proof -
  from assms(1,2) obtain q r where xy: "x = Fin q" "y = Fin r" and b: "a \<le> q" "q \<le> b" "c \<le> r" "r \<le> d"
    by (auto simp: between_iff)
  with assms(3,4) have "a * c \<le> q * r" "q * r \<le> b * d" by (simp_all add: mult_mono)
  with assms(5-) xy show ?thesis by (simp add: between_rnd)
qed

lemma between_fclamp:
  assumes "x \<noteq> NaN" "a \<le> b"
  shows "between a b (fclamp x (Fin a) (Fin b))"
  using assms by (cases x) (auto simp: fclamp_def)

lemma between_fmin: "between a b x \<Longrightarrow> between a' b' y \<Longrightarrow> between (min a a') (min b b') (fmin x y)"
  by (auto simp: between_iff min_def)

lemma fclamp_bounds:
  assumes "x \<noteq> NaN" "fle lo hi"
  shows "fle lo (fclamp x lo hi) \<and> fle (fclamp x lo hi) hi"
  using assms by (cases x; cases lo; cases hi) (auto simp: fclamp_def)

lemma fclamp_id: "in_range lo hi x \<Longrightarrow> fclamp x lo hi = x"
  by (cases x; cases lo; cases hi) (auto simp: fclamp_def in_range_def)

lemma in_range_not_NaN: "in_range lo hi x \<Longrightarrow> x \<noteq> NaN"
  by (auto simp: in_range_def)

lemma in_range_01_between: "in_range (Fin 0) (Fin 1) x \<longleftrightarrow> between 0 1 x"
  by (simp add: between_fle in_range_def)

text \<open>Rounding leaves the format's own values alone.\<close>

lemma round_pos_repr:
  assumes "0 < q" "q = of_int n * p2 (ulp_exp m q)"
  shows "round_pos m q = q"
proof -
  have "q / p2 (ulp_exp m q) = of_int n"
    using assms(2) by (metis nonzero_mult_div_cancel_right p2_neq0)
  then have "round_pos m q = of_int n * p2 (ulp_exp m q)"
    unfolding round_pos_def Let_def by (metis round_even_int)
  with assms(2) show ?thesis by simp
qed

lemma rnd64_1 [simp]: "rnd binary64 1 = Fin 1"
  by code_simp

lemma rnd32_1 [simp]: "rnd binary32 1 = Fin 1"
  by code_simp

lemma rnd_0 [simp]: "rnd m 0 = Fin 0"
  by (simp add: rnd_def)

lemma rnd_not_NaN: "rnd m q \<noteq> NaN"
  by (simp add: rnd_def Let_def)

end
