(* ===== verification/RustText.thy ===== *)
theory RustText
  imports Prelude
begin

text \<open>
  The parts of Rust's text handling the program's identifiers rest on: decimal formatting of an
  \<open>i64\<close> (plain and zero padded), \<open>str::parse::<i64>\<close>, \<open>strip_prefix\<close>, and \<open>join\<close>.  The main fact
  is that parsing inverts formatting for every value of the type.
\<close>

section \<open>The range of an i64\<close>

definition i64_min :: int where "i64_min = - (2 ^ 63)"
definition i64_max :: int where "i64_max = 2 ^ 63 - 1"

definition in_i64 :: "int \<Rightarrow> bool" where
  "in_i64 n \<longleftrightarrow> i64_min \<le> n \<and> n \<le> i64_max"

text \<open>The cast \<open>i64 as u32\<close> keeps the low 32 bits.\<close>

definition as_u32 :: "int \<Rightarrow> int" where
  "as_u32 n = n mod 2 ^ 32"

section \<open>Decimal digits\<close>

definition digit_char :: "nat \<Rightarrow> char" where
  "digit_char d = char_of (48 + d)"

definition digit_val :: "char \<Rightarrow> nat option" where
  "digit_val c = (let n = of_char c :: nat in if 48 \<le> n \<and> n \<le> 57 then Some (n - 48) else None)"

lemma digit_val_char [simp]: "d < 10 \<Longrightarrow> digit_val (digit_char d) = Some d"
  by (simp add: digit_val_def digit_char_def of_char_of)

fun dec_nat :: "nat \<Rightarrow> string" where
  "dec_nat n = (if n < 10 then [digit_char n] else dec_nat (n div 10) @ [digit_char (n mod 10)])"

declare dec_nat.simps [simp del]

fun parse_digits :: "nat \<Rightarrow> string \<Rightarrow> nat option" where
  "parse_digits acc [] = Some acc"
| "parse_digits acc (c # cs) =
     (case digit_val c of None \<Rightarrow> None | Some d \<Rightarrow> parse_digits (acc * 10 + d) cs)"

lemma parse_digits_append:
  "parse_digits acc (xs @ ys) =
     (case parse_digits acc xs of None \<Rightarrow> None | Some a \<Rightarrow> parse_digits a ys)"
  by (induction xs arbitrary: acc) (auto split: option.splits)

lemma parse_digits_zeros: "parse_digits 0 (replicate k (digit_char 0) @ xs) = parse_digits 0 xs"
  by (induction k) auto

lemma parse_dec_nat: "parse_digits 0 (dec_nat n) = Some n"
proof (induction n rule: dec_nat.induct)
  case (1 n)
  then show ?case
    by (subst dec_nat.simps) (auto simp: parse_digits_append mult.commute)
qed

lemma dec_nat_nonempty [simp]: "dec_nat n \<noteq> []"
  by (subst dec_nat.simps) simp

lemma set_dec_nat: "set (dec_nat n) \<subseteq> digit_char ` {..<10}"
proof (induction n rule: dec_nat.induct)
  case (1 n)
  then show ?case by (subst dec_nat.simps) auto
qed

section \<open>Formatting and parsing\<close>

text \<open>\<open>{n}\<close> and \<open>{n:06}\<close>: the zero flag pads after the sign, up to six bytes in all.\<close>

definition sign_str :: "int \<Rightarrow> string" where
  "sign_str n = (if n < 0 then ''-'' else [])"

definition show_i64 :: "int \<Rightarrow> string" where
  "show_i64 n = sign_str n @ dec_nat (nat \<bar>n\<bar>)"

definition show_i64_06 :: "int \<Rightarrow> string" where
  "show_i64_06 n =
     (let s = sign_str n; d = dec_nat (nat \<bar>n\<bar>)
      in s @ replicate (6 - length s - length d) (digit_char 0) @ d)"

text \<open>
  \<open>parse::<i64>\<close>: an optional sign, at least one digit, digits only, and a value in range; every
  failure is \<open>None\<close> (the callers drop the error with \<open>.ok()\<close>).
\<close>

definition check_i64 :: "int \<Rightarrow> int option" where
  "check_i64 n = (if in_i64 n then Some n else None)"

definition parse_unsigned :: "string \<Rightarrow> int option" where
  "parse_unsigned s = (if s = [] then None else map_option int (parse_digits 0 s))"

definition parse_i64 :: "string \<Rightarrow> int option" where
  "parse_i64 s =
     (case s of
        [] \<Rightarrow> None
      | c # cs \<Rightarrow>
          if c = CHR ''-'' then Option.bind (parse_unsigned cs) (\<lambda>n. check_i64 (- n))
          else if c = CHR ''+'' then Option.bind (parse_unsigned cs) check_i64
          else Option.bind (parse_unsigned s) check_i64)"

lemma digit_char_not_sign:
  assumes "d < 10"
  shows "digit_char d \<noteq> CHR ''-''" and "digit_char d \<noteq> CHR ''+''"
proof -
  have "of_char (digit_char d) = (48 + d :: nat)"
    using assms by (simp add: digit_char_def of_char_of)
  then show "digit_char d \<noteq> CHR ''-''" and "digit_char d \<noteq> CHR ''+''" by auto
qed

lemma parse_padded:
  "parse_i64 (sign_str n @ replicate k (digit_char 0) @ dec_nat (nat \<bar>n\<bar>)) = check_i64 n"
proof -
  let ?t = "replicate k (digit_char 0) @ dec_nat (nat \<bar>n\<bar>)"
  have val: "parse_unsigned ?t = Some \<bar>n\<bar>"
    by (simp add: parse_unsigned_def parse_digits_zeros parse_dec_nat)
  have "?t \<noteq> []" by simp
  then obtain c cs where t: "?t = c # cs" by (meson neq_Nil_conv)
  have "set ?t \<subseteq> digit_char ` {..<10}"
    using set_dec_nat [of "nat \<bar>n\<bar>"] by (simp add: set_replicate_conv_if)
  then have "c \<in> digit_char ` {..<10}" unfolding t by simp
  then obtain d where "d < 10" "c = digit_char d" by auto
  then have c: "c \<noteq> CHR ''-''" "c \<noteq> CHR ''+''" by (simp_all add: digit_char_not_sign)
  show ?thesis
  proof (cases "n < 0")
    case True
    then have "parse_i64 (sign_str n @ ?t) = Option.bind (parse_unsigned ?t) (\<lambda>m. check_i64 (- m))"
      by (simp add: sign_str_def parse_i64_def)
    with True show ?thesis unfolding val by simp
  next
    case False
    then have "parse_i64 (sign_str n @ ?t) = parse_i64 ?t" by (simp add: sign_str_def)
    also have "\<dots> = Option.bind (parse_unsigned ?t) check_i64"
      unfolding t using c by (simp add: parse_i64_def)
    finally show ?thesis using False unfolding val by simp
  qed
qed

lemma parse_show_i64 [simp]: "parse_i64 (show_i64 n) = check_i64 n"
  using parse_padded [of n 0] by (simp add: show_i64_def)

lemma parse_show_i64_06 [simp]: "parse_i64 (show_i64_06 n) = check_i64 n"
  using parse_padded [of n] by (simp add: show_i64_06_def Let_def)

lemma check_i64_Some [simp]: "check_i64 n = Some m \<longleftrightarrow> in_i64 n \<and> m = n"
  by (auto simp: check_i64_def)

section \<open>Slices of strings\<close>

fun strip_prefix :: "string \<Rightarrow> string \<Rightarrow> string option" where
  "strip_prefix [] s = Some s"
| "strip_prefix (p # ps) [] = None"
| "strip_prefix (p # ps) (c # cs) = (if p = c then strip_prefix ps cs else None)"

lemma strip_prefix_append [simp]: "strip_prefix p (p @ s) = Some s"
  by (induction p) simp_all

lemma strip_prefix_Some: "strip_prefix p s = Some r \<longleftrightarrow> s = p @ r"
  by (induction p s rule: strip_prefix.induct) auto

definition starts_with :: "string \<Rightarrow> string \<Rightarrow> bool" where
  "starts_with p s \<longleftrightarrow> strip_prefix p s \<noteq> None"

definition ends_with :: "string \<Rightarrow> string \<Rightarrow> bool" where
  "ends_with p s \<longleftrightarrow> length p \<le> length s \<and> drop (length s - length p) s = p"

fun join :: "string \<Rightarrow> string list \<Rightarrow> string" where
  "join sep [] = []"
| "join sep [x] = x"
| "join sep (x # y # ys) = x @ sep @ join sep (y # ys)"

text \<open>\<open>trim\<close> on ASCII white space, the only white space of one byte.\<close>

definition is_ws :: "char \<Rightarrow> bool" where
  "is_ws c \<longleftrightarrow> (let n = of_char c :: nat in n = 32 \<or> 9 \<le> n \<and> n \<le> 13)"

definition trim :: "string \<Rightarrow> string" where
  "trim s = rev (dropWhile is_ws (rev (dropWhile is_ws s)))"

lemma trim_id:
  assumes "\<forall>c \<in> set s. \<not> is_ws c"
  shows "trim s = s"
proof -
  have d: "dropWhile is_ws t = t" if "\<forall>c \<in> set t. \<not> is_ws c" for t using that by (cases t) simp_all
  from d [of s] d [of "rev s"] assms show ?thesis by (simp add: trim_def)
qed

lemma digit_not_ws: "d < 10 \<Longrightarrow> \<not> is_ws (digit_char d)"
  by (simp add: is_ws_def digit_char_def of_char_of)

lemma trim_show_i64: "trim (show_i64 n) = show_i64 n"
proof (rule trim_id)
  have "\<not> is_ws (CHR ''-'')" by code_simp
  moreover have "\<not> is_ws c" if "c \<in> set (dec_nat k)" for c k
    using that set_dec_nat [of k] digit_not_ws by auto
  ultimately show "\<forall>c \<in> set (show_i64 n). \<not> is_ws c" by (simp add: show_i64_def sign_str_def ball_Un)
qed

end
