(* ===== verification/Ids.thy ===== *)
theory Ids
  imports RustText
begin

text \<open>
  \<open>crates/shared-kernel/src/ids.rs\<close>: one newtype per domain around a prefixed, zero padded
  number, and \<open>D1DecisionRepository::d1_id\<close>, the parser that takes a decision id back to its row.
\<close>

datatype observation_id = ObservationId string
datatype signal_id = SignalId string
datatype decision_id = DecisionId (did: string)
datatype outcome_id = OutcomeId string
datatype reflection_id = ReflectionId string
datatype memory_id = MemoryId string
datatype source_id = SourceId string
datatype entity_id = EntityId string

definition observation_id_new :: "int \<Rightarrow> observation_id" where
  "observation_id_new n = ObservationId (''OBS-'' @ show_i64_06 n)"

definition signal_id_new :: "int \<Rightarrow> signal_id" where
  "signal_id_new n = SignalId (''SIG-'' @ show_i64_06 n)"

definition decision_id_new :: "int \<Rightarrow> decision_id" where
  "decision_id_new n = DecisionId (''DEC-'' @ show_i64_06 n)"

definition outcome_id_new :: "int \<Rightarrow> outcome_id" where
  "outcome_id_new n = OutcomeId (''OUT-'' @ show_i64_06 n)"

definition reflection_id_new :: "int \<Rightarrow> reflection_id" where
  "reflection_id_new n = ReflectionId (''REF-'' @ show_i64_06 n)"

definition memory_id_new :: "int \<Rightarrow> memory_id" where
  "memory_id_new n = MemoryId (''MEM-'' @ show_i64_06 n)"

definition source_id_new :: "int \<Rightarrow> source_id" where
  "source_id_new n = SourceId (''SRC-'' @ show_i64_06 n)"

definition entity_id_new :: "int \<Rightarrow> entity_id" where
  "entity_id_new n = EntityId (''ENT-'' @ show_i64_06 n)"

text \<open>\<open>strip_prefix("DEC-").and_then(parse)\<close>; \<open>None\<close> stands for the \<open>NotFound\<close> its caller raises.\<close>

definition parse_decision_id :: "string \<Rightarrow> int option" where
  "parse_decision_id s = Option.bind (strip_prefix ''DEC-'' s) parse_i64"

lemma parse_decision_id_new [simp]: "parse_decision_id (did (decision_id_new n)) = check_i64 n"
  by (simp add: parse_decision_id_def decision_id_new_def)

lemma decision_id_new_inj:
  assumes "in_i64 m" "in_i64 n"
  shows "decision_id_new m = decision_id_new n \<longleftrightarrow> m = n"
  using parse_decision_id_new [of m] parse_decision_id_new [of n] assms
  by (metis check_i64_Some)

end
