(* ===== verification/Decision.thy ===== *)
theory Decision
  imports Floats Ids
begin

text \<open>
  The decision bounded context (\<open>crates/decision-engine/src\<close>): the lifecycle state machine of
  \<open>status.rs\<close>, the value objects of \<open>outcome.rs\<close>, the commands, errors and events, and the
  aggregate of \<open>aggregate.rs\<close> with every behavioural method.  A method that takes \<open>&mut self\<close>
  is a function from the aggregate to its result and the aggregate after it; \<open>SystemTime::now\<close> is
  the argument \<open>clk\<close>.
\<close>

section \<open>Lifecycle status\<close>

datatype decision_status = Draft | Proposed | Approved | Executing | Completed | Invalidated

fun can_transition_to :: "decision_status \<Rightarrow> decision_status \<Rightarrow> bool" where
  "can_transition_to Draft Proposed = True"
| "can_transition_to Proposed Approved = True"
| "can_transition_to Proposed Invalidated = True"
| "can_transition_to Approved Executing = True"
| "can_transition_to Executing Completed = True"
| "can_transition_to Executing Invalidated = True"
| "can_transition_to _ _ = False"

text \<open>Every transition goes up in this order, so the graph has no cycle.\<close>

fun status_rank :: "decision_status \<Rightarrow> nat" where
  "status_rank Draft = 0"
| "status_rank Proposed = 1"
| "status_rank Approved = 2"
| "status_rank Executing = 3"
| "status_rank Completed = 4"
| "status_rank Invalidated = 4"

lemma can_transition_rank: "can_transition_to s t \<Longrightarrow> status_rank s < status_rank t"
  by (cases s; cases t) simp_all

lemma can_transition_irrefl [simp]: "\<not> can_transition_to s s"
  by (cases s) simp_all

lemma can_transition_rtrancl_rank: "can_transition_to\<^sup>*\<^sup>* s t \<Longrightarrow> status_rank s \<le> status_rank t"
  by (induction rule: rtranclp_induct) (auto dest: can_transition_rank)

lemma terminal_status [simp]:
  "\<not> can_transition_to Completed t" "\<not> can_transition_to Invalidated t"
  by (cases t; simp)+

lemma terminal_rtrancl:
  "can_transition_to\<^sup>*\<^sup>* Completed t \<longleftrightarrow> t = Completed"
  "can_transition_to\<^sup>*\<^sup>* Invalidated t \<longleftrightarrow> t = Invalidated"
  by (auto elim: converse_rtranclpE)

section \<open>Outcomes, commands, errors, events\<close>

datatype outcome_verdict = Achieved | Missed | Inconclusive

record expected_outcome =
  eo_metric :: string
  eo_expected_value :: string
  eo_measurement_method :: string

record observed_outcome =
  oo_metric :: string
  oo_actual_value :: string
  oo_outcome_type :: outcome_verdict
  oo_evidence_url :: "string option"
  oo_observed_at :: int

record propose_decision =
  pd_id :: int
  pd_title :: string
  pd_hypothesis :: "string option"
  pd_confidence :: f64
  pd_rationale :: "string option"
  pd_decision_type :: string
  pd_priority :: string
  pd_signal_thread_id :: "int option"
  pd_actor_id :: "int option"
  pd_expected_outcomes :: "expected_outcome list"

record reconstruct_decision =
  rd_id :: decision_id
  rd_title :: string
  rd_hypothesis :: "string option"
  rd_confidence :: f64
  rd_status :: decision_status
  rd_rationale :: "string option"
  rd_decision_type :: string
  rd_priority :: string
  rd_signal_thread_id :: "int option"
  rd_actor_id :: "int option"
  rd_expected_outcomes :: "expected_outcome list"
  rd_observed_outcomes :: "observed_outcome list"
  rd_created_at :: int
  rd_updated_at :: int

record approve_decision =
  ad_decision_id :: string
  ad_approved_by :: string

record execute_decision =
  ed_decision_id :: string

record record_outcome_cmd =
  ro_decision_id :: string
  ro_outcome :: observed_outcome

record invalidate_decision =
  id_decision_id :: string
  id_reason :: string

datatype decision_error =
    InvalidConfidence f64
  | EmptyTitle
  | InvalidTransition decision_status decision_status
  | MissingOutcome
  | NotFound string
  | Conflict string
  | Infrastructure string

datatype decision_event =
    EvProposed string string f64 string          \<comment> \<open>id, title, confidence, type\<close>
  | EvApproved string string                     \<comment> \<open>id, approved by\<close>
  | EvStatusChanged string decision_status decision_status
  | EvOutcomeAttached string string string       \<comment> \<open>id, metric, verdict\<close>
  | EvCompleted string nat                       \<comment> \<open>id, outcome count\<close>
  | EvInvalidated string string                  \<comment> \<open>id, reason\<close>

text \<open>\<open>format!("{:?}", v).to_lowercase()\<close>.\<close>

fun verdict_str :: "outcome_verdict \<Rightarrow> string" where
  "verdict_str Achieved = ''achieved''"
| "verdict_str Missed = ''missed''"
| "verdict_str Inconclusive = ''inconclusive''"

section \<open>The aggregate\<close>

record decision_aggregate =
  agg_id :: decision_id
  title :: string
  hypothesis :: "string option"
  confidence :: f64
  status :: decision_status
  rationale :: "string option"
  decision_type :: string
  priority :: string
  signal_thread_id :: "int option"
  actor_id :: "int option"
  expected_outcomes :: "expected_outcome list"
  observed_outcomes :: "observed_outcome list"
  created_at :: int
  updated_at :: int
  events :: "decision_event list"

definition reconstruct :: "reconstruct_decision \<Rightarrow> decision_aggregate" where
  "reconstruct cmd =
     \<lparr>agg_id = rd_id cmd, title = rd_title cmd, hypothesis = rd_hypothesis cmd,
      confidence = rd_confidence cmd, status = rd_status cmd, rationale = rd_rationale cmd,
      decision_type = rd_decision_type cmd, priority = rd_priority cmd,
      signal_thread_id = rd_signal_thread_id cmd, actor_id = rd_actor_id cmd,
      expected_outcomes = rd_expected_outcomes cmd, observed_outcomes = rd_observed_outcomes cmd,
      created_at = rd_created_at cmd, updated_at = rd_updated_at cmd, events = []\<rparr>"

definition propose :: "propose_decision \<Rightarrow> int \<Rightarrow> (decision_error, decision_aggregate) result" where
  "propose cmd now =
     (if pd_title cmd = [] then Inl EmptyTitle
      else if \<not> in_range (Fin 0) (Fin 1) (pd_confidence cmd)
      then Inl (InvalidConfidence (pd_confidence cmd))
      else Inr
        \<lparr>agg_id = decision_id_new (pd_id cmd), title = pd_title cmd, hypothesis = pd_hypothesis cmd,
         confidence = pd_confidence cmd, status = Proposed, rationale = pd_rationale cmd,
         decision_type = pd_decision_type cmd, priority = pd_priority cmd,
         signal_thread_id = pd_signal_thread_id cmd, actor_id = pd_actor_id cmd,
         expected_outcomes = pd_expected_outcomes cmd, observed_outcomes = [],
         created_at = now, updated_at = now,
         events = [EvProposed (''DEC-'' @ show_i64_06 (pd_id cmd)) (pd_title cmd)
                     (pd_confidence cmd) (pd_decision_type cmd)]\<rparr>)"

type_synonym 'a agg_io = "(decision_aggregate, decision_error, 'a) io"

text \<open>\<open>transition\<close>: the guard, the invariant of \<open>Completed\<close>, and the event of the target.\<close>

definition transition :: "int \<Rightarrow> decision_status \<Rightarrow> unit agg_io" where
  "transition clk target a =
     (if \<not> can_transition_to (status a) target
      then (Inl (InvalidTransition (status a) target), a)
      else if target = Completed \<and> observed_outcomes a = []
      then (Inl MissingOutcome, a)
      else
        let a' = a\<lparr>status := target, updated_at := clk\<rparr>
        in if target = Completed
           then (Inr (), a'\<lparr>events := events a @
                              [EvCompleted (did (agg_id a)) (length (observed_outcomes a))]\<rparr>)
           else if target = Invalidated then (Inr (), a')
           else (Inr (), a'\<lparr>events := events a @
                              [EvStatusChanged (did (agg_id a)) (status a) target]\<rparr>))"

definition transition_with_event :: "int \<Rightarrow> decision_status \<Rightarrow> decision_event \<Rightarrow> unit agg_io" where
  "transition_with_event clk target ev a =
     (if \<not> can_transition_to (status a) target
      then (Inl (InvalidTransition (status a) target), a)
      else (Inr (), a\<lparr>status := target, updated_at := clk, events := events a @ [ev]\<rparr>))"

definition approve :: "int \<Rightarrow> approve_decision \<Rightarrow> unit agg_io" where
  "approve clk cmd a = transition_with_event clk Approved (EvApproved (did (agg_id a)) (ad_approved_by cmd)) a"

definition execute :: "int \<Rightarrow> execute_decision \<Rightarrow> unit agg_io" where
  "execute clk cmd a = transition clk Executing a"

definition attach_outcome :: "int \<Rightarrow> record_outcome_cmd \<Rightarrow> decision_aggregate \<Rightarrow> decision_aggregate" where
  "attach_outcome clk cmd a =
     a\<lparr>observed_outcomes := observed_outcomes a @ [ro_outcome cmd], updated_at := clk,
       events := events a @ [EvOutcomeAttached (did (agg_id a)) (oo_metric (ro_outcome cmd))
                               (verdict_str (oo_outcome_type (ro_outcome cmd)))]\<rparr>"

definition complete :: "int \<Rightarrow> unit agg_io" where
  "complete clk a = (if observed_outcomes a = [] then (Inl MissingOutcome, a) else transition clk Completed a)"

definition invalidate :: "int \<Rightarrow> invalidate_decision \<Rightarrow> unit agg_io" where
  "invalidate clk cmd a =
     transition_with_event clk Invalidated (EvInvalidated (did (agg_id a)) (id_reason cmd)) a"

definition drain_events :: "decision_aggregate \<Rightarrow> decision_event list \<times> decision_aggregate" where
  "drain_events a = (events a, a\<lparr>events := []\<rparr>)"

lemmas agg_methods = approve_def execute_def complete_def invalidate_def
  transition_def transition_with_event_def

section \<open>Runs of the aggregate\<close>

text \<open>The public methods as steps; \<open>Drain\<close> is \<open>drain_events\<close>.\<close>

datatype agg_cmd =
    Approve approve_decision
  | Execute execute_decision
  | AttachOutcome record_outcome_cmd
  | Complete
  | Invalidate invalidate_decision
  | Drain

fun agg_step :: "int \<Rightarrow> agg_cmd \<Rightarrow> decision_aggregate \<Rightarrow> decision_aggregate" where
  "agg_step clk (Approve c) a = snd (approve clk c a)"
| "agg_step clk (Execute c) a = snd (execute clk c a)"
| "agg_step clk (AttachOutcome c) a = attach_outcome clk c a"
| "agg_step clk Complete a = snd (complete clk a)"
| "agg_step clk (Invalidate c) a = snd (invalidate clk c a)"
| "agg_step clk Drain a = snd (drain_events a)"

fun agg_run :: "(int \<times> agg_cmd) list \<Rightarrow> decision_aggregate \<Rightarrow> decision_aggregate" where
  "agg_run [] a = a"
| "agg_run ((clk, c) # cs) a = agg_run cs (agg_step clk c a)"

definition agg_inv :: "decision_aggregate \<Rightarrow> bool" where
  "agg_inv a \<longleftrightarrow> in_range (Fin 0) (Fin 1) (confidence a) \<and> title a \<noteq> [] \<and>
     (status a = Completed \<longrightarrow> observed_outcomes a \<noteq> [])"

lemma propose_inv: "propose cmd now = Inr a \<Longrightarrow> agg_inv a \<and> status a = Proposed"
  by (auto simp: propose_def agg_inv_def split: if_splits)

lemma agg_step_inv: "agg_inv a \<Longrightarrow> agg_inv (agg_step clk c a)"
  by (cases c) (auto simp: agg_inv_def agg_methods attach_outcome_def drain_events_def Let_def)

lemma agg_run_inv: "agg_inv a \<Longrightarrow> agg_inv (agg_run cs a)"
  by (induction cs a rule: agg_run.induct) (simp_all add: agg_step_inv)

lemma agg_step_status: "status (agg_step clk c a) = status a \<or> can_transition_to (status a) (status (agg_step clk c a))"
  by (cases c) (auto simp: agg_methods attach_outcome_def drain_events_def Let_def)

lemma agg_run_status: "can_transition_to\<^sup>*\<^sup>* (status a) (status (agg_run cs a))"
proof (induction cs a rule: agg_run.induct)
  case (2 clk c cs a)
  then show ?case
    using agg_step_status [of clk c a] by (metis agg_run.simps(2) converse_rtranclp_into_rtranclp)
qed simp

text \<open>
  The trail of drained events determines the status: each lifecycle event names, directly or by
  its kind, the status it leads to.
\<close>

fun event_status :: "decision_event \<Rightarrow> decision_status \<Rightarrow> decision_status" where
  "event_status (EvProposed _ _ _ _) s = Proposed"
| "event_status (EvApproved _ _) s = Approved"
| "event_status (EvStatusChanged _ _ t) s = t"
| "event_status (EvOutcomeAttached _ _ _) s = s"
| "event_status (EvCompleted _ _) s = Completed"
| "event_status (EvInvalidated _ _) s = Invalidated"

definition replay :: "decision_event list \<Rightarrow> decision_status \<Rightarrow> decision_status" where
  "replay evs s = fold event_status evs s"

lemma replay_simps [simp]:
  "replay [] s = s" "replay (e # evs) s = replay evs (event_status e s)"
  "replay (xs @ ys) s = replay ys (replay xs s)"
  by (simp_all add: replay_def)

text \<open>A run with its events collected in the order \<open>drain_events\<close> hands them out.\<close>

fun agg_trail :: "(int \<times> agg_cmd) list \<Rightarrow> decision_aggregate \<Rightarrow> decision_event list" where
  "agg_trail [] a = events a"
| "agg_trail ((clk, c) # cs) a =
     (if c = Drain then fst (drain_events a) else []) @ agg_trail cs (agg_step clk c a)"

lemma agg_step_events:
  "c \<noteq> Drain \<Longrightarrow> \<exists>evs. events (agg_step clk c a) = events a @ evs \<and>
     replay evs (status a) = status (agg_step clk c a)"
  by (cases c) (auto simp: agg_methods attach_outcome_def Let_def intro: exI [of _ "[]"])

lemma replay_trail:
  "replay (events a) s = status a \<Longrightarrow> replay (agg_trail cs a) s = status (agg_run cs a)"
proof (induction cs a arbitrary: s rule: agg_trail.induct)
  case (2 clk c cs a)
  show ?case
  proof (cases "c = Drain")
    case True
    with 2 show ?thesis by (simp add: drain_events_def)
  next
    case False
    then obtain evs where "events (agg_step clk c a) = events a @ evs"
      "replay evs (status a) = status (agg_step clk c a)" using agg_step_events by blast
    with 2 False show ?thesis by simp
  qed
qed simp

end
