(* ===== verification/StoreModels.thy ===== *)
theory StoreModels
  imports Floats RustText
begin

text \<open>
  The row types of \<open>crates/domain/src/models\<close> that the store keeps or takes in, field by field,
  and the error of every store operation.  Field names carry a prefix for the record they belong
  to, because HOL record fields are global.
\<close>

datatype store_error = D1 string

text \<open>\<open>Display\<close> of the error.\<close>

fun store_error_str :: "store_error \<Rightarrow> string" where
  "store_error_str (D1 e) = ''d1 error: '' @ e"

section \<open>Feeds and articles\<close>

record feed =
  f_id :: int
  f_url :: string
  f_title :: "string option"
  f_category :: "string option"
  f_fetch_interval_sec :: int
  f_last_fetched_at :: "int option"
  f_etag :: "string option"
  f_last_modified :: "string option"
  f_status :: string
  f_extraction_level :: string

record new_article =
  na_feed_id :: int
  na_guid :: string
  na_title :: string
  na_url :: "string option"
  na_published_at :: "int option"
  na_raw_content_r2_key :: "string option"

section \<open>Entities\<close>

record entity_internal =
  e_id :: int
  e_name :: string
  e_normalized_name :: string
  e_entity_type :: string
  e_canonical_id :: "int option"
  e_description :: "string option"
  e_metadata :: "string option"
  e_created_at :: int
  e_updated_at :: int

record entity_detail_row =
  ed_id :: int
  ed_name :: string
  ed_normalized_name :: string
  ed_entity_type :: string
  ed_canonical_id :: "int option"
  ed_description :: "string option"
  ed_metadata :: "string option"
  ed_article_count :: int
  ed_created_at :: int
  ed_updated_at :: int

record entity_summary =
  es_id :: int
  es_name :: string
  es_normalized_name :: string
  es_entity_type :: string
  es_canonical_id :: "int option"
  es_article_count :: int
  es_last_seen :: int

record relation_edge =
  re_source :: int
  re_target :: int
  re_rtype :: string
  re_confidence :: f64
  re_first_seen :: int
  re_last_seen :: int

record related_entity =
  rel_id :: int
  rel_name :: string
  rel_entity_type :: string
  rel_relation_type :: string
  rel_confidence :: f64
  rel_last_seen_at :: int

record entity_activity_row =
  ea_article_count :: int
  ea_source_count :: int
  ea_avg_score :: f64
  ea_max_score :: f64
  ea_first_seen_at :: "int option"
  ea_last_seen_at :: "int option"
  ea_trend :: string

section \<open>Decisions, outcomes, evaluations\<close>

record decision_row =
  d_id :: int
  d_signal_thread_id :: "int option"
  d_actor_id :: "int option"
  d_decision_type :: string
  d_title :: string
  d_hypothesis :: "string option"
  d_rationale :: "string option"
  d_confidence :: f64
  d_status :: string
  d_priority :: string
  d_expected_outcomes :: "string option"
  d_created_at :: int
  d_updated_at :: int

record outcome_event =
  o_id :: int
  o_decision_id :: int
  o_outcome_type :: string
  o_observation :: string
  o_evidence_url :: "string option"
  o_observed_at :: int
  o_created_at :: int

record new_outcome_event =
  no_decision_id :: int
  no_outcome_type :: string
  no_observation :: string
  no_evidence_url :: "string option"
  no_observed_at :: "int option"

datatype evaluation_result = Confirmed | PartiallyConfirmed | Contradicted | EvalInconclusive

fun evaluation_result_str :: "evaluation_result \<Rightarrow> string" where
  "evaluation_result_str Confirmed = ''confirmed''"
| "evaluation_result_str PartiallyConfirmed = ''partially_confirmed''"
| "evaluation_result_str Contradicted = ''contradicted''"
| "evaluation_result_str EvalInconclusive = ''inconclusive''"

definition evaluation_result_of :: "string \<Rightarrow> evaluation_result" where
  "evaluation_result_of s =
     (if s = ''confirmed'' then Confirmed
      else if s = ''partially_confirmed'' then PartiallyConfirmed
      else if s = ''contradicted'' then Contradicted
      else EvalInconclusive)"

lemma evaluation_result_round [simp]: "evaluation_result_of (evaluation_result_str e) = e"
  by (cases e) (simp_all add: evaluation_result_of_def)

datatype evaluation_source = Manual | AI

fun evaluation_source_str :: "evaluation_source \<Rightarrow> string" where
  "evaluation_source_str Manual = ''manual''"
| "evaluation_source_str AI = ''ai''"

definition evaluation_source_of :: "string \<Rightarrow> evaluation_source" where
  "evaluation_source_of s = (if s = ''ai'' then AI else Manual)"

lemma evaluation_source_round [simp]: "evaluation_source_of (evaluation_source_str e) = e"
  by (cases e) (simp_all add: evaluation_source_of_def)

record decision_evaluation =
  ev_id :: int
  ev_decision_id :: int
  ev_evaluation :: evaluation_result
  ev_confidence :: "f64 option"
  ev_reasoning :: "string option"
  ev_evaluator :: evaluation_source
  ev_evaluated_at :: int
  ev_created_at :: int

record new_decision_evaluation =
  ne_decision_id :: int
  ne_evaluation :: evaluation_result
  ne_confidence :: "f64 option"
  ne_reasoning :: "string option"
  ne_evaluator :: evaluation_source
  ne_evaluated_at :: "int option"

record eval_summary =
  sum_total_evaluated :: int
  sum_confirmed :: int
  sum_partially_confirmed :: int
  sum_contradicted :: int
  sum_inconclusive :: int
  sum_accuracy_rate :: f64

text \<open>\<open>by_type\<close>, \<open>by_priority\<close> and \<open>top_signals\<close> carry label and count.\<close>

record decision_stats_row =
  st_total_decisions :: int
  st_active :: int
  st_completed :: int
  st_superseded :: int
  st_by_type :: "(string \<times> int) list"
  st_by_priority :: "(string \<times> int) list"
  st_evaluation_summary :: eval_summary
  st_top_signals :: "(int \<times> string \<times> int) list"

section \<open>Claims, confidence, sources\<close>

record claim =
  c_id :: int
  c_statement :: string
  c_claim_type :: string
  c_reasoning :: "string option"
  c_falsification :: "string option"
  c_status :: string
  c_article_id :: "int option"
  c_observation_id :: "int option"
  c_created_at :: int
  c_updated_at :: int

record new_claim =
  nc_statement :: string
  nc_claim_type :: string
  nc_reasoning :: "string option"
  nc_falsification :: "string option"
  nc_status :: "string option"
  nc_article_id :: "int option"
  nc_observation_id :: "int option"

record confidence_event =
  ce_id :: int
  ce_entity_type :: string
  ce_entity_id :: string
  ce_previous_confidence :: "f64 option"
  ce_confidence :: f64
  ce_reason :: "string option"
  ce_trigger_event :: "string option"
  ce_factors_json :: "string option"
  ce_created_at :: int

record new_confidence_event =
  nce_entity_type :: string
  nce_entity_id :: string
  nce_confidence :: f64
  nce_reason :: "string option"
  nce_trigger_event :: "string option"
  nce_factors_json :: "string option"

record source_row =
  s_id :: int
  s_source_type :: string
  s_feed_id :: "int option"
  s_name :: "string option"
  s_tier :: string
  s_policy :: string
  s_license :: string
  s_license_detail :: "string option"
  s_attribution :: "string option"
  s_trust_score :: "f64 option"
  s_retention_days :: "int option"
  s_verified :: bool
  s_notes :: "string option"
  s_created_at :: int
  s_updated_at :: int

record new_source =
  ns_source_type :: string
  ns_feed_id :: "int option"
  ns_name :: "string option"
  ns_tier :: string
  ns_policy :: string
  ns_license :: string
  ns_license_detail :: "string option"
  ns_attribution :: "string option"
  ns_trust_score :: "f64 option"
  ns_retention_days :: "int option"
  ns_verified :: bool
  ns_notes :: "string option"

section \<open>Artifacts, outbox, event archive\<close>

record artifact_data =
  a_id :: int
  a_artifact_type :: string
  a_entity_id :: int
  a_r2_key :: string
  a_schema_version :: string
  a_model :: "string option"
  a_pipeline_version :: string
  a_metadata :: "string option"
  a_created_at :: int

record new_artifact =
  nar_artifact_type :: string
  nar_entity_id :: int
  nar_r2_key :: string
  nar_schema_version :: string
  nar_model :: "string option"
  nar_pipeline_version :: string
  nar_metadata :: "string option"

record outbox_entry =
  ob_id :: int
  ob_object_type :: string
  ob_object_key :: string
  ob_payload :: string
  ob_status :: string
  ob_created_at :: int
  ob_retry_count :: int

record new_outbox =
  nob_object_type :: string
  nob_object_key :: string
  nob_payload :: string

record event_index_entry =
  ei_id :: int
  ei_event_id :: string
  ei_aggregate_type :: string
  ei_aggregate_id :: string
  ei_event_type :: string
  ei_object_key :: string
  ei_occurred_at :: int
  ei_created_at :: int

section \<open>Reflections, memories, snapshots, signal events\<close>

record reflection_row =
  r_id :: int
  r_decision_id :: int
  r_outcome_id :: "int option"
  r_job_id :: "string option"
  r_status :: string
  r_artifact_key :: "string option"
  r_result :: "string option"
  r_quality_score :: "f64 option"
  r_generator_version :: "string option"
  r_lessons_count :: int
  r_rules_count :: int
  r_generated_by :: string
  r_retry_count :: int
  r_last_error :: "string option"
  r_started_at :: "int option"
  r_lease_until :: "int option"
  r_created_at :: int
  r_updated_at :: int

record new_reflection =
  nr_decision_id :: int
  nr_outcome_id :: "int option"
  nr_job_id :: "string option"
  nr_status :: string

record update_reflection_req =
  ur_id :: int
  ur_status :: string
  ur_result :: "string option"
  ur_quality_score :: "f64 option"
  ur_artifact_key :: "string option"
  ur_lessons_count :: "int option"
  ur_rules_count :: "int option"
  ur_retry_count :: "int option"
  ur_last_error :: "string option"
  ur_started_at :: "int option"
  ur_lease_until :: "int option"

record memory_row =
  m_id :: int
  m_memory_type :: string
  m_memory_origin :: string
  m_statement :: string
  m_confidence :: f64
  m_stability_score :: "f64 option"
  m_confidence_updated_at :: "int option"
  m_memory_sources :: "string option"
  m_artifact_key :: "string option"
  m_status :: string
  m_usage_count :: int
  m_validation_count :: int
  m_promoted_at :: int
  m_deprecated_at :: "int option"
  m_last_used_at :: "int option"
  m_created_at :: int

record new_memory =
  nm_memory_type :: string
  nm_memory_origin :: string
  nm_statement :: string
  nm_confidence :: f64
  nm_stability_score :: "f64 option"
  nm_memory_sources :: "string option"
  nm_artifact_key :: "string option"
  nm_status :: string

record context_snapshot =
  cs_id :: string
  cs_query :: string
  cs_intent :: string
  cs_domain :: "string option"
  cs_engine_version :: string
  cs_context_json :: string
  cs_object_key :: "string option"
  cs_object_size :: "int option"
  cs_evidence_refs :: "string option"
  cs_confidence :: f64
  cs_user_scope :: "string option"
  cs_created_at :: int

record new_context_snapshot =
  ncs_id :: string
  ncs_query :: string
  ncs_intent :: string
  ncs_domain :: "string option"
  ncs_context_json :: string
  ncs_object_key :: "string option"
  ncs_object_size :: "int option"
  ncs_evidence_refs :: "string option"
  ncs_confidence :: f64
  ncs_user_scope :: "string option"

record signal_event_row =
  se_id :: int
  se_thread_id :: int
  se_event_type :: string
  se_payload :: "string option"
  se_created_at :: int

end
