(* ===== verification/MemoryStore.thy ===== *)
theory MemoryStore
  imports StoreModels
begin

text \<open>
  \<open>MemoryStore\<close> (\<open>crates/store/src/memory/mod.rs\<close>, \<open>backend.rs\<close>): the in-memory backend of the
  store traits, with its failure-injection flags.  Each trait method that reads or writes state is
  a function from the store to its result and the new store.  A \<open>Vec\<close> is a list in insertion
  order; a \<open>HashMap\<close> is an association list whose order stands for the unspecified iteration
  order.  Where the code stamps a row with the literal \<open>1000000\<close> the model does the same; where it
  reads \<open>SystemTime::now\<close> the reading is the argument \<open>clk\<close>.  Counters are unbounded: each call
  allocates one id, so the \<open>i64\<close> counters of the code are in range for \<open>2 ^ 63\<close> calls.
\<close>

record memory_store =
  feeds :: "(int \<times> feed) list"
  rules :: "string list"
  articles :: "new_article list"
  next_article_id :: int
  summaries :: "(int \<times> string) list"
  r2_keys :: "(int \<times> string option) list"
  fetch_results :: "(int \<times> int \<times> string option \<times> string option) list"
  entities :: "(int \<times> entity_internal) list"
  next_entity_id :: int
  article_entity_links :: "(int \<times> int) list"
  entity_relation_edges :: "relation_edge list"
  artifacts :: "artifact_data list"
  next_artifact_id :: int
  fail_insert :: bool
  fail_rules :: bool
  fail_summary :: bool
  fail_fetch_result :: bool
  fail_r2_key :: bool
  signal_events :: "signal_event_row list"
  next_signal_event_id :: int
  decisions :: "decision_row list"
  next_decision_id :: int
  outcomes :: "outcome_event list"
  next_outcome_id :: int
  evaluations :: "decision_evaluation list"
  outbox :: "outbox_entry list"
  next_outbox_id :: int
  event_archive :: "event_index_entry list"
  next_event_archive_id :: int
  reflections :: "(int \<times> reflection_row) list"
  next_reflection_id :: int
  memories :: "(int \<times> memory_row) list"
  next_memory_id :: int
  snapshots :: "(string \<times> context_snapshot) list"
  claims :: "claim list"
  next_claim_id :: int
  confidence_events :: "confidence_event list"
  next_confidence_event_id :: int
  sources :: "(int \<times> source_row) list"
  next_source_id :: int

type_synonym 'a ms_io = "(memory_store, store_error, 'a) io"

definition memory_store_new :: memory_store where
  "memory_store_new =
     \<lparr>feeds = [], rules = [], articles = [], next_article_id = 1, summaries = [], r2_keys = [],
      fetch_results = [], entities = [], next_entity_id = 1, article_entity_links = [],
      entity_relation_edges = [], artifacts = [], next_artifact_id = 1, fail_insert = False,
      fail_rules = False, fail_summary = False, fail_fetch_result = False, fail_r2_key = False,
      signal_events = [], next_signal_event_id = 1, decisions = [], next_decision_id = 1,
      outcomes = [], next_outcome_id = 1, evaluations = [], outbox = [], next_outbox_id = 1,
      event_archive = [], next_event_archive_id = 1, reflections = [], next_reflection_id = 1,
      memories = [], next_memory_id = 1, snapshots = [], claims = [], next_claim_id = 1,
      confidence_events = [], next_confidence_event_id = 1, sources = [], next_source_id = 1\<rparr>"

definition with_rules :: "string list \<Rightarrow> memory_store \<Rightarrow> memory_store" where
  "with_rules rs s = s\<lparr>rules := rs\<rparr>"

definition with_feed :: "feed \<Rightarrow> memory_store \<Rightarrow> memory_store" where
  "with_feed f s = s\<lparr>feeds := map_insert (f_id f) f (feeds s)\<rparr>"

section \<open>Feeds and articles\<close>

definition find_feed :: "int \<Rightarrow> feed option ms_io" where
  "find_feed i s = (Inr (map_of (feeds s) i), s)"

definition record_fetch_result ::
  "int \<Rightarrow> int \<Rightarrow> string option \<Rightarrow> string option \<Rightarrow> unit ms_io" where
  "record_fetch_result feed_id fetched_at etag last_modified s =
     (if fail_fetch_result s then (Inl (D1 ''injected fetch result failure''), s)
      else (Inr (), s\<lparr>fetch_results := fetch_results s @ [(feed_id, fetched_at, etag, last_modified)]\<rparr>))"

text \<open>\<open>save_article\<close>: an article is known by its feed and guid.\<close>

definition article_dup :: "new_article \<Rightarrow> memory_store \<Rightarrow> bool" where
  "article_dup a s \<longleftrightarrow>
     list_ex (\<lambda>b. na_feed_id b = na_feed_id a \<and> na_guid b = na_guid a) (articles s)"

definition save_article :: "new_article \<Rightarrow> int option ms_io" where
  "save_article a s =
     (if fail_insert s then (Inl (D1 ''injected insert failure''), s)
      else if article_dup a s then (Inr None, s)
      else (Inr (Some (next_article_id s)),
            s\<lparr>next_article_id := next_article_id s + 1, articles := articles s @ [a]\<rparr>))"

definition article_count :: "int ms_io" where
  "article_count s = (Inr (int (length (articles s))), s)"

definition set_ai_summary :: "int \<Rightarrow> string \<Rightarrow> string \<Rightarrow> string \<Rightarrow> f64 \<Rightarrow> unit ms_io" where
  "set_ai_summary article_id summary tags_json vector_id score s =
     (if fail_summary s then (Inl (D1 ''injected summary failure''), s)
      else (Inr (), s\<lparr>summaries := map_insert article_id summary (summaries s)\<rparr>))"

definition set_raw_content_r2_key :: "int \<Rightarrow> string option \<Rightarrow> unit ms_io" where
  "set_raw_content_r2_key article_id key s =
     (if fail_r2_key s then (Inl (D1 ''injected r2 key failure''), s)
      else (Inr (), s\<lparr>r2_keys := map_insert article_id key (r2_keys s)\<rparr>))"

definition active_rule_jsons :: "string \<Rightarrow> string list ms_io" where
  "active_rule_jsons audience_tag s =
     (if fail_rules s then (Inl (D1 ''injected rules failure''), s) else (Inr (rules s), s))"

section \<open>Entities\<close>

definition save_entity :: "int \<Rightarrow> string \<Rightarrow> string \<Rightarrow> string \<Rightarrow> int ms_io" where
  "save_entity clk name normalized_name entity_type s =
     (case List.find (\<lambda>e. e_normalized_name e = normalized_name) (map snd (entities s)) of
        Some e \<Rightarrow>
          (Inr (e_id e),
           s\<lparr>entities := map (\<lambda>(k, x). if k = e_id e then (k, x\<lparr>e_updated_at := clk\<rparr>) else (k, x))
                           (entities s)\<rparr>)
      | None \<Rightarrow>
          let i = next_entity_id s
          in (Inr i,
              s\<lparr>next_entity_id := i + 1,
                entities := map_insert i
                  \<lparr>e_id = i, e_name = name, e_normalized_name = normalized_name,
                   e_entity_type = entity_type, e_canonical_id = None, e_description = None,
                   e_metadata = None, e_created_at = clk, e_updated_at = clk\<rparr> (entities s)\<rparr>))"

definition count_links :: "memory_store \<Rightarrow> int \<Rightarrow> int" where
  "count_links s eid = int (length (filter (\<lambda>l. snd l = eid) (article_entity_links s)))"

definition find_entity :: "int \<Rightarrow> entity_detail_row option ms_io" where
  "find_entity i s =
     (Inr (map_option (\<lambda>e.
        \<lparr>ed_id = e_id e, ed_name = e_name e, ed_normalized_name = e_normalized_name e,
         ed_entity_type = e_entity_type e, ed_canonical_id = e_canonical_id e,
         ed_description = e_description e, ed_metadata = e_metadata e,
         ed_article_count = count_links s (e_id e), ed_created_at = e_created_at e,
         ed_updated_at = e_updated_at e\<rparr>) (map_of (entities s) i)), s)"

definition link_article :: "int \<Rightarrow> int \<Rightarrow> f64 \<Rightarrow> unit ms_io" where
  "link_article article_id entity_id relevance s =
     (Inr (), s\<lparr>article_entity_links := article_entity_links s @ [(article_id, entity_id)]\<rparr>)"

definition link_relation :: "int \<Rightarrow> int \<Rightarrow> string \<Rightarrow> unit ms_io" where
  "link_relation source target rtype s =
     (Inr (), s\<lparr>entity_relation_edges := entity_relation_edges s @
        [\<lparr>re_source = source, re_target = target, re_rtype = rtype, re_confidence = Fin 1,
          re_first_seen = 1000000, re_last_seen = 1000000\<rparr>]\<rparr>)"

definition list_entities :: "nat \<Rightarrow> nat \<Rightarrow> entity_summary list ms_io" where
  "list_entities limit offset s =
     (let rows = map (\<lambda>(_, e).
            \<lparr>es_id = e_id e, es_name = e_name e, es_normalized_name = e_normalized_name e,
             es_entity_type = e_entity_type e, es_canonical_id = e_canonical_id e,
             es_article_count = count_links s (e_id e), es_last_seen = e_updated_at e\<rparr>) (entities s)
      in (Inr (window offset limit
                 (sort_by (\<lambda>a b. es_article_count b \<le> es_article_count a) rows)), s))"

definition entity_relations :: "int \<Rightarrow> nat \<Rightarrow> related_entity list ms_io" where
  "entity_relations entity_id limit s =
     (let hits = filter (\<lambda>e. re_source e = entity_id \<or> re_target e = entity_id) (entity_relation_edges s);
          rows = map (\<lambda>e.
            let other_id = (if re_source e = entity_id then re_target e else re_source e);
                other = map_of (entities s) other_id
            in \<lparr>rel_id = other_id,
                rel_name = (case other of None \<Rightarrow> [] | Some x \<Rightarrow> e_name x),
                rel_entity_type = (case other of None \<Rightarrow> [] | Some x \<Rightarrow> e_entity_type x),
                rel_relation_type = re_rtype e, rel_confidence = re_confidence e,
                rel_last_seen_at = re_last_seen e\<rparr>) hits
      in (Inr (take limit (sort_by (\<lambda>a b. \<not> flt (rel_confidence a) (rel_confidence b)) rows)), s))"

text \<open>The distinct article ids linked to an entity, newest id first.\<close>

definition entity_article_ids :: "int \<Rightarrow> memory_store \<Rightarrow> int list" where
  "entity_article_ids entity_id s =
     rev (sorted_list_of_set (fst ` set (filter (\<lambda>l. snd l = entity_id) (article_entity_links s))))"

definition entity_articles :: "int \<Rightarrow> nat \<Rightarrow> nat \<Rightarrow> int list ms_io" where
  "entity_articles entity_id limit offset s =
     (Inr (window offset limit (entity_article_ids entity_id s)), s)"

definition entity_activity_summary :: "int \<Rightarrow> int \<Rightarrow> int \<Rightarrow> entity_activity_row ms_io" where
  "entity_activity_summary entity_id now days s =
     (Inr \<lparr>ea_article_count = int (length (entity_article_ids entity_id s)), ea_source_count = 0,
           ea_avg_score = Fin 0, ea_max_score = Fin 0, ea_first_seen_at = None,
           ea_last_seen_at = None, ea_trend = ''stable''\<rparr>, s)"

section \<open>Decisions\<close>

definition ms_next_decision_id :: "int ms_io" where
  "ms_next_decision_id s = (Inr (next_decision_id s), s\<lparr>next_decision_id := next_decision_id s + 1\<rparr>)"

definition find_decision :: "int \<Rightarrow> decision_row option ms_io" where
  "find_decision i s = (Inr (List.find (\<lambda>d. d_id d = i) (decisions s)), s)"

text \<open>Every aggregate-owned column is refreshed; \<open>created_at\<close> stays as first written.\<close>

definition refresh_row :: "decision_row \<Rightarrow> decision_row \<Rightarrow> decision_row" where
  "refresh_row d row =
     row\<lparr>d_signal_thread_id := d_signal_thread_id d, d_actor_id := d_actor_id d,
         d_decision_type := d_decision_type d, d_title := d_title d,
         d_hypothesis := d_hypothesis d, d_rationale := d_rationale d,
         d_confidence := d_confidence d, d_status := d_status d, d_priority := d_priority d,
         d_expected_outcomes := d_expected_outcomes d, d_updated_at := d_updated_at d\<rparr>"

definition upsert_decision :: "decision_row \<Rightarrow> unit ms_io" where
  "upsert_decision d s =
     (case List.find (\<lambda>row. d_id row = d_id d) (decisions s) of
        Some _ \<Rightarrow>
          (Inr (), s\<lparr>decisions := update_first (\<lambda>row. d_id row = d_id d) (refresh_row d) (decisions s)\<rparr>)
      | None \<Rightarrow> (Inr (), s\<lparr>decisions := decisions s @ [d]\<rparr>))"

definition try_insert_decision :: "decision_row \<Rightarrow> bool ms_io" where
  "try_insert_decision d s =
     (if list_ex (\<lambda>row. d_id row = d_id d) (decisions s) then (Inr False, s)
      else (Inr True, s\<lparr>decisions := decisions s @ [d]\<rparr>))"

definition list_decisions :: "string option \<Rightarrow> nat \<Rightarrow> decision_row list ms_io" where
  "list_decisions st limit s =
     (case st of
        Some x \<Rightarrow> (Inr (filter (\<lambda>d. d_status d = x) (decisions s)), s)
      | None \<Rightarrow> (Inr (decisions s), s))"

definition decisions_by_signal :: "int \<Rightarrow> decision_row list ms_io" where
  "decisions_by_signal thread_id s =
     (Inr (filter (\<lambda>d. d_signal_thread_id d = Some thread_id) (decisions s)), s)"

definition save_outcome :: "new_outcome_event \<Rightarrow> int ms_io" where
  "save_outcome e s =
     (let now = 1000000; i = next_outcome_id s
      in (Inr i,
          s\<lparr>next_outcome_id := i + 1,
            outcomes := outcomes s @
              [\<lparr>o_id = i, o_decision_id = no_decision_id e, o_outcome_type = no_outcome_type e,
                o_observation = no_observation e, o_evidence_url = no_evidence_url e,
                o_observed_at = (case no_observed_at e of None \<Rightarrow> now | Some t \<Rightarrow> t),
                o_created_at = now\<rparr>]\<rparr>))"

definition list_outcomes :: "int \<Rightarrow> outcome_event list ms_io" where
  "list_outcomes decision_id s = (Inr (filter (\<lambda>o'. o_decision_id o' = decision_id) (outcomes s)), s)"

text \<open>\<open>save_evaluation\<close> draws its id from the decision counter, as the code does.\<close>

definition save_evaluation :: "new_decision_evaluation \<Rightarrow> int ms_io" where
  "save_evaluation e s =
     (let now = 1000000; i = next_decision_id s
      in (Inr i,
          s\<lparr>next_decision_id := i + 1,
            evaluations := evaluations s @
              [\<lparr>ev_id = i, ev_decision_id = ne_decision_id e, ev_evaluation = ne_evaluation e,
                ev_confidence = ne_confidence e, ev_reasoning = ne_reasoning e,
                ev_evaluator = ne_evaluator e,
                ev_evaluated_at = (case ne_evaluated_at e of None \<Rightarrow> now | Some t \<Rightarrow> t),
                ev_created_at = now\<rparr>]\<rparr>))"

definition list_evaluations :: "int \<Rightarrow> decision_evaluation list ms_io" where
  "list_evaluations decision_id s =
     (Inr (filter (\<lambda>e. ev_decision_id e = decision_id) (evaluations s)), s)"

definition count_where :: "('a \<Rightarrow> bool) \<Rightarrow> 'a list \<Rightarrow> int" where
  "count_where p xs = int (length (filter p xs))"

definition decision_stats :: "decision_stats_row ms_io" where
  "decision_stats s =
     (let ds = decisions s; es = evaluations s
      in (Inr
        \<lparr>st_total_decisions = int (length ds),
         st_active = count_where (\<lambda>d. d_status d = ''active'') ds,
         st_completed = count_where (\<lambda>d. d_status d = ''completed'') ds,
         st_superseded = count_where (\<lambda>d. d_status d = ''superseded'') ds,
         st_by_type = [], st_by_priority = [],
         st_evaluation_summary =
           \<lparr>sum_total_evaluated = int (length es),
            sum_confirmed = count_where (\<lambda>e. ev_evaluation e = Confirmed) es,
            sum_partially_confirmed = count_where (\<lambda>e. ev_evaluation e = PartiallyConfirmed) es,
            sum_contradicted = count_where (\<lambda>e. ev_evaluation e = Contradicted) es,
            sum_inconclusive = count_where (\<lambda>e. ev_evaluation e = EvalInconclusive) es,
            sum_accuracy_rate = Fin 0\<rparr>,
         st_top_signals = []\<rparr>, s))"

section \<open>Claims, confidence events, sources\<close>

definition save_claim :: "new_claim \<Rightarrow> int ms_io" where
  "save_claim c s =
     (let now = 1000000; i = next_claim_id s
      in (Inr i,
          s\<lparr>next_claim_id := i + 1,
            claims := claims s @
              [\<lparr>c_id = i, c_statement = nc_statement c, c_claim_type = nc_claim_type c,
                c_reasoning = nc_reasoning c, c_falsification = nc_falsification c,
                c_status = (case nc_status c of None \<Rightarrow> ''active'' | Some x \<Rightarrow> x),
                c_article_id = nc_article_id c, c_observation_id = nc_observation_id c,
                c_created_at = now, c_updated_at = now\<rparr>]\<rparr>))"

definition find_claim :: "int \<Rightarrow> claim option ms_io" where
  "find_claim i s = (Inr (List.find (\<lambda>c. c_id c = i) (claims s)), s)"

definition list_claims :: "string option \<Rightarrow> nat \<Rightarrow> claim list ms_io" where
  "list_claims st limit s =
     (case st of Some x \<Rightarrow> (Inr (filter (\<lambda>c. c_status c = x) (claims s)), s) | None \<Rightarrow> (Inr (claims s), s))"

text \<open>\<open>save_observation\<close> keeps nothing but advances the claim counter.\<close>

definition save_observation :: "int ms_io" where
  "save_observation s = (Inr (next_claim_id s), s\<lparr>next_claim_id := next_claim_id s + 1\<rparr>)"

definition same_entity :: "string \<Rightarrow> string \<Rightarrow> confidence_event \<Rightarrow> bool" where
  "same_entity ty i ev \<longleftrightarrow> ce_entity_type ev = ty \<and> ce_entity_id ev = i"

definition append_confidence :: "new_confidence_event \<Rightarrow> int ms_io" where
  "append_confidence e s =
     (let now = 1000000; i = next_confidence_event_id s;
          prev = map_option ce_confidence
                   (List.find (same_entity (nce_entity_type e) (nce_entity_id e)) (rev (confidence_events s)))
      in (Inr i,
          s\<lparr>next_confidence_event_id := i + 1,
            confidence_events := confidence_events s @
              [\<lparr>ce_id = i, ce_entity_type = nce_entity_type e, ce_entity_id = nce_entity_id e,
                ce_previous_confidence = prev, ce_confidence = nce_confidence e,
                ce_reason = nce_reason e, ce_trigger_event = nce_trigger_event e,
                ce_factors_json = nce_factors_json e, ce_created_at = now\<rparr>]\<rparr>))"

definition list_confidence_history :: "string \<Rightarrow> string \<Rightarrow> confidence_event list ms_io" where
  "list_confidence_history ty i s =
     (Inr (sort_by (\<lambda>a b. ce_created_at a \<le> ce_created_at b) (filter (same_entity ty i) (confidence_events s))), s)"

definition save_source :: "new_source \<Rightarrow> int ms_io" where
  "save_source n s =
     (let now = 1000000; i = next_source_id s
      in (Inr i,
          s\<lparr>next_source_id := i + 1,
            sources := map_insert i
              \<lparr>s_id = i, s_source_type = ns_source_type n, s_feed_id = ns_feed_id n,
               s_name = ns_name n, s_tier = ns_tier n, s_policy = ns_policy n,
               s_license = ns_license n, s_license_detail = ns_license_detail n,
               s_attribution = ns_attribution n, s_trust_score = ns_trust_score n,
               s_retention_days = ns_retention_days n, s_verified = ns_verified n,
               s_notes = ns_notes n, s_created_at = now, s_updated_at = now\<rparr> (sources s)\<rparr>))"

definition find_source :: "int \<Rightarrow> source_row option ms_io" where
  "find_source i s = (Inr (map_of (sources s) i), s)"

definition find_source_by_feed :: "int \<Rightarrow> source_row option ms_io" where
  "find_source_by_feed feed_id s =
     (Inr (List.find (\<lambda>x. s_feed_id x = Some feed_id) (map snd (sources s))), s)"

definition delete_source :: "int \<Rightarrow> unit ms_io" where
  "delete_source i s = (Inr (), s\<lparr>sources := filter (\<lambda>kv. fst kv \<noteq> i) (sources s)\<rparr>)"

definition list_sources :: "string option \<Rightarrow> string option \<Rightarrow> nat \<Rightarrow> nat \<Rightarrow> source_row list ms_io" where
  "list_sources tier policy limit offset s =
     (Inr (filter (\<lambda>x. (case tier of None \<Rightarrow> True | Some t \<Rightarrow> s_tier x = t) \<and>
                       (case policy of None \<Rightarrow> True | Some p \<Rightarrow> s_policy x = p))
             (map snd (sources s))), s)"

section \<open>Artifacts, outbox, event index\<close>

definition create_artifact :: "int \<Rightarrow> new_artifact \<Rightarrow> int ms_io" where
  "create_artifact clk n s =
     (let i = next_artifact_id s
      in (Inr i,
          s\<lparr>next_artifact_id := i + 1,
            artifacts := artifacts s @
              [\<lparr>a_id = i, a_artifact_type = nar_artifact_type n, a_entity_id = nar_entity_id n,
                a_r2_key = nar_r2_key n, a_schema_version = nar_schema_version n,
                a_model = nar_model n, a_pipeline_version = nar_pipeline_version n,
                a_metadata = nar_metadata n, a_created_at = clk\<rparr>]\<rparr>))"

definition list_artifacts_by_entity :: "int \<Rightarrow> nat \<Rightarrow> artifact_data list ms_io" where
  "list_artifacts_by_entity entity_id limit s =
     (Inr (take limit (rev (filter (\<lambda>a. a_entity_id a = entity_id) (artifacts s)))), s)"

definition insert_outbox :: "new_outbox \<Rightarrow> int ms_io" where
  "insert_outbox e s =
     (let now = 1000000; i = next_outbox_id s
      in (Inr i,
          s\<lparr>next_outbox_id := i + 1,
            outbox := outbox s @
              [\<lparr>ob_id = i, ob_object_type = nob_object_type e, ob_object_key = nob_object_key e,
                ob_payload = nob_payload e, ob_status = ''pending'', ob_created_at = now,
                ob_retry_count = 0\<rparr>]\<rparr>))"

definition drain_outbox :: "nat \<Rightarrow> outbox_entry list ms_io" where
  "drain_outbox limit s = (Inr (take limit (filter (\<lambda>e. ob_status e = ''pending'') (outbox s))), s)"

definition mark_outbox_archived :: "int \<Rightarrow> unit ms_io" where
  "mark_outbox_archived i s =
     (Inr (), s\<lparr>outbox := update_first (\<lambda>e. ob_id e = i) (\<lambda>e. e\<lparr>ob_status := ''archived''\<rparr>) (outbox s)\<rparr>)"

definition mark_outbox_failed :: "int \<Rightarrow> unit ms_io" where
  "mark_outbox_failed i s =
     (Inr (), s\<lparr>outbox := update_first (\<lambda>e. ob_id e = i \<and> 3 \<le> ob_retry_count e)
        (\<lambda>e. e\<lparr>ob_status := ''failed'', ob_retry_count := ob_retry_count e + 1\<rparr>) (outbox s)\<rparr>)"

definition insert_event_index ::
  "string \<Rightarrow> string \<Rightarrow> string \<Rightarrow> string \<Rightarrow> string \<Rightarrow> int \<Rightarrow> unit ms_io" where
  "insert_event_index event_id aggregate_type aggregate_id event_type object_key occurred_at s =
     (let now = 1000000; i = next_event_archive_id s
      in (Inr (),
          s\<lparr>next_event_archive_id := i + 1,
            event_archive := event_archive s @
              [\<lparr>ei_id = i, ei_event_id = event_id, ei_aggregate_type = aggregate_type,
                ei_aggregate_id = aggregate_id, ei_event_type = event_type,
                ei_object_key = object_key, ei_occurred_at = occurred_at, ei_created_at = now\<rparr>]\<rparr>))"

definition find_event_keys :: "string \<Rightarrow> string \<Rightarrow> nat \<Rightarrow> event_index_entry list ms_io" where
  "find_event_keys aggregate_type aggregate_id limit s =
     (Inr (take limit (rev (filter (\<lambda>e. ei_aggregate_type e = aggregate_type \<and>
                                        ei_aggregate_id e = aggregate_id) (event_archive s)))), s)"

section \<open>Memories, snapshots, reflections, signal events\<close>

definition create_memory :: "new_memory \<Rightarrow> int ms_io" where
  "create_memory e s =
     (let now = 1000000; i = next_memory_id s
      in (Inr i,
          s\<lparr>next_memory_id := i + 1,
            memories := map_insert i
              \<lparr>m_id = i, m_memory_type = nm_memory_type e, m_memory_origin = nm_memory_origin e,
               m_statement = nm_statement e, m_confidence = nm_confidence e,
               m_stability_score = nm_stability_score e, m_confidence_updated_at = None,
               m_memory_sources = nm_memory_sources e, m_artifact_key = nm_artifact_key e,
               m_status = nm_status e, m_usage_count = 0, m_validation_count = 0,
               m_promoted_at = now, m_deprecated_at = None, m_last_used_at = None,
               m_created_at = now\<rparr> (memories s)\<rparr>))"

definition list_memories :: "string option \<Rightarrow> string option \<Rightarrow> nat \<Rightarrow> memory_row list ms_io" where
  "list_memories memory_type st limit s =
     (Inr (filter (\<lambda>m. (case memory_type of None \<Rightarrow> True | Some t \<Rightarrow> m_memory_type m = t) \<and>
                       (case st of None \<Rightarrow> True | Some x \<Rightarrow> m_status m = x))
             (map snd (memories s))), s)"

definition save_context_snapshot :: "new_context_snapshot \<Rightarrow> unit ms_io" where
  "save_context_snapshot n s =
     (Inr (), s\<lparr>snapshots := map_insert (ncs_id n)
        \<lparr>cs_id = ncs_id n, cs_query = ncs_query n, cs_intent = ncs_intent n,
         cs_domain = ncs_domain n, cs_engine_version = ''context-engine-v1'',
         cs_context_json = ncs_context_json n, cs_object_key = ncs_object_key n,
         cs_object_size = ncs_object_size n, cs_evidence_refs = ncs_evidence_refs n,
         cs_confidence = ncs_confidence n, cs_user_scope = ncs_user_scope n,
         cs_created_at = 1000000\<rparr> (snapshots s)\<rparr>)"

definition create_reflection :: "new_reflection \<Rightarrow> int ms_io" where
  "create_reflection req s =
     (let now = 1000000; i = next_reflection_id s
      in (Inr i,
          s\<lparr>next_reflection_id := i + 1,
            reflections := map_insert (nr_decision_id req)
              \<lparr>r_id = i, r_decision_id = nr_decision_id req, r_outcome_id = nr_outcome_id req,
               r_job_id = nr_job_id req, r_status = nr_status req, r_artifact_key = None,
               r_result = None, r_quality_score = None,
               r_generator_version = Some ''reflection-v1'', r_lessons_count = 0,
               r_rules_count = 0, r_generated_by = ''system'', r_retry_count = 0,
               r_last_error = None, r_started_at = None, r_lease_until = None,
               r_created_at = now, r_updated_at = now\<rparr> (reflections s)\<rparr>))"

text \<open>A \<open>Some\<close> field overwrites the column, a \<open>None\<close> leaves it; the status is always written.\<close>

definition or_keep :: "'a option \<Rightarrow> 'a \<Rightarrow> 'a" where
  "or_keep v old = (case v of None \<Rightarrow> old | Some x \<Rightarrow> x)"

definition or_keep_some :: "'a option \<Rightarrow> 'a option \<Rightarrow> 'a option" where
  "or_keep_some v old = (case v of None \<Rightarrow> old | Some x \<Rightarrow> Some x)"

lemma or_keep_simps [simp]:
  "or_keep None x = x" "or_keep (Some y) x = y"
  "or_keep_some None z = z" "or_keep_some (Some y) z = Some y"
  by (simp_all add: or_keep_def or_keep_some_def)

definition apply_update :: "update_reflection_req \<Rightarrow> reflection_row \<Rightarrow> reflection_row" where
  "apply_update req r =
     r\<lparr>r_status := ur_status req,
       r_result := or_keep_some (ur_result req) (r_result r),
       r_quality_score := or_keep_some (ur_quality_score req) (r_quality_score r),
       r_artifact_key := or_keep_some (ur_artifact_key req) (r_artifact_key r),
       r_lessons_count := or_keep (ur_lessons_count req) (r_lessons_count r),
       r_rules_count := or_keep (ur_rules_count req) (r_rules_count r),
       r_retry_count := or_keep (ur_retry_count req) (r_retry_count r),
       r_last_error := or_keep_some (ur_last_error req) (r_last_error r),
       r_started_at := or_keep_some (ur_started_at req) (r_started_at r),
       r_lease_until := or_keep_some (ur_lease_until req) (r_lease_until r),
       r_updated_at := 1000000\<rparr>"

definition update_reflection :: "update_reflection_req \<Rightarrow> unit ms_io" where
  "update_reflection req s =
     (Inr (), s\<lparr>reflections := update_first (\<lambda>kr. r_id (snd kr) = ur_id req)
                               (\<lambda>(k, r). (k, apply_update req r)) (reflections s)\<rparr>)"

definition get_reflection_by_decision :: "int \<Rightarrow> reflection_row option ms_io" where
  "get_reflection_by_decision decision_id s = (Inr (map_of (reflections s) decision_id), s)"

definition append_signal_instance_v2 :: "int ms_io" where
  "append_signal_instance_v2 s =
     (Inr (next_signal_event_id s), s\<lparr>next_signal_event_id := next_signal_event_id s + 1\<rparr>)"

definition insert_signal_event :: "int \<Rightarrow> string \<Rightarrow> string option \<Rightarrow> unit ms_io" where
  "insert_signal_event thread_id event_type payload s =
     (let i = next_signal_event_id s
      in (Inr (),
          s\<lparr>next_signal_event_id := i + 1,
            signal_events := signal_events s @
              [\<lparr>se_id = i, se_thread_id = thread_id, se_event_type = event_type,
                se_payload = payload, se_created_at = 1000000\<rparr>]\<rparr>))"

definition load_signal_events :: "int \<Rightarrow> nat \<Rightarrow> signal_event_row list ms_io" where
  "load_signal_events thread_id limit s =
     (Inr (filter (\<lambda>e. se_thread_id e = thread_id) (signal_events s)), s)"

end
