(* ===== verification/DecisionRepo.thy ===== *)
theory DecisionRepo
  imports Decision MemoryStore
begin

text \<open>
  \<open>crates/infrastructure/src/decision_repository.rs\<close>: the adapter between the aggregate and the
  \<open>decisions\<close> and \<open>outcome_events\<close> rows.  The adapter is generic in its store, so its definitions
  take a record of the store's methods (\<open>decision_store_ops\<close>, the traits \<open>DecisionRepository\<close>,
  \<open>DecisionQueryService\<close>, \<open>DecisionUpsertStore\<close> of \<open>domain\<close>); the JSON codec of the expected
  outcomes is \<open>serde_json\<close> and enters as the two functions \<open>enc\<close> and \<open>dec\<close>.

  Two interfaces are locales: \<open>decision_store\<close> states what the store traits promise, and
  \<open>decision_repository\<close> what the aggregate repository of \<open>decision-engine/src/repository.rs\<close>
  promises.  The adapter over any store with the first has the second (a \<open>sublocale\<close>), and
  \<open>MemoryStore\<close> has the first (an \<open>interpretation\<close>).
\<close>

section \<open>The store's methods\<close>

record 's decision_store_ops =
  op_find :: "int \<Rightarrow> ('s, store_error, decision_row option) io"
  op_upsert :: "decision_row \<Rightarrow> ('s, store_error, unit) io"
  op_try_insert :: "decision_row \<Rightarrow> ('s, store_error, bool) io"
  op_list_outcomes :: "int \<Rightarrow> ('s, store_error, outcome_event list) io"
  op_by_signal :: "int \<Rightarrow> ('s, store_error, decision_row list) io"
  op_list :: "string option \<Rightarrow> nat \<Rightarrow> ('s, store_error, decision_row list) io"
  op_next_id :: "('s, store_error, int) io"
  op_save_outcome :: "new_outcome_event \<Rightarrow> ('s, store_error, int) io"
  op_save_evaluation :: "new_decision_evaluation \<Rightarrow> ('s, store_error, int) io"

definition memory_ops :: "memory_store decision_store_ops" where
  "memory_ops =
     \<lparr>op_find = find_decision, op_upsert = upsert_decision, op_try_insert = try_insert_decision,
      op_list_outcomes = list_outcomes, op_by_signal = decisions_by_signal,
      op_list = list_decisions, op_next_id = ms_next_decision_id,
      op_save_outcome = save_outcome, op_save_evaluation = save_evaluation\<rparr>"

section \<open>Rows and aggregates\<close>

fun status_to_d1 :: "decision_status \<Rightarrow> string" where
  "status_to_d1 Draft = ''draft''"
| "status_to_d1 Proposed = ''proposed''"
| "status_to_d1 Approved = ''approved''"
| "status_to_d1 Executing = ''active''"
| "status_to_d1 Completed = ''completed''"
| "status_to_d1 Invalidated = ''superseded''"

definition status_from_d1 :: "string \<Rightarrow> decision_status" where
  "status_from_d1 s =
     (if s = ''draft'' then Draft
      else if s = ''proposed'' then Proposed
      else if s = ''approved'' then Approved
      else if s = ''active'' then Executing
      else if s = ''completed'' then Completed
      else if s = ''superseded'' \<or> s = ''invalidated'' then Invalidated
      else Draft)"

lemma status_from_to_d1 [simp]: "status_from_d1 (status_to_d1 st) = st"
  by (cases st) (simp_all add: status_from_d1_def)

definition d1_id :: "string \<Rightarrow> (decision_error, int) result" where
  "d1_id s = (case parse_decision_id s of None \<Rightarrow> Inl (NotFound s) | Some n \<Rightarrow> Inr n)"

text \<open>\<open>decode_expected_outcomes\<close>: a missing or malformed column is the empty list.\<close>

definition decode_expected_outcomes ::
  "(string \<Rightarrow> expected_outcome list option) \<Rightarrow> string option \<Rightarrow> expected_outcome list" where
  "decode_expected_outcomes dec col =
     (case col of None \<Rightarrow> [] | Some raw \<Rightarrow> (case dec raw of None \<Rightarrow> [] | Some xs \<Rightarrow> xs))"

definition from_outcome :: "outcome_event \<Rightarrow> observed_outcome" where
  "from_outcome e =
     \<lparr>oo_metric = o_outcome_type e, oo_actual_value = o_observation e,
      oo_outcome_type = Inconclusive, oo_evidence_url = o_evidence_url e,
      oo_observed_at = (if 0 < o_observed_at e then o_observed_at e else o_created_at e)\<rparr>"

definition from_store ::
  "(string \<Rightarrow> expected_outcome list option) \<Rightarrow> decision_row \<Rightarrow> observed_outcome list \<Rightarrow> decision_aggregate" where
  "from_store dec d observed =
     reconstruct
       \<lparr>rd_id = decision_id_new (d_id d), rd_title = d_title d, rd_hypothesis = d_hypothesis d,
        rd_confidence = d_confidence d, rd_status = status_from_d1 (d_status d),
        rd_rationale = d_rationale d, rd_decision_type = d_decision_type d,
        rd_priority = d_priority d, rd_signal_thread_id = d_signal_thread_id d,
        rd_actor_id = d_actor_id d,
        rd_expected_outcomes = decode_expected_outcomes dec (d_expected_outcomes d),
        rd_observed_outcomes = observed, rd_created_at = d_created_at d,
        rd_updated_at = d_updated_at d\<rparr>"

definition into_row ::
  "(expected_outcome list \<Rightarrow> string) \<Rightarrow> decision_aggregate \<Rightarrow> (decision_error, decision_row) result" where
  "into_row enc d =
     (case d1_id (did (agg_id d)) of
        Inl e \<Rightarrow> Inl e
      | Inr i \<Rightarrow> Inr
          \<lparr>d_id = i, d_signal_thread_id = signal_thread_id d, d_actor_id = actor_id d,
           d_decision_type = decision_type d, d_title = title d, d_hypothesis = hypothesis d,
           d_rationale = rationale d, d_confidence = confidence d,
           d_status = status_to_d1 (status d), d_priority = priority d,
           d_expected_outcomes = Some (enc (expected_outcomes d)),
           d_created_at = created_at d, d_updated_at = updated_at d\<rparr>)"

section \<open>The adapter\<close>

abbreviation infra :: "('s, store_error, 'a) io \<Rightarrow> ('s, decision_error, 'a) io" where
  "infra \<equiv> io_map_err (\<lambda>e. Infrastructure (store_error_str e))"

definition load_outcomes :: "'s decision_store_ops \<Rightarrow> int \<Rightarrow> ('s, decision_error, observed_outcome list) io" where
  "load_outcomes S i =
     io_bind (infra (op_list_outcomes S i)) (\<lambda>rows. io_ret (map from_outcome rows))"

definition repo_save ::
  "'s decision_store_ops \<Rightarrow> (expected_outcome list \<Rightarrow> string) \<Rightarrow> decision_aggregate \<Rightarrow> ('s, decision_error, unit) io" where
  "repo_save S enc d = io_bind (io_lift (into_row enc d)) (\<lambda>row. infra (op_upsert S row))"

definition repo_save_new ::
  "'s decision_store_ops \<Rightarrow> (expected_outcome list \<Rightarrow> string) \<Rightarrow> decision_aggregate \<Rightarrow> ('s, decision_error, bool) io" where
  "repo_save_new S enc d = io_bind (io_lift (into_row enc d)) (\<lambda>row. infra (op_try_insert S row))"

definition repo_find ::
  "'s decision_store_ops \<Rightarrow> (string \<Rightarrow> expected_outcome list option) \<Rightarrow> string
    \<Rightarrow> ('s, decision_error, decision_aggregate option) io" where
  "repo_find S dec key =
     io_bind (io_lift (d1_id key)) (\<lambda>i.
     io_bind (infra (op_find S i)) (\<lambda>found.
       case found of
         None \<Rightarrow> io_ret None
       | Some row \<Rightarrow>
           io_bind (load_outcomes S (d_id row)) (\<lambda>observed.
             io_ret (Some (from_store dec row observed)))))"

fun hydrate_all ::
  "'s decision_store_ops \<Rightarrow> (string \<Rightarrow> expected_outcome list option) \<Rightarrow> decision_row list
    \<Rightarrow> ('s, decision_error, decision_aggregate list) io" where
  "hydrate_all S dec [] = io_ret []"
| "hydrate_all S dec (row # rows) =
     io_bind (load_outcomes S (d_id row)) (\<lambda>observed.
     io_bind (hydrate_all S dec rows) (\<lambda>out. io_ret (from_store dec row observed # out)))"

definition repo_find_by_signal ::
  "'s decision_store_ops \<Rightarrow> (string \<Rightarrow> expected_outcome list option) \<Rightarrow> int
    \<Rightarrow> ('s, decision_error, decision_aggregate list) io" where
  "repo_find_by_signal S dec thread = io_bind (infra (op_by_signal S thread)) (hydrate_all S dec)"

definition repo_list ::
  "'s decision_store_ops \<Rightarrow> (string \<Rightarrow> expected_outcome list option) \<Rightarrow> string option \<Rightarrow> nat
    \<Rightarrow> ('s, decision_error, decision_aggregate list) io" where
  "repo_list S dec st limit = io_bind (infra (op_list S st limit)) (hydrate_all S dec)"

section \<open>What the store promises\<close>

text \<open>
  \<open>rows s i\<close> is the row with primary key \<open>i\<close>, \<open>facts s i\<close> its \<open>outcome_events\<close> in insertion
  order.  Any method may fail; a failed method has written nothing.
\<close>

definition upserted :: "decision_row \<Rightarrow> decision_row option \<Rightarrow> decision_row" where
  "upserted d old = (case old of None \<Rightarrow> d | Some r \<Rightarrow> refresh_row d r)"

locale decision_store =
  fixes S :: "'s decision_store_ops"
    and rows :: "'s \<Rightarrow> int \<Rightarrow> decision_row option"
    and facts :: "'s \<Rightarrow> int \<Rightarrow> outcome_event list"
  assumes rows_key: "rows s i = Some r \<Longrightarrow> d_id r = i"
    and find_ok: "op_find S i s = (Inr x, s') \<Longrightarrow> x = rows s i"
    and find_frame: "op_find S i s = (fres, s') \<Longrightarrow> rows s' = rows s \<and> facts s' = facts s"
    and outcomes_ok: "op_list_outcomes S i s = (Inr xs, s') \<Longrightarrow> xs = facts s i"
    and outcomes_frame: "op_list_outcomes S i s = (ores, s') \<Longrightarrow> rows s' = rows s \<and> facts s' = facts s"
    and upsert_ok: "op_upsert S d s = (Inr u, s') \<Longrightarrow>
          rows s' = (rows s)(d_id d \<mapsto> upserted d (rows s (d_id d))) \<and> facts s' = facts s"
    and upsert_err: "op_upsert S d s = (Inl e, s') \<Longrightarrow> rows s' = rows s \<and> facts s' = facts s"
    and try_insert_ok: "op_try_insert S d s = (Inr b, s') \<Longrightarrow>
          facts s' = facts s \<and> (b \<longleftrightarrow> rows s (d_id d) = None) \<and>
          rows s' = (if b then (rows s)(d_id d \<mapsto> d) else rows s)"
    and try_insert_err: "op_try_insert S d s = (Inl e, s') \<Longrightarrow> rows s' = rows s \<and> facts s' = facts s"
    and next_id_frame: "op_next_id S s = (ires, s') \<Longrightarrow> rows s' = rows s \<and> facts s' = facts s"
    and save_outcome_ok: "op_save_outcome S n s = (Inr oid, s') \<Longrightarrow>
          rows s' = rows s \<and> (\<exists>f. o_decision_id f = no_decision_id n \<and>
            o_outcome_type f = no_outcome_type n \<and> o_observation f = no_observation n \<and>
            facts s' = (facts s)(no_decision_id n := facts s (no_decision_id n) @ [f]))"
    and save_outcome_err: "op_save_outcome S n s = (Inl e, s') \<Longrightarrow> rows s' = rows s \<and> facts s' = facts s"
    and save_evaluation_frame: "op_save_evaluation S ev s = (vres, s') \<Longrightarrow> rows s' = rows s \<and> facts s' = facts s"

section \<open>What the aggregate repository promises\<close>

text \<open>
  \<open>view s i\<close> is the aggregate \<open>find\<close> hydrates for number \<open>i\<close>, \<open>obs s i\<close> its observed outcomes,
  which live outside the row.  \<open>same_state d d'\<close>: the columns a save persists agree.
\<close>

definition same_state :: "decision_aggregate \<Rightarrow> decision_aggregate \<Rightarrow> bool" where
  "same_state d d' \<longleftrightarrow>
     agg_id d' = agg_id d \<and> title d' = title d \<and> hypothesis d' = hypothesis d \<and>
     confidence d' = confidence d \<and> status d' = status d \<and> rationale d' = rationale d \<and>
     decision_type d' = decision_type d \<and> priority d' = priority d \<and>
     signal_thread_id d' = signal_thread_id d \<and> actor_id d' = actor_id d \<and>
     updated_at d' = updated_at d"

locale decision_repository =
  fixes save :: "decision_aggregate \<Rightarrow> ('s, decision_error, unit) io"
    and save_new :: "decision_aggregate \<Rightarrow> ('s, decision_error, bool) io"
    and find :: "string \<Rightarrow> ('s, decision_error, decision_aggregate option) io"
    and view :: "'s \<Rightarrow> int \<Rightarrow> decision_aggregate option"
    and obs :: "'s \<Rightarrow> int \<Rightarrow> observed_outcome list"
  assumes view_obs: "view s i = Some d \<Longrightarrow>
            agg_id d = decision_id_new i \<and> observed_outcomes d = obs s i \<and> events d = []"
    and find_ok: "find (did (decision_id_new i)) s = (Inr x, s') \<Longrightarrow> in_i64 i \<and> x = view s i"
    and find_frame: "find key s = (res, s') \<Longrightarrow> view s' = view s \<and> obs s' = obs s"
    and save_ok: "save d s = (Inr u, s') \<Longrightarrow> agg_id d = decision_id_new i \<Longrightarrow>
            obs s' = obs s \<and> (\<exists>d'. same_state d d' \<and> view s' = (view s)(i \<mapsto> d') \<and>
              created_at d' = (case view s i of None \<Rightarrow> created_at d | Some d0 \<Rightarrow> created_at d0))"
    and save_err: "save d s = (Inl e, s') \<Longrightarrow> view s' = view s \<and> obs s' = obs s"
    and save_new_ok: "save_new d s = (Inr b, s') \<Longrightarrow> agg_id d = decision_id_new i \<Longrightarrow>
            obs s' = obs s \<and> (b \<longleftrightarrow> view s i = None) \<and>
            (if b then \<exists>d'. same_state d d' \<and> created_at d' = created_at d \<and> view s' = (view s)(i \<mapsto> d')
             else view s' = view s)"
    and save_new_err: "save_new d s = (Inl e, s') \<Longrightarrow> view s' = view s \<and> obs s' = obs s"

section \<open>The adapter over a store is a repository\<close>

definition view_of ::
  "('s \<Rightarrow> int \<Rightarrow> decision_row option) \<Rightarrow> ('s \<Rightarrow> int \<Rightarrow> outcome_event list)
    \<Rightarrow> (string \<Rightarrow> expected_outcome list option) \<Rightarrow> 's \<Rightarrow> int \<Rightarrow> decision_aggregate option" where
  "view_of rows facts dec s i =
     map_option (\<lambda>r. from_store dec r (map from_outcome (facts s i))) (rows s i)"

lemma into_row_canonical:
  assumes "into_row enc d = Inr row" "agg_id d = decision_id_new i"
  shows "in_i64 i" "d_id row = i"
    and "same_state d (from_store dec row xs)" "d_created_at row = created_at d"
    and "d_id r = i \<Longrightarrow> same_state d (from_store dec (refresh_row row r) xs)"
  using assms
  by (auto simp: into_row_def d1_id_def same_state_def from_store_def reconstruct_def refresh_row_def
      split: option.splits)

lemma from_store_fields [simp]:
  "agg_id (from_store dec r xs) = decision_id_new (d_id r)"
  "observed_outcomes (from_store dec r xs) = xs" "events (from_store dec r xs) = []"
  "created_at (from_store dec r xs) = d_created_at r"
  "expected_outcomes (from_store dec r xs) = decode_expected_outcomes dec (d_expected_outcomes r)"
  by (simp_all add: from_store_def reconstruct_def)

lemma refresh_row_fields [simp]:
  "d_id (refresh_row d r) = d_id r" "d_created_at (refresh_row d r) = d_created_at r"
  by (simp_all add: refresh_row_def)

locale decision_adapter = decision_store S rows facts
  for S :: "'s decision_store_ops" and rows facts +
  fixes enc :: "expected_outcome list \<Rightarrow> string"
    and dec :: "string \<Rightarrow> expected_outcome list option"
begin

lemma infra_Inr [simp]: "infra m s = (Inr a, s') \<longleftrightarrow> m s = (Inr a, s')"
  by simp

lemma infra_Inl: "infra m s = (Inl e, s') \<Longrightarrow> \<exists>e'. m s = (Inl e', s')"
  by (auto simp: io_map_err_def map_err_def split: prod.splits sum.splits)

lemma adapter_find_frame:
  "repo_find S dec key s = (res, s') \<Longrightarrow> rows s' = rows s \<and> facts s' = facts s"
proof -
  assume a: "repo_find S dec key s = (res, s')"
  show ?thesis
  proof (cases "d1_id key")
    case (Inl e)
    with a show ?thesis by (simp add: repo_find_def io)
  next
    case (Inr i)
    obtain r s1 where f: "op_find S i s = (r, s1)" by fastforce
    note frame = find_frame [OF f]
    show ?thesis
    proof (cases "\<exists>row. r = Inr (Some row)")
      case True
      then obtain row where r: "r = Inr (Some row)" by blast
      obtain q s2 where l: "op_list_outcomes S (d_id row) s1 = (q, s2)" by fastforce
      from a Inr f r l frame outcomes_frame [OF l] show ?thesis
        by (cases q) (auto simp: repo_find_def load_outcomes_def io)
    next
      case False
      with a Inr f frame show ?thesis
        by (auto simp: repo_find_def io split: sum.splits option.splits)
    qed
  qed
qed

lemma adapter_find_ok:
  assumes "repo_find S dec (did (decision_id_new i)) s = (Inr x, s')"
  shows "in_i64 i \<and> x = view_of rows facts dec s i"
proof -
  from assms obtain found s1 where i: "in_i64 i" and f: "op_find S i s = (Inr found, s1)"
    and rest: "(case found of None \<Rightarrow> io_ret None
       | Some row \<Rightarrow> io_bind (load_outcomes S (d_id row)) (\<lambda>observed.
             io_ret (Some (from_store dec row observed)))) s1 = (Inr x, s')"
    by (auto simp: repo_find_def io_bind_Inr_iff io_lift_def d1_id_def check_i64_def split: if_splits)
  from find_ok [OF f] have found: "found = rows s i" .
  show ?thesis
  proof (cases found)
    case None
    with rest found i show ?thesis by (simp add: io view_of_def)
  next
    case (Some row)
    with rest obtain xs where l: "op_list_outcomes S (d_id row) s1 = (Inr xs, s')"
      and x: "x = Some (from_store dec row (map from_outcome xs))"
      by (auto simp: load_outcomes_def io_bind_Inr_iff io_ret_def)
    from Some found have row: "rows s i = Some row" by simp
    from outcomes_ok [OF l] find_frame [OF f] rows_key [OF row] have "xs = facts s i" by simp
    with row x i show ?thesis by (simp add: view_of_def)
  qed
qed

lemma adapter_save_ok:
  assumes "repo_save S enc d s = (Inr u, s')" "agg_id d = decision_id_new i"
  shows "facts s' = facts s \<and> (\<exists>d'. same_state d d' \<and>
      view_of rows facts dec s' = (view_of rows facts dec s)(i \<mapsto> d') \<and>
      created_at d' = (case view_of rows facts dec s i of None \<Rightarrow> created_at d | Some d0 \<Rightarrow> created_at d0))"
proof -
  from assms(1) obtain row where r: "into_row enc d = Inr row"
    and up: "op_upsert S row s = (Inr u, s')"
    by (auto simp: repo_save_def io_bind_Inr_iff io_lift_def)
  note c = into_row_canonical [OF r assms(2)]
  from upsert_ok [OF up] c(2) have rows': "rows s' = (rows s)(i \<mapsto> upserted row (rows s i))"
    and facts': "facts s' = facts s" by auto
  let ?d = "from_store dec (upserted row (rows s i)) (map from_outcome (facts s i))"
  have "same_state d ?d"
    using c(3,5) rows_key by (auto simp: upserted_def split: option.splits)
  moreover have "view_of rows facts dec s' = (view_of rows facts dec s)(i \<mapsto> ?d)"
    by (auto simp: view_of_def rows' facts' fun_eq_iff)
  moreover have "created_at ?d =
      (case view_of rows facts dec s i of None \<Rightarrow> created_at d | Some d0 \<Rightarrow> created_at d0)"
    using c(4) by (auto simp: upserted_def view_of_def split: option.splits)
  ultimately show ?thesis using facts' by blast
qed

lemma adapter_save_new_ok:
  assumes "repo_save_new S enc d s = (Inr b, s')" "agg_id d = decision_id_new i"
  shows "facts s' = facts s \<and> (b \<longleftrightarrow> view_of rows facts dec s i = None) \<and>
    (if b then \<exists>d'. same_state d d' \<and> created_at d' = created_at d \<and>
                 view_of rows facts dec s' = (view_of rows facts dec s)(i \<mapsto> d')
     else view_of rows facts dec s' = view_of rows facts dec s)"
proof -
  from assms(1) obtain row where r: "into_row enc d = Inr row"
    and ins: "op_try_insert S row s = (Inr b, s')"
    by (auto simp: repo_save_new_def io_bind_Inr_iff io_lift_def)
  note c = into_row_canonical [OF r assms(2)]
  let ?d = "from_store dec row (map from_outcome (facts s i))"
  from try_insert_ok [OF ins] c(2) have facts': "facts s' = facts s" and b: "b \<longleftrightarrow> rows s i = None"
    and rows': "rows s' = (if b then (rows s)(i \<mapsto> row) else rows s)" by auto
  have "view_of rows facts dec s' =
      (if b then (view_of rows facts dec s)(i \<mapsto> ?d) else view_of rows facts dec s)"
    by (auto simp: view_of_def rows' facts' fun_eq_iff)
  moreover have "b \<longleftrightarrow> view_of rows facts dec s i = None"
    using b by (auto simp: view_of_def)
  moreover have "same_state d ?d" "created_at ?d = created_at d" using c(3,4) by simp_all
  ultimately show ?thesis using facts' by (metis (full_types))
qed

lemma adapter_save_err:
  "repo_save S enc d s = (Inl e, s') \<Longrightarrow> rows s' = rows s \<and> facts s' = facts s"
  by (cases "into_row enc d")
    (auto simp: repo_save_def io_lift_def io_bind_def dest!: infra_Inl upsert_err)

lemma adapter_save_new_err:
  "repo_save_new S enc d s = (Inl e, s') \<Longrightarrow> rows s' = rows s \<and> facts s' = facts s"
  by (cases "into_row enc d")
    (auto simp: repo_save_new_def io_lift_def io_bind_def dest!: infra_Inl try_insert_err)

end

sublocale decision_adapter \<subseteq> repo: decision_repository
  "repo_save S enc" "repo_save_new S enc" "repo_find S dec" "view_of rows facts dec"
  "\<lambda>s i. map from_outcome (facts s i)"
proof (unfold_locales, goal_cases)
  case (1 s i d)
  then show ?case using rows_key by (auto simp: view_of_def)
next
  case (2 i s x s')
  then show ?case by (rule adapter_find_ok)
next
  case (3 key s res s')
  then show ?case using adapter_find_frame [of key s res s'] by (simp add: view_of_def fun_eq_iff)
next
  case (4 d s u s' i)
  then show ?case using adapter_save_ok [of d s u s' i] by (simp add: fun_eq_iff)
next
  case (5 d s e s')
  then show ?case using adapter_save_err [of d s e s'] by (simp add: view_of_def fun_eq_iff)
next
  case (6 d s b s' i)
  then show ?case using adapter_save_new_ok [of d s b s' i] by (auto simp del: fun_upd_apply)
next
  case (7 d s e s')
  then show ?case using adapter_save_new_err [of d s e s'] by (simp add: view_of_def fun_eq_iff)
qed

section \<open>The in-memory backend keeps the store's promises\<close>

definition ms_row :: "memory_store \<Rightarrow> int \<Rightarrow> decision_row option" where
  "ms_row s i = List.find (\<lambda>d. d_id d = i) (decisions s)"

definition ms_facts :: "memory_store \<Rightarrow> int \<Rightarrow> outcome_event list" where
  "ms_facts s i = filter (\<lambda>o'. o_decision_id o' = i) (outcomes s)"

lemma ms_upsert:
  assumes "upsert_decision d s = (r, s')"
  shows "ms_row s' = (ms_row s)(d_id d \<mapsto> upserted d (ms_row s (d_id d)))"
    and "ms_facts s' = ms_facts s"
proof -
  have same: "List.find (\<lambda>r. d_id r = d_id d)
        (update_first (\<lambda>r. d_id r = d_id d) (refresh_row d) (decisions s)) =
      map_option (refresh_row d) (ms_row s (d_id d))"
    unfolding ms_row_def by (rule find_update_first_same) simp
  have other: "List.find (\<lambda>r. d_id r = i)
        (update_first (\<lambda>r. d_id r = d_id d) (refresh_row d) (decisions s)) = ms_row s i"
    if "i \<noteq> d_id d" for i
    unfolding ms_row_def using that by (intro find_update_first_other) auto
  show "ms_row s' = (ms_row s)(d_id d \<mapsto> upserted d (ms_row s (d_id d)))"
  proof (rule ext)
    fix i
    show "ms_row s' i = ((ms_row s)(d_id d \<mapsto> upserted d (ms_row s (d_id d)))) i"
    proof (cases "ms_row s (d_id d)")
      case None
      with assms show ?thesis
        by (auto simp: upsert_decision_def ms_row_def upserted_def find_append split: option.splits)
    next
      case (Some r)
      with assms have "ms_row s' i = List.find (\<lambda>r. d_id r = i)
          (update_first (\<lambda>r. d_id r = d_id d) (refresh_row d) (decisions s))"
        by (auto simp: upsert_decision_def ms_row_def)
      with Some same other show ?thesis by (cases "i = d_id d") (auto simp: upserted_def)
    qed
  qed
  show "ms_facts s' = ms_facts s"
    using assms by (auto simp: upsert_decision_def ms_facts_def fun_eq_iff split: option.splits)
qed

lemma ms_row_None_iff: "ms_row s i = None \<longleftrightarrow> \<not> list_ex (\<lambda>r. d_id r = i) (decisions s)"
  by (simp add: ms_row_def find_None_iff_all list_ex_iff)

lemma ms_row_append:
  assumes "decisions s' = decisions s @ [d]" "ms_row s (d_id d) = None"
  shows "ms_row s' = (ms_row s)(d_id d \<mapsto> d)"
  using assms by (auto simp: ms_row_def find_append fun_eq_iff split: option.splits)

lemma ms_try_insert:
  assumes "try_insert_decision d s = (r, s')"
  shows "r = Inr (ms_row s (d_id d) = None)"
    and "ms_row s' = (if ms_row s (d_id d) = None then (ms_row s)(d_id d \<mapsto> d) else ms_row s)"
    and "ms_facts s' = ms_facts s"
  using assms ms_row_append [of s' s d]
  by (auto simp: try_insert_decision_def ms_row_None_iff ms_facts_def fun_eq_iff split: if_splits)

interpretation ms_store: decision_store memory_ops ms_row ms_facts
proof (unfold_locales, goal_cases)
  case (1 s i r)
  then show ?case by (auto simp: ms_row_def dest: find_Some_in)
next
  case (6 d s u s')
  then show ?case using ms_upsert [of d s "Inr u" s'] by (simp add: memory_ops_def)
next
  case (7 d s e s')
  then show ?case using ms_upsert [of d s "Inl e" s'] by (auto simp: memory_ops_def upsert_decision_def split: option.splits)
next
  case (8 d s b s')
  then show ?case using ms_try_insert [of d s "Inr b" s'] by (simp add: memory_ops_def)
next
  case (9 d s e s')
  then show ?case using ms_try_insert [of d s "Inl e" s'] by (simp add: memory_ops_def)
next
  case (11 n s oid s')
  let ?f = "last (outcomes s')"
  from 11 have "ms_row s' = ms_row s"
    and "ms_facts s' = (ms_facts s)(no_decision_id n := ms_facts s (no_decision_id n) @ [?f])"
    and "o_decision_id ?f = no_decision_id n" "o_outcome_type ?f = no_outcome_type n"
    "o_observation ?f = no_observation n"
    by (auto simp: memory_ops_def save_outcome_def Let_def ms_row_def ms_facts_def)
  then show ?case by blast
qed (auto simp: memory_ops_def find_decision_def list_outcomes_def ms_next_decision_id_def
    save_outcome_def save_evaluation_def Let_def ms_row_def ms_facts_def)

interpretation ms_adapter: decision_adapter memory_ops ms_row ms_facts enc dec for enc dec
  by unfold_locales

end
