(* ===== verification/DecisionService.thy ===== *)
theory DecisionService
  imports DecisionRepo
begin

text \<open>
  \<open>crates/application/src/services/decision.rs\<close>: the use cases of the Decision vertical over the
  two seams of the service, the aggregate repository and the store of ids and facts.  The record
  \<open>service_ports\<close> holds the methods of both; \<open>clk k\<close> is the \<open>k\<close>-th reading of the clock
  within one call.

  The locale \<open>decision_service\<close> extends the repository's contract with what the id source and
  the fact store promise; its lemmas carry the behaviour of every use case, and the adapter over
  \<open>MemoryStore\<close> is an interpretation.
\<close>

section \<open>Ports, commands, results\<close>

record 's service_ports =
  p_save :: "decision_aggregate \<Rightarrow> ('s, decision_error, unit) io"
  p_save_new :: "decision_aggregate \<Rightarrow> ('s, decision_error, bool) io"
  p_find :: "string \<Rightarrow> ('s, decision_error, decision_aggregate option) io"
  p_next_id :: "('s, store_error, int) io"
  p_save_outcome :: "new_outcome_event \<Rightarrow> ('s, store_error, int) io"
  p_save_evaluation :: "new_decision_evaluation \<Rightarrow> ('s, store_error, int) io"

datatype lifecycle_command = LcApprove | LcExecute | LcComplete | LcInvalidate string

fun lc_target :: "lifecycle_command \<Rightarrow> decision_status" where
  "lc_target LcApprove = Approved"
| "lc_target LcExecute = Executing"
| "lc_target LcComplete = Completed"
| "lc_target (LcInvalidate _) = Invalidated"

record created_decision =
  cd_decision_id :: int
  cd_aggregate :: decision_aggregate
  cd_events :: "decision_event list"

record lifecycle_transition =
  lt_decision_id :: int
  lt_aggregate :: decision_aggregate
  lt_events :: "decision_event list"
  lt_transitioned :: bool

record outcome_recording =
  or_outcome_id :: int
  or_decision_id :: int
  or_aggregate :: decision_aggregate
  or_completed :: bool
  or_events :: "decision_event list"

record evaluation_recording =
  er_evaluation_id :: int
  er_decision_id :: int

section \<open>The use cases\<close>

definition domain_id :: "int \<Rightarrow> string" where
  "domain_id n = ''DEC-'' @ show_i64_06 n"

lemma domain_id_eq: "domain_id n = did (decision_id_new n)"
  by (simp add: domain_id_def decision_id_new_def)

definition svc_load :: "'s service_ports \<Rightarrow> string \<Rightarrow> ('s, decision_error, decision_aggregate) io" where
  "svc_load P key =
     io_bind (p_find P key) (\<lambda>x. case x of None \<Rightarrow> io_err (NotFound key) | Some d \<Rightarrow> io_ret d)"

definition create_retries :: nat where
  "create_retries = 4"

definition create_conflict :: decision_error where
  "create_conflict = Conflict ''decision id allocation exhausted after repeated create collisions''"

text \<open>The walk propose, approve, execute of one attempt, before anything is written.\<close>

definition create_walk :: "(nat \<Rightarrow> int) \<Rightarrow> propose_decision \<Rightarrow> int \<Rightarrow> (decision_error, decision_aggregate) result" where
  "create_walk clk cmd i =
     (case propose (cmd\<lparr>pd_id := i\<rparr>) (clk 0) of
        Inl e \<Rightarrow> Inl e
      | Inr a \<Rightarrow>
          (case approve (clk 1) \<lparr>ad_decision_id = did (agg_id a), ad_approved_by = ''system''\<rparr> a of
             (Inl e, _) \<Rightarrow> Inl e
           | (Inr _, a1) \<Rightarrow>
               (case execute (clk 2) \<lparr>ed_decision_id = did (agg_id a1)\<rparr> a1 of
                  (Inl e, _) \<Rightarrow> Inl e
                | (Inr _, a2) \<Rightarrow> Inr a2)))"

fun create_loop ::
  "'s service_ports \<Rightarrow> nat \<Rightarrow> (nat \<Rightarrow> int) \<Rightarrow> propose_decision \<Rightarrow> ('s, decision_error, created_decision) io" where
  "create_loop P 0 clk cmd = io_err create_conflict"
| "create_loop P (Suc n) clk cmd =
     io_bind (infra (p_next_id P)) (\<lambda>i.
     io_bind (io_lift (create_walk clk cmd i)) (\<lambda>a.
     io_bind (p_save_new P a) (\<lambda>inserted.
       if inserted
       then case drain_events a of (evs, a') \<Rightarrow>
              io_ret \<lparr>cd_decision_id = i, cd_aggregate = a', cd_events = evs\<rparr>
       else create_loop P n (\<lambda>k. clk (k + 3)) cmd)))"

definition svc_create ::
  "'s service_ports \<Rightarrow> (nat \<Rightarrow> int) \<Rightarrow> propose_decision \<Rightarrow> ('s, decision_error, created_decision) io" where
  "svc_create P clk cmd = create_loop P create_retries clk cmd"

text \<open>The method of the aggregate a lifecycle command stands for.\<close>

fun lc_apply :: "int \<Rightarrow> string \<Rightarrow> lifecycle_command \<Rightarrow> unit agg_io" where
  "lc_apply clk key LcApprove a = approve clk \<lparr>ad_decision_id = key, ad_approved_by = ''system''\<rparr> a"
| "lc_apply clk key LcExecute a = execute clk \<lparr>ed_decision_id = key\<rparr> a"
| "lc_apply clk key LcComplete a = complete clk a"
| "lc_apply clk key (LcInvalidate reason) a = invalidate clk \<lparr>id_decision_id = key, id_reason = reason\<rparr> a"

definition svc_transition ::
  "'s service_ports \<Rightarrow> int \<Rightarrow> int \<Rightarrow> lifecycle_command \<Rightarrow> ('s, decision_error, lifecycle_transition) io" where
  "svc_transition P clk decision_id cmd =
     io_bind (svc_load P (domain_id decision_id)) (\<lambda>d.
       if status d = lc_target cmd
       then io_ret \<lparr>lt_decision_id = decision_id, lt_aggregate = d, lt_events = [],
                    lt_transitioned = False\<rparr>
       else case lc_apply clk (domain_id decision_id) cmd d of
              (Inl e, _) \<Rightarrow> io_err e
            | (Inr _, d') \<Rightarrow>
                io_bind (p_save P d') (\<lambda>_.
                  case drain_events d' of (evs, d'') \<Rightarrow>
                    io_ret \<lparr>lt_decision_id = decision_id, lt_aggregate = d'', lt_events = evs,
                            lt_transitioned = True\<rparr>))"

definition observed_outcome_of :: "int \<Rightarrow> new_outcome_event \<Rightarrow> observed_outcome" where
  "observed_outcome_of clk e =
     \<lparr>oo_metric = no_outcome_type e, oo_actual_value = no_observation e,
      oo_outcome_type = Inconclusive, oo_evidence_url = no_evidence_url e,
      oo_observed_at = (case no_observed_at e of None \<Rightarrow> clk | Some t \<Rightarrow> t)\<rparr>"

definition svc_record_outcome ::
  "'s service_ports \<Rightarrow> (nat \<Rightarrow> int) \<Rightarrow> new_outcome_event \<Rightarrow> ('s, decision_error, outcome_recording) io" where
  "svc_record_outcome P clk e =
     (let decision_id = no_decision_id e; key = domain_id decision_id in
      io_bind (svc_load P key) (\<lambda>d.
      io_bind (infra (p_save_outcome P e)) (\<lambda>outcome_id.
        if status d \<noteq> Executing
        then io_ret \<lparr>or_outcome_id = outcome_id, or_decision_id = decision_id, or_aggregate = d,
                     or_completed = False, or_events = []\<rparr>
        else case complete (clk 2)
                    (attach_outcome (clk 1)
                       \<lparr>ro_decision_id = key, ro_outcome = observed_outcome_of (clk 0) e\<rparr> d) of
               (Inl err, _) \<Rightarrow> io_err err
             | (Inr _, d') \<Rightarrow>
                 io_bind (p_save P d') (\<lambda>_.
                   case drain_events d' of (evs, d'') \<Rightarrow>
                     io_ret \<lparr>or_outcome_id = outcome_id, or_decision_id = decision_id,
                             or_aggregate = d'', or_completed = True, or_events = evs\<rparr>))))"

definition svc_record_evaluation ::
  "'s service_ports \<Rightarrow> new_decision_evaluation \<Rightarrow> ('s, decision_error, evaluation_recording) io" where
  "svc_record_evaluation P ev =
     io_bind (infra (p_save_evaluation P ev)) (\<lambda>i.
       io_ret \<lparr>er_evaluation_id = i, er_decision_id = ne_decision_id ev\<rparr>)"

text \<open>Calls of the service as data, for statements about whole histories; a failed call is a call too.\<close>

datatype svc_call =
    CallCreate "nat \<Rightarrow> int" propose_decision
  | CallTransition int int lifecycle_command
  | CallRecordOutcome "nat \<Rightarrow> int" new_outcome_event
  | CallRecordEvaluation new_decision_evaluation

fun svc_exec :: "'s service_ports \<Rightarrow> svc_call \<Rightarrow> 's \<Rightarrow> 's" where
  "svc_exec P (CallCreate clk cmd) s = snd (svc_create P clk cmd s)"
| "svc_exec P (CallTransition clk i cmd) s = snd (svc_transition P clk i cmd s)"
| "svc_exec P (CallRecordOutcome clk n) s = snd (svc_record_outcome P clk n s)"
| "svc_exec P (CallRecordEvaluation ev) s = snd (svc_record_evaluation P ev s)"

definition svc_run :: "'s service_ports \<Rightarrow> svc_call list \<Rightarrow> 's \<Rightarrow> 's" where
  "svc_run P calls s = fold (svc_exec P) calls s"

section \<open>What the walk and the commands do to an aggregate\<close>

lemma create_walk_ok:
  assumes "create_walk clk cmd i = Inr a"
  shows "agg_id a = decision_id_new i" "status a = Executing" "agg_inv a"
    "title a = pd_title cmd" "confidence a = pd_confidence cmd" "observed_outcomes a = []"
    "events a = [EvProposed (domain_id i) (pd_title cmd) (pd_confidence cmd) (pd_decision_type cmd),
       EvApproved (domain_id i) ''system'', EvStatusChanged (domain_id i) Approved Executing]"
  using assms
  by (auto simp: create_walk_def propose_def agg_methods agg_inv_def domain_id_def decision_id_new_def Let_def
      split: if_splits)

lemma create_walk_err_iff:
  "create_walk clk cmd i = Inl e \<longleftrightarrow>
     (pd_title cmd = [] \<and> e = EmptyTitle) \<or>
     (pd_title cmd \<noteq> [] \<and> \<not> in_range (Fin 0) (Fin 1) (pd_confidence cmd) \<and>
      e = InvalidConfidence (pd_confidence cmd))"
  by (auto simp: create_walk_def propose_def agg_methods Let_def)

lemma lc_apply_ok:
  assumes "lc_apply clk key c a = (Inr u, a')"
  shows "can_transition_to (status a) (status a')" "status a' = lc_target c"
    "agg_id a' = agg_id a" "observed_outcomes a' = observed_outcomes a" "title a' = title a"
    "confidence a' = confidence a" "created_at a' = created_at a" "updated_at a' = clk"
    "status a' = Completed \<Longrightarrow> observed_outcomes a \<noteq> []"
    "\<exists>ev. events a' = events a @ [ev] \<and> (\<forall>st. event_status ev st = status a')"
  using assms by (cases c; auto simp: agg_methods Let_def split: if_splits)+

lemma lc_apply_iff:
  "(\<exists>a'. lc_apply clk key c a = (Inr (), a')) \<longleftrightarrow>
     can_transition_to (status a) (lc_target c) \<and> (c = LcComplete \<longrightarrow> observed_outcomes a \<noteq> [])"
  by (cases c) (auto simp: agg_methods Let_def)

lemma record_outcome_completes:
  assumes "status d = Executing"
  shows "\<exists>d'. complete c2 (attach_outcome c1 cmd d) = (Inr (), d') \<and> status d' = Completed \<and>
    agg_id d' = agg_id d \<and> title d' = title d \<and> confidence d' = confidence d \<and>
    created_at d' = created_at d \<and> length (events d') = length (events d) + 2"
  using assms by (simp add: complete_def transition_def attach_outcome_def Let_def)

lemma record_outcome_attached:
  "status d = Executing \<Longrightarrow> fst (complete c2 (attach_outcome c1 cmd d)) = Inr ()"
  by (metis fst_conv record_outcome_completes)

section \<open>The service over any repository and store that keep their promises\<close>

text \<open>
  Two relations between the views before and after a use case: every row keeps its identity and
  its status only moves along the lifecycle graph; and the invariant of the persisted rows.
\<close>

definition rows_ok :: "(int \<Rightarrow> decision_aggregate option) \<Rightarrow> bool" where
  "rows_ok v \<longleftrightarrow> (\<forall>i d. v i = Some d \<longrightarrow> agg_inv d)"

definition advances :: "(int \<Rightarrow> decision_aggregate option) \<Rightarrow> (int \<Rightarrow> decision_aggregate option) \<Rightarrow> bool" where
  "advances v v' \<longleftrightarrow> (\<forall>i d. v i = Some d \<longrightarrow>
     (\<exists>d'. v' i = Some d' \<and> can_transition_to\<^sup>*\<^sup>* (status d) (status d') \<and>
       title d' = title d \<and> confidence d' = confidence d \<and> created_at d' = created_at d))"

lemma advances_refl [simp]: "advances v v"
  by (auto simp: advances_def)

lemma advances_trans: "advances u v \<Longrightarrow> advances v w \<Longrightarrow> advances u w"
  unfolding advances_def by (metis rtranclp_trans)

locale decision_service = repo: decision_repository "p_save P" "p_save_new P" "p_find P" view obs
  for P :: "'s service_ports" and view obs +
  assumes next_id_frame: "p_next_id P s = (ires, s') \<Longrightarrow> view s' = view s \<and> obs s' = obs s"
    and save_outcome_ok: "p_save_outcome P n s = (Inr oid, s') \<Longrightarrow>
          (\<exists>oc. oo_metric oc = no_outcome_type n \<and> oo_actual_value oc = no_observation n \<and>
             obs s' = (obs s)(no_decision_id n := obs s (no_decision_id n) @ [oc])) \<and>
          view s' = (\<lambda>i. map_option (\<lambda>a. a\<lparr>observed_outcomes := obs s' i\<rparr>) (view s i))"
    and save_outcome_err: "p_save_outcome P n s = (Inl e, s') \<Longrightarrow> view s' = view s \<and> obs s' = obs s"
    and save_evaluation_frame: "p_save_evaluation P ev s = (vres, s') \<Longrightarrow> view s' = view s \<and> obs s' = obs s"
begin

lemma load_ok:
  assumes "svc_load P (domain_id i) s = (Inr d, s')"
  shows "view s i = Some d" "view s' = view s" "obs s' = obs s" "agg_id d = decision_id_new i"
    "observed_outcomes d = obs s i" "events d = []"
proof -
  from assms have f: "p_find P (did (decision_id_new i)) s = (Inr (Some d), s')"
    by (auto simp: svc_load_def domain_id_eq io_bind_Inr_iff split: option.splits)
  from repo.find_ok [OF f] repo.find_frame [OF f] show v: "view s i = Some d" "view s' = view s" "obs s' = obs s"
    by simp_all
  from repo.view_obs [OF v(1)] show "agg_id d = decision_id_new i"
    "observed_outcomes d = obs s i" "events d = []" by simp_all
qed

lemma load_frame: "svc_load P key s = (lres, s') \<Longrightarrow> view s' = view s \<and> obs s' = obs s"
  by (cases lres)
    (auto simp: svc_load_def io_iff dest: repo.find_frame split: option.splits)

lemma create_ok:
  assumes "create_loop P n clk cmd s = (Inr c, s')"
  shows "view s (cd_decision_id c) = None" "obs s' = obs s"
    "\<exists>d. view s' = (view s)(cd_decision_id c \<mapsto> d) \<and> same_state (cd_aggregate c) d"
    "agg_inv (cd_aggregate c)" "status (cd_aggregate c) = Executing"
    "title (cd_aggregate c) = pd_title cmd" "confidence (cd_aggregate c) = pd_confidence cmd"
    "agg_id (cd_aggregate c) = decision_id_new (cd_decision_id c)"
    "cd_events c = [EvProposed (domain_id (cd_decision_id c)) (pd_title cmd) (pd_confidence cmd) (pd_decision_type cmd),
       EvApproved (domain_id (cd_decision_id c)) ''system'',
       EvStatusChanged (domain_id (cd_decision_id c)) Approved Executing]"
proof (atomize (full), insert assms, induction n arbitrary: clk s)
  case (Suc n)
  from Suc.prems obtain i s1 a b s2 where
    i: "p_next_id P s = (Inr i, s1)" and w: "create_walk clk cmd i = Inr a"
    and sv: "p_save_new P a s1 = (Inr b, s2)"
    and rest: "(if b then case drain_events a of (evs, a') \<Rightarrow>
              io_ret \<lparr>cd_decision_id = i, cd_aggregate = a', cd_events = evs\<rparr>
       else create_loop P n (\<lambda>k. clk (k + 3)) cmd) s2 = (Inr c, s')"
    by (auto simp: io_bind_Inr_iff)
  note walk = create_walk_ok [OF w]
  note sn = repo.save_new_ok [OF sv walk(1)]
  from next_id_frame [OF i] have s1: "view s1 = view s" "obs s1 = obs s" by simp_all
  show ?case
  proof (cases b)
    case True
    with sn s1 obtain d where d: "same_state a d" "view s2 = (view s)(i \<mapsto> d)" "view s i = None"
      "obs s2 = obs s" by auto
    from True rest have c: "c = \<lparr>cd_decision_id = i, cd_aggregate = a\<lparr>events := []\<rparr>, cd_events = events a\<rparr>"
      "s' = s2" by (simp_all add: drain_events_def)
    from d have "\<exists>d. view s' = (view s)(i \<mapsto> d) \<and> same_state (cd_aggregate c) d"
      unfolding c by (intro exI [of _ d]) (simp add: same_state_def)
    with d walk c show ?thesis by (simp add: agg_inv_def del: fun_upd_apply)
  next
    case False
    with sn s1 have "view s2 = view s" "obs s2 = obs s" by simp_all
    with Suc.IH [of "\<lambda>k. clk (k + 3)" s2] rest False show ?thesis by simp
  qed
qed simp

lemma create_err:
  assumes "create_loop P n clk cmd s = (Inl e, s')"
  shows "view s' = view s \<and> obs s' = obs s"
  using assms
proof (induction n arbitrary: clk s)
  case (Suc n)
  from Suc.prems consider
      (id) e' where "p_next_id P s = (Inl e', s')"
    | (walk) i where "p_next_id P s = (Inr i, s')"
    | (save) i s1 a where "p_next_id P s = (Inr i, s1)" "p_save_new P a s1 = (Inl e, s')"
    | (retry) i s1 a s2 where "p_next_id P s = (Inr i, s1)" "create_walk clk cmd i = Inr a"
        "p_save_new P a s1 = (Inr False, s2)" "create_loop P n (\<lambda>k. clk (k + 3)) cmd s2 = (Inl e, s')"
    by (auto simp: io_iff drain_events_def split: if_splits)
  then show ?case
  proof cases
    case retry
    from repo.save_new_ok [OF retry(3) create_walk_ok(1) [OF retry(2)]] next_id_frame [OF retry(1)]
      Suc.IH [OF retry(4)] show ?thesis by simp
  next
    case save
    from repo.save_new_err [OF save(2)] next_id_frame [OF save(1)] show ?thesis by simp
  qed (auto dest: next_id_frame)
qed simp

lemma transition_ok:
  assumes "svc_transition P clk i cmd s = (Inr r, s')"
  obtains d where "view s i = Some d" "obs s' = obs s" "lt_decision_id r = i"
    "status d = lc_target cmd" "view s' = view s" "r = \<lparr>lt_decision_id = i, lt_aggregate = d,
       lt_events = [], lt_transitioned = False\<rparr>"
  | d d' ev where "view s i = Some d" "obs s' = obs s" "lt_decision_id r = i"
    "can_transition_to (status d) (lc_target cmd)" "lt_transitioned r" "lt_events r = [ev]"
    "status d' = lc_target cmd" "view s' = (view s)(i \<mapsto> d')" "title d' = title d"
    "confidence d' = confidence d" "created_at d' = created_at d" "updated_at d' = clk"
    "lc_target cmd = Completed \<longrightarrow> obs s i \<noteq> []"
proof -
  from assms obtain d s1 where l: "svc_load P (domain_id i) s = (Inr d, s1)"
    and rest: "(if status d = lc_target cmd
       then io_ret \<lparr>lt_decision_id = i, lt_aggregate = d, lt_events = [], lt_transitioned = False\<rparr>
       else case lc_apply clk (domain_id i) cmd d of
              (Inl e, _) \<Rightarrow> io_err e
            | (Inr _, d') \<Rightarrow>
                io_bind (p_save P d') (\<lambda>_.
                  case drain_events d' of (evs, d'') \<Rightarrow>
                    io_ret \<lparr>lt_decision_id = i, lt_aggregate = d'', lt_events = evs,
                            lt_transitioned = True\<rparr>)) s1 = (Inr r, s')"
    by (auto simp: svc_transition_def io_bind_Inr_iff)
  note ld = load_ok [OF l]
  show thesis
  proof (cases "status d = lc_target cmd")
    case True
    with rest ld that(1) [of d] show thesis by auto
  next
    case False
    with rest obtain u d' v where ap: "lc_apply clk (domain_id i) cmd d = (Inr u, d')"
      and sv: "p_save P d' s1 = (Inr v, s')"
      and r: "r = \<lparr>lt_decision_id = i, lt_aggregate = d'\<lparr>events := []\<rparr>, lt_events = events d',
                lt_transitioned = True\<rparr>"
      by (auto simp: io_bind_Inr_iff drain_events_def split: prod.splits sum.splits)
    note a = lc_apply_ok [OF ap]
    from a(3) ld(4) have "agg_id d' = decision_id_new i" by simp
    from repo.save_ok [OF sv this] ld a obtain d2 where "obs s' = obs s" "same_state d' d2"
      "view s' = (view s)(i \<mapsto> d2)" "created_at d2 = created_at d" by auto
    with a ld r that(2) [of d _ d2] show thesis by (auto simp: same_state_def)
  qed
qed

lemma transition_err:
  assumes "svc_transition P clk i cmd s = (Inl e, s')"
  shows "view s' = view s \<and> obs s' = obs s"
proof -
  from assms consider (load) "svc_load P (domain_id i) s = (Inl e, s')"
    | (refused) d where "svc_load P (domain_id i) s = (Inr d, s')"
    | (save) d s1 d' where "svc_load P (domain_id i) s = (Inr d, s1)" "p_save P d' s1 = (Inl e, s')"
    by (auto simp: svc_transition_def io_iff drain_events_def split: if_splits prod.splits sum.splits)
  then show ?thesis
  proof cases
    case save
    from repo.save_err [OF save(2)] load_frame [OF save(1)] show ?thesis by simp
  qed (auto dest: load_frame)
qed

lemma record_outcome_ok:
  assumes "svc_record_outcome P clk n s = (Inr r, s')"
  obtains d oc where "view s (no_decision_id n) = Some d"
    "oo_metric oc = no_outcome_type n" "oo_actual_value oc = no_observation n"
    "obs s' = (obs s)(no_decision_id n := obs s (no_decision_id n) @ [oc])"
    "or_completed r = (status d = Executing)"
    "\<exists>d'. view s' (no_decision_id n) = Some d' \<and> title d' = title d \<and> confidence d' = confidence d \<and>
       created_at d' = created_at d \<and> status d' = (if status d = Executing then Completed else status d)"
    "\<forall>j. j \<noteq> no_decision_id n \<longrightarrow> view s' j = map_option (\<lambda>a. a\<lparr>observed_outcomes := obs s' j\<rparr>) (view s j)"
proof -
  let ?i = "no_decision_id n"
  from assms obtain d s1 oid s2 where l: "svc_load P (domain_id ?i) s = (Inr d, s1)"
    and so: "p_save_outcome P n s1 = (Inr oid, s2)"
    and rest: "(if status d \<noteq> Executing
        then io_ret \<lparr>or_outcome_id = oid, or_decision_id = ?i, or_aggregate = d,
                     or_completed = False, or_events = []\<rparr>
        else case complete (clk 2) (attach_outcome (clk 1)
                       \<lparr>ro_decision_id = domain_id ?i, ro_outcome = observed_outcome_of (clk 0) n\<rparr> d) of
               (Inl err, _) \<Rightarrow> io_err err
             | (Inr _, d') \<Rightarrow>
                 io_bind (p_save P d') (\<lambda>_.
                   case drain_events d' of (evs, d'') \<Rightarrow>
                     io_ret \<lparr>or_outcome_id = oid, or_decision_id = ?i,
                             or_aggregate = d'', or_completed = True, or_events = evs\<rparr>)) s2 = (Inr r, s')"
    by (auto simp: svc_record_outcome_def Let_def io_bind_Inr_iff)
  note ld = load_ok [OF l]
  from save_outcome_ok [OF so] ld obtain oc where oc: "oo_metric oc = no_outcome_type n"
      "oo_actual_value oc = no_observation n" "obs s2 = (obs s)(?i := obs s ?i @ [oc])"
    and v2: "view s2 = (\<lambda>j. map_option (\<lambda>a. a\<lparr>observed_outcomes := obs s2 j\<rparr>) (view s j))" by auto
  show thesis
  proof (cases "status d = Executing")
    case False
    with rest have "r = \<lparr>or_outcome_id = oid, or_decision_id = ?i, or_aggregate = d,
        or_completed = False, or_events = []\<rparr>" "s' = s2" by simp_all
    with False ld(1) oc v2 that [of d oc] show thesis by simp
  next
    case True
    obtain d' where d': "complete (clk 2) (attach_outcome (clk 1)
          \<lparr>ro_decision_id = domain_id ?i, ro_outcome = observed_outcome_of (clk 0) n\<rparr> d) = (Inr (), d')"
        "status d' = Completed" "agg_id d' = agg_id d" "title d' = title d"
        "confidence d' = confidence d" "created_at d' = created_at d"
      using record_outcome_completes [OF True] by blast
    with rest True obtain u where sv: "p_save P d' s2 = (Inr u, s')" and r: "or_completed r"
      by (auto simp: io_bind_Inr_iff drain_events_def)
    from d'(3) ld(4) have "agg_id d' = decision_id_new ?i" by simp
    from repo.save_ok [OF sv this] obtain d2 where s': "obs s' = obs s2" "same_state d' d2"
        "view s' = (view s2)(?i \<mapsto> d2)"
        "created_at d2 = (case view s2 ?i of None \<Rightarrow> created_at d' | Some d0 \<Rightarrow> created_at d0)" by blast
    have "view s' j = map_option (\<lambda>a. a\<lparr>observed_outcomes := obs s' j\<rparr>) (view s j)" if "j \<noteq> ?i" for j
      using that by (simp add: s'(1,3)) (simp add: v2)
    moreover have "created_at d2 = created_at d" using s'(4) ld(1) by (simp add: v2)
    ultimately show thesis using that [of d oc] True ld(1) oc s' d' r
      by (auto simp: same_state_def)
  qed
qed

definition attached :: "int \<Rightarrow> 's \<Rightarrow> 's \<Rightarrow> bool" where
  "attached i s s' \<longleftrightarrow> (\<exists>oc. obs s' = (obs s)(i := obs s i @ [oc]) \<and>
     view s' = (\<lambda>j. map_option (\<lambda>a. a\<lparr>observed_outcomes := obs s' j\<rparr>) (view s j)))"

lemma record_outcome_err:
  assumes "svc_record_outcome P clk n s = (Inl e, s')"
  shows "view s' = view s \<and> obs s' = obs s \<or> attached (no_decision_id n) s s'"
proof -
  let ?i = "no_decision_id n"
  from assms consider (load) "svc_load P (domain_id ?i) s = (Inl e, s')"
    | (fact) d s1 e' where "svc_load P (domain_id ?i) s = (Inr d, s1)" "p_save_outcome P n s1 = (Inl e', s')"
    | (save) d s1 oid s2 d' where "svc_load P (domain_id ?i) s = (Inr d, s1)"
        "p_save_outcome P n s1 = (Inr oid, s2)" "p_save P d' s2 = (Inl e, s')"
    unfolding svc_record_outcome_def Let_def
    by (auto simp: io_iff drain_events_def case_prod_beta record_outcome_attached split: if_split_asm)
  then show ?thesis
  proof cases
    case fact
    from save_outcome_err [OF fact(2)] load_frame [OF fact(1)] show ?thesis by simp
  next
    case save
    from save_outcome_ok [OF save(2)] load_frame [OF save(1)] repo.save_err [OF save(3)] show ?thesis
      by (auto simp: attached_def)
  qed (auto dest: load_frame)
qed

lemma attached_ok:
  assumes "attached i s s'"
  shows "rows_ok (view s) \<Longrightarrow> rows_ok (view s')" "advances (view s) (view s')"
proof -
  from assms obtain oc where o: "obs s' = (obs s)(i := obs s i @ [oc])"
    and v: "view s' = (\<lambda>j. map_option (\<lambda>a. a\<lparr>observed_outcomes := obs s' j\<rparr>) (view s j))"
    by (auto simp: attached_def)
  show "advances (view s) (view s')" by (auto simp: advances_def v)
  assume ok: "rows_ok (view s)"
  show "rows_ok (view s')"
  proof (unfold rows_ok_def, intro allI impI)
    fix j d'
    assume "view s' j = Some d'"
    then obtain d where d: "view s j = Some d" "d' = d\<lparr>observed_outcomes := obs s' j\<rparr>"
      by (auto simp: v)
    with ok repo.view_obs [OF d(1)] o show "agg_inv d'" by (auto simp: rows_ok_def agg_inv_def)
  qed
qed

lemma create_step:
  assumes "svc_create P clk cmd s = (r, s')"
  shows "rows_ok (view s) \<Longrightarrow> rows_ok (view s')" "advances (view s) (view s')"
proof -
  have "(rows_ok (view s) \<longrightarrow> rows_ok (view s')) \<and> advances (view s) (view s')"
  proof (cases r)
    case (Inl e)
    with assms create_err show ?thesis by (simp add: svc_create_def)
  next
    case (Inr c)
    note k = create_ok [OF assms [unfolded svc_create_def Inr]]
    then obtain d where d: "view s' = (view s)(cd_decision_id c \<mapsto> d)" "same_state (cd_aggregate c) d"
      by blast
    with k(1,4,5) show ?thesis by (auto simp: rows_ok_def advances_def agg_inv_def same_state_def)
  qed
  then show "rows_ok (view s) \<Longrightarrow> rows_ok (view s')" "advances (view s) (view s')" by simp_all
qed

lemma transition_step:
  assumes "svc_transition P clk i cmd s = (r, s')"
  shows "rows_ok (view s) \<Longrightarrow> rows_ok (view s')" "advances (view s) (view s')"
proof -
  have "(rows_ok (view s) \<longrightarrow> rows_ok (view s')) \<and> advances (view s) (view s')"
  proof (cases r)
    case (Inl e)
    with assms transition_err show ?thesis by simp
  next
    case (Inr t)
    from assms [unfolded Inr] show ?thesis
    proof (cases rule: transition_ok)
      case (2 d d' ev)
      have "observed_outcomes d' = obs s i"
        using repo.view_obs [of s' i d'] 2 by simp
      with 2 show ?thesis
        by (auto simp: rows_ok_def advances_def agg_inv_def)
    qed simp
  qed
  then show "rows_ok (view s) \<Longrightarrow> rows_ok (view s')" "advances (view s) (view s')" by simp_all
qed

lemma record_outcome_step:
  assumes "svc_record_outcome P clk n s = (r, s')"
  shows "rows_ok (view s) \<Longrightarrow> rows_ok (view s')" "advances (view s) (view s')"
proof -
  have "(rows_ok (view s) \<longrightarrow> rows_ok (view s')) \<and> advances (view s) (view s')"
  proof (cases r)
    case (Inl e)
    with assms record_outcome_err attached_ok show ?thesis by fastforce
  next
    case (Inr q)
    let ?i = "no_decision_id n"
    from assms [unfolded Inr] obtain d oc d' where d: "view s ?i = Some d"
      and o: "obs s' = (obs s)(?i := obs s ?i @ [oc])"
      and d': "view s' ?i = Some d'" "title d' = title d" "confidence d' = confidence d"
        "created_at d' = created_at d" "status d' = (if status d = Executing then Completed else status d)"
      and rest: "\<forall>j. j \<noteq> ?i \<longrightarrow> view s' j = map_option (\<lambda>a. a\<lparr>observed_outcomes := obs s' j\<rparr>) (view s j)"
      by (rule record_outcome_ok) blast
    have reach: "can_transition_to\<^sup>*\<^sup>* (status d) (status d')"
      using d'(5) by auto
    have inv: "agg_inv d'" if "agg_inv d"
      using that d' repo.view_obs [OF d'(1)] o by (auto simp: agg_inv_def)
    have adv: "advances (view s) (view s')"
      unfolding advances_def
    proof (intro allI impI)
      fix j a
      assume "view s j = Some a"
      then show "\<exists>d'. view s' j = Some d' \<and> can_transition_to\<^sup>*\<^sup>* (status a) (status d') \<and>
          title d' = title a \<and> confidence d' = confidence a \<and> created_at d' = created_at a"
        using d d' reach rest by (cases "j = ?i") auto
    qed
    have "rows_ok (view s')" if ok: "rows_ok (view s)"
      unfolding rows_ok_def
    proof (intro allI impI)
      fix j a
      assume a: "view s' j = Some a"
      show "agg_inv a"
      proof (cases "j = ?i")
        case True
        with a d' inv ok d show ?thesis by (simp add: rows_ok_def)
      next
        case False
        with a rest obtain b where b: "view s j = Some b" "a = b\<lparr>observed_outcomes := obs s' j\<rparr>" by auto
        with ok repo.view_obs [OF b(1)] o False show ?thesis by (auto simp: rows_ok_def agg_inv_def)
      qed
    qed
    with adv show ?thesis by blast
  qed
  then show "rows_ok (view s) \<Longrightarrow> rows_ok (view s')" "advances (view s) (view s')" by simp_all
qed

lemma evaluation_step:
  assumes "svc_record_evaluation P ev s = (r, s')"
  shows "view s' = view s" "obs s' = obs s"
  using assms
  by (cases r; auto simp: svc_record_evaluation_def io_iff dest: save_evaluation_frame)+

lemma exec_step:
  shows "rows_ok (view s) \<Longrightarrow> rows_ok (view (svc_exec P c s))" "advances (view s) (view (svc_exec P c s))"
  by (cases c; simp; metis create_step transition_step record_outcome_step evaluation_step advances_refl
      prod.collapse)+

lemma run_ok:
  shows "rows_ok (view s) \<Longrightarrow> rows_ok (view (svc_run P calls s))"
    and "advances (view s) (view (svc_run P calls s))"
proof (induction calls arbitrary: s)
  case (Cons c calls)
  case 1
  from Cons(1) [OF exec_step(1) [OF 1]] show ?case by (simp add: svc_run_def)
next
  case (Cons c calls)
  case 2
  from exec_step(2) Cons(2) show ?case unfolding svc_run_def fold_Cons comp_apply by (rule advances_trans)
qed (simp_all add: svc_run_def)

end

section \<open>The service over the adapter\<close>

definition adapter_ports ::
  "'s decision_store_ops \<Rightarrow> (expected_outcome list \<Rightarrow> string) \<Rightarrow> (string \<Rightarrow> expected_outcome list option)
    \<Rightarrow> 's service_ports" where
  "adapter_ports S enc dec =
     \<lparr>p_save = repo_save S enc, p_save_new = repo_save_new S enc, p_find = repo_find S dec,
      p_next_id = op_next_id S, p_save_outcome = op_save_outcome S,
      p_save_evaluation = op_save_evaluation S\<rparr>"

lemma adapter_ports_simps [simp]:
  "p_save (adapter_ports S enc dec) = repo_save S enc"
  "p_save_new (adapter_ports S enc dec) = repo_save_new S enc"
  "p_find (adapter_ports S enc dec) = repo_find S dec"
  "p_next_id (adapter_ports S enc dec) = op_next_id S"
  "p_save_outcome (adapter_ports S enc dec) = op_save_outcome S"
  "p_save_evaluation (adapter_ports S enc dec) = op_save_evaluation S"
  by (simp_all add: adapter_ports_def)

lemma from_store_observed: "(from_store dec r xs)\<lparr>observed_outcomes := ys\<rparr> = from_store dec r ys"
  by (simp add: from_store_def reconstruct_def)

context decision_adapter
begin

lemma adapter_save_outcome_ok:
  assumes "op_save_outcome S n s = (Inr oid, s')"
  shows "(\<exists>oc. oo_metric oc = no_outcome_type n \<and> oo_actual_value oc = no_observation n \<and>
             (\<lambda>i. map from_outcome (facts s' i)) = (\<lambda>i. map from_outcome (facts s i))
               (no_decision_id n := map from_outcome (facts s (no_decision_id n)) @ [oc])) \<and>
          view_of rows facts dec s' = (\<lambda>i. map_option
             (\<lambda>a. a\<lparr>observed_outcomes := map from_outcome (facts s' i)\<rparr>) (view_of rows facts dec s i))"
proof -
  from save_outcome_ok [OF assms] obtain f where r: "rows s' = rows s"
    and f: "o_outcome_type f = no_outcome_type n" "o_observation f = no_observation n"
      "facts s' = (facts s)(no_decision_id n := facts s (no_decision_id n) @ [f])" by blast
  have "view_of rows facts dec s' = (\<lambda>i. map_option
      (\<lambda>a. a\<lparr>observed_outcomes := map from_outcome (facts s' i)\<rparr>) (view_of rows facts dec s i))"
    by (simp add: view_of_def r fun_eq_iff option.map_comp comp_def from_store_observed)
  moreover have "(\<lambda>i. map from_outcome (facts s' i)) = (\<lambda>i. map from_outcome (facts s i))
      (no_decision_id n := map from_outcome (facts s (no_decision_id n)) @ [from_outcome f])"
    by (simp add: f(3) fun_eq_iff)
  ultimately show ?thesis using f(1,2) by (intro conjI exI [of _ "from_outcome f"]) (simp_all add: from_outcome_def)
qed

end

sublocale decision_adapter \<subseteq> svc: decision_service
  "adapter_ports S enc dec" "view_of rows facts dec" "\<lambda>s i. map from_outcome (facts s i)"
proof (unfold_locales, goal_cases)
  case (1 s i d)
  then show ?case by (rule repo.view_obs)
next
  case (2 i s x s')
  then show ?case by (auto dest: repo.find_ok)
next
  case (3 key s res s')
  then show ?case by (auto dest!: repo.find_frame)
next
  case (4 d s u s' i)
  then show ?case using repo.save_ok [of d s u s' i] by simp
next
  case (5 d s e s')
  then show ?case using repo.save_err [of d s e s'] by simp
next
  case (6 d s b s' i)
  then show ?case using repo.save_new_ok [of d s b s' i] by simp
next
  case (7 d s e s')
  then show ?case using repo.save_new_err [of d s e s'] by simp
next
  case (8 s res s')
  then show ?case using next_id_frame [of s res s'] by (simp add: view_of_def fun_eq_iff)
next
  case (9 n s oid s')
  then show ?case using adapter_save_outcome_ok [of n s oid s'] by simp
next
  case (10 n s e s')
  then show ?case using save_outcome_err [of n s e s'] by (simp add: view_of_def fun_eq_iff)
next
  case (11 ev s res s')
  then show ?case using save_evaluation_frame [of ev s res s'] by (simp add: view_of_def fun_eq_iff)
qed

text \<open>The service over \<open>MemoryStore\<close>, and the aggregate it sees at a number.\<close>

definition memory_service ::
  "(expected_outcome list \<Rightarrow> string) \<Rightarrow> (string \<Rightarrow> expected_outcome list option) \<Rightarrow> memory_store service_ports" where
  "memory_service enc dec = adapter_ports memory_ops enc dec"

definition ms_view :: "(string \<Rightarrow> expected_outcome list option) \<Rightarrow> memory_store \<Rightarrow> int \<Rightarrow> decision_aggregate option" where
  "ms_view dec s i = view_of ms_row ms_facts dec s i"

definition ms_obs :: "memory_store \<Rightarrow> int \<Rightarrow> observed_outcome list" where
  "ms_obs s i = map from_outcome (ms_facts s i)"

interpretation msvc: decision_service "memory_service enc dec" "ms_view dec" ms_obs for enc dec
  unfolding memory_service_def ms_view_def [abs_def] ms_obs_def [abs_def]
  by (rule ms_adapter.svc.decision_service_axioms)

end
