(* ===== verification/DecisionProps.thy ===== *)
theory DecisionProps
  imports DecisionService
begin

text \<open>
  The properties of the Decision vertical: the service of \<open>application/src/services/decision.rs\<close>
  over the adapter of \<open>infrastructure/src/decision_repository.rs\<close> over \<open>MemoryStore\<close>.  Histories
  are lists of calls from an empty store, failed calls included.
\<close>

section \<open>The memory store under the service\<close>

lemma memory_ops_simps [simp]:
  "op_find memory_ops = find_decision" "op_upsert memory_ops = upsert_decision"
  "op_try_insert memory_ops = try_insert_decision" "op_list_outcomes memory_ops = list_outcomes"
  "op_by_signal memory_ops = decisions_by_signal" "op_list memory_ops = list_decisions"
  "op_next_id memory_ops = ms_next_decision_id" "op_save_outcome memory_ops = save_outcome"
  "op_save_evaluation memory_ops = save_evaluation"
  by (simp_all add: memory_ops_def)

lemma memory_service_simps [simp]:
  "p_save (memory_service enc dec) = repo_save memory_ops enc"
  "p_save_new (memory_service enc dec) = repo_save_new memory_ops enc"
  "p_find (memory_service enc dec) = repo_find memory_ops dec"
  "p_next_id (memory_service enc dec) = ms_next_decision_id"
  "p_save_outcome (memory_service enc dec) = save_outcome"
  "p_save_evaluation (memory_service enc dec) = save_evaluation"
  by (simp_all add: memory_service_def)

lemma ms_find_pure: "repo_find memory_ops dec key s = (r, s') \<Longrightarrow> s' = s"
  by (auto simp: repo_find_def load_outcomes_def  find_decision_def list_outcomes_def io
      split: sum.splits option.splits prod.splits)

lemma ms_find_exact:
  "repo_find memory_ops dec (domain_id i) s = (if in_i64 i then Inr (ms_view dec s i) else Inl (NotFound (domain_id i)), s)"
proof -
  have key: "d_id r = i" if "List.find (\<lambda>d. d_id d = i) (decisions s) = Some r" for r
    using find_Some_in [OF that] by simp
  show ?thesis
    by (auto simp: repo_find_def load_outcomes_def  find_decision_def list_outcomes_def io
        domain_id_eq d1_id_def check_i64_def ms_view_def view_of_def ms_row_def ms_facts_def
        split: option.splits dest: key)
qed

lemma ms_load_exact:
  "svc_load (memory_service enc dec) (domain_id i) s =
     ((if in_i64 i then case ms_view dec s i of None \<Rightarrow> Inl (NotFound (domain_id i)) | Some d \<Rightarrow> Inr d
       else Inl (NotFound (domain_id i))), s)"
  by (auto simp: svc_load_def  io_bind_def ms_find_exact io_err_def io_ret_def split: option.splits)

lemma ms_save_exact:
  assumes "agg_id d = decision_id_new i" "in_i64 i"
  shows "\<exists>s'. repo_save memory_ops enc d s = (Inr (), s') \<and> next_decision_id s' = next_decision_id s"
  using assms
  by (auto simp: repo_save_def into_row_def d1_id_def check_i64_def  upsert_decision_def io
      split: option.splits)

lemma ms_save_counter: "repo_save memory_ops enc d s = (r, s') \<Longrightarrow> next_decision_id s' = next_decision_id s"
  by (cases "into_row enc d")
    (auto simp: repo_save_def  upsert_decision_def io split: option.splits)

definition ids_below :: "memory_store \<Rightarrow> bool" where
  "ids_below s \<longleftrightarrow> 1 \<le> next_decision_id s \<and> (\<forall>d \<in> set (decisions s). d_id d < next_decision_id s)"

lemma ids_below_fresh: "ids_below s \<Longrightarrow> ms_row s (next_decision_id s) = None"
  by (auto simp: ids_below_def ms_row_def find_None_iff_all)

lemma ms_save_below:
  assumes "ids_below s" "repo_save memory_ops enc d s = (r, s')" "agg_id d = decision_id_new i" "ms_row s i \<noteq> None"
  shows "ids_below s'"
proof (cases "into_row enc d")
  case (Inl e)
  with assms show ?thesis by (simp add: repo_save_def io)
next
  case (Inr row)
  then have i: "d_id row = i" using assms(3) by (rule into_row_canonical)
  have keep: "d_id x < n" if "x \<in> set (update_first (\<lambda>r. d_id r = d_id row) (refresh_row row) ds)"
    "\<forall>y \<in> set ds. d_id y < n" for x n and ds :: "decision_row list"
    using that set_update_first [of "\<lambda>r. d_id r = d_id row" "refresh_row row" ds] by fastforce
  from Inr assms(1,2,4) i keep show ?thesis
    by (auto simp: repo_save_def io  upsert_decision_def ms_row_def ids_below_def)
qed

lemma ms_create_exact:
  assumes "ids_below s" "pd_title cmd \<noteq> []" "in_range (Fin 0) (Fin 1) (pd_confidence cmd)"
    "in_i64 (next_decision_id s)"
  shows "\<exists>c s'. svc_create (memory_service enc dec) clk cmd s = (Inr c, s') \<and>
    cd_decision_id c = next_decision_id s \<and> ids_below s'"
proof -
  let ?i = "next_decision_id s"
  from assms(2,3) have "\<nexists>e. create_walk clk cmd ?i = Inl e" by (simp add: create_walk_err_iff)
  then obtain a where a: "create_walk clk cmd ?i = Inr a" by (cases "create_walk clk cmd ?i") auto
  let ?s1 = "s\<lparr>next_decision_id := ?i + 1\<rparr>"
  have id: "agg_id a = decision_id_new ?i" using create_walk_ok(1) [OF a] .
  then obtain row where row: "into_row enc a = Inr row" "d_id row = ?i"
    using assms(4) by (auto simp: into_row_def d1_id_def check_i64_def)
  have "try_insert_decision row ?s1 = (Inr True, ?s1\<lparr>decisions := decisions s @ [row]\<rparr>)"
    using assms(1) row(2) by (auto simp: try_insert_decision_def ids_below_def list_ex_iff)
  with row(1) have ins: "repo_save_new memory_ops enc a ?s1 = (Inr True, ?s1\<lparr>decisions := decisions s @ [row]\<rparr>)"
    by (simp add: repo_save_new_def  io)
  have "ids_below (?s1\<lparr>decisions := decisions s @ [row]\<rparr>)"
    using assms(1) row(2) by (auto simp: ids_below_def)
  moreover have "svc_create (memory_service enc dec) clk cmd s =
      (Inr \<lparr>cd_decision_id = ?i, cd_aggregate = a\<lparr>events := []\<rparr>, cd_events = events a\<rparr>,
       ?s1\<lparr>decisions := decisions s @ [row]\<rparr>)"
    using a ins by (simp add: svc_create_def create_retries_def numeral_eq_Suc 
         ms_next_decision_id_def io drain_events_def)
  ultimately show ?thesis by simp
qed

lemma ms_create_invalid:
  assumes "create_walk clk cmd (next_decision_id s) = Inl e"
  shows "svc_create (memory_service enc dec) clk cmd s = (Inl e, s\<lparr>next_decision_id := next_decision_id s + 1\<rparr>)"
  using assms by (simp add: svc_create_def create_retries_def numeral_eq_Suc 
         ms_next_decision_id_def io)

lemma ms_row_lift: "ms_view dec s i = Some d \<Longrightarrow> ms_row s i \<noteq> None"
  by (auto simp: ms_view_def view_of_def)

lemma ms_save_new_below:
  assumes "ids_below s" "repo_save_new memory_ops enc a s = (r, s')" "agg_id a = decision_id_new i"
    "i < next_decision_id s"
  shows "ids_below s'"
proof (cases "into_row enc a")
  case (Inl e)
  with assms show ?thesis by (simp add: repo_save_new_def io)
next
  case (Inr row)
  then have "d_id row = i" using assms(3) by (rule into_row_canonical)
  with Inr assms show ?thesis
    by (auto simp: repo_save_new_def  try_insert_decision_def ids_below_def io split: if_splits)
qed

lemma create_loop_below:
  "ids_below s \<Longrightarrow> create_loop (memory_service enc dec) n clk cmd s = (r, s') \<Longrightarrow> ids_below s'"
proof (induction n arbitrary: clk s)
  case (Suc n)
  let ?i = "next_decision_id s" and ?s1 = "s\<lparr>next_decision_id := next_decision_id s + 1\<rparr>"
  have s1: "ids_below ?s1" using Suc.prems(1) by (fastforce simp: ids_below_def)
  show ?case
  proof (cases "create_walk clk cmd ?i")
    case (Inl e)
    with Suc.prems(2) s1 show ?thesis
      by (simp add:   ms_next_decision_id_def io)
  next
    case (Inr a)
    obtain q s2 where sv: "repo_save_new memory_ops enc a ?s1 = (q, s2)" by fastforce
    have "ids_below s2"
      using ms_save_new_below [OF s1 sv create_walk_ok(1) [OF Inr]] by simp
    with Suc.IH [of s2 "\<lambda>k. clk (k + 3)"] Suc.prems(2) Inr sv show ?thesis
      by (auto simp: ms_next_decision_id_def
          io drain_events_def split: sum.splits if_splits)
  qed
qed simp

lemma transition_below:
  assumes "ids_below s" "svc_transition (memory_service enc dec) clk i cmd s = (r, s')"
  shows "ids_below s'"
proof (cases "in_i64 i \<and> ms_view dec s i \<noteq> None")
  case True
  then obtain d where i: "in_i64 i" and d: "ms_view dec s i = Some d" by blast
  have agg: "agg_id d = decision_id_new i" using msvc.repo.view_obs [OF d] by simp
  show ?thesis
  proof (cases "status d = lc_target cmd \<or> (\<exists>e a. lc_apply clk (domain_id i) cmd d = (Inl e, a))")
    case True
    with assms i d show ?thesis
      by (auto simp: svc_transition_def io_bind_def ms_load_exact io_ret_def io_err_def split: if_splits)
  next
    case False
    then obtain d' where ap: "lc_apply clk (domain_id i) cmd d = (Inr (), d')"
      by (cases "lc_apply clk (domain_id i) cmd d"; cases "fst (lc_apply clk (domain_id i) cmd d)") auto
    obtain q s2 where sv: "repo_save memory_ops enc d' s = (q, s2)" by fastforce
    have "ids_below s2"
      using ms_save_below [OF assms(1) sv, of i] lc_apply_ok(3) [OF ap] agg ms_row_lift [OF d] by simp
    with False i d ap sv assms(2) show ?thesis
      by (auto simp: svc_transition_def io_bind_def ms_load_exact io_ret_def 
          drain_events_def split: sum.splits)
  qed
next
  case False
  with assms show ?thesis
    by (auto simp: svc_transition_def io_bind_def ms_load_exact split: if_splits option.splits)
qed

lemma ms_save_outcome_frame:
  assumes "save_outcome n s = (r, s')"
  shows "decisions s' = decisions s" "next_decision_id s' = next_decision_id s" "ids_below s' = ids_below s"
    "ms_row s' = ms_row s"
  using assms by (auto simp: save_outcome_def Let_def ids_below_def ms_row_def)

lemma record_outcome_below:
  assumes "ids_below s" "svc_record_outcome (memory_service enc dec) clk n s = (r, s')"
  shows "ids_below s'"
proof (cases "in_i64 (no_decision_id n) \<and> ms_view dec s (no_decision_id n) \<noteq> None")
  case True
  let ?i = "no_decision_id n"
  from True obtain d where i: "in_i64 ?i" and d: "ms_view dec s ?i = Some d" by blast
  have agg: "agg_id d = decision_id_new ?i" using msvc.repo.view_obs [OF d] by simp
  obtain oid s1 where so: "save_outcome n s = (Inr oid, s1)" by (simp add: save_outcome_def Let_def)
  have s1: "ids_below s1" "ms_row s1 ?i \<noteq> None"
    using ms_save_outcome_frame [OF so] assms(1) ms_row_lift [OF d] by simp_all
  show ?thesis
  proof (cases "status d = Executing")
    case False
    with i d so s1 assms(2) show ?thesis
      by (auto simp: svc_record_outcome_def Let_def io_bind_def ms_load_exact io_map_err_def )
  next
    case True
    obtain d' where d': "complete (clk 2) (attach_outcome (clk 1)
          \<lparr>ro_decision_id = domain_id ?i, ro_outcome = observed_outcome_of (clk 0) n\<rparr> d) = (Inr (), d')"
        "agg_id d' = agg_id d" using record_outcome_completes [OF True] by blast
    obtain q s2 where sv: "repo_save memory_ops enc d' s1 = (q, s2)" by fastforce
    have "ids_below s2" using ms_save_below [OF s1(1) sv, of ?i] d'(2) agg s1(2) by simp
    with True i d so d'(1) sv assms(2) show ?thesis
      by (auto simp: svc_record_outcome_def Let_def io_bind_def ms_load_exact io_map_err_def
           drain_events_def split: sum.splits)
  qed
next
  case False
  with assms show ?thesis
    by (auto simp: svc_record_outcome_def Let_def io_bind_def ms_load_exact split: if_splits option.splits)
qed

lemma exec_below: "ids_below s \<Longrightarrow> ids_below (svc_exec (memory_service enc dec) c s)"
proof (cases c)
  case (CallCreate clk cmd)
  then show "ids_below s \<Longrightarrow> ?thesis"
    using create_loop_below [of s enc dec create_retries clk cmd] by (simp add: svc_create_def) (metis prod.collapse)
next
  case (CallTransition clk i cmd)
  then show "ids_below s \<Longrightarrow> ?thesis"
    using transition_below [of s enc dec clk i cmd] by simp (metis prod.collapse)
next
  case (CallRecordOutcome clk n)
  then show "ids_below s \<Longrightarrow> ?thesis"
    using record_outcome_below [of s enc dec clk n] by simp (metis prod.collapse)
next
  case (CallRecordEvaluation ev)
  then show "ids_below s \<Longrightarrow> ?thesis"
    by (fastforce simp: svc_record_evaluation_def  save_evaluation_def Let_def io ids_below_def)
qed

lemma run_below: "ids_below s \<Longrightarrow> ids_below (svc_run (memory_service enc dec) calls s)"
  by (induction calls arbitrary: s) (simp_all add: svc_run_def exec_below)

lemma new_store_facts [simp]:
  "ids_below memory_store_new" "rows_ok (ms_view dec memory_store_new)"
  by (simp_all add: ids_below_def memory_store_new_def rows_ok_def ms_view_def view_of_def ms_row_def)

section \<open>Properties\<close>

text \<open>
  C1: whatever calls the Decision service receives, successful or failed, every decision it has
  stored keeps a non-empty title and a confidence in [0, 1], a completed decision has at least one
  outcome fact, and every stored id is below the id counter.
\<close>

theorem service_history_ok:
  "rows_ok (ms_view dec (svc_run (memory_service enc dec) calls memory_store_new)) \<and>
   ids_below (svc_run (memory_service enc dec) calls memory_store_new)"
  using msvc.run_ok(1) [of dec memory_store_new enc calls] run_below [of memory_store_new enc dec calls] by simp

text \<open>
  C7: no later calls remove a stored decision, change its title, confidence or creation time, or
  move its status other than along edges of the lifecycle graph.
\<close>

theorem service_history_monotone:
  "advances (ms_view dec (svc_run (memory_service enc dec) calls memory_store_new))
     (ms_view dec (svc_run (memory_service enc dec) (calls @ later) memory_store_new))"
  using msvc.run_ok(2) [of dec _ enc later] by (simp add: svc_run_def)

text \<open>
  A create that returns a decision has stored it under an id no decision had, at status
  Executing, has changed no other decision and no outcome fact, and hands out exactly the events
  of the walk propose, approve, execute.
\<close>

theorem create_fresh:
  assumes "svc_create (memory_service enc dec) clk cmd s = (Inr c, s')"
  shows "ms_view dec s (cd_decision_id c) = None \<and>
    (\<exists>d. ms_view dec s' = (ms_view dec s)(cd_decision_id c \<mapsto> d) \<and> status d = Executing \<and>
       title d = pd_title cmd \<and> confidence d = pd_confidence cmd) \<and>
    ms_obs s' = ms_obs s \<and>
    cd_events c = [EvProposed (domain_id (cd_decision_id c)) (pd_title cmd) (pd_confidence cmd) (pd_decision_type cmd),
       EvApproved (domain_id (cd_decision_id c)) ''system'',
       EvStatusChanged (domain_id (cd_decision_id c)) Approved Executing]"
proof -
  note k = msvc.create_ok [OF assms [unfolded svc_create_def]]
  from k(3) obtain d where "ms_view dec s' = (ms_view dec s)(cd_decision_id c \<mapsto> d)"
    "same_state (cd_aggregate c) d" by blast
  with k(1,2,5-9) show ?thesis by (auto simp: same_state_def simp del: fun_upd_apply)
qed

definition sample_proposal :: propose_decision where
  "sample_proposal =
     \<lparr>pd_id = 0, pd_title = ''Verify the hypothesis'', pd_hypothesis = None, pd_confidence = Fin (4/5),
      pd_rationale = None, pd_decision_type = ''experiment'', pd_priority = ''high'',
      pd_signal_thread_id = Some 42, pd_actor_id = None, pd_expected_outcomes = []\<rparr>"

lemma sample_proposal_valid:
  "pd_title sample_proposal \<noteq> []" "in_range (Fin 0) (Fin 1) (pd_confidence sample_proposal)"
  "in_i64 (next_decision_id memory_store_new)"
  by (simp_all add: sample_proposal_def in_range_def in_i64_def i64_min_def i64_max_def memory_store_new_def)

theorem create_fresh_witness:
  "\<exists>c s'. svc_create (memory_service (\<lambda>_. []) (\<lambda>_. Some [])) (\<lambda>_. 7) sample_proposal memory_store_new = (Inr c, s')
     \<and> ms_view (\<lambda>_. Some []) memory_store_new (cd_decision_id c) = None
     \<and> length (cd_events c) = 3"
proof -
  obtain c s' where c: "svc_create (memory_service (\<lambda>_. []) (\<lambda>_. Some [])) (\<lambda>_. 7) sample_proposal memory_store_new = (Inr c, s')"
    using ms_create_exact [OF _ sample_proposal_valid] new_store_facts(1) by blast
  from create_fresh [OF c] c show ?thesis by auto
qed

text \<open>
  After any history, a create with a non-empty title and a confidence in [0, 1] succeeds at
  its first attempt, with the id the counter holds, while the counter is an \<open>i64\<close>.
\<close>

theorem create_succeeds:
  assumes "s = svc_run (memory_service enc dec) calls memory_store_new"
    and "pd_title cmd \<noteq> []" "in_range (Fin 0) (Fin 1) (pd_confidence cmd)"
    and "in_i64 (next_decision_id s)"
  shows "\<exists>c s'. svc_create (memory_service enc dec) clk cmd s = (Inr c, s') \<and>
    cd_decision_id c = next_decision_id s"
  using ms_create_exact [OF _ assms(2-4), of enc dec clk] run_below [OF new_store_facts(1)] assms(1) by blast

theorem create_succeeds_witness:
  "\<exists>c s'. svc_create (memory_service (\<lambda>_. []) (\<lambda>_. Some [])) (\<lambda>_. 7) sample_proposal memory_store_new = (Inr c, s')
     \<and> cd_decision_id c = 1"
  using create_succeeds [of memory_store_new "\<lambda>_. []" "\<lambda>_. Some []" "[]", OF _ sample_proposal_valid]
  by (simp add: svc_run_def memory_store_new_def)

text \<open>
  C4: the status endpoint on a stored decision.  At the target already, it is a success that
  writes nothing; an edge outside the lifecycle graph, or completion without an observed outcome,
  is the matching error and writes nothing; otherwise the row moves to the target status, and no
  other row and no fact changes.
\<close>

theorem transition_exact:
  assumes "ms_view dec s i = Some d" "in_i64 i"
  shows
    "if status d = lc_target cmd
     then svc_transition (memory_service enc dec) clk i cmd s =
       (Inr \<lparr>lt_decision_id = i, lt_aggregate = d, lt_events = [], lt_transitioned = False\<rparr>, s)
     else if cmd = LcComplete \<and> ms_obs s i = []
     then svc_transition (memory_service enc dec) clk i cmd s = (Inl MissingOutcome, s)
     else if \<not> can_transition_to (status d) (lc_target cmd)
     then svc_transition (memory_service enc dec) clk i cmd s =
       (Inl (InvalidTransition (status d) (lc_target cmd)), s)
     else \<exists>r s' d'. svc_transition (memory_service enc dec) clk i cmd s = (Inr r, s') \<and>
       lt_transitioned r \<and> ms_view dec s' = (ms_view dec s)(i \<mapsto> d') \<and> status d' = lc_target cmd \<and>
       created_at d' = created_at d \<and> updated_at d' = clk \<and> ms_obs s' = ms_obs s"
proof -
  have obs: "observed_outcomes d = ms_obs s i" and agg: "agg_id d = decision_id_new i"
    using msvc.repo.view_obs [OF assms(1)] by simp_all
  have load: "svc_load (memory_service enc dec) (domain_id i) s = (Inr d, s)"
    by (simp add: ms_load_exact assms)
  show ?thesis
  proof (cases "status d \<noteq> lc_target cmd \<and> can_transition_to (status d) (lc_target cmd) \<and>
      (cmd = LcComplete \<longrightarrow> ms_obs s i \<noteq> [])")
    case True
    then obtain d' where ap: "lc_apply clk (domain_id i) cmd d = (Inr (), d')"
      using lc_apply_iff [of clk "domain_id i" cmd d] obs by auto
    have "agg_id d' = decision_id_new i" using lc_apply_ok(3) [OF ap] agg by simp
    from ms_save_exact [OF this assms(2), of enc s]
    obtain s' where sv: "repo_save memory_ops enc d' s = (Inr (), s')" by blast
    let ?r = "\<lparr>lt_decision_id = i, lt_aggregate = d'\<lparr>events := []\<rparr>, lt_events = events d', lt_transitioned = True\<rparr>"
    have ok: "svc_transition (memory_service enc dec) clk i cmd s = (Inr ?r, s')"
      using True ap sv by (simp add: svc_transition_def io_bind_def load io_ret_def drain_events_def)
    then show ?thesis
    proof (cases rule: msvc.transition_ok)
      case (2 d1 d1' ev)
      with True ok assms(1) show ?thesis by (auto simp del: fun_upd_apply)
    qed simp
  next
    case False
    with obs show ?thesis
      by (cases cmd) (auto simp: svc_transition_def io_bind_def load io_ret_def io_err_def agg_methods)
  qed
qed

text \<open>
  C6: recording an outcome of a stored decision always stores the fact, completes the decision
  exactly when it was Executing, and leaves the lifecycle of every other decision alone.
\<close>

theorem record_outcome_exact:
  assumes "ms_view dec s (no_decision_id n) = Some d" "in_i64 (no_decision_id n)"
  shows "\<exists>r s' oc d'. svc_record_outcome (memory_service enc dec) clk n s = (Inr r, s') \<and>
    or_completed r = (status d = Executing) \<and>
    oo_metric oc = no_outcome_type n \<and> oo_actual_value oc = no_observation n \<and>
    ms_obs s' = (ms_obs s)(no_decision_id n := ms_obs s (no_decision_id n) @ [oc]) \<and>
    ms_view dec s' (no_decision_id n) = Some d' \<and>
    status d' = (if status d = Executing then Completed else status d) \<and>
    (\<forall>j. j \<noteq> no_decision_id n \<longrightarrow> map_option status (ms_view dec s' j) = map_option status (ms_view dec s j))"
proof -
  let ?i = "no_decision_id n"
  have agg: "agg_id d = decision_id_new ?i" using msvc.repo.view_obs [OF assms(1)] by simp
  have load: "svc_load (memory_service enc dec) (domain_id ?i) s = (Inr d, s)"
    by (simp add: ms_load_exact assms)
  obtain oid s1 where so: "save_outcome n s = (Inr oid, s1)" by (simp add: save_outcome_def Let_def)
  obtain r s' where run: "svc_record_outcome (memory_service enc dec) clk n s = (Inr r, s')"
  proof (cases "status d = Executing")
    case True
    obtain d' where d': "complete (clk 2) (attach_outcome (clk 1)
          \<lparr>ro_decision_id = domain_id ?i, ro_outcome = observed_outcome_of (clk 0) n\<rparr> d) = (Inr (), d')"
        "agg_id d' = agg_id d" using record_outcome_completes [OF True] by blast
    then obtain s2 where "repo_save memory_ops enc d' s1 = (Inr (), s2)"
      using ms_save_exact [of d' ?i enc s1] agg assms(2) by auto
    with True d' so load show thesis
      by (intro that) (simp add: svc_record_outcome_def Let_def io_bind_def io_map_err_def io_ret_def drain_events_def)
  next
    case False
    with so load show thesis
      by (intro that) (simp add: svc_record_outcome_def Let_def io_bind_def io_map_err_def io_ret_def)
  qed
  from run show ?thesis
  proof (cases rule: msvc.record_outcome_ok)
    case (1 d0 oc)
    then obtain d' where "ms_view dec s' ?i = Some d'"
      "status d' = (if status d0 = Executing then Completed else status d0)" by blast
    moreover have "map_option status (ms_view dec s' j) = map_option status (ms_view dec s j)" if "j \<noteq> ?i" for j
      using 1(7) that by (simp add: option.map_comp comp_def)
    ultimately show ?thesis using 1(1-5) run assms(1) by (metis option.inject)
  qed
qed

definition sample_row :: decision_row where
  "sample_row =
     \<lparr>d_id = 1, d_signal_thread_id = Some 42, d_actor_id = None, d_decision_type = ''experiment'',
      d_title = ''Verify'', d_hypothesis = None, d_rationale = None, d_confidence = Fin (4/5),
      d_status = ''active'', d_priority = ''high'', d_expected_outcomes = None,
      d_created_at = 5, d_updated_at = 5\<rparr>"

definition sample_store :: memory_store where
  "sample_store = memory_store_new\<lparr>decisions := [sample_row], next_decision_id := 2\<rparr>"

definition sample_outcome :: new_outcome_event where
  "sample_outcome =
     \<lparr>no_decision_id = 1, no_outcome_type = ''accuracy'', no_observation = ''0.93'',
      no_evidence_url = None, no_observed_at = None\<rparr>"

lemma sample_view:
  "ms_view (\<lambda>_. Some []) sample_store 1 = Some (from_store (\<lambda>_. Some []) sample_row [])"
  "ms_view (\<lambda>_. Some []) sample_store 2 = None"
  "ms_obs sample_store 1 = []" "in_i64 1" "in_i64 2"
  "status (from_store (\<lambda>_. Some []) sample_row []) = Executing"
  by (simp_all add: ms_view_def view_of_def ms_row_def ms_facts_def sample_store_def sample_row_def
      memory_store_new_def ms_obs_def in_i64_def i64_min_def i64_max_def from_store_def reconstruct_def
      status_from_d1_def)

theorem transition_exact_witness:
  "svc_transition (memory_service (\<lambda>_. []) (\<lambda>_. Some [])) 9 1 LcComplete sample_store = (Inl MissingOutcome, sample_store)
   \<and> (\<exists>r s'. svc_transition (memory_service (\<lambda>_. []) (\<lambda>_. Some [])) 9 1 (LcInvalidate ''x'') sample_store = (Inr r, s')
        \<and> lt_transitioned r)"
  using transition_exact [OF sample_view(1,4), of LcComplete "\<lambda>_. []" 9]
    transition_exact [OF sample_view(1,4), of "LcInvalidate ''x''" "\<lambda>_. []" 9]
  by (auto simp: sample_view)

theorem record_outcome_exact_witness:
  "\<exists>r s'. svc_record_outcome (memory_service (\<lambda>_. []) (\<lambda>_. Some [])) (\<lambda>_. 9) sample_outcome sample_store = (Inr r, s')
     \<and> or_completed r"
  using record_outcome_exact [of "\<lambda>_. Some []" sample_store sample_outcome
      "from_store (\<lambda>_. Some []) sample_row []" "\<lambda>_. []" "\<lambda>_. 9"]
  by (auto simp: sample_view sample_outcome_def)

text \<open>
  For a number without a stored decision, or one that is not an \<open>i64\<close>, the status endpoint
  and the outcome endpoint answer \<open>NotFound\<close> and write nothing, not even the outcome fact.
\<close>

theorem absent_decision_rejected:
  assumes "ms_view dec s i = None \<or> \<not> in_i64 i" "no_decision_id n = i"
  shows "svc_transition (memory_service enc dec) clk i cmd s = (Inl (NotFound (domain_id i)), s) \<and>
    svc_record_outcome (memory_service enc dec) clks n s = (Inl (NotFound (domain_id i)), s)"
  using assms
  by (auto simp: svc_transition_def svc_record_outcome_def Let_def io_bind_def ms_load_exact)

theorem absent_decision_rejected_witness:
  "svc_transition (memory_service (\<lambda>_. []) (\<lambda>_. Some [])) 9 2 LcExecute sample_store
     = (Inl (NotFound (domain_id 2)), sample_store)"
  using absent_decision_rejected [of "\<lambda>_. Some []" sample_store 2 "sample_outcome\<lparr>no_decision_id := 2\<rparr>"]
  by (simp add: sample_view)

text \<open>
  C14: what the adapter saves, \<open>find\<close> gives back: every field of the aggregate survives the row,
  except that the creation time is the first save's, the observed outcomes are the stored facts
  and there are no pending events.  The codec of the outcomes column is \<open>serde_json\<close>'s; the
  hypothesis on it is its round trip.
\<close>

theorem save_find_roundtrip:
  assumes "repo_save memory_ops enc a s = (Inr (), s')" "agg_id a = decision_id_new i"
    and "dec (enc (expected_outcomes a)) = Some (expected_outcomes a)"
  shows "repo_find memory_ops dec (did (agg_id a)) s' =
    (Inr (Some (a\<lparr>observed_outcomes := ms_obs s i, events := [],
       created_at := (case ms_row s i of None \<Rightarrow> created_at a | Some r \<Rightarrow> d_created_at r)\<rparr>)), s')"
proof -
  from assms(1) obtain row where r: "into_row enc a = Inr row" and up: "upsert_decision row s = (Inr (), s')"
    by (auto simp: repo_save_def io_bind_Inr_iff)
  note c = into_row_canonical [OF r assms(2)]
  have v: "ms_view dec s' i = Some (from_store dec (upserted row (ms_row s i)) (ms_obs s i))"
    using ms_upsert [OF up] c(2) by (simp add: ms_view_def view_of_def ms_obs_def)
  have key: "d_id r = i" if "ms_row s i = Some r" for r using that by (rule ms_store.rows_key)
  from r assms(2,3) key have "from_store dec (upserted row (ms_row s i)) (ms_obs s i) =
      a\<lparr>observed_outcomes := ms_obs s i, events := [],
        created_at := (case ms_row s i of None \<Rightarrow> created_at a | Some r \<Rightarrow> d_created_at r)\<rparr>"
    by (auto simp: into_row_def d1_id_def check_i64_def upserted_def from_store_def reconstruct_def
        refresh_row_def decode_expected_outcomes_def split: option.splits if_splits)
  with v show ?thesis
    using ms_find_exact [of dec i s'] c(1) by (simp add: assms(2) domain_id_eq)
qed

definition sample_aggregate :: decision_aggregate where
  "sample_aggregate = from_store (\<lambda>_. Some []) sample_row []"

theorem save_find_roundtrip_witness:
  "\<exists>s'. repo_find memory_ops (\<lambda>_. Some []) (did (decision_id_new 1)) s' =
     (Inr (Some (sample_aggregate\<lparr>observed_outcomes := [], events := [], created_at := 5\<rparr>)), s')"
proof -
  have agg: "agg_id sample_aggregate = decision_id_new 1"
    by (simp add: sample_aggregate_def from_store_def reconstruct_def sample_row_def)
  obtain s' where s': "repo_save memory_ops (\<lambda>_. []) sample_aggregate sample_store = (Inr (), s')"
    using ms_save_exact [OF agg sample_view(4)] by blast
  have exp: "expected_outcomes sample_aggregate = []"
    by (simp add: sample_aggregate_def sample_row_def decode_expected_outcomes_def)
  have "ms_row sample_store 1 = Some sample_row" "d_created_at sample_row = 5"
    by (simp_all add: ms_row_def sample_store_def sample_row_def)
  with save_find_roundtrip [OF s' agg, of "\<lambda>_. Some []"] agg exp show ?thesis
    by (auto simp: sample_view)
qed

text \<open>
  C15: a proposed aggregate under any sequence of its methods keeps the aggregate's invariants, its
  status only follows edges of the lifecycle graph, and the events drained along the way, replayed
  in order, give exactly its status.
\<close>

theorem aggregate_history:
  assumes "propose cmd now = Inr a"
  shows "agg_inv (agg_run cs a) \<and> can_transition_to\<^sup>*\<^sup>* Proposed (status (agg_run cs a)) \<and>
    replay (agg_trail cs a) Draft = status (agg_run cs a)"
proof -
  from assms have "replay (events a) Draft = status a" "status a = Proposed"
    by (auto simp: propose_def split: if_splits)
  with propose_inv [OF assms] agg_run_inv agg_run_status [of a cs] replay_trail show ?thesis by metis
qed

theorem aggregate_history_witness:
  "\<exists>a. propose sample_proposal 7 = Inr a \<and> agg_inv (agg_run [(1, Complete), (2, Drain)] a)"
proof -
  obtain a where "propose sample_proposal 7 = Inr a"
    using sample_proposal_valid by (simp add: propose_def)
  with aggregate_history [OF this] show ?thesis by blast
qed

text \<open>
  The number of a decision's row is recovered from its domain id exactly when it is an
  \<open>i64\<close>; so distinct rows have distinct domain ids.
\<close>

theorem decision_id_roundtrip:
  "parse_decision_id (did (decision_id_new n)) = (if in_i64 n then Some n else None)"
  by (simp add: check_i64_def)

section \<open>The lifecycle comes to an end\<close>

text \<open>How often the status of decision \<open>i\<close> is another after a call than before it.\<close>

fun status_changes ::
  "(expected_outcome list \<Rightarrow> string) \<Rightarrow> (string \<Rightarrow> expected_outcome list option) \<Rightarrow> int \<Rightarrow> svc_call list \<Rightarrow> memory_store \<Rightarrow> nat" where
  "status_changes enc dec i [] s = 0"
| "status_changes enc dec i (c # cs) s =
     (let s' = svc_exec (memory_service enc dec) c s in
      (if map_option status (ms_view dec s' i) \<noteq> map_option status (ms_view dec s i) then 1 else 0) +
      status_changes enc dec i cs s')"

lemma status_rank_le: "status_rank t \<le> 4"
  by (cases t) simp_all

lemma can_transition_strict: "can_transition_to\<^sup>*\<^sup>* s t \<Longrightarrow> s \<noteq> t \<Longrightarrow> status_rank s < status_rank t"
  by (metis can_transition_rank can_transition_rtrancl_rank converse_rtranclpE le_trans not_le)

text \<open>
  C5: the lifecycle of a stored decision ends: over any service calls whatever its status changes at
  most as often as there are ranks above it, four times for a draft, once for an executing decision,
  never for a completed or invalidated one, so from some call on it stays.
\<close>

theorem lifecycle_terminates:
  assumes "ms_view dec s i = Some d"
  shows "status_changes enc dec i calls s \<le> 4 - status_rank (status d)"
  using assms
proof (induction calls arbitrary: s d)
  case (Cons c cs)
  let ?s = "svc_exec (memory_service enc dec) c s"
  from msvc.exec_step(2) [of dec s enc c] Cons.prems
  obtain d' where d': "ms_view dec ?s i = Some d'" "can_transition_to\<^sup>*\<^sup>* (status d) (status d')"
    unfolding advances_def by blast
  from Cons.IH [OF d'(1)] have ih: "status_changes enc dec i cs ?s \<le> 4 - status_rank (status d')" .
  show ?case
  proof (cases "status d' = status d")
    case True
    with ih d'(1) Cons.prems show ?thesis by simp
  next
    case False
    with can_transition_strict [OF d'(2)] status_rank_le [of "status d'"] ih d'(1) Cons.prems show ?thesis by simp
  qed
qed simp


theorem lifecycle_terminates_witness:
  "status_changes (\<lambda>_. []) (\<lambda>_. Some []) 1
     [CallTransition 9 1 (LcInvalidate ''x''), CallTransition 9 1 LcApprove] sample_store \<le> 1"
  using lifecycle_terminates [OF sample_view(1), of "\<lambda>_. []"
      "[CallTransition 9 1 (LcInvalidate ''x''), CallTransition 9 1 LcApprove]"]
  by (simp add: sample_view)

end
