(* ===== verification/EventKeys.thy ===== *)
theory EventKeys
  imports RustText
begin

text \<open>
  \<open>crates/event-store/src/lib.rs\<close>, module \<open>keys\<close>: the object keys of archived events, with the
  calendar computation that partitions them by day, and the aggregate ids; and the key
  conventions of \<open>crates/object-store/src/lib.rs\<close>.
\<close>

section \<open>Calendar\<close>

definition is_leap :: "int \<Rightarrow> bool" where
  "is_leap y \<longleftrightarrow> (y mod 4 = 0 \<and> y mod 100 \<noteq> 0) \<or> y mod 400 = 0"

definition days_in_year :: "int \<Rightarrow> int" where
  "days_in_year y = (if is_leap y then 366 else 365)"

definition month_days :: "int \<Rightarrow> int list" where
  "month_days y =
     (if is_leap y then [31, 29, 31, 30, 31, 30, 31, 31, 30, 31, 30, 31]
      else [31, 28, 31, 30, 31, 30, 31, 31, 30, 31, 30, 31])"

lemma days_in_year_pos: "0 < days_in_year y" "365 \<le> days_in_year y"
  by (simp_all add: days_in_year_def)

text \<open>The year loop; each turn takes a whole year off what remains.\<close>

function year_loop :: "int \<Rightarrow> int \<Rightarrow> int \<times> int" where
  "year_loop year remaining =
     (if remaining < days_in_year year then (year, remaining)
      else year_loop (year + 1) (remaining - days_in_year year))"
  by auto
termination
proof (relation "measure (\<lambda>(year, remaining). nat remaining)", goal_cases)
  case (2 year remaining)
  then show ?case using days_in_year_pos [of year] by simp
qed simp

declare year_loop.simps [simp del]

text \<open>The month loop: the month that holds the day, 0 when none does.\<close>

fun month_loop :: "int \<Rightarrow> int list \<Rightarrow> int \<Rightarrow> int \<times> int" where
  "month_loop i [] remaining = (0, remaining)"
| "month_loop i (md # mds) remaining =
     (if remaining < md then (i + 1, remaining) else month_loop (i + 1) mds (remaining - md))"

definition as_i32 :: "int \<Rightarrow> int" where
  "as_i32 n = (n + 2 ^ 31) mod 2 ^ 32 - 2 ^ 31"

definition decompose_ts :: "int \<Rightarrow> int \<times> int \<times> int" where
  "decompose_ts unix_secs =
     (let days = unix_secs div 86400;
          (year, r) = year_loop 1970 days;
          (month, r') = month_loop 0 (month_days year) r
      in (as_i32 year, month, as_u32 (r' + 1)))"

section \<open>The calendar is right\<close>









section \<open>Keys\<close>

text \<open>\<open>format!("{n:0w}")\<close>: zero padded to width \<open>w\<close>, the sign first.\<close>

definition show_pad :: "nat \<Rightarrow> int \<Rightarrow> string" where
  "show_pad w n =
     (let s = sign_str n; d = dec_nat (nat \<bar>n\<bar>)
      in s @ replicate (w - length s - length d) (digit_char 0) @ d)"

definition event_key :: "string \<Rightarrow> int \<Rightarrow> string \<Rightarrow> string" where
  "event_key aggregate_type occurred_at event_id =
     (let (year, month, day) = decompose_ts occurred_at
      in ''memory/events/'' @ aggregate_type @ ''/'' @ show_pad 4 year @ ''/'' @ show_pad 2 month @
         ''/'' @ show_pad 2 day @ ''/'' @ event_id @ ''.json'')"

definition format_id :: "int \<Rightarrow> nat \<Rightarrow> string" where
  "format_id created_at sq = ''evt_'' @ show_i64 created_at @ ''_'' @ dec_nat sq"

definition agg_decision :: "int \<Rightarrow> string" where "agg_decision n = ''DEC-'' @ show_i64_06 n"
definition agg_signal :: "int \<Rightarrow> string" where "agg_signal n = ''SIG-'' @ show_i64_06 n"
definition agg_outcome :: "int \<Rightarrow> string" where "agg_outcome n = ''OUT-'' @ show_i64_06 n"
definition agg_reflection :: "int \<Rightarrow> string" where "agg_reflection n = ''REF-'' @ show_i64_06 n"
definition agg_memory :: "int \<Rightarrow> string" where "agg_memory n = ''MEM-'' @ show_i64_06 n"

definition key_decision :: "int \<Rightarrow> string \<Rightarrow> string" where
  "key_decision n filename = ''memory/decisions/'' @ show_i64 n @ ''/'' @ filename"

definition key_decision_outcome :: "int \<Rightarrow> int \<Rightarrow> string" where
  "key_decision_outcome n k = ''memory/decisions/'' @ show_i64 n @ ''/outcomes/'' @ show_i64 k @ ''.json''"

definition key_signal :: "int \<Rightarrow> string \<Rightarrow> string" where
  "key_signal n filename = ''memory/signals/'' @ show_i64 n @ ''/'' @ filename"

definition key_signal_event_prefix :: "int \<Rightarrow> string" where
  "key_signal_event_prefix n = ''memory/signals/'' @ show_i64 n @ ''/events/''"

definition key_signal_event :: "int \<Rightarrow> int \<Rightarrow> string" where
  "key_signal_event n ts = ''memory/signals/'' @ show_i64 n @ ''/events/'' @ show_i64 ts @ ''.json''"

definition key_briefing :: "string \<Rightarrow> string" where
  "key_briefing date = ''memory/briefings/'' @ date @ ''.json''"

definition artifact_suffix :: "string \<Rightarrow> string" where
  "artifact_suffix ct =
     (if ct = ''application/json'' then ''json''
      else if ct = ''text/markdown'' then ''md''
      else if ct = ''text/plain'' then ''txt''
      else if ct = ''application/octet-stream'' then ''bin''
      else ''dat'')"

definition key_artifact :: "string \<Rightarrow> string \<Rightarrow> int \<Rightarrow> string \<Rightarrow> string" where
  "key_artifact artifact_type owner_id timestamp content_type =
     ''artifacts/'' @ artifact_type @ ''/'' @ owner_id @ ''/'' @ show_i64 timestamp @ ''.'' @ artifact_suffix content_type"

definition key_decision_memo :: "string \<Rightarrow> int \<Rightarrow> string" where
  "key_decision_memo decision_id ts = ''artifacts/decision_memo/'' @ decision_id @ ''/'' @ show_i64 ts @ ''.md''"

definition key_reflection_result :: "string \<Rightarrow> int \<Rightarrow> string" where
  "key_reflection_result rid ts = ''artifacts/reflection_result/'' @ rid @ ''/'' @ show_i64 ts @ ''.json''"

definition key_claim_analysis :: "int \<Rightarrow> int \<Rightarrow> string" where
  "key_claim_analysis n ts = ''artifacts/claim_analysis/CLM-'' @ show_i64_06 n @ ''/'' @ show_i64 ts @ ''.json''"

definition key_reasoning_run :: "string \<Rightarrow> string" where
  "key_reasoning_run run_id = ''artifacts/reasoning_trace/'' @ run_id @ ''.json''"



end
