(* ===== verification/EventArchive.thy ===== *)
theory EventArchive
  imports EventKeys MemoryStore
begin

text \<open>
  The archive pipeline: the outbox table of \<open>crates/store/src/d1/outbox.rs\<close> and the index of
  \<open>d1/event_archive.rs\<close> as the tables their SQL statements act on, the event envelope and the
  production event store of \<open>crates/event-store\<close>, the blob store of \<open>crates/object-store\<close>, and
  the worker of \<open>crates/worker-entry/src/jobs/archive.rs\<close> that drains the outbox.

  The JSON codec of envelopes is \<open>serde_json\<close> (the functions \<open>enc\<close> and \<open>dec\<close>); the payload of an
  event is a JSON value of any type \<open>'j\<close>.  The worker is generic in the outbox it drains: the
  locale \<open>outbox_store\<close> states what it needs, and both the D1 table and \<open>MemoryStore\<close> provide it.
\<close>

section \<open>Envelopes\<close>

record aggregate_ref =
  ar_aggregate_type :: string
  ar_aggregate_id :: string

record event_metadata =
  em_actor :: string
  em_source :: string

record 'j event_envelope =
  ee_schema_version :: int
  ee_event_id :: string
  ee_event_version :: int
  ee_aggregate :: aggregate_ref
  ee_event_type :: string
  ee_payload :: 'j
  ee_metadata :: event_metadata
  ee_correlation_id :: string
  ee_causation_id :: string
  ee_occurred_at :: int
  ee_created_at :: int

datatype event_store_error = EsStore string | EsSerialisation string

section \<open>Object stores\<close>

datatype object_store_error = R2Err string | ObjNotFound string | EmptyBody string

fun object_store_error_str :: "object_store_error \<Rightarrow> string" where
  "object_store_error_str (R2Err e) = ''r2 error: '' @ e"
| "object_store_error_str (ObjNotFound k) = ''object not found: '' @ k"
| "object_store_error_str (EmptyBody k) = ''empty body for key: '' @ k"

record object_ref =
  obr_key :: string
  obr_size :: nat
  obr_created_at :: int

text \<open>The in-memory \<open>BlobStore\<close>: a hash map from keys to bytes.\<close>

type_synonym blob_store = "(string \<times> string) list"

definition blob_write :: "int \<Rightarrow> string \<Rightarrow> string \<Rightarrow> (blob_store, object_store_error, object_ref) io" where
  "blob_write now key obj b =
     (Inr \<lparr>obr_key = key, obr_size = length obj, obr_created_at = now\<rparr>, map_insert key obj b)"

definition blob_read :: "string \<Rightarrow> (blob_store, object_store_error, string option) io" where
  "blob_read key b = (Inr (map_of b key), b)"

definition blob_delete :: "string \<Rightarrow> (blob_store, object_store_error, unit) io" where
  "blob_delete key b = (Inr (), filter (\<lambda>(k, _). k \<noteq> key) b)"

text \<open>
  The production \<open>R2Store\<close>: the bucket is a map, and \<open>r2_faults\<close> is the schedule of its failures,
  one flag per call, each with its message.
\<close>

record r2_state =
  r2_objects :: blob_store
  r2_faults :: "string option list"

definition r2_call :: "string \<Rightarrow> (r2_state \<Rightarrow> 'a \<times> r2_state) \<Rightarrow> (r2_state, object_store_error, 'a) io" where
  "r2_call msg f b =
     (case r2_faults b of
        Some e # fs \<Rightarrow> (Inl (R2Err (msg @ '': '' @ e)), b\<lparr>r2_faults := fs\<rparr>)
      | None # fs \<Rightarrow> (let (a, b') = f (b\<lparr>r2_faults := fs\<rparr>) in (Inr a, b'))
      | [] \<Rightarrow> (let (a, b') = f b in (Inr a, b')))"

definition r2_write :: "int \<Rightarrow> string \<Rightarrow> string \<Rightarrow> (r2_state, object_store_error, object_ref) io" where
  "r2_write now key obj = r2_call (''r2 put failed for '' @ key) (\<lambda>b.
     (\<lparr>obr_key = key, obr_size = length obj, obr_created_at = now\<rparr>,
      b\<lparr>r2_objects := map_insert key obj (r2_objects b)\<rparr>))"

definition r2_read :: "string \<Rightarrow> (r2_state, object_store_error, string option) io" where
  "r2_read key = r2_call (''r2 get failed for '' @ key) (\<lambda>b. (map_of (r2_objects b) key, b))"

definition r2_delete :: "string \<Rightarrow> (r2_state, object_store_error, unit) io" where
  "r2_delete key = r2_call (''r2 delete failed for '' @ key) (\<lambda>b.
     ((), b\<lparr>r2_objects := filter (\<lambda>(k, _). k \<noteq> key) (r2_objects b)\<rparr>))"

section \<open>The outbox and index tables in D1\<close>

text \<open>
  Every statement may fail; \<open>d1_faults\<close> is the schedule of failures, one flag per statement, and a
  failed statement has changed no table.  \<open>d1_clock\<close> is \<open>unixepoch()\<close>.
\<close>

record d1_tables =
  d1_outbox :: "outbox_entry list"
  d1_next_outbox :: int
  d1_index :: "event_index_entry list"
  d1_next_index :: int
  d1_clock :: int
  d1_faults :: "bool list"

definition d1_empty :: d1_tables where
  "d1_empty = \<lparr>d1_outbox = [], d1_next_outbox = 1, d1_index = [], d1_next_index = 1, d1_clock = 0, d1_faults = []\<rparr>"

type_synonym 'a d1_io = "(d1_tables, store_error, 'a) io"

definition d1_statement :: "(d1_tables \<Rightarrow> 'a \<times> d1_tables) \<Rightarrow> 'a d1_io" where
  "d1_statement f t =
     (case d1_faults t of
        True # fs \<Rightarrow> (Inl (D1 ''statement failed''), t\<lparr>d1_faults := fs\<rparr>)
      | False # fs \<Rightarrow> (let (a, t') = f (t\<lparr>d1_faults := fs\<rparr>) in (Inr a, t'))
      | [] \<Rightarrow> (let (a, t') = f t in (Inr a, t')))"

definition d1_insert_outbox :: "new_outbox \<Rightarrow> int d1_io" where
  "d1_insert_outbox e = d1_statement (\<lambda>t.
     (d1_next_outbox t,
      t\<lparr>d1_next_outbox := d1_next_outbox t + 1,
        d1_outbox := d1_outbox t @
          [\<lparr>ob_id = d1_next_outbox t, ob_object_type = nob_object_type e,
            ob_object_key = nob_object_key e, ob_payload = nob_payload e,
            ob_status = ''pending'', ob_created_at = d1_clock t, ob_retry_count = 0\<rparr>]\<rparr>))"

definition d1_drain_outbox :: "nat \<Rightarrow> outbox_entry list d1_io" where
  "d1_drain_outbox limit = d1_statement (\<lambda>t.
     (take limit (sort_by (\<lambda>x y. ob_created_at x \<le> ob_created_at y)
        (filter (\<lambda>e. ob_status e = ''pending'') (d1_outbox t))), t))"

definition d1_mark_outbox_archived :: "int \<Rightarrow> unit d1_io" where
  "d1_mark_outbox_archived i = d1_statement (\<lambda>t.
     ((), t\<lparr>d1_outbox := map (\<lambda>e. if ob_id e = i then e\<lparr>ob_status := ''archived''\<rparr> else e) (d1_outbox t)\<rparr>))"

definition d1_mark_outbox_failed :: "int \<Rightarrow> unit d1_io" where
  "d1_mark_outbox_failed i = d1_statement (\<lambda>t.
     ((), t\<lparr>d1_outbox := map (\<lambda>e. if ob_id e = i \<and> 3 \<le> ob_retry_count e
                                then e\<lparr>ob_status := ''failed'', ob_retry_count := ob_retry_count e + 1\<rparr>
                                else e) (d1_outbox t)\<rparr>))"

text \<open>\<open>INSERT OR IGNORE\<close> with \<open>event_id\<close> unique.\<close>

definition d1_insert_event_index ::
  "string \<Rightarrow> string \<Rightarrow> string \<Rightarrow> string \<Rightarrow> string \<Rightarrow> int \<Rightarrow> unit d1_io" where
  "d1_insert_event_index event_id aggregate_type aggregate_id event_type object_key occurred_at =
     d1_statement (\<lambda>t.
       if list_ex (\<lambda>e. ei_event_id e = event_id) (d1_index t) then ((), t)
       else ((), t\<lparr>d1_next_index := d1_next_index t + 1,
                  d1_index := d1_index t @
                    [\<lparr>ei_id = d1_next_index t, ei_event_id = event_id, ei_aggregate_type = aggregate_type,
                      ei_aggregate_id = aggregate_id, ei_event_type = event_type,
                      ei_object_key = object_key, ei_occurred_at = occurred_at,
                      ei_created_at = d1_clock t\<rparr>]\<rparr>))"

definition d1_find_event_keys :: "string \<Rightarrow> string \<Rightarrow> nat \<Rightarrow> event_index_entry list d1_io" where
  "d1_find_event_keys aggregate_type aggregate_id limit = d1_statement (\<lambda>t.
     (take limit (sort_by (\<lambda>x y. ei_occurred_at y \<le> ei_occurred_at x)
        (filter (\<lambda>e. ei_aggregate_type e = aggregate_type \<and> ei_aggregate_id e = aggregate_id) (d1_index t))), t))"

section \<open>The event store over an outbox, an index and an object store\<close>

record 's outbox_ops =
  ops_insert :: "new_outbox \<Rightarrow> ('s, store_error, int) io"
  ops_drain :: "nat \<Rightarrow> ('s, store_error, outbox_entry list) io"
  ops_archived :: "int \<Rightarrow> ('s, store_error, unit) io"
  ops_failed :: "int \<Rightarrow> ('s, store_error, unit) io"
  ops_index :: "string \<Rightarrow> string \<Rightarrow> string \<Rightarrow> string \<Rightarrow> string \<Rightarrow> int \<Rightarrow> ('s, store_error, unit) io"
  ops_keys :: "string \<Rightarrow> string \<Rightarrow> nat \<Rightarrow> ('s, store_error, event_index_entry list) io"

definition d1_outbox_ops :: "d1_tables outbox_ops" where
  "d1_outbox_ops =
     \<lparr>ops_insert = d1_insert_outbox, ops_drain = d1_drain_outbox, ops_archived = d1_mark_outbox_archived,
      ops_failed = d1_mark_outbox_failed, ops_index = d1_insert_event_index, ops_keys = d1_find_event_keys\<rparr>"

definition memory_outbox_ops :: "memory_store outbox_ops" where
  "memory_outbox_ops =
     \<lparr>ops_insert = insert_outbox, ops_drain = drain_outbox, ops_archived = mark_outbox_archived,
      ops_failed = mark_outbox_failed, ops_index = insert_event_index, ops_keys = find_event_keys\<rparr>"

abbreviation es_store :: "('s, store_error, 'a) io \<Rightarrow> ('s, event_store_error, 'a) io" where
  "es_store \<equiv> io_map_err (\<lambda>e. EsStore (store_error_str e))"

definition append_event ::
  "'s outbox_ops \<Rightarrow> ('j event_envelope \<Rightarrow> string) \<Rightarrow> 'j event_envelope \<Rightarrow> ('s, event_store_error, string) io" where
  "append_event S enc ev =
     (let key = event_key (ar_aggregate_type (ee_aggregate ev)) (ee_occurred_at ev) (ee_event_id ev) in
      io_bind (es_store (ops_insert S
        \<lparr>nob_object_type = ''event:'' @ ar_aggregate_type (ee_aggregate ev), nob_object_key = key,
         nob_payload = enc ev\<rparr>)) (\<lambda>_.
      io_bind (es_store (ops_index S (ee_event_id ev) (ar_aggregate_type (ee_aggregate ev))
        (ar_aggregate_id (ee_aggregate ev)) (ee_event_type ev) key (ee_occurred_at ev))) (\<lambda>_.
        io_ret (ee_event_id ev))))"

text \<open>
  \<open>load_events\<close>: rows whose object is missing, unreadable or malformed are skipped.  \<open>rd\<close> is the
  object store's read.
\<close>

fun load_payloads ::
  "(string \<Rightarrow> ('o, object_store_error, string option) io) \<Rightarrow> (string \<Rightarrow> 'j event_envelope option)
    \<Rightarrow> event_index_entry list \<Rightarrow> 'o \<Rightarrow> 'j event_envelope list \<times> 'o" where
  "load_payloads rd dec [] ob = ([], ob)"
| "load_payloads rd dec (row # rows) ob =
     (let (r, ob1) = rd (ei_object_key row) ob; (evs, ob2) = load_payloads rd dec rows ob1
      in (case r of Inr (Some bytes) \<Rightarrow> (case dec bytes of Some ev \<Rightarrow> ev # evs | None \<Rightarrow> evs)
                  | Inr None \<Rightarrow> evs
                  | Inl _ \<Rightarrow> evs, ob2))"

definition load_events ::
  "'s outbox_ops \<Rightarrow> (string \<Rightarrow> ('o, object_store_error, string option) io) \<Rightarrow> (string \<Rightarrow> 'j event_envelope option)
    \<Rightarrow> string \<Rightarrow> string \<Rightarrow> nat \<Rightarrow> ('s \<times> 'o, event_store_error, 'j event_envelope list) io" where
  "load_events S rd dec aggregate_type aggregate_id limit so =
     (case es_store (ops_keys S aggregate_type aggregate_id limit) (fst so) of
        (Inl e, s') \<Rightarrow> (Inl e, (s', snd so))
      | (Inr rows, s') \<Rightarrow>
          (if rows = [] then (Inr [], (s', snd so))
           else let (evs, ob') = load_payloads rd dec rows (snd so)
                in (Inr (take limit (sort_by (\<lambda>x y. ee_occurred_at y \<le> ee_occurred_at x) evs)), (s', ob'))))"

section \<open>The archive worker\<close>

text \<open>\<open>wr\<close> is the object store's write; the state is the outbox's and the object store's.\<close>

definition handle_archive_outbox ::
  "(string \<Rightarrow> string \<Rightarrow> ('o, object_store_error, object_ref) io) \<Rightarrow> outbox_entry \<Rightarrow> 'o \<Rightarrow> bool \<times> 'o" where
  "handle_archive_outbox wr entry ob =
     (case wr (ob_object_key entry) (ob_payload entry) ob of (r, ob') \<Rightarrow> (is_ok r, ob'))"

definition handle_event_outbox ::
  "'s outbox_ops \<Rightarrow> (string \<Rightarrow> 'j event_envelope option)
    \<Rightarrow> (string \<Rightarrow> string \<Rightarrow> ('o, object_store_error, object_ref) io) \<Rightarrow> outbox_entry \<Rightarrow> 's \<times> 'o \<Rightarrow> bool \<times> 's \<times> 'o" where
  "handle_event_outbox S dec wr entry so =
     (case dec (ob_payload entry) of
        None \<Rightarrow> (False, so)
      | Some ev \<Rightarrow>
          (let s' = io_ignore (ops_index S (ee_event_id ev) (ar_aggregate_type (ee_aggregate ev))
                 (ar_aggregate_id (ee_aggregate ev)) (ee_event_type ev) (ob_object_key entry)
                 (ee_occurred_at ev)) (fst so);
               (ok, ob') = handle_archive_outbox wr entry (snd so)
           in (ok, s', ob')))"

definition archive_entry ::
  "'s outbox_ops \<Rightarrow> (string \<Rightarrow> 'j event_envelope option)
    \<Rightarrow> (string \<Rightarrow> string \<Rightarrow> ('o, object_store_error, object_ref) io) \<Rightarrow> outbox_entry \<Rightarrow> 's \<times> 'o \<Rightarrow> 's \<times> 'o" where
  "archive_entry S dec wr entry so =
     (let (success, s, ob) =
            (if starts_with ''event:'' (ob_object_type entry) then handle_event_outbox S dec wr entry so
             else let (ok, ob) = handle_archive_outbox wr entry (snd so) in (ok, fst so, ob))
      in (if success then io_ignore (ops_archived S (ob_id entry)) s
          else io_ignore (ops_failed S (ob_id entry)) s, ob))"

definition archive_outbox ::
  "'s outbox_ops \<Rightarrow> (string \<Rightarrow> 'j event_envelope option)
    \<Rightarrow> (string \<Rightarrow> string \<Rightarrow> ('o, object_store_error, object_ref) io) \<Rightarrow> 's \<times> 'o \<Rightarrow> 's \<times> 'o" where
  "archive_outbox S dec wr so =
     (case ops_drain S 100 (fst so) of
        (Inl _, s') \<Rightarrow> (s', snd so)
      | (Inr entries, s') \<Rightarrow> fold (archive_entry S dec wr) entries (s', snd so))"

section \<open>What the worker needs of an outbox\<close>

definition pending_rows :: "outbox_entry list \<Rightarrow> outbox_entry list" where
  "pending_rows tbl = filter (\<lambda>e. ob_status e = ''pending'') tbl"

definition mark_archived :: "int \<Rightarrow> outbox_entry list \<Rightarrow> outbox_entry list" where
  "mark_archived i tbl = map (\<lambda>e. if ob_id e = i then e\<lparr>ob_status := ''archived''\<rparr> else e) tbl"

definition mark_failed :: "int \<Rightarrow> outbox_entry list \<Rightarrow> outbox_entry list" where
  "mark_failed i tbl =
     map (\<lambda>e. if ob_id e = i \<and> 3 \<le> ob_retry_count e
              then e\<lparr>ob_status := ''failed'', ob_retry_count := ob_retry_count e + 1\<rparr> else e) tbl"

definition fresh_row :: "int \<Rightarrow> int \<Rightarrow> new_outbox \<Rightarrow> outbox_entry" where
  "fresh_row i now n =
     \<lparr>ob_id = i, ob_object_type = nob_object_type n, ob_object_key = nob_object_key n,
      ob_payload = nob_payload n, ob_status = ''pending'', ob_created_at = now, ob_retry_count = 0\<rparr>"

text \<open>
  \<open>table s\<close> is the outbox table, \<open>wf\<close> the invariant of the store, \<open>good\<close> a state from which no
  operation fails.  A failed operation leaves the table as it was.
\<close>

locale outbox_store =
  fixes S :: "'s outbox_ops"
    and table :: "'s \<Rightarrow> outbox_entry list"
    and wf :: "'s \<Rightarrow> bool"
    and good :: "'s \<Rightarrow> bool"
  assumes wf_ids: "wf s \<Longrightarrow> distinct (map ob_id (table s))"
    and insert_any: "wf s \<Longrightarrow> ops_insert S n s = (ir, s') \<Longrightarrow> wf s' \<and>
          (case ir of Inl _ \<Rightarrow> table s' = table s | Inr i \<Rightarrow> \<exists>now. table s' = table s @ [fresh_row i now n])"
    and drain_any: "wf s \<Longrightarrow> ops_drain S k s = (dr, s') \<Longrightarrow> wf s' \<and> table s' = table s \<and>
          (case dr of Inl _ \<Rightarrow> True | Inr es \<Rightarrow> set es \<subseteq> set (pending_rows (table s)) \<and>
             distinct (map ob_id es) \<and> length es = min k (length (pending_rows (table s))))"
    and archived_any: "wf s \<Longrightarrow> ops_archived S i s = (ur, s') \<Longrightarrow> wf s' \<and>
          table s' = (if is_ok ur then mark_archived i (table s) else table s)"
    and failed_any: "wf s \<Longrightarrow> ops_failed S i s = (ur, s') \<Longrightarrow> wf s' \<and>
          table s' = (if is_ok ur then mark_failed i (table s) else table s)"
    and index_any: "wf s \<Longrightarrow> ops_index S a b c d e t s = (ur, s') \<Longrightarrow> wf s' \<and> table s' = table s"
    and good_drain: "good s \<Longrightarrow> ops_drain S k s = (dr, s') \<Longrightarrow> is_ok dr \<and> good s'"
    and good_archived: "good s \<Longrightarrow> ops_archived S i s = (ur, s') \<Longrightarrow> is_ok ur \<and> good s'"
    and good_failed: "good s \<Longrightarrow> ops_failed S i s = (ur, s') \<Longrightarrow> is_ok ur \<and> good s'"
    and good_index: "good s \<Longrightarrow> ops_index S a b c d e t s = (ur, s') \<Longrightarrow> is_ok ur \<and> good s'"

text \<open>What it needs of an object store: a write that succeeds is visible, one that fails is not.\<close>

locale object_store =
  fixes wr :: "string \<Rightarrow> string \<Rightarrow> ('o, object_store_error, object_ref) io"
    and contents :: "'o \<Rightarrow> string \<Rightarrow> string option"
    and up :: "'o \<Rightarrow> bool"
  assumes write_any: "wr k v ob = (r, ob') \<Longrightarrow>
        contents ob' = (if is_ok r then (contents ob)(k \<mapsto> v) else contents ob)"
    and write_up: "up ob \<Longrightarrow> wr k v ob = (r, ob') \<Longrightarrow> is_ok r \<and> up ob'"

text \<open>
  The outbox invariant: no row was ever retried or given up, and the content of every archived row's
  key is the payload of a row with that key.
\<close>

definition outbox_ok :: "outbox_entry list \<Rightarrow> bool" where
  "outbox_ok tbl \<longleftrightarrow> (\<forall>e \<in> set tbl. ob_retry_count e = 0 \<and> ob_status e \<in> {''pending'', ''archived''})"

definition stored_ok :: "outbox_entry list \<Rightarrow> (string \<Rightarrow> string option) \<Rightarrow> bool" where
  "stored_ok tbl c \<longleftrightarrow> (\<forall>e \<in> set tbl. ob_status e = ''archived'' \<longrightarrow>
     (\<exists>e' \<in> set tbl. ob_object_key e' = ob_object_key e \<and> c (ob_object_key e) = Some (ob_payload e')))"

definition row_kept :: "outbox_entry \<Rightarrow> outbox_entry \<Rightarrow> bool" where
  "row_kept e e' \<longleftrightarrow> e' = e\<lparr>ob_status := ob_status e'\<rparr> \<and>
     (ob_status e' = ob_status e \<or> ob_status e = ''pending'' \<and> ob_status e' = ''archived'')"

definition outbox_keeps :: "outbox_entry list \<Rightarrow> outbox_entry list \<Rightarrow> bool" where
  "outbox_keeps tbl tbl' \<longleftrightarrow> (\<exists>new. \<exists>old. tbl' = old @ new \<and> list_all2 row_kept tbl old)"

lemma ob_id_if [simp]:
  "ob_id (if c then x\<lparr>ob_status := u\<rparr> else x) = ob_id x"
  "ob_id (if c then x\<lparr>ob_status := u, ob_retry_count := n\<rparr> else x) = ob_id x"
  by simp_all

lemma row_kept_fields:
  "row_kept e e' \<Longrightarrow> ob_id e' = ob_id e \<and> ob_object_type e' = ob_object_type e \<and>
     ob_object_key e' = ob_object_key e \<and> ob_payload e' = ob_payload e"
  by (cases e, cases e') (auto simp: row_kept_def)

lemma row_kept_refl [simp]: "row_kept e e"
  by (simp add: row_kept_def)

lemma row_kept_trans: "row_kept a b \<Longrightarrow> row_kept b c \<Longrightarrow> row_kept a c"
  by (cases a, cases b, cases c) (auto simp: row_kept_def)

lemma mark_failed_none: "outbox_ok tbl \<Longrightarrow> mark_failed i tbl = tbl"
  by (auto simp: mark_failed_def outbox_ok_def intro: map_idI)

lemma mark_archived_ok: "outbox_ok tbl \<Longrightarrow> outbox_ok (mark_archived i tbl)"
  by (auto simp: outbox_ok_def mark_archived_def)

lemma mark_archived_mem:
  "z \<in> set tbl \<Longrightarrow> (if ob_id z = i then z\<lparr>ob_status := ''archived''\<rparr> else z) \<in> set (mark_archived i tbl)"
  by (auto simp: mark_archived_def)

lemma mark_archived_keeps: "outbox_ok tbl \<Longrightarrow> list_all2 row_kept tbl (mark_archived i tbl)"
  by (auto simp: outbox_ok_def mark_archived_def row_kept_def list_all2_conv_all_nth)

lemma mark_archived_ids [simp]: "map ob_id (mark_archived i tbl) = map ob_id tbl"
  by (auto simp: mark_archived_def)

lemma mark_archived_pending:
  "pending_rows (mark_archived i tbl) = filter (\<lambda>e. ob_id e \<noteq> i) (pending_rows tbl)"
  by (induction tbl) (auto simp: mark_archived_def pending_rows_def)

lemma outbox_keeps_refl [simp]: "outbox_keeps tbl tbl"
  unfolding outbox_keeps_def by (intro exI [of _ "[]"] exI [of _ tbl]) (simp add: list_all2_refl)

lemma outbox_keeps_trans:
  assumes "outbox_keeps a b" "outbox_keeps b c"
  shows "outbox_keeps a c"
proof -
  from assms obtain n1 o1 n2 o2 where "b = o1 @ n1" "list_all2 row_kept a o1" "c = o2 @ n2"
    "list_all2 row_kept b o2" by (auto simp: outbox_keeps_def)
  then obtain p q where "o2 = p @ q" "list_all2 row_kept o1 p"
    by (auto simp: list_all2_append1)
  with \<open>list_all2 row_kept a o1\<close> \<open>c = o2 @ n2\<close> show ?thesis
    unfolding outbox_keeps_def
    by (intro exI [of _ "q @ n2"] exI [of _ p]) (auto intro: list_all2_trans [of row_kept row_kept row_kept] row_kept_trans)
qed

section \<open>The worker over any outbox and object store\<close>

text \<open>Histories: producers enqueue, the cron worker passes.\<close>

datatype archive_call = Enqueue new_outbox | ArchivePass

fun archive_call_exec ::
  "'s outbox_ops \<Rightarrow> (string \<Rightarrow> 'j event_envelope option)
    \<Rightarrow> (string \<Rightarrow> string \<Rightarrow> ('o, object_store_error, object_ref) io) \<Rightarrow> archive_call \<Rightarrow> 's \<times> 'o \<Rightarrow> 's \<times> 'o" where
  "archive_call_exec S dec wr (Enqueue n) so = (io_ignore (ops_insert S n) (fst so), snd so)"
| "archive_call_exec S dec wr ArchivePass so = archive_outbox S dec wr so"

definition archive_run ::
  "'s outbox_ops \<Rightarrow> (string \<Rightarrow> 'j event_envelope option)
    \<Rightarrow> (string \<Rightarrow> string \<Rightarrow> ('o, object_store_error, object_ref) io) \<Rightarrow> archive_call list \<Rightarrow> 's \<times> 'o \<Rightarrow> 's \<times> 'o" where
  "archive_run S dec wr calls so = fold (archive_call_exec S dec wr) calls so"

text \<open>An entry the worker can process: an artifact, or an event whose payload is an envelope.\<close>

definition decodable :: "(string \<Rightarrow> 'j event_envelope option) \<Rightarrow> outbox_entry \<Rightarrow> bool" where
  "decodable dec e \<longleftrightarrow> starts_with ''event:'' (ob_object_type e) \<longrightarrow> dec (ob_payload e) \<noteq> None"

lemma length_filter_ids:
  assumes "distinct (map k P)" "set es \<subseteq> set P" "distinct (map k es)"
  shows "length (filter (\<lambda>x. k x \<notin> k ` set es) P) = length P - length es"
proof -
  have "length es = card (k ` set es)" using assms(3) by (metis distinct_card length_map set_map)
  moreover have "length (filter (\<lambda>x. k x \<in> k ` set es) P) = card (k ` set (filter (\<lambda>x. k x \<in> k ` set es) P))"
    using assms(1) by (metis distinct_card distinct_map_filter length_map set_map)
  moreover have "k ` set (filter (\<lambda>x. k x \<in> k ` set es) P) = k ` set es" using assms(2) by auto
  ultimately show ?thesis using sum_length_filter_compl [of "\<lambda>x. k x \<in> k ` set es" P] by simp
qed

locale archive_pipeline = outbox_store S table wf good + object_store wr contents up
  for S :: "'s outbox_ops" and table wf good
    and wr :: "string \<Rightarrow> string \<Rightarrow> ('o, object_store_error, object_ref) io" and contents up +
  fixes dec :: "string \<Rightarrow> 'j event_envelope option"
begin

definition sound :: "'s \<times> 'o \<Rightarrow> bool" where
  "sound so \<longleftrightarrow> wf (fst so) \<and> outbox_ok (table (fst so)) \<and> stored_ok (table (fst so)) (contents (snd so))"

lemma index_frame:
  "wf s \<Longrightarrow> wf (snd (ops_index S a b c d e t s)) \<and> table (snd (ops_index S a b c d e t s)) = table s"
  using index_any [of s a b c d e t "fst (ops_index S a b c d e t s)" "snd (ops_index S a b c d e t s)"] by simp

text \<open>One entry: either its row is archived and its payload stored, or only the object store may
  have changed, and that only at the entry's key with the entry's payload.\<close>

lemma entry_step:
  assumes "wf s" "outbox_ok (table s)" "archive_entry S dec wr e (s, ob) = (s', ob')"
  shows "wf s'"
    "contents ob' = (contents ob)(ob_object_key e \<mapsto> ob_payload e) \<and>
       (table s' = table s \<or> table s' = mark_archived (ob_id e) (table s)) \<or>
     contents ob' = contents ob \<and> table s' = table s"
proof -
  let ?h = "if starts_with ''event:'' (ob_object_type e) then handle_event_outbox S dec wr e (s, ob)
             else let (ok, ob) = handle_archive_outbox wr e ob in (ok, s, ob)"
  obtain ok s1 ob1 where h: "?h = (ok, s1, ob1)" by (cases ?h) auto
  have s1: "wf s1" "table s1 = table s"
    using h index_frame [OF assms(1)] assms(1)
    by (auto simp: handle_event_outbox_def io_ignore_def Let_def split: if_splits option.splits prod.splits)
  have ob1: "contents ob1 = (contents ob)(ob_object_key e \<mapsto> ob_payload e) \<or> \<not> ok \<and> contents ob1 = contents ob"
    using h write_any
    by (auto simp: handle_event_outbox_def handle_archive_outbox_def Let_def split: if_splits option.splits prod.splits)
  have eq: "archive_entry S dec wr e (s, ob) = (case ?h of (ok, s1, ob1) \<Rightarrow>
      (if ok then io_ignore (ops_archived S (ob_id e)) s1 else io_ignore (ops_failed S (ob_id e)) s1, ob1))"
    by (simp add: archive_entry_def)
  have out: "ob' = ob1" "s' = (if ok then io_ignore (ops_archived S (ob_id e)) s1 else io_ignore (ops_failed S (ob_id e)) s1)"
    using assms(3) unfolding eq h by auto
  have arch: "wf (snd (ops_archived S (ob_id e) s1)) \<and>
      (table (snd (ops_archived S (ob_id e) s1)) = table s \<or>
       table (snd (ops_archived S (ob_id e) s1)) = mark_archived (ob_id e) (table s))"
    using archived_any [OF s1(1), of "ob_id e"] s1(2) by (metis prod.collapse)
  have fail: "wf (snd (ops_failed S (ob_id e) s1)) \<and> table (snd (ops_failed S (ob_id e) s1)) = table s"
    using failed_any [OF s1(1), of "ob_id e"] s1(2) mark_failed_none [OF assms(2)] by (metis prod.collapse)
  show "wf s'" using out(2) arch fail by (simp add: io_ignore_def)
  show "contents ob' = (contents ob)(ob_object_key e \<mapsto> ob_payload e) \<and>
       (table s' = table s \<or> table s' = mark_archived (ob_id e) (table s)) \<or>
     contents ob' = contents ob \<and> table s' = table s"
    using ob1 out arch fail by (cases ok) (auto simp: io_ignore_def)
qed

lemma entry_sound:
  assumes "sound (s, ob)" "archive_entry S dec wr e (s, ob) = (s', ob')"
    and "\<exists>e0 \<in> set (table s). row_kept e e0"
  shows "sound (s', ob') \<and> list_all2 row_kept (table s) (table s')"
proof -
  from assms(1) have inv: "wf s" "outbox_ok (table s)" "stored_ok (table s) (contents ob)" by (simp_all add: sound_def)
  from assms(3) obtain e0 where e0: "e0 \<in> set (table s)" "ob_object_key e0 = ob_object_key e"
      "ob_payload e0 = ob_payload e" "ob_id e0 = ob_id e"
    by (auto dest: row_kept_fields)
  note st = entry_step [OF inv(1,2) assms(2)]
  have key: "e1 = e0" if "e1 \<in> set (table s)" "ob_id e1 = ob_id e" for e1
    using wf_ids [OF inv(1)] that e0 by (auto simp: distinct_map inj_on_def)
  have put: "stored_ok tbl c'" if "stored_ok tbl c" "c' = c(ob_object_key e \<mapsto> ob_payload e)" "e0 \<in> set tbl" for tbl c c'
    using that e0 by (auto simp: stored_ok_def)
  have mark: "stored_ok (mark_archived (ob_id e) (table s)) ((contents ob)(ob_object_key e \<mapsto> ob_payload e))"
  proof (unfold stored_ok_def, intro ballI impI)
    fix x
    assume x: "x \<in> set (mark_archived (ob_id e) (table s))" "ob_status x = ''archived''"
    then obtain y where y: "y \<in> set (table s)" "x = (if ob_id y = ob_id e then y\<lparr>ob_status := ''archived''\<rparr> else y)"
      by (auto simp: mark_archived_def)
    have e0': "e0\<lparr>ob_status := ''archived''\<rparr> \<in> set (mark_archived (ob_id e) (table s))"
      using e0 by (auto simp: mark_archived_def image_iff intro: bexI [of _ e0])
    have lift: "\<exists>z' \<in> set (mark_archived (ob_id e) (table s)). ob_object_key z' = ob_object_key z \<and> ob_payload z' = ob_payload z"
      if "z \<in> set (table s)" for z
      by (intro bexI [OF _ mark_archived_mem [OF that]]) auto
    show "\<exists>e' \<in> set (mark_archived (ob_id e) (table s)). ob_object_key e' = ob_object_key x \<and>
        ((contents ob)(ob_object_key e \<mapsto> ob_payload e)) (ob_object_key x) = Some (ob_payload e')"
    proof (cases "ob_object_key x = ob_object_key e")
      case True
      with e0' e0 show ?thesis by (intro bexI [of _ "e0\<lparr>ob_status := ''archived''\<rparr>"]) auto
    next
      case False
      moreover have "ob_object_key x = ob_object_key y" using y(2) by simp
      ultimately have "ob_id y \<noteq> ob_id e" using key [OF y(1)] e0(2) by auto
      with y x inv(3) obtain z where z: "z \<in> set (table s)" "ob_object_key z = ob_object_key x"
        "contents ob (ob_object_key x) = Some (ob_payload z)" by (auto simp: stored_ok_def)
      from lift [OF z(1)] z False show ?thesis by auto
    qed
  qed
  from st inv put mark mark_archived_ok mark_archived_keeps e0(1) show ?thesis
    by (auto simp: sound_def list_all2_refl)
qed

lemma fold_sound:
  assumes "sound so" "\<forall>e \<in> set es. \<exists>e0 \<in> set (table (fst so)). row_kept e e0"
  shows "sound (fold (archive_entry S dec wr) es so) \<and>
    list_all2 row_kept (table (fst so)) (table (fst (fold (archive_entry S dec wr) es so)))"
  using assms
proof (induction es arbitrary: so)
  case Nil
  then show ?case by (simp add: list_all2_refl)
next
  case (Cons e es)
  obtain s ob where so: "so = (s, ob)" by (cases so)
  obtain s' ob' where e: "archive_entry S dec wr e (s, ob) = (s', ob')" by fastforce
  from entry_sound [OF _ e] Cons.prems so have snd1: "sound (s', ob')"
    and kept: "list_all2 row_kept (table s) (table s')" by simp_all
  have "\<exists>e0 \<in> set (table s'). row_kept x e0" if x: "x \<in> set es" for x
  proof -
    from Cons.prems(2) x so obtain y where y: "y \<in> set (table s)" "row_kept x y" by auto
    with kept obtain z where "z \<in> set (table s')" "row_kept y z"
      by (metis list_all2_iff in_set_zip in_set_conv_nth list_all2_nthD)
    with y show ?thesis using row_kept_trans by blast
  qed
  with Cons.IH [of "(s', ob')"] snd1 have "sound (fold (archive_entry S dec wr) es (s', ob'))"
    "list_all2 row_kept (table s') (table (fst (fold (archive_entry S dec wr) es (s', ob'))))" by simp_all
  with kept e so show ?case
    by (auto intro: list_all2_trans [of row_kept row_kept row_kept] row_kept_trans)
qed

lemma drain_any':
  assumes "wf s" "ops_drain S k s = (Inr es, s')"
  shows "wf s'" "table s' = table s" "set es \<subseteq> set (pending_rows (table s))"
    "distinct (map ob_id es)" "length es = min k (length (pending_rows (table s)))"
  using drain_any [OF assms] by simp_all

lemma pass_sound:
  assumes "sound so"
  shows "sound (archive_outbox S dec wr so) \<and>
    list_all2 row_kept (table (fst so)) (table (fst (archive_outbox S dec wr so)))"
proof -
  obtain s ob where so: "so = (s, ob)" by (cases so)
  obtain r s1 where d: "ops_drain S 100 s = (r, s1)" by fastforce
  from assms so have wf: "wf s" by (simp add: sound_def)
  from drain_any [OF wf d] have s1: "wf s1" "table s1 = table s" by simp_all
  then have snd1: "sound (s1, ob)" using assms so by (simp add: sound_def)
  show ?thesis
  proof (cases r)
    case (Inl e)
    with d so snd1 s1 show ?thesis by (simp add: archive_outbox_def list_all2_refl)
  next
    case (Inr es)
    from drain_any' [OF wf d [unfolded Inr]] have "\<forall>e \<in> set es. \<exists>e0 \<in> set (table s1). row_kept e e0"
      using s1(2) by (force simp: pending_rows_def)
    with fold_sound [OF snd1, of es] d so Inr s1 show ?thesis by (simp add: archive_outbox_def)
  qed
qed

lemma insert_sound:
  assumes "sound (s, ob)"
  shows "sound (io_ignore (ops_insert S n) s, ob) \<and> outbox_keeps (table s) (table (io_ignore (ops_insert S n) s))"
proof -
  obtain r s' where i: "ops_insert S n s = (r, s')" by fastforce
  have keep: "outbox_keeps (table s) (table s @ [x])" for x
    unfolding outbox_keeps_def by (intro exI [of _ "[x]"] exI [of _ "table s"]) (simp add: list_all2_refl)
  have "stored_ok (table s @ [fresh_row k now n]) (contents ob)" for k now
    using assms by (fastforce simp: sound_def stored_ok_def fresh_row_def)
  moreover have "outbox_ok (table s @ [fresh_row k now n])" for k now
    using assms by (auto simp: sound_def outbox_ok_def fresh_row_def)
  ultimately show ?thesis
    using insert_any [of s n r s'] i assms keep by (cases r) (auto simp: sound_def io_ignore_def)
qed

lemma run_sound:
  "sound so \<Longrightarrow> sound (archive_run S dec wr calls so) \<and>
     outbox_keeps (table (fst so)) (table (fst (archive_run S dec wr calls so)))"
proof (induction calls arbitrary: so)
  case (Cons c calls)
  have step: "sound (archive_call_exec S dec wr c so) \<and>
      outbox_keeps (table (fst so)) (table (fst (archive_call_exec S dec wr c so)))"
  proof (cases c)
    case (Enqueue n)
    with Cons.prems insert_sound [of "fst so" "snd so" n] show ?thesis by simp
  next
    case ArchivePass
    with pass_sound [OF Cons.prems] show ?thesis
      by (auto simp: outbox_keeps_def intro: exI [of _ "[]"])
  qed
  with Cons.IH [of "archive_call_exec S dec wr c so"] show ?case
    by (auto simp: archive_run_def intro: outbox_keeps_trans)
qed (simp add: archive_run_def)

lemma entry_success:
  assumes "wf s" "good s" "up ob" "decodable dec e" "archive_entry S dec wr e (s, ob) = (s', ob')"
  shows "wf s' \<and> good s' \<and> up ob' \<and> table s' = mark_archived (ob_id e) (table s)"
proof -
  obtain r ob1 where w: "wr (ob_object_key e) (ob_payload e) ob = (r, ob1)" by fastforce
  from write_up [OF assms(3) w] have ok: "is_ok r" "up ob1" by simp_all
  define s1 where "s1 = (if starts_with ''event:'' (ob_object_type e)
     then case dec (ob_payload e) of None \<Rightarrow> s | Some ev \<Rightarrow>
       io_ignore (ops_index S (ee_event_id ev) (ar_aggregate_type (ee_aggregate ev))
                 (ar_aggregate_id (ee_aggregate ev)) (ee_event_type ev) (ob_object_key e)
                 (ee_occurred_at ev)) s else s)"
  have good_ix: "good (snd (ops_index S a b c d f t s))" for a b c d f t
    using good_index [OF assms(2), of a b c d f t] by (metis prod.collapse)
  have s1: "wf s1" "good s1" "table s1 = table s"
    using index_frame [OF assms(1)] good_ix assms(1,2)
    by (auto simp: s1_def io_ignore_def split: option.splits)
  have "archive_entry S dec wr e (s, ob) = (io_ignore (ops_archived S (ob_id e)) s1, ob1)"
    using assms(4) w ok(1)
    by (auto simp: archive_entry_def handle_event_outbox_def handle_archive_outbox_def decodable_def s1_def Let_def)
  with assms(5) have out: "s' = snd (ops_archived S (ob_id e) s1)" "ob' = ob1" by (simp_all add: io_ignore_def)
  obtain u s2 where a: "ops_archived S (ob_id e) s1 = (u, s2)" by fastforce
  from archived_any [OF s1(1) a] good_archived [OF s1(2) a] out a ok s1 show ?thesis by simp
qed

lemma fold_success:
  assumes "wf (fst so)" "good (fst so)" "up (snd so)" "\<forall>e \<in> set es. decodable dec e"
  shows "pending_rows (table (fst (fold (archive_entry S dec wr) es so))) =
    filter (\<lambda>x. ob_id x \<notin> ob_id ` set es) (pending_rows (table (fst so)))"
  using assms
proof (induction es arbitrary: so)
  case (Cons e es)
  obtain s ob where so: "so = (s, ob)" by (cases so)
  obtain s' ob' where e: "archive_entry S dec wr e (s, ob) = (s', ob')" by fastforce
  from entry_success [OF _ _ _ _ e] Cons.prems so have k: "wf s'" "good s'" "up ob'"
    "table s' = mark_archived (ob_id e) (table s)" by simp_all
  with Cons.IH [of "(s', ob')"] Cons.prems e so show ?case
    by (auto simp: mark_archived_pending intro!: filter_cong)
qed simp

lemma pass_progress:
  assumes "wf s" "good s" "up ob" "\<forall>e \<in> set (pending_rows (table s)). decodable dec e"
  shows "length (pending_rows (table (fst (archive_outbox S dec wr (s, ob))))) =
    length (pending_rows (table s)) - 100"
proof -
  obtain r s1 where d: "ops_drain S 100 s = (r, s1)" by fastforce
  with good_drain [OF assms(2) d] obtain es where r: "r = Inr es" by (cases r) auto
  note dr = drain_any' [OF assms(1) d [unfolded r]]
  have "distinct (map ob_id (pending_rows (table s)))"
    using wf_ids [OF assms(1)] by (simp add: pending_rows_def distinct_map_filter)
  from length_filter_ids [OF this dr(3,4)] dr(5)
  have "length (filter (\<lambda>x. ob_id x \<notin> ob_id ` set es) (pending_rows (table s))) =
      length (pending_rows (table s)) - 100" by simp
  moreover have "\<forall>e \<in> set es. decodable dec e" using dr(3) assms(4) by blast
  ultimately show ?thesis
    using fold_success [of "(s1, ob)" es] dr(1,2) good_drain [OF assms(2) d] assms(3) d r
    by (simp add: archive_outbox_def)
qed

end

section \<open>The providers\<close>

lemma d1_statement_cases:
  assumes "d1_statement f t = (r, t')"
  obtains fs where "r = Inl (D1 ''statement failed'')" "t' = t\<lparr>d1_faults := fs\<rparr>" "d1_faults t \<noteq> []"
  | a fs where "r = Inr a" "f (t\<lparr>d1_faults := fs\<rparr>) = (a, t')" "d1_faults t = [] \<longrightarrow> fs = []"
proof (cases "d1_faults t")
  case Nil
  then have "t = t\<lparr>d1_faults := []\<rparr>" by simp
  with Nil assms that(2) [of _ "[]"] show thesis by (auto simp: d1_statement_def split: prod.splits)
next
  case (Cons b fs)
  with assms that(1) [of fs] that(2) [of _ fs] show thesis
    by (cases b) (auto simp: d1_statement_def Let_def split: prod.splits)
qed

definition d1_wf :: "d1_tables \<Rightarrow> bool" where
  "d1_wf t \<longleftrightarrow> distinct (map ob_id (d1_outbox t)) \<and> (\<forall>e \<in> set (d1_outbox t). ob_id e < d1_next_outbox t)"

definition d1_good :: "d1_tables \<Rightarrow> bool" where
  "d1_good t \<longleftrightarrow> d1_faults t = []"

lemma d1_wf_map:
  "(\<And>e. ob_id (f e) = ob_id e) \<Longrightarrow> d1_wf (t\<lparr>d1_faults := fs, d1_outbox := map f (d1_outbox t)\<rparr>) \<longleftrightarrow> d1_wf t"
  by (auto simp: d1_wf_def comp_def)

lemma d1_wf_insert:
  assumes "d1_wf t" "d1_outbox t' = d1_outbox t @ [fresh_row (d1_next_outbox t) now n]"
    "d1_next_outbox t' = d1_next_outbox t + 1"
  shows "d1_wf t'"
  using assms by (force simp: d1_wf_def fresh_row_def)

interpretation d1: outbox_store d1_outbox_ops d1_outbox d1_wf d1_good
proof (unfold_locales, goal_cases)
  case (1 s)
  then show ?case by (simp add: d1_wf_def)
next
  case (2 s n r s')
  from 2(2) [unfolded d1_outbox_ops_def, simplified, unfolded d1_insert_outbox_def] 2(1) show ?case
    by (cases rule: d1_statement_cases)
      (auto simp: fresh_row_def d1_wf_def [of "_\<lparr>d1_faults := _\<rparr>"] intro: d1_wf_insert dest: d1_wf_def [THEN iffD1])
next
  case (3 s k r s')
  from 3(2) [unfolded d1_outbox_ops_def, simplified, unfolded d1_drain_outbox_def] 3(1) show ?case
  proof (cases rule: d1_statement_cases)
    case (2 es fs)
    let ?P = "pending_rows (d1_outbox s)"
    let ?s = "sort_by (\<lambda>x y. ob_created_at x \<le> ob_created_at y) ?P"
    from 2 have es: "es = take k ?s" "s' = s\<lparr>d1_faults := fs\<rparr>" by (auto simp: pending_rows_def)
    have "distinct (map ob_id ?s)"
      using 3(1) by (simp add: distinct_sort_by d1_wf_def pending_rows_def distinct_map_filter)
    then have "distinct (map ob_id (take k ?s))" by (simp add: take_map [symmetric])
    moreover have "set (take k ?s) \<subseteq> set ?P" using set_take_subset [of k ?s] by simp
    ultimately show ?thesis using 2(1) es 3(1) by (simp add: d1_wf_def)
  qed (simp add: d1_wf_def)
next
  case (4 s i r s')
  from 4(2) [unfolded d1_outbox_ops_def, simplified, unfolded d1_mark_outbox_archived_def] 4(1) show ?case
    by (cases rule: d1_statement_cases) (auto simp: d1_wf_def mark_archived_def comp_def)
next
  case (5 s i r s')
  from 5(2) [unfolded d1_outbox_ops_def, simplified, unfolded d1_mark_outbox_failed_def] 5(1) show ?case
    by (cases rule: d1_statement_cases) (auto simp: d1_wf_def mark_failed_def comp_def)
next
  case (6 s a b c d e t r s')
  from 6(2) [unfolded d1_outbox_ops_def, simplified, unfolded d1_insert_event_index_def] 6(1) show ?case
    by (cases rule: d1_statement_cases) (auto simp: d1_wf_def split: if_splits)
next
  case (7 s k r s')
  from 7(2) [unfolded d1_outbox_ops_def, simplified, unfolded d1_drain_outbox_def] 7(1) show ?case
    by (cases rule: d1_statement_cases) (auto simp: d1_good_def)
next
  case (8 s i r s')
  from 8(2) [unfolded d1_outbox_ops_def, simplified, unfolded d1_mark_outbox_archived_def] 8(1) show ?case
    by (cases rule: d1_statement_cases) (auto simp: d1_good_def)
next
  case (9 s i r s')
  from 9(2) [unfolded d1_outbox_ops_def, simplified, unfolded d1_mark_outbox_failed_def] 9(1) show ?case
    by (cases rule: d1_statement_cases) (auto simp: d1_good_def)
next
  case (10 s a b c d e t r s')
  from 10(2) [unfolded d1_outbox_ops_def, simplified, unfolded d1_insert_event_index_def] 10(1) show ?case
    by (cases rule: d1_statement_cases) (auto simp: d1_good_def split: if_splits)
qed

lemma update_first_distinct:
  "distinct (map k xs) \<Longrightarrow>
    update_first (\<lambda>x. k x = i \<and> q x) f xs = map (\<lambda>x. if k x = i \<and> q x then f x else x) xs"
proof (induction xs)
  case (Cons x xs)
  then have "k y \<noteq> k x" if "y \<in> set xs" for y using that by (auto simp: image_iff)
  then have "map (\<lambda>y. if k y = k x \<and> q y then f y else y) xs = xs" by (auto intro: map_idI)
  with Cons show ?case by auto
qed simp

definition ms_outbox_wf :: "memory_store \<Rightarrow> bool" where
  "ms_outbox_wf s \<longleftrightarrow> distinct (map ob_id (outbox s)) \<and> (\<forall>e \<in> set (outbox s). ob_id e < next_outbox_id s)"

interpretation ms_outbox: outbox_store memory_outbox_ops outbox ms_outbox_wf "\<lambda>_. True"
proof (unfold_locales, goal_cases)
  case (3 s k r s')
  let ?P = "pending_rows (outbox s)"
  have "set (take k ?P) \<subseteq> set ?P" by (rule set_take_subset)
  moreover have "distinct (map ob_id (take k ?P))"
    using 3(1) unfolding take_map [symmetric]
    by (intro distinct_take) (simp add: ms_outbox_wf_def pending_rows_def distinct_map_filter)
  moreover have "r = Inr (take k ?P)" "s' = s"
    using 3(2) by (auto simp: memory_outbox_ops_def drain_outbox_def pending_rows_def)
  ultimately show ?case using 3(1) by (simp add: min.commute)
next
  case (4 s i r s')
  then show ?case
    using update_first_distinct [of ob_id "outbox s" i "\<lambda>_. True" "ob_status_update (\<lambda>_. ''archived'')"]
    by (auto simp: memory_outbox_ops_def mark_outbox_archived_def ms_outbox_wf_def mark_archived_def comp_def)
next
  case (5 s i r s')
  then show ?case
    using update_first_distinct [of ob_id "outbox s" i "\<lambda>e. 3 \<le> ob_retry_count e"
        "\<lambda>e. e\<lparr>ob_status := ''failed'', ob_retry_count := ob_retry_count e + 1\<rparr>"]
    by (auto simp: memory_outbox_ops_def mark_outbox_failed_def ms_outbox_wf_def mark_failed_def comp_def)
qed (auto simp: memory_outbox_ops_def insert_outbox_def drain_outbox_def mark_outbox_archived_def
    mark_outbox_failed_def insert_event_index_def ms_outbox_wf_def fresh_row_def Let_def)

interpretation blob: object_store "blob_write now" map_of "\<lambda>_. True" for now
  by unfold_locales (auto simp: blob_write_def)

interpretation r2: object_store "r2_write now" "\<lambda>b. map_of (r2_objects b)" "\<lambda>b. r2_faults b = []" for now
  by unfold_locales (auto simp: r2_write_def r2_call_def Let_def split: list.splits option.splits)

interpretation d1_archive: archive_pipeline d1_outbox_ops d1_outbox d1_wf d1_good
  "r2_write now" "\<lambda>b. map_of (r2_objects b)" "\<lambda>b. r2_faults b = []" dec for now dec
  by unfold_locales

interpretation ms_archive: archive_pipeline memory_outbox_ops outbox ms_outbox_wf "\<lambda>_. True"
  "blob_write now" map_of "\<lambda>_. True" dec for now dec
  by unfold_locales

end
