(* ===== verification/FloatText.thy ===== *)
theory FloatText
  imports RustText Floats
begin

text \<open>
  Rust's \<open>{:.d}\<close> for floats: the exact value rounded to \<open>d\<close> decimals, ties to even, with every
  decimal written.  The sign of a zero is left out, as everywhere in the development.
\<close>

definition pad_left :: "nat \<Rightarrow> string \<Rightarrow> string" where
  "pad_left w s = replicate (w - length s) (digit_char 0) @ s"

definition fmt_fixed :: "nat \<Rightarrow> fl \<Rightarrow> string" where
  "fmt_fixed d x =
     (case x of
        NaN \<Rightarrow> ''NaN'' | PInf \<Rightarrow> ''inf'' | NInf \<Rightarrow> ''-inf''
      | Fin q \<Rightarrow>
          (let n = nat (round_even (\<bar>q\<bar> * 10 ^ d))
           in (if q < 0 then ''-'' else []) @ dec_nat (n div 10 ^ d) @
              (if d = 0 then [] else ''.'' @ pad_left d (dec_nat (n mod 10 ^ d)))))"

end
