(* ===== verification/ModelRuntime.thy ===== *)
theory ModelRuntime
  imports FloatText
begin

text \<open>
  The model runtime: \<open>crates/model-runtime\<close>.  A provider is a record of its capabilities and of its
  \<open>generate\<close>, a computation on a state \<open>'s\<close> (the network, for the DeepSeek provider).  JSON values are a
  datatype with \<open>serde_json\<close>'s indexing; parsing text is the parameter \<open>parse\<close>.
\<close>

section \<open>JSON values\<close>

datatype json = JNull | JBool bool | JInt int | JFloat f64 | JStr string | JArr "json list" | JObj "(string \<times> json) list"

text \<open>\<open>v[key]\<close> and \<open>v[i]\<close> give \<open>Null\<close> for everything that is not there.\<close>

fun json_get :: "string \<Rightarrow> json \<Rightarrow> json" where
  "json_get k (JObj kvs) = (case map_of kvs k of Some v \<Rightarrow> v | None \<Rightarrow> JNull)"
| "json_get k _ = JNull"

fun json_at :: "nat \<Rightarrow> json \<Rightarrow> json" where
  "json_at i (JArr vs) = (if i < length vs then vs ! i else JNull)"
| "json_at i _ = JNull"

fun json_str :: "json \<Rightarrow> string option" where
  "json_str (JStr s) = Some s"
| "json_str _ = None"

fun json_u64 :: "json \<Rightarrow> int option" where
  "json_u64 (JInt n) = (if 0 \<le> n \<and> n < 2 ^ 64 then Some n else None)"
| "json_u64 _ = None"

fun json_i64 :: "json \<Rightarrow> int option" where
  "json_i64 (JInt n) = check_i64 n"
| "json_i64 _ = None"

fun json_f64 :: "json \<Rightarrow> f64 option" where
  "json_f64 (JInt n) = Some (of_i64 binary64 n)"
| "json_f64 (JFloat x) = Some x"
| "json_f64 _ = None"

fun json_array :: "json \<Rightarrow> json list option" where
  "json_array (JArr vs) = Some vs"
| "json_array _ = None"

fun json_object :: "json \<Rightarrow> json option" where
  "json_object (JObj kvs) = Some (JObj kvs)"
| "json_object _ = None"

section \<open>Requests and responses\<close>

datatype model_task = Summarization | ClaimExtraction | ReflectionTask | AgentAnswer

fun model_task_str :: "model_task \<Rightarrow> string" where
  "model_task_str Summarization = ''summarization''"
| "model_task_str ClaimExtraction = ''claim_extraction''"
| "model_task_str ReflectionTask = ''reflection''"
| "model_task_str AgentAnswer = ''agent''"

record context_block =
  cb_title :: string
  cb_content :: string
  cb_priority :: f64

record generation_params =
  gp_temperature :: f64
  gp_max_tokens :: int

definition default_params :: generation_params where
  "default_params = \<lparr>gp_temperature = lit64 0.3, gp_max_tokens = 2048\<rparr>"

record model_request =
  mq_task :: model_task
  mq_system_prompt :: string
  mq_context :: "context_block list"
  mq_output_schema :: "json option"
  mq_parameters :: generation_params

record token_usage =
  tu_prompt_tokens :: int
  tu_completion_tokens :: int

record model_response =
  mr_text :: string
  mr_parsed :: "json option"
  mr_usage :: "token_usage option"
  mr_finish_reason :: string

record model_capabilities =
  mcap_provider :: string
  mcap_model_name :: string
  mcap_context_window :: int
  mcap_supports_json :: bool

datatype model_error =
  AuthenticationFailed | RateLimited | Timeout | InvalidResponse string | ProviderError string

fun model_error_str :: "model_error \<Rightarrow> string" where
  "model_error_str AuthenticationFailed = ''authentication failed''"
| "model_error_str RateLimited = ''rate limited''"
| "model_error_str Timeout = ''request timed out''"
| "model_error_str (InvalidResponse e) = ''invalid response: '' @ e"
| "model_error_str (ProviderError e) = ''provider error: '' @ e"

record 's model_provider =
  mp_capabilities :: model_capabilities
  mp_generate :: "model_request \<Rightarrow> ('s, model_error, model_response) io"

section \<open>The no-op provider\<close>

text \<open>\<open>to_text\<close> is \<open>Value::to_string\<close>.\<close>

definition noop_caps :: model_capabilities where
  "noop_caps = \<lparr>mcap_provider = ''noop'', mcap_model_name = ''noop'', mcap_context_window = 4096, mcap_supports_json = False\<rparr>"

definition noop_provider :: "string \<Rightarrow> json option \<Rightarrow> 's model_provider" where
  "noop_provider text js =
     \<lparr>mp_capabilities = noop_caps,
      mp_generate = (\<lambda>_. io_ret \<lparr>mr_text = text, mr_parsed = js, mr_usage = None, mr_finish_reason = ''stop''\<rparr>)\<rparr>"

definition noop_new :: "'s model_provider" where
  "noop_new = noop_provider (''Noop response '' @ [char_of (226::nat), char_of (128::nat), char_of (148::nat)] @
     '' model-runtime not configured.'') None"

definition noop_with_text :: "string \<Rightarrow> 's model_provider" where
  "noop_with_text t = noop_provider t None"

definition noop_with_json :: "(json \<Rightarrow> string) \<Rightarrow> json \<Rightarrow> 's model_provider" where
  "noop_with_json to_text j = noop_provider (to_text j) (Some j)"

section \<open>The DeepSeek provider\<close>

text \<open>\<open>post\<close> is the HTTP client's \<open>post_json\<close> with url, headers and body.\<close>

type_synonym 's http_client = "string \<Rightarrow> (string \<times> string) list \<Rightarrow> json \<Rightarrow> ('s, model_error, json) io"

record deepseek_config =
  dk_base_url :: string
  dk_api_key :: string
  dk_chat_model :: string

definition trim_end_slashes :: "string \<Rightarrow> string" where
  "trim_end_slashes s = rev (dropWhile (\<lambda>c. c = CHR ''/'') (rev s))"

definition auth_headers :: "deepseek_config \<Rightarrow> (string \<times> string) list" where
  "auth_headers D = [(''Content-Type'', ''application/json''), (''Authorization'', ''Bearer '' @ dk_api_key D)]"

definition deepseek_post :: "deepseek_config \<Rightarrow> 's http_client \<Rightarrow> string \<Rightarrow> json \<Rightarrow> ('s, model_error, json) io" where
  "deepseek_post D client path body = client (trim_end_slashes (dk_base_url D) @ path) (auth_headers D) body"

definition newline :: string where "newline = [CHR 0x0A]"

definition deepseek_content :: "model_request \<Rightarrow> string" where
  "deepseek_content r =
     (if mq_context r = [] then mq_system_prompt r
      else mq_system_prompt r @ newline @ newline @
           join (newline @ newline) (map (\<lambda>b. ''## '' @ cb_title b @ newline @ cb_content b) (mq_context r)))"

definition deepseek_body :: "deepseek_config \<Rightarrow> model_request \<Rightarrow> json" where
  "deepseek_body D r =
     JObj ([(''model'', JStr (dk_chat_model D)),
            (''messages'', JArr [JObj [(''role'', JStr ''user''), (''content'', JStr (deepseek_content r))]]),
            (''max_tokens'', JInt (gp_max_tokens (mq_parameters r))),
            (''temperature'', JFloat (gp_temperature (mq_parameters r)))] @
           (if mq_output_schema r \<noteq> None
            then [(''response_format'', JObj [(''type'', JStr ''json_object'')])] else []))"

definition deepseek_usage :: "json \<Rightarrow> token_usage option" where
  "deepseek_usage js =
     map_option (\<lambda>u.
       \<lparr>tu_prompt_tokens = as_u32 (case json_u64 (json_get ''prompt_tokens'' u) of Some n \<Rightarrow> n | None \<Rightarrow> 0),
        tu_completion_tokens = as_u32 (case json_u64 (json_get ''completion_tokens'' u) of Some n \<Rightarrow> n | None \<Rightarrow> 0)\<rparr>)
       (json_object (json_get ''usage'' js))"

definition deepseek_read :: "(string \<Rightarrow> json option) \<Rightarrow> model_request \<Rightarrow> json \<Rightarrow> (model_error, model_response) result" where
  "deepseek_read parse r js =
     (let choice = json_at 0 (json_get ''choices'' js) in
      case json_str (json_get ''content'' (json_get ''message'' choice)) of
        None \<Rightarrow> Inl (InvalidResponse ''missing message content'')
      | Some content \<Rightarrow> Inr
          \<lparr>mr_text = content,
           mr_parsed = (case mq_output_schema r of Some _ \<Rightarrow> parse content | None \<Rightarrow> None),
           mr_usage = deepseek_usage js,
           mr_finish_reason = (case json_str (json_get ''finish_reason'' choice) of Some s \<Rightarrow> s | None \<Rightarrow> ''stop'')\<rparr>)"

definition deepseek_provider ::
  "deepseek_config \<Rightarrow> (string \<Rightarrow> json option) \<Rightarrow> 's http_client \<Rightarrow> 's model_provider" where
  "deepseek_provider D parse client =
     \<lparr>mp_capabilities = \<lparr>mcap_provider = ''deepseek'', mcap_model_name = dk_chat_model D, mcap_context_window = 65536,
        mcap_supports_json = True\<rparr>,
      mp_generate = (\<lambda>r. io_bind (deepseek_post D client ''/chat/completions'' (deepseek_body D r))
        (\<lambda>js. io_lift (deepseek_read parse r js)))\<rparr>"

section \<open>Configuration\<close>

datatype model_runtime_error =
  MissingCredential string | ProviderRequestFailed string | InvalidModelResponse string | SchemaParseFailed string

definition model_config_from_env ::
  "string \<Rightarrow> string option \<Rightarrow> string option \<Rightarrow> (model_runtime_error, deepseek_config) result" where
  "model_config_from_env api_key base_url chat_model =
     (if api_key = [] then Inl (MissingCredential ''AI_API_KEY not set'')
      else Inr \<lparr>dk_base_url = (case base_url of Some u \<Rightarrow> u | None \<Rightarrow> ''https://api.deepseek.com/v1''), dk_api_key = api_key,
                dk_chat_model = (case chat_model of Some m \<Rightarrow> m | None \<Rightarrow> ''deepseek-v4-flash'')\<rparr>)"

definition build_provider ::
  "deepseek_config \<Rightarrow> (string \<Rightarrow> json option) \<Rightarrow> 's http_client \<Rightarrow> 's model_provider" where
  "build_provider D parse client = deepseek_provider D parse client"

definition is_transient_status :: "int \<Rightarrow> bool" where
  "is_transient_status n \<longleftrightarrow> n = 429 \<or> 500 \<le> n \<and> n < 600"

section \<open>The router\<close>

datatype model_capability = FastGeneration | Reasoning | LongContext | StructuredOutput | LowCost

record 's provider_entry =
  pe_provider :: "'s model_provider"
  pe_capabilities :: "model_capability list"
  pe_priority :: int

type_synonym 's provider_router = "'s provider_entry list"

definition router_register ::
  "'s model_provider \<Rightarrow> model_capability list \<Rightarrow> int \<Rightarrow> 's provider_router \<Rightarrow> 's provider_router" where
  "router_register p caps prio R = R @ [\<lparr>pe_provider = p, pe_capabilities = caps, pe_priority = prio\<rparr>]"

fun required_capabilities :: "model_task \<Rightarrow> model_capability list" where
  "required_capabilities Summarization = [FastGeneration, StructuredOutput]"
| "required_capabilities ClaimExtraction = [Reasoning, StructuredOutput]"
| "required_capabilities ReflectionTask = [Reasoning, LongContext]"
| "required_capabilities AgentAnswer = [Reasoning]"

definition satisfies :: "model_capability list \<Rightarrow> model_capability list \<Rightarrow> bool" where
  "satisfies provider_caps required \<longleftrightarrow> list_all (\<lambda>r. r \<in> set provider_caps) required"

definition router_capabilities :: "'s provider_router \<Rightarrow> model_capabilities" where
  "router_capabilities R =
     (case R of e # _ \<Rightarrow> mp_capabilities (pe_provider e)
      | [] \<Rightarrow> \<lparr>mcap_provider = ''router'', mcap_model_name = ''router'', mcap_context_window = 0, mcap_supports_json = False\<rparr>)"

definition router_generate :: "'s provider_router \<Rightarrow> model_request \<Rightarrow> ('s, model_error, model_response) io" where
  "router_generate R r =
     (case List.find (\<lambda>e. satisfies (pe_capabilities e) (required_capabilities (mq_task r))) R of
        Some e \<Rightarrow> mp_generate (pe_provider e) r
      | None \<Rightarrow>
          (case R of [] \<Rightarrow> io_err (ProviderError ''No model providers registered'')
           | e # _ \<Rightarrow> mp_generate (pe_provider e) r))"

section \<open>The gateway\<close>

record provider_config =
  pc_provider_type :: string
  pc_model :: string
  pc_priority :: int
  pc_cost_per_1k_tokens :: f64
  pc_capabilities :: "string list"

record routing_policy =
  rp_task_defaults :: "(string \<times> string list) list"
  rp_provider_configs :: "(string \<times> provider_config) list"

definition default_routing_policy :: routing_policy where
  "default_routing_policy =
     \<lparr>rp_task_defaults =
        [(''summarization'', [''fast_generation'', ''structured_output'']),
         (''claim_extraction'', [''reasoning'', ''structured_output'']),
         (''reflection'', [''reasoning'', ''long_context'']),
         (''agent'', [''reasoning''])],
      rp_provider_configs =
        [(''deepseek-chat'',
          \<lparr>pc_provider_type = ''deepseek'', pc_model = ''deepseek-v4-flash'', pc_priority = 1,
           pc_cost_per_1k_tokens = lit64 0.5,
           pc_capabilities = [''reasoning'', ''structured_output'', ''fast_generation'']\<rparr>)]\<rparr>"

definition policy_task_capabilities :: "routing_policy \<Rightarrow> model_task \<Rightarrow> string list" where
  "policy_task_capabilities P t =
     (case map_of (rp_task_defaults P) (model_task_str t) of Some cs \<Rightarrow> cs | None \<Rightarrow> [])"

definition gateway_generate ::
  "'s model_provider list \<Rightarrow> routing_policy \<Rightarrow> model_request \<Rightarrow> ('s, model_error, model_response) io" where
  "gateway_generate ps P r =
     (case ps of [] \<Rightarrow> io_err (ProviderError ''no providers registered'') | p # _ \<Rightarrow> mp_generate p r)"

definition gateway_capabilities :: "'s model_provider list \<Rightarrow> model_capabilities" where
  "gateway_capabilities ps =
     (case ps of p # _ \<Rightarrow> mp_capabilities p
      | [] \<Rightarrow> \<lparr>mcap_provider = ''gateway'', mcap_model_name = ''none'', mcap_context_window = 0, mcap_supports_json = False\<rparr>)"

end
