(* ===== verification/DecisionRoutes.thy ===== *)
theory DecisionRoutes
  imports DecisionProps EventArchive ModelRuntime
begin

text \<open>
  The write endpoints of the Decision vertical, \<open>crates/worker-entry/src/routes/decision_write.rs\<close>: they
  parse the request, call the service, and put one envelope per fact into the outbox once the rows are
  written.  A request is its id segment and its JSON body (\<open>None\<close> when it does not parse).  The two
  endpoints of decision records are not here: they only forward to the store.
\<close>

section \<open>Requests, replies, environment\<close>

datatype route_reply = RouteOk json | RouteErr nat string

text \<open>
  \<open>rn_clk k\<close> is the service's \<open>k\<close>-th reading of the clock, \<open>rn_now\<close> the second the envelopes carry,
  \<open>rn_ms k\<close> and \<open>rn_nonce k\<close> what the \<open>k\<close>-th envelope's id is made from.
\<close>

record route_env =
  rn_clk :: "nat \<Rightarrow> int"
  rn_now :: int
  rn_ms :: "nat \<Rightarrow> int"
  rn_nonce :: "nat \<Rightarrow> nat"

text \<open>The composition root's store: the service's ports, the row lookup and the outbox.\<close>

record 's route_store =
  rs_service :: "'s service_ports"
  rs_find :: "int \<Rightarrow> ('s, store_error, decision_row option) io"
  rs_outbox :: "new_outbox \<Rightarrow> ('s, store_error, int) io"

section \<open>Envelopes\<close>

definition hex_char :: "nat \<Rightarrow> char" where
  "hex_char d = (if d < 10 then digit_char d else char_of (87 + d))"

fun hex_digits :: "nat \<Rightarrow> nat \<Rightarrow> string" where
  "hex_digits 0 n = []"
| "hex_digits (Suc k) n = hex_digits k (n div 16) @ [hex_char (n mod 16)]"

text \<open>\<open>{:08x}\<close> of a \<open>u32\<close>: eight digits.\<close>

definition hex08 :: "nat \<Rightarrow> string" where
  "hex08 n = hex_digits 8 n"

definition as_u64 :: "int \<Rightarrow> int" where
  "as_u64 n = n mod 2 ^ 64"

definition route_event_id :: "route_env \<Rightarrow> nat \<Rightarrow> int \<Rightarrow> string" where
  "route_event_id V k seq =
     ''evt_'' @ show_i64 (rn_now V) @ ''_'' @ show_i64 (rn_ms V k) @ ''_'' @ show_i64 seq @ ''_'' @ hex08 (rn_nonce V k)"

definition route_envelope ::
  "route_env \<Rightarrow> nat \<Rightarrow> string \<Rightarrow> string \<Rightarrow> string \<Rightarrow> json \<Rightarrow> int \<Rightarrow> json event_envelope" where
  "route_envelope V k event_type aggregate_type aggregate_id payload seq =
     \<lparr>ee_schema_version = 1, ee_event_id = route_event_id V k seq, ee_event_version = 1,
      ee_aggregate = \<lparr>ar_aggregate_type = aggregate_type, ar_aggregate_id = aggregate_id\<rparr>,
      ee_event_type = event_type, ee_payload = payload,
      ee_metadata = \<lparr>em_actor = ''system'', em_source = ''api''\<rparr>, ee_correlation_id = '''', ee_causation_id = '''',
      ee_occurred_at = rn_now V, ee_created_at = rn_now V\<rparr>"

text \<open>The outbox row of an envelope; a failing insert is ignored.  \<open>enc\<close> is its JSON text.\<close>

definition envelope_row :: "(json event_envelope \<Rightarrow> string) \<Rightarrow> json event_envelope \<Rightarrow> new_outbox" where
  "envelope_row enc ev =
     \<lparr>nob_object_type = ''event:'' @ ar_aggregate_type (ee_aggregate ev),
      nob_object_key = event_key (ar_aggregate_type (ee_aggregate ev)) (ee_occurred_at ev) (ee_event_id ev),
      nob_payload = enc ev\<rparr>"

definition emit_envelope :: "'s route_store \<Rightarrow> (json event_envelope \<Rightarrow> string) \<Rightarrow> json event_envelope \<Rightarrow> 's \<Rightarrow> 's" where
  "emit_envelope S enc ev s = io_ignore (rs_outbox S (envelope_row enc ev)) s"

section \<open>Errors and statuses\<close>


fun map_decision_error :: "decision_error \<Rightarrow> route_reply" where
  "map_decision_error (NotFound i) = RouteErr 404 ''decision not found''"
| "map_decision_error (InvalidTransition a b) = RouteErr 400 ''invalid status transition''"
| "map_decision_error MissingOutcome = RouteErr 400 ''decision has no observed outcome''"
| "map_decision_error _ = RouteErr 500 ''Internal server error''"

section \<open>The handlers\<close>

definition json_text :: "string \<Rightarrow> json \<Rightarrow> string option" where
  "json_text k body = json_str (json_get k body)"

definition or_default :: "'a option \<Rightarrow> 'a \<Rightarrow> 'a" where
  "or_default x d = (case x of Some a \<Rightarrow> a | None \<Rightarrow> d)"

definition success_json :: json where
  "success_json = JObj [(''success'', JBool True)]"

definition parse_expected :: "json \<Rightarrow> expected_outcome option" where
  "parse_expected item =
     Option.bind (json_text ''metric'' item) (\<lambda>m.
     Option.bind (json_text ''expected_value'' item) (\<lambda>v.
     Option.bind (json_text ''measurement_method'' item) (\<lambda>w.
       Some \<lparr>eo_metric = m, eo_expected_value = v, eo_measurement_method = w\<rparr>)))"

definition parse_proposal :: "int \<Rightarrow> string \<Rightarrow> json \<Rightarrow> propose_decision" where
  "parse_proposal signal_id title_text body =
     \<lparr>pd_id = 0, pd_title = title_text, pd_hypothesis = json_text ''hypothesis'' body,
      pd_confidence = or_default (json_f64 (json_get ''confidence'' body)) (lit64 0.5),
      pd_rationale = json_text ''rationale'' body,
      pd_decision_type = or_default (json_text ''decision_type'' body) ''monitor'',
      pd_priority = or_default (json_text ''priority'' body) ''medium'', pd_signal_thread_id = Some signal_id,
      pd_actor_id = (case json_i64 (json_get ''actor_id'' body) of Some a \<Rightarrow> Some a | None \<Rightarrow> Some 0),
      pd_expected_outcomes =
        (case json_array (json_get ''expected_outcomes'' body) of Some items \<Rightarrow> List.map_filter parse_expected items | None \<Rightarrow> [])\<rparr>"

definition created_envelope :: "route_env \<Rightarrow> created_decision \<Rightarrow> json event_envelope" where
  "created_envelope V c =
     (let a = cd_aggregate c in
      route_envelope V 0 ''DecisionCreated'' ''decision'' (domain_id (cd_decision_id c))
        (JObj [(''title'', JStr (title a)), (''decision_type'', JStr (decision_type a)),
               (''confidence'', JFloat (confidence a)), (''priority'', JStr (priority a))])
        (as_u64 (cd_decision_id c)))"

definition route_create ::
  "'s route_store \<Rightarrow> (json event_envelope \<Rightarrow> string) \<Rightarrow> (decision_row \<Rightarrow> json) \<Rightarrow> route_env \<Rightarrow> string option \<Rightarrow> json option
    \<Rightarrow> 's \<Rightarrow> route_reply \<times> 's" where
  "route_create S enc row_json V seg body s =
     (case Option.bind seg parse_i64 of None \<Rightarrow> (RouteErr 400 ''invalid signal thread id'', s)
      | Some signal_id \<Rightarrow>
     (case body of None \<Rightarrow> (RouteErr 400 ''invalid request body'', s)
      | Some b \<Rightarrow>
     (case json_text ''title'' b of None \<Rightarrow> (RouteErr 400 ''title is required'', s)
      | Some t \<Rightarrow>
     (case svc_create (rs_service S) (rn_clk V) (parse_proposal signal_id t b) s of
        (Inl e, s1) \<Rightarrow> (map_decision_error e, s1)
      | (Inr c, s1) \<Rightarrow>
          (case rs_find S (cd_decision_id c) (emit_envelope S enc (created_envelope V c) s1) of
             (Inr (Some d), s2) \<Rightarrow> (RouteOk (JObj [(''success'', JBool True), (''decision'', row_json d)]), s2)
           | (Inr None, s2) \<Rightarrow> (RouteErr 500 ''Internal server error'', s2)
           | (Inl _, s2) \<Rightarrow> (RouteErr 500 ''Internal server error'', s2))))))"






definition parse_evaluation :: "int \<Rightarrow> json \<Rightarrow> new_decision_evaluation" where
  "parse_evaluation i b =
     \<lparr>ne_decision_id = i, ne_evaluation = evaluation_result_of (or_default (json_text ''evaluation'' b) ''inconclusive''),
      ne_confidence = json_f64 (json_get ''confidence'' b), ne_reasoning = json_text ''reasoning'' b,
      ne_evaluator = evaluation_source_of (or_default (json_text ''evaluator'' b) ''manual''),
      ne_evaluated_at = json_i64 (json_get ''evaluated_at'' b)\<rparr>"

definition evaluation_envelope :: "route_env \<Rightarrow> new_decision_evaluation \<Rightarrow> json event_envelope" where
  "evaluation_envelope V e =
     route_envelope V 0 ''DecisionEvaluated'' ''decision'' (domain_id (ne_decision_id e))
       (JObj [(''evaluation'', JStr (evaluation_result_str (ne_evaluation e))),
              (''confidence'', case ne_confidence e of Some x \<Rightarrow> JFloat x | None \<Rightarrow> JNull),
              (''evaluator'', JStr (evaluation_source_str (ne_evaluator e)))]) (as_u64 (ne_decision_id e))"

definition route_create_evaluation ::
  "'s route_store \<Rightarrow> (json event_envelope \<Rightarrow> string) \<Rightarrow> route_env \<Rightarrow> string option \<Rightarrow> json option \<Rightarrow> 's \<Rightarrow> route_reply \<times> 's" where
  "route_create_evaluation S enc V seg body s =
     (case Option.bind seg parse_i64 of None \<Rightarrow> (RouteErr 400 ''invalid decision id'', s)
      | Some i \<Rightarrow>
     (case body of None \<Rightarrow> (RouteErr 400 ''invalid request body'', s)
      | Some b \<Rightarrow>
     (case svc_record_evaluation (rs_service S) (parse_evaluation i b) s of
        (Inl e, s1) \<Rightarrow> (map_decision_error e, s1)
      | (Inr _, s1) \<Rightarrow> (RouteOk success_json, emit_envelope S enc (evaluation_envelope V (parse_evaluation i b)) s1))))"



section \<open>The service never touches the outbox\<close>

abbreviation outbox_state :: "memory_store \<Rightarrow> outbox_entry list \<times> int" where
  "outbox_state s \<equiv> (outbox s, next_outbox_id s)"


lemma repo_save_new_outbox: "repo_save_new memory_ops enc d s = (r, s') \<Longrightarrow> outbox_state s' = outbox_state s"
  by (cases "into_row enc d")
    (auto simp: repo_save_new_def try_insert_decision_def io split: if_splits)



lemma create_loop_outbox: "create_loop (memory_service en de) n clk cmd s = (r, s') \<Longrightarrow> outbox_state s' = outbox_state s"
proof (induction n arbitrary: clk s)
  case (Suc n)
  let ?i = "next_decision_id s" and ?s1 = "s\<lparr>next_decision_id := next_decision_id s + 1\<rparr>"
  show ?case
  proof (cases "create_walk clk cmd ?i")
    case (Inl e)
    with Suc.prems show ?thesis by (auto simp: ms_next_decision_id_def io)
  next
    case (Inr a)
    obtain q s2 where q: "repo_save_new memory_ops en a ?s1 = (q, s2)" by (rule prod.exhaust)
    with repo_save_new_outbox [OF q] Inr Suc show ?thesis
      by (auto simp: ms_next_decision_id_def io drain_events_def split: sum.splits if_splits)
  qed
qed simp

lemma svc_create_outbox: "svc_create (memory_service en de) clk cmd s = (r, s') \<Longrightarrow> outbox_state s' = outbox_state s"
  unfolding svc_create_def by (rule create_loop_outbox)



section \<open>The stored row after a transition\<close>



lemma ms_row_status: "ms_view de s i = Some d \<Longrightarrow> \<exists>row. ms_row s i = Some row \<and> status d = status_from_d1 (d_status row)"
  by (auto simp: ms_view_def view_of_def from_store_def reconstruct_def)




section \<open>The status endpoint\<close>








section \<open>The outcome endpoint\<close>



lemma hex_digits_length [simp]: "length (hex_digits k n) = k"
  by (induction k arbitrary: n) auto





end
