(* ===== verification/ArchiveProps.thy ===== *)
theory ArchiveProps
  imports EventArchive
begin

text \<open>
  The properties of the archive pipeline, over the D1 tables and the R2 bucket, under every schedule
  of failures of either; and what the worker cannot do: an outbox entry it cannot decode is never
  given up, and a hundred of them stop the archive.
\<close>

definition d1_start :: "bool list \<Rightarrow> d1_tables" where
  "d1_start fs = d1_empty\<lparr>d1_faults := fs\<rparr>"

definition r2_start :: "string option list \<Rightarrow> r2_state" where
  "r2_start gs = \<lparr>r2_objects = [], r2_faults = gs\<rparr>"

lemma start_sound: "d1_archive.sound (d1_start fs, r2_start gs)"
  by (simp add: d1_archive.sound_def d1_start_def d1_empty_def d1_wf_def outbox_ok_def stored_ok_def)

text \<open>
  C3: whatever is enqueued and however statements and object writes fail, an outbox row is pending
  or archived and was never counted as retried, and for every archived row the bucket holds, under
  its key, the payload of an outbox row with that key.
\<close>

theorem archive_history_safe:
  "let (t, b) = archive_run d1_outbox_ops dec (r2_write now) calls (d1_start fs, r2_start gs)
   in outbox_ok (d1_outbox t) \<and> stored_ok (d1_outbox t) (map_of (r2_objects b))"
  using d1_archive.run_sound [OF start_sound, of dec now calls fs gs]
  by (auto simp: d1_archive.sound_def split: prod.splits)

text \<open>
  The outbox loses nothing: later calls keep every row in its place with its type, key and
  payload, and change its status at most from pending to archived.
\<close>

theorem archive_history_keeps:
  "outbox_keeps
     (d1_outbox (fst (archive_run d1_outbox_ops dec (r2_write now) calls (d1_start fs, r2_start gs))))
     (d1_outbox (fst (archive_run d1_outbox_ops dec (r2_write now) (calls @ later) (d1_start fs, r2_start gs))))"
proof -
  let ?mid = "archive_run d1_outbox_ops dec (r2_write now) calls (d1_start fs, r2_start gs)"
  have "archive_run d1_outbox_ops dec (r2_write now) (calls @ later) (d1_start fs, r2_start gs) =
      archive_run d1_outbox_ops dec (r2_write now) later ?mid"
    by (simp add: archive_run_def)
  moreover have "d1_archive.sound ?mid" using d1_archive.run_sound [OF start_sound] by blast
  ultimately show ?thesis using d1_archive.run_sound [of ?mid dec now later] by simp
qed


definition sample_new_outbox :: "string \<Rightarrow> new_outbox" where
  "sample_new_outbox ty = \<lparr>nob_object_type = ty, nob_object_key = ''k'', nob_payload = ''p''\<rparr>"

definition sample_tables :: "string \<Rightarrow> nat \<Rightarrow> d1_tables" where
  "sample_tables ty n =
     d1_empty\<lparr>d1_outbox := map (\<lambda>k. fresh_row (int k) 5 (sample_new_outbox ty)) [0..<n],
              d1_next_outbox := int n\<rparr>"

lemma sample_tables_ok:
  "d1_wf (sample_tables ty n)" "d1_faults (sample_tables ty n) = []"
  "pending_rows (d1_outbox (sample_tables ty n)) = d1_outbox (sample_tables ty n)"
  "outbox_ok (d1_outbox (sample_tables ty n))" "length (d1_outbox (sample_tables ty n)) = n"
  by (auto simp: sample_tables_def d1_wf_def d1_empty_def fresh_row_def pending_rows_def outbox_ok_def
      comp_def distinct_map inj_on_def)


text \<open>
  C12: an entry whose payload is not an envelope is never given up. When the hundred entries the
  worker drains are of that kind, a pass changes nothing at all, so no number of passes ever
  archives anything again: \<open>mark_outbox_failed\<close> acts from the third retry on, and nothing counts
  retries.
\<close>

theorem poison_starves_archive:
  assumes "d1_faults t = []" "outbox_ok (d1_outbox t)"
    and "d1_drain_outbox 100 t = (Inr es, t')"
    and "list_all (\<lambda>e. starts_with ''event:'' (ob_object_type e) \<and> dec (ob_payload e) = None) es"
  shows "((archive_outbox d1_outbox_ops dec (r2_write now)) ^^ n) (t, b) = (t, b)"
proof -
  have t': "t' = t" using assms(1,3) by (simp add: d1_drain_outbox_def d1_statement_def)
  have failed: "d1_mark_outbox_failed i t = (Inr (), t)" for i
  proof -
    have "d1_mark_outbox_failed i t = (Inr (), t\<lparr>d1_outbox := mark_failed i (d1_outbox t)\<rparr>)"
      using assms(1) by (simp add: d1_mark_outbox_failed_def d1_statement_def mark_failed_def)
    then show ?thesis by (simp add: mark_failed_none [OF assms(2)])
  qed
  have entry: "archive_entry d1_outbox_ops dec (r2_write now) e (t, b) = (t, b)" if "e \<in> set es" for e
    using that assms(4) failed
    by (simp add: archive_entry_def handle_event_outbox_def list_all_iff d1_outbox_ops_def io_ignore_def)
  then have "fold (archive_entry d1_outbox_ops dec (r2_write now)) es (t, b) = (t, b)"
    by (induction es) simp_all
  with assms(3) t' have "archive_outbox d1_outbox_ops dec (r2_write now) (t, b) = (t, b)"
    by (simp add: archive_outbox_def d1_outbox_ops_def)
  then show ?thesis by (induction n) simp_all
qed

lemma sample_drain:
  "\<exists>es. d1_drain_outbox k (sample_tables ty n) = (Inr es, sample_tables ty n) \<and>
     set es \<subseteq> set (d1_outbox (sample_tables ty n))"
proof -
  let ?es = "take k (sort_by (\<lambda>x y. ob_created_at x \<le> ob_created_at y)
    (filter (\<lambda>e. ob_status e = ''pending'') (d1_outbox (sample_tables ty n))))"
  have "d1_drain_outbox k (sample_tables ty n) = (Inr ?es, sample_tables ty n)"
    by (simp add: d1_drain_outbox_def d1_statement_def sample_tables_ok(2))
  moreover have "set ?es \<subseteq> set (d1_outbox (sample_tables ty n))"
    using set_take_subset by fastforce
  ultimately show ?thesis by blast
qed

theorem poison_starves_archive_witness:
  "((archive_outbox d1_outbox_ops (\<lambda>_. None :: unit event_envelope option) (r2_write 9)) ^^ 1000)
     (sample_tables ''event:reflection'' 100, r2_start []) = (sample_tables ''event:reflection'' 100, r2_start [])"
proof -
  let ?t = "sample_tables ''event:reflection'' 100"
  obtain es where d: "d1_drain_outbox 100 ?t = (Inr es, ?t)"
    and es: "set es \<subseteq> set (d1_outbox ?t)"
    using sample_drain by blast
  have "list_all (\<lambda>e. starts_with ''event:'' (ob_object_type e) \<and> (\<lambda>_. None :: unit event_envelope option) (ob_payload e) = None) es"
    using es by (auto simp: list_all_iff sample_tables_def fresh_row_def sample_new_outbox_def starts_with_def)
  from poison_starves_archive [OF sample_tables_ok(2,4) d this] show ?thesis by simp
qed

text \<open>
  C13: an event appended to an empty production store is not visible before the archive worker has
  run, and is the one event \<open>load_events\<close> returns for its aggregate afterwards; indexing it again in
  the worker does not duplicate it.
\<close>

theorem event_append_archive_load:
  assumes "dec (enc ev) = Some ev" "0 < limit"
    and "append_event d1_outbox_ops enc ev (d1_start []) = (r, t)"
  shows "r = Inr (ee_event_id ev) \<and>
    fst (load_events d1_outbox_ops r2_read dec (ar_aggregate_type (ee_aggregate ev))
      (ar_aggregate_id (ee_aggregate ev)) limit (t, r2_start [])) = Inr [] \<and>
    fst (load_events d1_outbox_ops r2_read dec (ar_aggregate_type (ee_aggregate ev))
      (ar_aggregate_id (ee_aggregate ev)) limit
      (archive_outbox d1_outbox_ops dec (r2_write now) (t, r2_start []))) = Inr [ev]"
proof -
  let ?key = "event_key (ar_aggregate_type (ee_aggregate ev)) (ee_occurred_at ev) (ee_event_id ev)"
  let ?row = "\<lparr>ob_id = 1, ob_object_type = ''event:'' @ ar_aggregate_type (ee_aggregate ev),
       ob_object_key = ?key, ob_payload = enc ev, ob_status = ''pending'', ob_created_at = 0, ob_retry_count = 0\<rparr>"
  let ?idx = "\<lparr>ei_id = 1, ei_event_id = ee_event_id ev, ei_aggregate_type = ar_aggregate_type (ee_aggregate ev),
       ei_aggregate_id = ar_aggregate_id (ee_aggregate ev), ei_event_type = ee_event_type ev,
       ei_object_key = ?key, ei_occurred_at = ee_occurred_at ev, ei_created_at = 0\<rparr>"
  let ?t = "\<lparr>d1_outbox = [?row], d1_next_outbox = 2, d1_index = [?idx], d1_next_index = 2, d1_clock = 0, d1_faults = []\<rparr>"
  have app: "r = Inr (ee_event_id ev)" "t = ?t"
    using assms(3)
    by (auto simp: append_event_def Let_def d1_outbox_ops_def d1_insert_outbox_def d1_insert_event_index_def
        d1_statement_def d1_start_def d1_empty_def io)
  have ev: "starts_with ''event:'' (ob_object_type ?row)"
    by (simp add: starts_with_def)
  obtain k where k: "limit = Suc k" using assms(2) by (cases limit) auto
  have before: "fst (load_events d1_outbox_ops r2_read dec (ar_aggregate_type (ee_aggregate ev))
      (ar_aggregate_id (ee_aggregate ev)) limit (t, r2_start [])) = Inr []"
    by (simp add: app load_events_def d1_outbox_ops_def d1_find_event_keys_def d1_statement_def io k
        r2_read_def r2_call_def r2_start_def)
  have pass: "archive_outbox d1_outbox_ops dec (r2_write now) (t, r2_start []) =
      (?t\<lparr>d1_outbox := [?row\<lparr>ob_status := ''archived''\<rparr>]\<rparr>, \<lparr>r2_objects = [(?key, enc ev)], r2_faults = []\<rparr>)"
    using ev
    by (simp add: app archive_outbox_def d1_outbox_ops_def d1_drain_outbox_def d1_statement_def
        archive_entry_def handle_event_outbox_def handle_archive_outbox_def assms(1) io_ignore_def
        d1_insert_event_index_def d1_mark_outbox_archived_def r2_write_def r2_call_def r2_start_def)
  have "fst (load_events d1_outbox_ops r2_read dec (ar_aggregate_type (ee_aggregate ev))
      (ar_aggregate_id (ee_aggregate ev)) limit
      (archive_outbox d1_outbox_ops dec (r2_write now) (t, r2_start []))) = Inr [ev]"
    unfolding pass
    by (simp add: load_events_def d1_outbox_ops_def d1_find_event_keys_def d1_statement_def io k
        r2_read_def r2_call_def assms(1))
  with app(1) before show ?thesis by simp
qed

definition sample_event :: "unit event_envelope" where
  "sample_event =
     \<lparr>ee_schema_version = 1, ee_event_id = ''evt_1'', ee_event_version = 1,
      ee_aggregate = \<lparr>ar_aggregate_type = ''decision'', ar_aggregate_id = ''DEC-000001''\<rparr>,
      ee_event_type = ''DecisionCreated'', ee_payload = (),
      ee_metadata = \<lparr>em_actor = ''system'', em_source = ''api''\<rparr>, ee_correlation_id = [],
      ee_causation_id = [], ee_occurred_at = 1721865600, ee_created_at = 1721865600\<rparr>"

theorem event_append_archive_load_witness:
  "fst (append_event d1_outbox_ops (\<lambda>_. ''x'') sample_event (d1_start [])) = Inr ''evt_1''"
proof -
  obtain r t where a: "append_event d1_outbox_ops (\<lambda>_. ''x'') sample_event (d1_start []) = (r, t)" by fastforce
  from event_append_archive_load [of "\<lambda>_. Some sample_event" "\<lambda>_. ''x''" sample_event 1, OF _ _ a] a
  show ?thesis by (simp add: sample_event_def)
qed

end
