(* ===== verification/Reflection.thy ===== *)
theory Reflection
  imports EventArchive "HOL-Library.Word"
begin

text \<open>
  The reflection bounded context (\<open>crates/intelligence/reflection-engine/src\<close>): the context
  builder, the validation of drafts, the engine's run of one job; its adapters in
  \<open>crates/infrastructure/src\<close> (\<open>reflection_repository.rs\<close>, \<open>artifact_registry.rs\<close>,
  \<open>event_log.rs\<close>); and the scheduling queries and cron cycle that drive it
  (\<open>store/d1/reflection/crud.rs\<close>, \<open>worker-entry/src/jobs/reflection.rs\<close>).

  The language model is a port (\<open>rp_generate\<close>), \<open>serde_json\<close> the functions that turn drafts and
  payloads into text, and \<open>show\<close> the standard library's text of a float, which only ever ends up
  in an error message.
\<close>

section \<open>Records\<close>

datatype reflection_error = Persistence string | DecisionNotFound int | AlreadyTracked int

fun reflection_error_str :: "reflection_error \<Rightarrow> string" where
  "reflection_error_str (Persistence e) = ''persistence error: '' @ e"
| "reflection_error_str (DecisionNotFound i) = ''decision '' @ show_i64 i @ '' not found''"
| "reflection_error_str (AlreadyTracked i) = ''reflection already tracked for decision '' @ show_i64 i"

record reflection_record =
  rr_id :: int
  rr_decision_id :: int
  rr_retry_count :: int

record reflection_update =
  ru_id :: int
  ru_status :: string
  ru_result :: "string option"
  ru_quality_score :: "f64 option"
  ru_artifact_key :: "string option"
  ru_lessons_count :: "int option"
  ru_rules_count :: "int option"
  ru_retry_count :: "int option"
  ru_last_error :: "string option"
  ru_started_at :: "int option"
  ru_lease_until :: "int option"

record decision_snapshot =
  dsn_id :: int
  dsn_title :: string
  dsn_decision_type :: string

record thesis_snapshot =
  ths_hypothesis :: string
  ths_assumptions :: "string list"
  ths_initial_confidence :: f64

record outcome_snapshot =
  osn_id :: int
  osn_outcome_type :: string
  osn_observation :: string

record evaluation_snapshot =
  evs_evaluation :: string
  evs_confidence :: "f64 option"
  evs_reasoning :: "string option"

record evidence_item =
  evi_source :: string
  evi_summary :: string
  evi_relevance_score :: f64
  evi_captured_at :: int

record reflection_context =
  rc_decision :: decision_snapshot
  rc_thesis :: thesis_snapshot
  rc_outcome :: "outcome_snapshot option"
  rc_evaluations :: "evaluation_snapshot list"
  rc_evidence :: "evidence_item list"
  rc_completeness_score :: f64

record decision_facts =
  df_decision_id :: int
  df_title :: string
  df_decision_type :: string
  df_hypothesis :: "string option"
  df_confidence :: f64
  df_outcome :: "outcome_snapshot option"
  df_evaluations :: "evaluation_snapshot list"

record lesson_draft =
  ld_category :: string
  ld_domain :: string
  ld_description :: string
  ld_severity :: string
  ld_confidence :: f64
  ld_evidence_basis :: "string list"

record rule_draft =
  rld_condition_domain :: string
  rld_condition_trigger :: string
  rld_action_type :: string
  rld_action_instruction :: string
  rld_confidence :: f64

record reflection_draft =
  dr_result :: string
  dr_confidence_calibration :: string
  dr_quality_score :: f64
  dr_lessons :: "lesson_draft list"
  dr_rules :: "rule_draft list"

record validation_result =
  vr_valid :: bool
  vr_quality_score :: f64
  vr_errors :: "string list"
  vr_warnings :: "string list"

section \<open>Context and validation\<close>

definition build_context :: "decision_facts \<Rightarrow> reflection_context" where
  "build_context facts =
     (let thesis = \<lparr>ths_hypothesis = (case df_hypothesis facts of None \<Rightarrow> [] | Some h \<Rightarrow> h),
                    ths_assumptions = [], ths_initial_confidence = df_confidence facts\<rparr>;
          decision_score = lit64 0.3;
          thesis_score = (if ths_hypothesis thesis = [] then lit64 0 else lit64 0.2);
          outcome_score = (if df_outcome facts \<noteq> None then lit64 0.3 else lit64 0);
          evidence_score = lit64 0.2;
          completeness = fadd binary64 (fadd binary64 (fadd binary64 decision_score thesis_score) outcome_score) evidence_score
      in \<lparr>rc_decision = \<lparr>dsn_id = df_decision_id facts, dsn_title = df_title facts,
                         dsn_decision_type = df_decision_type facts\<rparr>,
          rc_thesis = thesis, rc_outcome = df_outcome facts, rc_evaluations = df_evaluations facts,
          rc_evidence = [], rc_completeness_score = completeness\<rparr>)"

text \<open>The errors of one lesson and of one rule, with its index.\<close>

definition lesson_errors :: "(f64 \<Rightarrow> string) \<Rightarrow> nat \<Rightarrow> lesson_draft \<Rightarrow> string list" where
  "lesson_errors show i l =
     (if length (ld_description l) < 20
      then [''lesson '' @ dec_nat i @ '': description too short ('' @ dec_nat (length (ld_description l)) @ '' chars)'']
      else []) @
     (if \<not> in_range (Fin 0) (Fin 1) (ld_confidence l)
      then [''lesson '' @ dec_nat i @ '': confidence out of range [0,1]: '' @ show (ld_confidence l)] else []) @
     (if ld_evidence_basis l = []
      then [''lesson '' @ dec_nat i @ '': evidence_basis is empty (must be traceable)''] else [])"

definition rule_errors :: "(f64 \<Rightarrow> string) \<Rightarrow> nat \<Rightarrow> rule_draft \<Rightarrow> string list" where
  "rule_errors show i r =
     (if rld_action_type r = [] then [''rule '' @ dec_nat i @ '': action_type is required''] else []) @
     (if rld_action_instruction r = [] then [''rule '' @ dec_nat i @ '': action_instruction is required''] else []) @
     (if \<not> in_range (Fin 0) (Fin 1) (rld_confidence r)
      then [''rule '' @ dec_nat i @ '': confidence out of range [0,1]: '' @ show (rld_confidence r)] else [])"

fun enumerate_errors :: "(nat \<Rightarrow> 'a \<Rightarrow> string list) \<Rightarrow> nat \<Rightarrow> 'a list \<Rightarrow> string list" where
  "enumerate_errors f i [] = []"
| "enumerate_errors f i (x # xs) = f i x @ enumerate_errors f (Suc i) xs"

definition validate_draft :: "(f64 \<Rightarrow> string) \<Rightarrow> reflection_draft \<Rightarrow> validation_result" where
  "validate_draft show d =
     (let errors =
        (if dr_result d = ''correct'' \<or> dr_result d = ''wrong'' \<or> dr_result d = ''mixed'' then []
         else [''invalid result: '' @ dr_result d]) @
        (if dr_lessons d = [] then [''at least 1 lesson required''] else []) @
        enumerate_errors (lesson_errors show) 0 (dr_lessons d) @
        enumerate_errors (rule_errors show) 0 (dr_rules d)
      in \<lparr>vr_valid = (errors = []), vr_quality_score = fclamp (dr_quality_score d) (Fin 0) (Fin 1),
          vr_errors = errors, vr_warnings = []\<rparr>)"

lemma enumerate_errors_Nil: "enumerate_errors f i xs = [] \<longleftrightarrow> (\<forall>k < length xs. f (i + k) (xs ! k) = [])"
proof (induction xs arbitrary: i)
  case (Cons x xs)
  show ?case
    by (auto simp: Cons.IH less_Suc_eq_0_disj)
qed simp

section \<open>The repository adapter\<close>

record 's reflection_store_ops =
  rso_get :: "int \<Rightarrow> ('s, store_error, reflection_row option) io"
  rso_create :: "new_reflection \<Rightarrow> ('s, store_error, int) io"
  rso_update :: "update_reflection_req \<Rightarrow> ('s, store_error, unit) io"
  rso_find_decision :: "int \<Rightarrow> ('s, store_error, decision_row option) io"
  rso_outcomes :: "int \<Rightarrow> ('s, store_error, outcome_event list) io"
  rso_evaluations :: "int \<Rightarrow> ('s, store_error, decision_evaluation list) io"
  rso_insert_outbox :: "new_outbox \<Rightarrow> ('s, store_error, int) io"

abbreviation to_persistence :: "('s, store_error, 'a) io \<Rightarrow> ('s, reflection_error, 'a) io" where
  "to_persistence \<equiv> io_map_err (\<lambda>e. Persistence (store_error_str e))"

definition max_reflection_retries :: int where
  "max_reflection_retries = 3"

definition reopen_req :: "int \<Rightarrow> update_reflection_req" where
  "reopen_req i =
     \<lparr>ur_id = i, ur_status = ''generating'', ur_result = None, ur_quality_score = None,
      ur_artifact_key = None, ur_lessons_count = None, ur_rules_count = None, ur_retry_count = None,
      ur_last_error = None, ur_started_at = None, ur_lease_until = None\<rparr>"

definition rrepo_create :: "'s reflection_store_ops \<Rightarrow> int \<Rightarrow> string \<Rightarrow> ('s, reflection_error, int) io" where
  "rrepo_create S decision_id job_id =
     io_bind (to_persistence (rso_get S decision_id)) (\<lambda>existing.
       case existing of
         Some r \<Rightarrow>
           (if \<not> (r_status r = ''failed'' \<and> r_retry_count r < max_reflection_retries)
            then io_err (AlreadyTracked decision_id)
            else io_bind (to_persistence (rso_update S (reopen_req (r_id r)))) (\<lambda>_. io_ret (r_id r)))
       | None \<Rightarrow> to_persistence (rso_create S
           \<lparr>nr_decision_id = decision_id, nr_outcome_id = None, nr_job_id = Some job_id,
            nr_status = ''generating''\<rparr>))"

definition to_update_req :: "reflection_update \<Rightarrow> update_reflection_req" where
  "to_update_req u =
     \<lparr>ur_id = ru_id u, ur_status = ru_status u, ur_result = ru_result u,
      ur_quality_score = ru_quality_score u, ur_artifact_key = ru_artifact_key u,
      ur_lessons_count = ru_lessons_count u, ur_rules_count = ru_rules_count u,
      ur_retry_count = ru_retry_count u, ur_last_error = ru_last_error u,
      ur_started_at = ru_started_at u, ur_lease_until = ru_lease_until u\<rparr>"

definition rrepo_update :: "'s reflection_store_ops \<Rightarrow> reflection_update \<Rightarrow> ('s, reflection_error, unit) io" where
  "rrepo_update S u = to_persistence (rso_update S (to_update_req u))"

definition rrepo_find_latest ::
  "'s reflection_store_ops \<Rightarrow> int \<Rightarrow> ('s, reflection_error, reflection_record option) io" where
  "rrepo_find_latest S decision_id =
     io_bind (to_persistence (rso_get S decision_id)) (\<lambda>row.
       io_ret (map_option (\<lambda>r. \<lparr>rr_id = r_id r, rr_decision_id = r_decision_id r,
                                 rr_retry_count = r_retry_count r\<rparr>) row))"

definition rrepo_load_context ::
  "'s reflection_store_ops \<Rightarrow> int \<Rightarrow> ('s, reflection_error, decision_facts option) io" where
  "rrepo_load_context S decision_id =
     io_bind (to_persistence (rso_find_decision S decision_id)) (\<lambda>decision.
       case decision of
         None \<Rightarrow> io_ret None
       | Some d \<Rightarrow>
           io_bind (to_persistence (rso_outcomes S decision_id)) (\<lambda>outs.
           io_bind (to_persistence (rso_evaluations S decision_id)) (\<lambda>evals.
             io_ret (Some
               \<lparr>df_decision_id = d_id d, df_title = d_title d, df_decision_type = d_decision_type d,
                df_hypothesis = d_hypothesis d, df_confidence = d_confidence d,
                df_outcome = (case outs of [] \<Rightarrow> None
                  | x # _ \<Rightarrow> Some \<lparr>osn_id = o_id x, osn_outcome_type = o_outcome_type x,
                                    osn_observation = o_observation x\<rparr>),
                df_evaluations = map (\<lambda>e. \<lparr>evs_evaluation = evaluation_result_str (ev_evaluation e),
                                           evs_confidence = ev_confidence e,
                                           evs_reasoning = ev_reasoning e\<rparr>) evals\<rparr>))))"

definition rrepo_enqueue ::
  "'s reflection_store_ops \<Rightarrow> string \<Rightarrow> string \<Rightarrow> string \<Rightarrow> ('s, reflection_error, unit) io" where
  "rrepo_enqueue S object_type object_key payload =
     io_bind (to_persistence (rso_insert_outbox S
       \<lparr>nob_object_type = object_type, nob_object_key = object_key, nob_payload = payload\<rparr>)) (\<lambda>_. io_ret ())"

section \<open>The artifact registry and the event log\<close>

record artifact_ref =
  afr_artifact_id :: int
  afr_artifact_type :: string
  afr_storage :: string
  afr_object_key :: string
  afr_size_bytes :: int
  afr_created_at :: int

record registry_artifact =
  rga_artifact_type :: string
  rga_owner_type :: string
  rga_owner_id :: string
  rga_content :: string
  rga_content_type :: string

datatype registry_error = RegStorage string | RegNotFound string | RegSerialisation string

text \<open>
  \<open>D1ArtifactRegistry::store\<close>: the object first, then the index row; \<open>meta\<close> renders the metadata
  object.  The state is the store's and the object store's.
\<close>

definition registry_store ::
  "(new_artifact \<Rightarrow> ('s, store_error, int) io) \<Rightarrow> (string \<Rightarrow> string \<Rightarrow> ('o, object_store_error, object_ref) io)
    \<Rightarrow> (registry_artifact \<Rightarrow> string) \<Rightarrow> int \<Rightarrow> registry_artifact
    \<Rightarrow> ('s \<times> 'o, registry_error, artifact_ref) io" where
  "registry_store create wr meta now a so =
     (let key = ''artifacts/'' @ rga_artifact_type a @ ''/'' @ rga_owner_id a @ ''/'' @ show_i64 now in
      case wr key (rga_content a) (snd so) of
        (Inl e, ob') \<Rightarrow> (Inl (RegStorage (object_store_error_str e)), (fst so, ob'))
      | (Inr obj, ob') \<Rightarrow>
          (case create \<lparr>nar_artifact_type = rga_artifact_type a, nar_entity_id = 0, nar_r2_key = key,
                        nar_schema_version = ''1.0'', nar_model = None, nar_pipeline_version = ''v1'',
                        nar_metadata = Some (meta a)\<rparr> (fst so) of
             (Inl e, s') \<Rightarrow> (Inl (RegStorage (store_error_str e)), (s', ob'))
           | (Inr i, s') \<Rightarrow>
               (Inr \<lparr>afr_artifact_id = i, afr_artifact_type = rga_artifact_type a, afr_storage = ''r2'',
                     afr_object_key = key, afr_size_bytes = int (obr_size obj), afr_created_at = now\<rparr>,
                (s', ob'))))"

record 'j domain_event =
  de_event_type :: string
  de_aggregate_type :: string
  de_aggregate_id :: string
  de_payload :: 'j
  de_occurred_at :: int
  de_correlation_id :: string

unbundle bit_operations_syntax

text \<open>FNV-1a over the bytes of the aggregate id, with wrapping multiplication.\<close>

definition seq_for_aggregate :: "string \<Rightarrow> 64 word" where
  "seq_for_aggregate aggregate_id =
     fold (\<lambda>b h. (h XOR of_nat (of_char b)) * 0x00000100000001b3) aggregate_id 0xcbf29ce484222325"

definition envelope_of :: "'j domain_event \<Rightarrow> 'j event_envelope" where
  "envelope_of e =
     \<lparr>ee_schema_version = 1,
      ee_event_id = format_id (de_occurred_at e) (unat (seq_for_aggregate (de_aggregate_id e))),
      ee_event_version = 1,
      ee_aggregate = \<lparr>ar_aggregate_type = de_aggregate_type e, ar_aggregate_id = de_aggregate_id e\<rparr>,
      ee_event_type = de_event_type e, ee_payload = de_payload e,
      ee_metadata = \<lparr>em_actor = ''system'', em_source = ''reflection_engine''\<rparr>,
      ee_correlation_id = de_correlation_id e, ee_causation_id = [],
      ee_occurred_at = de_occurred_at e, ee_created_at = de_occurred_at e\<rparr>"

fun event_store_error_str :: "event_store_error \<Rightarrow> string" where
  "event_store_error_str (EsStore e) = ''store error: '' @ e"
| "event_store_error_str (EsSerialisation e) = ''serialisation error: '' @ e"

definition event_log_append ::
  "'s outbox_ops \<Rightarrow> ('j event_envelope \<Rightarrow> string) \<Rightarrow> 'j domain_event \<Rightarrow> ('s, string, unit) io" where
  "event_log_append S enc e =
     io_bind (io_map_err (\<lambda>x. ''event-log persistence: '' @ event_store_error_str x)
       (append_event S enc (envelope_of e))) (\<lambda>_. io_ret ())"

end
