(* ===== verification/ReflectionEngine.thy ===== *)
theory ReflectionEngine
  imports Reflection
begin

text \<open>
  The reflection engine's run of one job (\<open>reflection-engine/src/service.rs\<close>), over the ports it is
  generic in, and the cron cycle of \<open>worker-entry/src/jobs/reflection.rs\<close> that recovers stale runs
  and schedules new ones.

  Two calls of \<open>mark_failed\<close> in the source build a future that is never awaited, inside the
  \<open>map_err\<close> closures for context and model errors; they have no effect, and the model has none
  there either.
\<close>

section \<open>One job\<close>

record reflection_payload =
  pl_reflection_id :: string
  pl_decision_id :: string
  pl_artifact_key :: string
  pl_artifact_id :: "int option"
  pl_quality_score :: f64
  pl_lesson_count :: nat
  pl_rule_count :: nat

record 's reflection_ports =
  rp_create :: "int \<Rightarrow> string \<Rightarrow> ('s, reflection_error, int) io"
  rp_update :: "reflection_update \<Rightarrow> ('s, reflection_error, unit) io"
  rp_find_latest :: "int \<Rightarrow> ('s, reflection_error, reflection_record option) io"
  rp_load_context :: "int \<Rightarrow> ('s, reflection_error, decision_facts option) io"
  rp_enqueue :: "string \<Rightarrow> string \<Rightarrow> reflection_payload \<Rightarrow> ('s, reflection_error, unit) io"
  rp_generate :: "reflection_context \<Rightarrow> ('s, string, reflection_draft) io"
  rp_store_artifact :: "registry_artifact \<Rightarrow> ('s, registry_error, artifact_ref) io"
  rp_append :: "reflection_payload domain_event \<Rightarrow> ('s, string, unit) io"

record reflection_job =
  rj_decision_id :: int
  rj_correlation_id :: string

record reflection_result =
  rres_reflection_id :: int
  rres_decision_id :: int
  rres_status :: string

definition job_id :: "int \<Rightarrow> int \<Rightarrow> string" where
  "job_id decision_id now = ''job_reflect_DEC'' @ show_i64_06 decision_id @ ''_'' @ show_i64 now"

definition lease_update :: "int \<Rightarrow> int \<Rightarrow> reflection_update" where
  "lease_update i now =
     \<lparr>ru_id = i, ru_status = ''generating'', ru_result = None, ru_quality_score = None,
      ru_artifact_key = None, ru_lessons_count = None, ru_rules_count = None, ru_retry_count = None,
      ru_last_error = None, ru_started_at = Some now, ru_lease_until = Some (now + 900)\<rparr>"

definition failed_update :: "int \<Rightarrow> int \<Rightarrow> string \<Rightarrow> reflection_update" where
  "failed_update i retry_count err =
     \<lparr>ru_id = i, ru_status = ''failed'', ru_result = None, ru_quality_score = None,
      ru_artifact_key = None, ru_lessons_count = None, ru_rules_count = None,
      ru_retry_count = Some retry_count, ru_last_error = Some err, ru_started_at = None,
      ru_lease_until = None\<rparr>"

definition generated_update :: "int \<Rightarrow> reflection_draft \<Rightarrow> validation_result \<Rightarrow> string \<Rightarrow> reflection_update" where
  "generated_update i d v key =
     \<lparr>ru_id = i, ru_status = ''generated'', ru_result = Some (dr_result d),
      ru_quality_score = Some (vr_quality_score v), ru_artifact_key = Some key,
      ru_lessons_count = Some (int (length (dr_lessons d))),
      ru_rules_count = Some (int (length (dr_rules d))), ru_retry_count = None,
      ru_last_error = None, ru_started_at = None, ru_lease_until = None\<rparr>"

definition mark_failed_job :: "'s reflection_ports \<Rightarrow> int \<Rightarrow> int \<Rightarrow> string \<Rightarrow> 's \<Rightarrow> 's" where
  "mark_failed_job P i decision_id err s =
     (case rp_find_latest P decision_id s of
        (r, s1) \<Rightarrow>
          let retry_count = (case r of Inr (Some rec) \<Rightarrow> rr_retry_count rec + 1 | _ \<Rightarrow> 0)
          in io_ignore (rp_update P (failed_update i retry_count err)) s1)"

definition mark_failed_with_retry :: "'s reflection_ports \<Rightarrow> int \<Rightarrow> string \<Rightarrow> int \<Rightarrow> 's \<Rightarrow> 's" where
  "mark_failed_with_retry P i err retry_count s = io_ignore (rp_update P (failed_update i retry_count err)) s"

definition builder_build :: "'s reflection_ports \<Rightarrow> int \<Rightarrow> ('s, reflection_error, reflection_context) io" where
  "builder_build P decision_id =
     io_bind (rp_load_context P decision_id) (\<lambda>facts.
       case facts of None \<Rightarrow> io_err (DecisionNotFound decision_id) | Some f \<Rightarrow> io_ret (build_context f))"

text \<open>Steps 6 to 9: artifact, row, outbox event, event log. Only the first result is looked at.\<close>

definition persist_draft ::
  "'s reflection_ports \<Rightarrow> (reflection_draft \<Rightarrow> string) \<Rightarrow> reflection_job \<Rightarrow> int \<Rightarrow> int
    \<Rightarrow> reflection_draft \<Rightarrow> validation_result \<Rightarrow> 's \<Rightarrow> 's" where
  "persist_draft P enc job now i d v s =
     (let (stored, s1) = rp_store_artifact P
            \<lparr>rga_artifact_type = ''reflection_result'', rga_owner_type = ''reflection'',
             rga_owner_id = ''REF-'' @ show_i64_06 i, rga_content = enc d,
             rga_content_type = ''application/json''\<rparr> s;
          artifact_key = (case stored of Inr a \<Rightarrow> afr_object_key a
            | Inl _ \<Rightarrow> ''memory/reflections/REF-'' @ show_i64_06 i @ ''.json'');
          s2 = io_ignore (rp_update P (generated_update i d v artifact_key)) s1;
          payload = \<lparr>pl_reflection_id = ''REF-'' @ show_i64_06 i,
                     pl_decision_id = ''DEC-'' @ show_i64_06 (rj_decision_id job),
                     pl_artifact_key = artifact_key,
                     pl_artifact_id = (case stored of Inr a \<Rightarrow> Some (afr_artifact_id a) | Inl _ \<Rightarrow> None),
                     pl_quality_score = vr_quality_score v,
                     pl_lesson_count = length (dr_lessons d), pl_rule_count = length (dr_rules d)\<rparr>;
          s3 = io_ignore (rp_enqueue P ''event:reflection''
            (''memory/events/reflection/'' @ show_i64 now @ ''/'' @ rj_correlation_id job) payload) s2
      in io_ignore (rp_append P
           \<lparr>de_event_type = ''ReflectionGenerated'', de_aggregate_type = ''reflection'',
            de_aggregate_id = ''REF-'' @ show_i64_06 i, de_payload = payload, de_occurred_at = now,
            de_correlation_id = rj_correlation_id job\<rparr>) s3)"

text \<open>\<open>show2\<close> is the format \<open>{:.2}\<close>.\<close>

definition execute_at ::
  "'s reflection_ports \<Rightarrow> (f64 \<Rightarrow> string) \<Rightarrow> (f64 \<Rightarrow> string) \<Rightarrow> (reflection_draft \<Rightarrow> string)
    \<Rightarrow> reflection_job \<Rightarrow> int \<Rightarrow> ('s, string, reflection_result) io" where
  "execute_at P show show2 enc job now s =
     (let decision_id = rj_decision_id job in
      case rp_create P decision_id (job_id decision_id now) s of
        (Inl e, s1) \<Rightarrow> (Inl (''create_reflection failed: '' @ reflection_error_str e), s1)
      | (Inr i, s1) \<Rightarrow>
          (case builder_build P decision_id (io_ignore (rp_update P (lease_update i now)) s1) of
             (Inl e, s2) \<Rightarrow> (Inl (''context build failed: '' @ reflection_error_str e), s2)
           | (Inr ctx, s2) \<Rightarrow>
               if flt (rc_completeness_score ctx) (lit64 0.4)
               then let msg = ''insufficient_context (score='' @ show2 (rc_completeness_score ctx) @ '')''
                    in (Inl msg, mark_failed_with_retry P i msg 3 s2)
               else
                 (case rp_generate P ctx s2 of
                    (Inl e, s3) \<Rightarrow> (Inl (''LLM generation failed: '' @ e), s3)
                  | (Inr d, s3) \<Rightarrow>
                      let v = validate_draft show d in
                      if \<not> vr_valid v
                      then let msg = ''validation_failed: '' @ join ''; '' (vr_errors v)
                           in (Inl msg, mark_failed_job P i decision_id msg s3)
                      else (Inr \<lparr>rres_reflection_id = i, rres_decision_id = decision_id,
                                 rres_status = ''generated''\<rparr>,
                            persist_draft P enc job now i d v s3))))"

section \<open>The cron cycle\<close>

text \<open>
  The scheduling queries of \<open>store/d1/reflection/crud.rs\<close>, over the decision rows and the
  reflection rows of the store.
\<close>

definition decisions_eligible :: "int \<Rightarrow> nat \<Rightarrow> decision_row list \<Rightarrow> reflection_row list \<Rightarrow> int list" where
  "decisions_eligible now limit ds rs =
     take limit (map d_id (filter (\<lambda>d. (d_status d = ''completed'' \<or> d_status d = ''superseded'') \<and>
        d_updated_at d < now - 604800 \<and> \<not> list_ex (\<lambda>r. r_decision_id r = d_id d) rs) ds))"

definition failed_for_retry :: "nat \<Rightarrow> reflection_row list \<Rightarrow> reflection_row list" where
  "failed_for_retry limit rs = take limit (filter (\<lambda>r. r_status r = ''failed'' \<and> r_retry_count r < 3) rs)"

definition stale_generating :: "int \<Rightarrow> reflection_row list \<Rightarrow> reflection_row list" where
  "stale_generating now rs =
     take 10 (filter (\<lambda>r. r_status r = ''generating'' \<and>
       (case r_lease_until r of None \<Rightarrow> False | Some t \<Rightarrow> t < now)) rs)"

definition max_per_cycle :: nat where
  "max_per_cycle = 3"

definition stale_update :: "reflection_row \<Rightarrow> update_reflection_req" where
  "stale_update r =
     \<lparr>ur_id = r_id r, ur_status = ''failed'', ur_result = None, ur_quality_score = None,
      ur_artifact_key = None, ur_lessons_count = None, ur_rules_count = None,
      ur_retry_count = Some (r_retry_count r + 1), ur_last_error = Some ''lease_expired'',
      ur_started_at = None, ur_lease_until = None\<rparr>"

fun pick_failed :: "int list \<Rightarrow> reflection_row list \<Rightarrow> int list" where
  "pick_failed acc [] = acc"
| "pick_failed acc (r # rs) = (if max_per_cycle \<le> length acc then acc else pick_failed (acc @ [r_decision_id r]) rs)"

definition cron_job :: "int \<Rightarrow> int \<Rightarrow> reflection_job" where
  "cron_job now decision_id =
     \<lparr>rj_decision_id = decision_id,
      rj_correlation_id = ''cron_reflect_DEC'' @ show_i64_06 decision_id @ ''_'' @ show_i64 now\<rparr>"

text \<open>
  \<open>ds\<close> and \<open>rs\<close> read the tables of the store; \<open>upd\<close> is its \<open>update_reflection\<close>, whose failure the
  job ignores; \<open>clk k\<close> is the engine's clock for the \<open>k\<close>-th job.
\<close>

fun run_jobs ::
  "'s reflection_ports \<Rightarrow> (f64 \<Rightarrow> string) \<Rightarrow> (f64 \<Rightarrow> string) \<Rightarrow> (reflection_draft \<Rightarrow> string)
    \<Rightarrow> (nat \<Rightarrow> int) \<Rightarrow> int \<Rightarrow> int list \<Rightarrow> 's \<Rightarrow> 's" where
  "run_jobs P show show2 enc clk now [] s = s"
| "run_jobs P show show2 enc clk now (i # is) s =
     run_jobs P show show2 enc (\<lambda>k. clk (Suc k)) now is
       (snd (execute_at P show show2 enc (cron_job now i) (clk 0) s))"

definition process_pending_reflections ::
  "'s reflection_ports \<Rightarrow> (update_reflection_req \<Rightarrow> ('s, store_error, unit) io)
    \<Rightarrow> ('s \<Rightarrow> decision_row list) \<Rightarrow> ('s \<Rightarrow> reflection_row list)
    \<Rightarrow> (f64 \<Rightarrow> string) \<Rightarrow> (f64 \<Rightarrow> string) \<Rightarrow> (reflection_draft \<Rightarrow> string) \<Rightarrow> (nat \<Rightarrow> int) \<Rightarrow> int \<Rightarrow> 's \<Rightarrow> 's" where
  "process_pending_reflections P upd ds rs show show2 enc clk now s =
     (let s1 = fold (\<lambda>r. io_ignore (upd (stale_update r))) (stale_generating now (rs s)) s;
          eligible = decisions_eligible now max_per_cycle (ds s1) (rs s1);
          failed = failed_for_retry max_per_cycle (rs s1)
      in run_jobs P show show2 enc clk now (pick_failed eligible failed) s1)"

section \<open>The completeness gate never closes\<close>

text \<open>
  The four scores the builder can reach are all at least 0.5, so the check for 0.4 always passes.
\<close>

lemma completeness_scores:
  "\<not> flt (rc_completeness_score (build_context f)) (lit64 0.4)"
proof -
  have c: "rc_completeness_score (build_context f) =
     fadd binary64 (fadd binary64 (fadd binary64 (lit64 0.3)
       (if df_hypothesis f = None \<or> df_hypothesis f = Some [] then lit64 0 else lit64 0.2))
       (if df_outcome f \<noteq> None then lit64 0.3 else lit64 0)) (lit64 0.2)"
    by (auto simp: build_context_def Let_def split: option.splits)
  have "\<not> flt (fadd binary64 (fadd binary64 (fadd binary64 (lit64 0.3) (lit64 0)) (lit64 0)) (lit64 0.2)) (lit64 0.4)"
    and "\<not> flt (fadd binary64 (fadd binary64 (fadd binary64 (lit64 0.3) (lit64 0.2)) (lit64 0)) (lit64 0.2)) (lit64 0.4)"
    and "\<not> flt (fadd binary64 (fadd binary64 (fadd binary64 (lit64 0.3) (lit64 0)) (lit64 0.3)) (lit64 0.2)) (lit64 0.4)"
    and "\<not> flt (fadd binary64 (fadd binary64 (fadd binary64 (lit64 0.3) (lit64 0.2)) (lit64 0.3)) (lit64 0.2)) (lit64 0.4)"
    by code_simp+
  then show ?thesis unfolding c by (simp split: if_split)
qed

end
