(* ===== verification/ReflectionProps.thy ===== *)
theory ReflectionProps
  imports ReflectionEngine
begin

text \<open>
  What the reflection repository promises the engine (locale \<open>reflection_repository\<close>), what the
  engine and the cron cycle make of it, and the interpretation on \<open>D1ReflectionRepository\<close> over
  \<open>MemoryStore\<close> with the artifact registry, the outbox and the event log it is built with.
\<close>

section \<open>Drafts that pass validation\<close>

definition good_lesson :: "lesson_draft \<Rightarrow> bool" where
  "good_lesson l \<longleftrightarrow> 20 \<le> length (ld_description l) \<and> in_range (Fin 0) (Fin 1) (ld_confidence l) \<and>
     ld_evidence_basis l \<noteq> []"

definition good_rule :: "rule_draft \<Rightarrow> bool" where
  "good_rule r \<longleftrightarrow> rld_action_type r \<noteq> [] \<and> rld_action_instruction r \<noteq> [] \<and>
     in_range (Fin 0) (Fin 1) (rld_confidence r)"

lemma lesson_errors_Nil: "lesson_errors show i l = [] \<longleftrightarrow> good_lesson l"
  by (auto simp: lesson_errors_def good_lesson_def)

lemma rule_errors_Nil: "rule_errors show i r = [] \<longleftrightarrow> good_rule r"
  by (auto simp: rule_errors_def good_rule_def)

lemma validate_valid_iff:
  "vr_valid (validate_draft show d) \<longleftrightarrow>
     dr_result d \<in> {''correct'', ''wrong'', ''mixed''} \<and> dr_lessons d \<noteq> [] \<and>
     list_all good_lesson (dr_lessons d) \<and> list_all good_rule (dr_rules d)"
  by (auto simp: validate_draft_def Let_def enumerate_errors_Nil lesson_errors_Nil rule_errors_Nil
      list_all_length split: if_splits)

section \<open>The repository's promises\<close>

definition reflection_ok :: "reflection_row \<Rightarrow> bool" where
  "reflection_ok r \<longleftrightarrow> 0 \<le> r_retry_count r \<and>
     (r_status r = ''generating'' \<and> r_retry_count r < 3 \<or>
      r_status r = ''failed'' \<and> r_retry_count r \<le> 3 \<or>
      r_status r = ''generated'' \<and> r_result r \<in> {Some ''correct'', Some ''wrong'', Some ''mixed''} \<and>
        1 \<le> r_lessons_count r \<and> r_artifact_key r \<noteq> None)"

text \<open>A row no run may touch again: a reflection that exists, or one that is given up.\<close>

definition settled :: "reflection_row \<Rightarrow> bool" where
  "settled r \<longleftrightarrow> r_status r = ''generated'' \<or> r_status r = ''failed'' \<and> 3 \<le> r_retry_count r"

definition all_rows :: "(reflection_row \<Rightarrow> bool) \<Rightarrow> (int \<Rightarrow> reflection_row option) \<Rightarrow> bool" where
  "all_rows p v \<longleftrightarrow> (\<forall>d r. v d = Some r \<longrightarrow> p r)"

lemma all_rows_upd: "all_rows p v \<Longrightarrow> p r \<Longrightarrow> all_rows p (v(d \<mapsto> r))"
  by (auto simp: all_rows_def)

locale reflection_repository =
  fixes P :: "'s reflection_ports"
    and rview :: "'s \<Rightarrow> int \<Rightarrow> reflection_row option"
    and wf :: "'s \<Rightarrow> bool"
    and sure :: bool
  assumes create_any: "wf s \<Longrightarrow> rp_create P d job s = (cr, s') \<Longrightarrow> wf s' \<and>
      (case cr of Inl _ \<Rightarrow> rview s' = rview s
       | Inr i \<Rightarrow> \<exists>r. rview s' = (rview s)(d \<mapsto> r) \<and> r_id r = i \<and> r_status r = ''generating'' \<and>
           (rview s d = None \<and> r_retry_count r = 0 \<or>
            (\<exists>r0. rview s d = Some r0 \<and> r_status r0 = ''failed'' \<and> r_retry_count r0 < 3 \<and>
               r_retry_count r = r_retry_count r0)))"
    and update_any: "wf s \<Longrightarrow> rview s d = Some r \<Longrightarrow> r_id r = ru_id u \<Longrightarrow> rp_update P u s = (ur, s') \<Longrightarrow>
      wf s' \<and> rview s' = (if is_ok ur then (rview s)(d \<mapsto> apply_update (to_update_req u) r) else rview s)"
    and update_sure: "sure \<Longrightarrow> rp_update P u s = (ur, s') \<Longrightarrow> is_ok ur"
    and find_any: "wf s \<Longrightarrow> rp_find_latest P d s = (fr, s') \<Longrightarrow> wf s' \<and> rview s' = rview s \<and>
      (case fr of Inr (Some rec) \<Rightarrow> \<exists>r. rview s d = Some r \<and> rr_retry_count rec = r_retry_count r | _ \<Rightarrow> True)"
    and load_frame: "wf s \<Longrightarrow> rp_load_context P d s = (lr, s') \<Longrightarrow> wf s' \<and> rview s' = rview s"
    and enqueue_frame: "wf s \<Longrightarrow> rp_enqueue P a b c s = (er, s') \<Longrightarrow> wf s' \<and> rview s' = rview s"
    and generate_frame: "wf s \<Longrightarrow> rp_generate P ctx s = (gr, s') \<Longrightarrow> wf s' \<and> rview s' = rview s"
    and store_frame: "wf s \<Longrightarrow> rp_store_artifact P art s = (ar, s') \<Longrightarrow> wf s' \<and> rview s' = rview s"
    and append_frame: "wf s \<Longrightarrow> rp_append P ev s = (pr, s') \<Longrightarrow> wf s' \<and> rview s' = rview s"
begin

lemma update_ignore:
  assumes "wf s" "rview s d = Some r" "r_id r = ru_id u"
  shows "wf (io_ignore (rp_update P u) s)"
    "rview (io_ignore (rp_update P u) s) = (rview s)(d \<mapsto> apply_update (to_update_req u) r) \<or>
     \<not> sure \<and> rview (io_ignore (rp_update P u) s) = rview s"
proof -
  obtain ur s' where u: "rp_update P u s = (ur, s')" by fastforce
  from update_any [OF assms u] update_sure [OF _ u] u
  show "wf (io_ignore (rp_update P u) s)"
    "rview (io_ignore (rp_update P u) s) = (rview s)(d \<mapsto> apply_update (to_update_req u) r) \<or>
     \<not> sure \<and> rview (io_ignore (rp_update P u) s) = rview s"
    by (auto simp: io_ignore_def)
qed

text \<open>A row in generation stays one under the updates of a run, and keeps its id and its count.\<close>

definition in_run :: "'s \<Rightarrow> int \<Rightarrow> int \<Rightarrow> int \<Rightarrow> bool" where
  "in_run s d i n \<longleftrightarrow> wf s \<and> (\<exists>r. rview s d = Some r \<and> r_id r = i \<and> r_status r = ''generating'' \<and> r_retry_count r = n)"

lemma lease_step:
  assumes "in_run s d i n"
  shows "in_run (io_ignore (rp_update P (lease_update i now)) s) d i n"
    "\<forall>d'. d' \<noteq> d \<longrightarrow> rview (io_ignore (rp_update P (lease_update i now)) s) d' = rview s d'"
proof -
  from assms obtain r where r: "wf s" "rview s d = Some r" "r_id r = i" "r_status r = ''generating''"
    "r_retry_count r = n" by (auto simp: in_run_def)
  have "r_id r = ru_id (lease_update i now)" using r by (simp add: lease_update_def)
  from update_ignore [OF r(1,2) this] r
  show "in_run (io_ignore (rp_update P (lease_update i now)) s) d i n"
    "\<forall>d'. d' \<noteq> d \<longrightarrow> rview (io_ignore (rp_update P (lease_update i now)) s) d' = rview s d'"
    by (auto simp: in_run_def apply_update_def to_update_req_def lease_update_def)
qed

lemma builder_frame: "wf s \<Longrightarrow> builder_build P d s = (br, s') \<Longrightarrow> wf s' \<and> rview s' = rview s"
  by (cases br) (auto simp: builder_build_def io_iff dest: load_frame split: option.splits)

lemma mark_failed_step:
  assumes "in_run s d i n" "0 \<le> n" "n < 3"
  shows "wf (mark_failed_job P i d err s)"
    "\<forall>d'. d' \<noteq> d \<longrightarrow> rview (mark_failed_job P i d err s) d' = rview s d'"
    "\<exists>r. rview (mark_failed_job P i d err s) d = Some r \<and> reflection_ok r \<and> \<not> r_status r = ''generated''"
proof -
  from assms obtain r where r: "wf s" "rview s d = Some r" "r_id r = i" "r_status r = ''generating''"
    "r_retry_count r = n" by (auto simp: in_run_def)
  obtain fr s1 where f: "rp_find_latest P d s = (fr, s1)" by fastforce
  from find_any [OF r(1) f] have s1: "wf s1" "rview s1 = rview s" by simp_all
  define k where "k = (case fr of Inr (Some rec) \<Rightarrow> rr_retry_count rec + 1 | _ \<Rightarrow> 0)"
  have k: "0 \<le> k" "k \<le> 3"
    using find_any [OF r(1) f] r assms(2,3) by (auto simp: k_def split: sum.splits option.splits)
  have m: "mark_failed_job P i d err s = io_ignore (rp_update P (failed_update i k err)) s1"
    using f by (simp add: mark_failed_job_def Let_def k_def)
  have "r_id r = ru_id (failed_update i k err)" using r by (simp add: failed_update_def)
  note up = update_ignore [OF s1(1) _ this, of d]
  from up s1 r show "wf (mark_failed_job P i d err s)" by (simp add: m)
  from up(2) s1 r k assms show
    "\<forall>d'. d' \<noteq> d \<longrightarrow> rview (mark_failed_job P i d err s) d' = rview s d'"
    "\<exists>r. rview (mark_failed_job P i d err s) d = Some r \<and> reflection_ok r \<and> \<not> r_status r = ''generated''"
    by (auto simp: m reflection_ok_def apply_update_def to_update_req_def failed_update_def)
qed

lemma persist_step:
  assumes "in_run s d i n" "0 \<le> n" "n < 3" "vr_valid (validate_draft show dr)"
  shows "wf (persist_draft P enc job now i dr (validate_draft show dr) s)"
    "\<forall>d'. d' \<noteq> d \<longrightarrow> rview (persist_draft P enc job now i dr (validate_draft show dr) s) d' = rview s d'"
    "\<exists>r. rview (persist_draft P enc job now i dr (validate_draft show dr) s) d = Some r \<and> reflection_ok r \<and> r_id r = i \<and>
       (sure \<longrightarrow> r_status r = ''generated'' \<and> r_result r = Some (dr_result dr) \<and>
          r_quality_score r = Some (fclamp (dr_quality_score dr) (Fin 0) (Fin 1)) \<and>
          r_lessons_count r = int (length (dr_lessons dr)))"
proof -
  from assms obtain r where r: "wf s" "rview s d = Some r" "r_id r = i" "r_status r = ''generating''"
    "r_retry_count r = n" by (auto simp: in_run_def)
  let ?v = "validate_draft show dr"
  obtain stored s1 where st: "rp_store_artifact P
            \<lparr>rga_artifact_type = ''reflection_result'', rga_owner_type = ''reflection'',
             rga_owner_id = ''REF-'' @ show_i64_06 i, rga_content = enc dr,
             rga_content_type = ''application/json''\<rparr> s = (stored, s1)" by fastforce
  from store_frame [OF r(1) st] have s1: "wf s1" "rview s1 = rview s" by simp_all
  define key where "key = (case stored of Inr a \<Rightarrow> afr_object_key a
            | Inl _ \<Rightarrow> ''memory/reflections/REF-'' @ show_i64_06 i @ ''.json'')"
  let ?s2 = "io_ignore (rp_update P (generated_update i dr ?v key)) s1"
  have "r_id r = ru_id (generated_update i dr ?v key)" using r by (simp add: generated_update_def)
  note up = update_ignore [OF s1(1) _ this, of d]
  have enq: "wf (io_ignore (rp_enqueue P a b c) x) \<and> rview (io_ignore (rp_enqueue P a b c) x) = rview x"
    if "wf x" for a b c x using enqueue_frame [OF that, of a b c] by (metis io_ignore_def prod.collapse)
  have app: "wf (io_ignore (rp_append P e) x) \<and> rview (io_ignore (rp_append P e) x) = rview x"
    if "wf x" for e x using append_frame [OF that, of e] by (metis io_ignore_def prod.collapse)
  obtain a b c e where out: "persist_draft P enc job now i dr ?v s =
      io_ignore (rp_append P e) (io_ignore (rp_enqueue P a b c) ?s2)"
    using st by (simp add: persist_draft_def Let_def key_def)
  have wf2: "wf ?s2" using up s1 r by simp
  with enq app have fin: "wf (persist_draft P enc job now i dr ?v s)"
    "rview (persist_draft P enc job now i dr ?v s) = rview ?s2" by (simp_all add: out)
  show "wf (persist_draft P enc job now i dr ?v s)" by (rule fin)
  have len: "1 \<le> int (length (dr_lessons dr))"
    using assms(4) by (cases "dr_lessons dr") (auto simp: validate_valid_iff)
  have val: "dr_result dr \<in> {''correct'', ''wrong'', ''mixed''}"
      "vr_quality_score ?v = fclamp (dr_quality_score dr) (Fin 0) (Fin 1)"
    using assms(4) unfolding validate_valid_iff by (auto simp: validate_draft_def Let_def)
  from up(2) s1 r assms(2,3) len val show
    "\<forall>d'. d' \<noteq> d \<longrightarrow> rview (persist_draft P enc job now i dr ?v s) d' = rview s d'"
    "\<exists>r. rview (persist_draft P enc job now i dr ?v s) d = Some r \<and> reflection_ok r \<and> r_id r = i \<and>
       (sure \<longrightarrow> r_status r = ''generated'' \<and> r_result r = Some (dr_result dr) \<and>
          r_quality_score r = Some (fclamp (dr_quality_score dr) (Fin 0) (Fin 1)) \<and>
          r_lessons_count r = int (length (dr_lessons dr)))"
    unfolding fin
    by (auto simp: reflection_ok_def apply_update_def to_update_req_def generated_update_def)
qed

text \<open>The run of a job, whatever the ports answer.\<close>

lemma create_ok:
  assumes "wf s" "all_rows reflection_ok (rview s)" "rp_create P d job s = (Inr i, s')"
  obtains n where "in_run s' d i n" "0 \<le> n" "n < 3" "all_rows reflection_ok (rview s')"
    "\<forall>d'. d' \<noteq> d \<longrightarrow> rview s' d' = rview s d'"
    "case rview s d of None \<Rightarrow> n = 0 | Some r \<Rightarrow> \<not> settled r \<and> n = r_retry_count r"
proof -
  from create_any [OF assms(1,3)] obtain r where r: "wf s'" "rview s' = (rview s)(d \<mapsto> r)" "r_id r = i"
      "r_status r = ''generating''"
    and old: "rview s d = None \<and> r_retry_count r = 0 \<or>
        (\<exists>r0. rview s d = Some r0 \<and> r_status r0 = ''failed'' \<and> r_retry_count r0 < 3 \<and> r_retry_count r = r_retry_count r0)"
    by auto
  have n: "0 \<le> r_retry_count r" "r_retry_count r < 3"
    using old assms(2) by (auto simp: all_rows_def reflection_ok_def)
  show thesis
  proof (rule that [of "r_retry_count r"])
    show "in_run s' d i (r_retry_count r)" using r by (auto simp: in_run_def)
    show "all_rows reflection_ok (rview s')"
      unfolding r(2) using assms(2) n r(4) by (intro all_rows_upd) (simp_all add: reflection_ok_def)
    show "case rview s d of None \<Rightarrow> r_retry_count r = 0 | Some x \<Rightarrow> \<not> settled x \<and> r_retry_count r = r_retry_count x"
      using old by (auto simp: settled_def)
  qed (use n r(2) in auto)
qed

lemma execute_step:
  assumes "wf s" "all_rows reflection_ok (rview s)" "execute_at P show show2 enc job now s = (res, s')"
  shows "wf s' \<and> all_rows reflection_ok (rview s') \<and>
    (\<forall>d'. d' \<noteq> rj_decision_id job \<longrightarrow> rview s' d' = rview s d') \<and>
    (\<forall>r. rview s (rj_decision_id job) = Some r \<longrightarrow> settled r \<longrightarrow> rview s' (rj_decision_id job) = Some r)"
proof -
  let ?d = "rj_decision_id job"
  obtain cr s1 where c: "rp_create P ?d (job_id ?d now) s = (cr, s1)" by fastforce
  show ?thesis
  proof (cases cr)
    case (Inl e)
    with c assms create_any [OF assms(1) c] show ?thesis by (simp add: execute_at_def Let_def)
  next
    case (Inr i)
    from create_ok [OF assms(1,2) c [unfolded Inr]] obtain n where
      k: "in_run s1 ?d i n" "0 \<le> n" "n < 3" "all_rows reflection_ok (rview s1)"
        "\<forall>d'. d' \<noteq> ?d \<longrightarrow> rview s1 d' = rview s d'"
      and fresh: "case rview s ?d of None \<Rightarrow> n = 0 | Some r \<Rightarrow> \<not> settled r \<and> n = r_retry_count r" .
    let ?s2 = "io_ignore (rp_update P (lease_update i now)) s1"
    have settled: "\<not> settled r" if "rview s ?d = Some r" for r using fresh that by simp
    note l = lease_step [OF k(1), of now]
    have close: ?thesis if s': "wf s'" "\<forall>d'. d' \<noteq> ?d \<longrightarrow> rview s' d' = rview ?s2 d'"
      "\<exists>r. rview s' ?d = Some r \<and> reflection_ok r"
    proof -
      have "all_rows reflection_ok (rview s')"
        using s'(2,3) l(2) k(4,5) by (metis all_rows_def option.inject)
      moreover have "\<forall>d'. d' \<noteq> ?d \<longrightarrow> rview s' d' = rview s d'" using s'(2) l(2) k(5) by simp
      ultimately show ?thesis using s'(1) settled by blast
    qed
    have run: "\<exists>r. rview x ?d = Some r \<and> reflection_ok r" if "in_run x ?d i n" for x
      using that k(2,3) by (auto simp: in_run_def reflection_ok_def)
    obtain br s3 where b: "builder_build P ?d ?s2 = (br, s3)" by fastforce
    from l(1) have wf2: "wf ?s2" by (simp add: in_run_def)
    from builder_frame [OF wf2 b] l(1) have s3: "in_run s3 ?d i n" "rview s3 = rview ?s2" by (simp_all add: in_run_def)
    show ?thesis
    proof (cases br)
      case (Inl e)
      with assms(3) c Inr b have "s' = s3" by (simp add: execute_at_def Let_def)
      with s3 run [OF s3(1)] show ?thesis by (intro close) (auto simp: in_run_def)
    next
      case ctx: (Inr ctx)
      have gate: "\<not> flt (rc_completeness_score ctx) (lit64 0.4)"
        using b ctx completeness_scores by (auto simp: builder_build_def io_bind_Inr_iff split: option.splits)
      obtain gr s4 where g: "rp_generate P ctx s3 = (gr, s4)" by fastforce
      from generate_frame [OF _ g] s3 have s4: "in_run s4 ?d i n" "rview s4 = rview ?s2" by (simp_all add: in_run_def)
      show ?thesis
      proof (cases gr)
        case (Inl e)
        with assms(3) c Inr b ctx gate g have "s' = s4" by (simp add: execute_at_def Let_def)
        with s4 run [OF s4(1)] show ?thesis by (intro close) (auto simp: in_run_def)
      next
        case dr: (Inr dr)
        show ?thesis
        proof (cases "vr_valid (validate_draft show dr)")
          case True
          with assms(3) c Inr b ctx gate g dr
          have s': "s' = persist_draft P enc job now i dr (validate_draft show dr) s4"
            by (simp add: execute_at_def Let_def)
          from persist_step [OF s4(1) k(2,3) True, of enc job now] s4(2) show ?thesis
            unfolding s' [symmetric] by (intro close) auto
        next
          case False
          with assms(3) c Inr b ctx gate g dr obtain msg where s': "s' = mark_failed_job P i ?d msg s4"
            by (auto simp: execute_at_def Let_def)
          from mark_failed_step [OF s4(1) k(2,3), of msg] s4(2) show ?thesis
            unfolding s' [symmetric] by (intro close) auto
        qed
      qed
    qed
  qed
qed

lemma execute_success:
  assumes "wf s" "all_rows reflection_ok (rview s)" "sure"
    and "execute_at P show show2 enc job now s = (Inr res, s')"
  shows "\<exists>ctx s3 s4 d r. rp_generate P ctx s3 = (Inr d, s4) \<and> vr_valid (validate_draft show d) \<and>
    rres_decision_id res = rj_decision_id job \<and> rres_status res = ''generated'' \<and>
    rview s' (rj_decision_id job) = Some r \<and> r_id r = rres_reflection_id res \<and>
    r_status r = ''generated'' \<and> r_result r = Some (dr_result d) \<and>
    r_quality_score r = Some (fclamp (dr_quality_score d) (Fin 0) (Fin 1)) \<and>
    r_lessons_count r = int (length (dr_lessons d))"
proof -
  let ?d = "rj_decision_id job"
  from assms(4) obtain i s1 ctx s3 d s4 where
    c: "rp_create P ?d (job_id ?d now) s = (Inr i, s1)"
    and b: "builder_build P ?d (io_ignore (rp_update P (lease_update i now)) s1) = (Inr ctx, s3)"
    and g: "rp_generate P ctx s3 = (Inr d, s4)" and v: "vr_valid (validate_draft show d)"
    and res: "res = \<lparr>rres_reflection_id = i, rres_decision_id = ?d, rres_status = ''generated''\<rparr>"
    and s': "s' = persist_draft P enc job now i d (validate_draft show d) s4"
    by (auto simp: execute_at_def Let_def split: prod.splits sum.splits if_splits)
  from create_ok [OF assms(1,2) c] obtain n where k: "in_run s1 ?d i n" "0 \<le> n" "n < 3" .
  from lease_step(1) [OF k(1), of now] have l: "in_run (io_ignore (rp_update P (lease_update i now)) s1) ?d i n" .
  with builder_frame [OF _ b] have "in_run s3 ?d i n" by (simp add: in_run_def)
  with generate_frame [OF _ g] have "in_run s4 ?d i n" by (simp add: in_run_def)
  from persist_step(3) [OF this k(2,3) v, of enc job now] assms(3) g v res s' show ?thesis by fastforce
qed

lemma execute_tracked:
  assumes "wf s" "rview s (rj_decision_id job) = Some r" "settled r \<or> r_status r = ''generating''"
    and "execute_at P show show2 enc job now s = (res, s')"
  shows "rview s' = rview s \<and> \<not> is_ok res"
proof -
  obtain cr s1 where c: "rp_create P (rj_decision_id job) (job_id (rj_decision_id job) now) s = (cr, s1)" by fastforce
  from create_any [OF assms(1) c] assms(2,3) obtain e where "cr = Inl e" "rview s1 = rview s"
    by (cases cr) (auto simp: settled_def)
  with assms(4) c show ?thesis by (auto simp: execute_at_def Let_def)
qed

end

section \<open>The cron cycle over the repository\<close>

text \<open>The tables the scheduler reads are the ones the repository writes.\<close>

locale reflection_cron = reflection_repository P rview wf sure
  for P :: "'s reflection_ports" and rview wf sure +
  fixes upd :: "update_reflection_req \<Rightarrow> ('s, store_error, unit) io"
    and rs :: "'s \<Rightarrow> reflection_row list"
  assumes rs_view: "wf s \<Longrightarrow> r \<in> set (rs s) \<Longrightarrow> rview s (r_decision_id r) = Some r"
    and upd_any: "wf s \<Longrightarrow> rview s d = Some r \<Longrightarrow> r_id r = ur_id q \<Longrightarrow> upd q s = (ur, s') \<Longrightarrow>
      wf s' \<and> rview s' = (if is_ok ur then (rview s)(d \<mapsto> apply_update q r) else rview s)"
begin

text \<open>Rows that are settled stay, rows that are well formed stay so.\<close>

definition cron_inv :: "'s \<Rightarrow> 's \<Rightarrow> bool" where
  "cron_inv s s' \<longleftrightarrow> wf s' \<and> all_rows reflection_ok (rview s') \<and>
     (\<forall>d r. rview s d = Some r \<longrightarrow> settled r \<longrightarrow> rview s' d = Some r)"

lemma cron_inv_trans: "cron_inv a b \<Longrightarrow> cron_inv b c \<Longrightarrow> cron_inv a c"
  by (auto simp: cron_inv_def)

lemma stale_step:
  assumes "wf s" "all_rows reflection_ok (rview s)"
    and "rview s (r_decision_id r) = Some r'" "r_id r' = r_id r" "\<not> settled r'"
    and "0 \<le> r_retry_count r" "r_retry_count r < 3"
  shows "cron_inv s (io_ignore (upd (stale_update r)) s)"
    "\<forall>d. d \<noteq> r_decision_id r \<longrightarrow> rview (io_ignore (upd (stale_update r)) s) d = rview s d"
proof -
  obtain u s' where u: "upd (stale_update r) s = (u, s')" by fastforce
  have "r_id r' = ur_id (stale_update r)" using assms by (simp add: stale_update_def)
  from upd_any [OF assms(1,3) this u] have w: "wf s'"
    and v: "rview s' = (if is_ok u then (rview s)(r_decision_id r \<mapsto> apply_update (stale_update r) r') else rview s)" by simp_all
  have "reflection_ok (apply_update (stale_update r) r')"
    using assms(6,7) by (simp add: reflection_ok_def apply_update_def stale_update_def)
  then have "all_rows reflection_ok (rview s')" using assms(2) v all_rows_upd by simp
  then show "cron_inv s (io_ignore (upd (stale_update r)) s)"
    using u w v assms(3,5) by (auto simp: cron_inv_def io_ignore_def)
  show "\<forall>d. d \<noteq> r_decision_id r \<longrightarrow> rview (io_ignore (upd (stale_update r)) s) d = rview s d"
    using u v by (simp add: io_ignore_def)
qed

lemma stale_fold:
  assumes "wf s" "all_rows reflection_ok (rview s)" "distinct (map r_decision_id xs)"
    and "\<forall>r \<in> set xs. rview s (r_decision_id r) = Some r \<and> r_status r = ''generating''"
  shows "cron_inv s (fold (\<lambda>r. io_ignore (upd (stale_update r))) xs s)"
  using assms
proof (induction xs arbitrary: s)
  case Nil
  then show ?case by (simp add: cron_inv_def)
next
  case (Cons r xs)
  let ?s = "io_ignore (upd (stale_update r)) s"
  from Cons.prems have r: "rview s (r_decision_id r) = Some r" "r_status r = ''generating''" by simp_all
  moreover from r(1) Cons.prems(2) have "reflection_ok r" by (auto simp: all_rows_def)
  ultimately have "\<not> settled r" "0 \<le> r_retry_count r" "r_retry_count r < 3"
    by (simp_all add: reflection_ok_def settled_def)
  from stale_step [OF Cons.prems(1,2) r(1) refl this] have st: "cron_inv s ?s"
    "\<forall>d. d \<noteq> r_decision_id r \<longrightarrow> rview ?s d = rview s d" .
  have "\<forall>x \<in> set xs. rview ?s (r_decision_id x) = Some x \<and> r_status x = ''generating''"
  proof
    fix x
    assume "x \<in> set xs"
    with Cons.prems(3,4) have "r_decision_id x \<noteq> r_decision_id r" "rview s (r_decision_id x) = Some x"
      "r_status x = ''generating''" by (auto simp: image_iff)
    with st(2) show "rview ?s (r_decision_id x) = Some x \<and> r_status x = ''generating''" by simp
  qed
  with Cons.IH [of ?s] st(1) Cons.prems(3) show ?case
    by (auto simp: cron_inv_def)
qed

lemma execute_cron_inv:
  assumes "wf s" "all_rows reflection_ok (rview s)"
  shows "cron_inv s (snd (execute_at P show show2 enc job now s))"
proof -
  obtain res s' where e: "execute_at P show show2 enc job now s = (res, s')" by fastforce
  from execute_step [OF assms e] show ?thesis
    unfolding cron_inv_def e snd_conv by (metis (no_types, lifting))
qed

lemma run_jobs_inv:
  "wf s \<Longrightarrow> all_rows reflection_ok (rview s) \<Longrightarrow> cron_inv s (run_jobs P show show2 enc clk now is s)"
proof (induction "is" arbitrary: s clk)
  case Nil
  then show ?case by (simp add: cron_inv_def)
next
  case (Cons i "is")
  let ?s = "snd (execute_at P show show2 enc (cron_job now i) (clk 0) s)"
  have "cron_inv s ?s" using Cons.prems by (rule execute_cron_inv)
  moreover from this have "cron_inv ?s (run_jobs P show show2 enc (\<lambda>k. clk (Suc k)) now is ?s)"
    by (intro Cons.IH) (simp_all add: cron_inv_def)
  ultimately show ?case by (simp add: cron_inv_trans)
qed

lemma cron_cycle_inv:
  assumes "wf s" "all_rows reflection_ok (rview s)" "distinct (map r_decision_id (rs s))"
  shows "cron_inv s (process_pending_reflections P upd ds rs show show2 enc clk now s)"
proof -
  let ?st = "stale_generating now (rs s)"
  let ?s1 = "fold (\<lambda>r. io_ignore (upd (stale_update r))) ?st s"
  have "distinct (map r_decision_id ?st)"
    using assms(3) unfolding stale_generating_def take_map [symmetric]
    by (intro distinct_take) (rule distinct_map_filter)
  moreover have "\<forall>r \<in> set ?st. rview s (r_decision_id r) = Some r \<and> r_status r = ''generating''"
    using rs_view [OF assms(1)] set_take_subset by (fastforce simp: stale_generating_def)
  ultimately have s1: "cron_inv s ?s1" using assms(1,2) by (intro stale_fold)
  then have "cron_inv ?s1 (run_jobs P show show2 enc clk now
      (pick_failed (decisions_eligible now max_per_cycle (ds ?s1) (rs ?s1)) (failed_for_retry max_per_cycle (rs ?s1))) ?s1)"
    by (intro run_jobs_inv) (simp_all add: cron_inv_def)
  with s1 show ?thesis
    by (simp add: process_pending_reflections_def Let_def cron_inv_trans)
qed

end

section \<open>The production adapter over the in-memory store\<close>

definition on_store :: "('s, 'e, 'a) io \<Rightarrow> ('s \<times> 'o, 'e, 'a) io" where
  "on_store m so = (case m (fst so) of (r, s') \<Rightarrow> (r, (s', snd so)))"

lemma on_store_iff [simp]: "on_store m so = (r, so') \<longleftrightarrow> m (fst so) = (r, fst so') \<and> snd so' = snd so"
  by (cases so') (auto simp: on_store_def split: prod.splits)

definition memory_reflection_ops :: "memory_store reflection_store_ops" where
  "memory_reflection_ops =
     \<lparr>rso_get = get_reflection_by_decision, rso_create = create_reflection, rso_update = update_reflection,
      rso_find_decision = find_decision, rso_outcomes = list_outcomes, rso_evaluations = list_evaluations,
      rso_insert_outbox = insert_outbox\<rparr>"

type_synonym engine_state = "memory_store \<times> r2_state"

text \<open>
  \<open>gen\<close> is the language model: any answer, which may differ from call to call.
\<close>

definition engine_ports ::
  "(engine_state \<Rightarrow> reflection_context \<Rightarrow> (string, reflection_draft) result) \<Rightarrow> (reflection_payload \<Rightarrow> string)
    \<Rightarrow> (reflection_payload event_envelope \<Rightarrow> string) \<Rightarrow> (registry_artifact \<Rightarrow> string) \<Rightarrow> int
    \<Rightarrow> engine_state reflection_ports" where
  "engine_ports gen encp ence meta clk =
     \<lparr>rp_create = (\<lambda>d job. on_store (rrepo_create memory_reflection_ops d job)),
      rp_update = (\<lambda>u. on_store (rrepo_update memory_reflection_ops u)),
      rp_find_latest = (\<lambda>d. on_store (rrepo_find_latest memory_reflection_ops d)),
      rp_load_context = (\<lambda>d. on_store (rrepo_load_context memory_reflection_ops d)),
      rp_enqueue = (\<lambda>t k p. on_store (rrepo_enqueue memory_reflection_ops t k (encp p))),
      rp_generate = (\<lambda>ctx so. (gen so ctx, so)),
      rp_store_artifact = registry_store (create_artifact clk) (r2_write clk) meta clk,
      rp_append = (\<lambda>e. on_store (event_log_append memory_outbox_ops ence e))\<rparr>"

definition reflections_wf :: "memory_store \<Rightarrow> bool" where
  "reflections_wf s \<longleftrightarrow> distinct (map fst (reflections s)) \<and> distinct (map (\<lambda>kr. r_id (snd kr)) (reflections s)) \<and>
     (\<forall>kr \<in> set (reflections s). r_decision_id (snd kr) = fst kr \<and> r_id (snd kr) < next_reflection_id s)"

definition ms_rview :: "engine_state \<Rightarrow> int \<Rightarrow> reflection_row option" where
  "ms_rview so d = map_of (reflections (fst so)) d"

lemma ms_rview_eq: "ms_rview so = map_of (reflections (fst so))"
  by (simp add: fun_eq_iff ms_rview_def)

lemma reflections_wf_cong:
  "reflections s' = reflections s \<Longrightarrow> next_reflection_id s' = next_reflection_id s \<Longrightarrow>
    reflections_wf s' = reflections_wf s"
  by (simp add: reflections_wf_def)

lemma map_insert_new: "k \<notin> fst ` set m \<Longrightarrow> map_insert k v m = m @ [(k, v)]"
  by (induction m) auto

lemma update_reflection_view:
  assumes "reflections_wf s" "map_of (reflections s) d = Some r" "r_id r = ur_id q"
  shows "reflections_wf (snd (update_reflection q s))"
    "map_of (reflections (snd (update_reflection q s))) = (map_of (reflections s))(d \<mapsto> apply_update q r)"
proof -
  let ?p = "\<lambda>kr :: int \<times> reflection_row. r_id (snd kr) = ur_id q"
  let ?f = "\<lambda>kr :: int \<times> reflection_row. if ?p kr then (fst kr, apply_update q (snd kr)) else kr"
  have uf: "update_first ?p (\<lambda>(k, r). (k, apply_update q r)) (reflections s) = map ?f (reflections s)"
    using assms(1) update_first_distinct [of "\<lambda>kr. r_id (snd kr)" "reflections s" "ur_id q" "\<lambda>_. True"
        "\<lambda>(k, r). (k, apply_update q r)"]
    by (simp add: reflections_wf_def case_prod_beta)
  have fsts: "fst \<circ> ?f = fst" "(\<lambda>kr. r_id (snd kr)) \<circ> ?f = (\<lambda>kr. r_id (snd kr))"
    by (auto simp: apply_update_def fun_eq_iff)
  have now: "reflections (snd (update_reflection q s)) = map ?f (reflections s)"
    "next_reflection_id (snd (update_reflection q s)) = next_reflection_id s"
    by (simp_all add: update_reflection_def uf)
  have d: "distinct (map fst (map ?f (reflections s)))" "distinct (map (\<lambda>kr. r_id (snd kr)) (map ?f (reflections s)))"
    using assms(1) unfolding map_map fsts by (simp_all add: reflections_wf_def)
  then show "reflections_wf (snd (update_reflection q s))"
    using assms(1) unfolding reflections_wf_def now by (fastforce simp: apply_update_def)
  have at: "(k, x) \<in> set (reflections s) \<Longrightarrow> r_id x = ur_id q \<Longrightarrow> k = d" for k x
  proof -
    assume kx: "(k, x) \<in> set (reflections s)" "r_id x = ur_id q"
    from assms(2) have dr: "(d, r) \<in> set (reflections s)" by (rule map_of_SomeD)
    from assms(1) have "inj_on (\<lambda>kr. r_id (snd kr)) (set (reflections s))"
      by (simp add: reflections_wf_def distinct_map)
    from inj_onD [OF this _ kx(1) dr] kx(2) assms(3) have "(k, x) = (d, r)" by simp
    then show "k = d" by simp
  qed
  have "map_of (map ?f xs) = (\<lambda>k. map_option (\<lambda>x. if r_id x = ur_id q then apply_update q x else x) (map_of xs k))" for xs
    by (induction xs) (auto simp: fun_eq_iff)
  then have m: "map_of (reflections (snd (update_reflection q s))) k =
      map_option (\<lambda>x. if r_id x = ur_id q then apply_update q x else x) (map_of (reflections s) k)" for k
    by (simp only: now)
  show "map_of (reflections (snd (update_reflection q s))) = (map_of (reflections s))(d \<mapsto> apply_update q r)"
  proof (rule ext)
    fix k
    show "map_of (reflections (snd (update_reflection q s))) k = ((map_of (reflections s))(d \<mapsto> apply_update q r)) k"
    proof (cases "k = d")
      case True
      with assms(2,3) m show ?thesis by simp
    next
      case False
      then have "r_id x \<noteq> ur_id q" if "map_of (reflections s) k = Some x" for x
        using at [OF map_of_SomeD [OF that]] by auto
      with False m show ?thesis by (cases "map_of (reflections s) k") auto
    qed
  qed
qed

lemma create_reflection_view:
  assumes "reflections_wf s" "map_of (reflections s) (nr_decision_id n) = None" "create_reflection n s = (cr, s')"
  shows "reflections_wf s'" "\<exists>r. map_of (reflections s') = (map_of (reflections s))(nr_decision_id n \<mapsto> r) \<and>
      cr = Inr (r_id r) \<and> r_status r = nr_status n \<and> r_retry_count r = 0"
proof -
  from assms(2) have new: "nr_decision_id n \<notin> fst ` set (reflections s)" by (simp add: map_of_eq_None_iff)
  have "\<forall>kr \<in> set (reflections s). r_id (snd kr) < next_reflection_id s"
    using assms(1) by (auto simp: reflections_wf_def)
  then have "next_reflection_id s \<notin> (\<lambda>kr. r_id (snd kr)) ` set (reflections s)" by fastforce
  then show "reflections_wf s'"
    using assms new by (auto simp: create_reflection_def Let_def reflections_wf_def map_insert_new) fastforce+
  show "\<exists>r. map_of (reflections s') = (map_of (reflections s))(nr_decision_id n \<mapsto> r) \<and>
      cr = Inr (r_id r) \<and> r_status r = nr_status n \<and> r_retry_count r = 0"
    using assms(3) by (auto simp: create_reflection_def Let_def fun_eq_iff)
qed

lemma memory_reflection_ops_simps [simp]:
  "rso_get memory_reflection_ops = get_reflection_by_decision"
  "rso_create memory_reflection_ops = create_reflection"
  "rso_update memory_reflection_ops = update_reflection"
  "rso_find_decision memory_reflection_ops = find_decision"
  "rso_outcomes memory_reflection_ops = list_outcomes"
  "rso_evaluations memory_reflection_ops = list_evaluations"
  "rso_insert_outbox memory_reflection_ops = insert_outbox"
  by (simp_all add: memory_reflection_ops_def)

lemma engine_ports_simps [simp]:
  "rp_create (engine_ports gen encp ence meta clk) = (\<lambda>d job. on_store (rrepo_create memory_reflection_ops d job))"
  "rp_update (engine_ports gen encp ence meta clk) = (\<lambda>u. on_store (rrepo_update memory_reflection_ops u))"
  "rp_find_latest (engine_ports gen encp ence meta clk) = (\<lambda>d. on_store (rrepo_find_latest memory_reflection_ops d))"
  "rp_load_context (engine_ports gen encp ence meta clk) = (\<lambda>d. on_store (rrepo_load_context memory_reflection_ops d))"
  "rp_enqueue (engine_ports gen encp ence meta clk) =
     (\<lambda>t k p. on_store (rrepo_enqueue memory_reflection_ops t k (encp p)))"
  "rp_generate (engine_ports gen encp ence meta clk) = (\<lambda>ctx so. (gen so ctx, so))"
  "rp_store_artifact (engine_ports gen encp ence meta clk) =
     registry_store (create_artifact clk) (r2_write clk) meta clk"
  "rp_append (engine_ports gen encp ence meta clk) = (\<lambda>e. on_store (event_log_append memory_outbox_ops ence e))"
  by (simp_all add: engine_ports_def)

text \<open>The parts of the store that hold the reflections.\<close>

definition same_reflections :: "memory_store \<Rightarrow> memory_store \<Rightarrow> bool" where
  "same_reflections s s' \<longleftrightarrow> reflections s' = reflections s \<and> next_reflection_id s' = next_reflection_id s"

lemma same_reflectionsD:
  "same_reflections s s' \<Longrightarrow> reflections_wf s' = reflections_wf s \<and> map_of (reflections s') = map_of (reflections s)"
  by (simp add: same_reflections_def reflections_wf_def)

lemma update_ok: "update_reflection q s = (Inr (), snd (update_reflection q s))"
  by (simp add: update_reflection_def)

lemma rrepo_create_any:
  assumes "reflections_wf s" "rrepo_create memory_reflection_ops d job s = (cr, s')"
  shows "reflections_wf s' \<and>
      (case cr of Inl _ \<Rightarrow> map_of (reflections s') = map_of (reflections s)
       | Inr i \<Rightarrow> \<exists>r. map_of (reflections s') = (map_of (reflections s))(d \<mapsto> r) \<and> r_id r = i \<and> r_status r = ''generating'' \<and>
           (map_of (reflections s) d = None \<and> r_retry_count r = 0 \<or>
            (\<exists>r0. map_of (reflections s) d = Some r0 \<and> r_status r0 = ''failed'' \<and> r_retry_count r0 < 3 \<and>
               r_retry_count r = r_retry_count r0)))"
proof (cases "map_of (reflections s) d")
  case None
  obtain cr0 s0 where c: "create_reflection \<lparr>nr_decision_id = d, nr_outcome_id = None, nr_job_id = Some job,
      nr_status = ''generating''\<rparr> s = (cr0, s0)" by fastforce
  from None assms(2) c have "cr = map_err (\<lambda>e. Persistence (store_error_str e)) cr0" "s' = s0"
    by (simp_all add: rrepo_create_def get_reflection_by_decision_def io)
  with create_reflection_view [OF assms(1) _ c] None show ?thesis by auto
next
  case (Some r0)
  show ?thesis
  proof (cases "r_status r0 = ''failed'' \<and> r_retry_count r0 < max_reflection_retries")
    case False
    with Some assms have "cr = Inl (AlreadyTracked d)" "s' = s"
      by (auto simp: rrepo_create_def get_reflection_by_decision_def io)
    with assms(1) show ?thesis by simp
  next
    case True
    with Some assms(2) have "cr = Inr (r_id r0)" "s' = snd (update_reflection (reopen_req (r_id r0)) s)"
      by (auto simp: rrepo_create_def get_reflection_by_decision_def io update_reflection_def)
    moreover have "r_id r0 = ur_id (reopen_req (r_id r0))" by (simp add: reopen_req_def)
    note update_reflection_view [OF assms(1) Some this]
    ultimately show ?thesis using True Some
      by (auto simp: apply_update_def reopen_req_def max_reflection_retries_def)
  qed
qed

lemma event_log_same:
  "event_log_append memory_outbox_ops ence e s = (r, s') \<Longrightarrow> same_reflections s s'"
  by (auto simp: event_log_append_def append_event_def memory_outbox_ops_def insert_outbox_def
      insert_event_index_def io Let_def same_reflections_def)

lemma enqueue_same:
  "rrepo_enqueue memory_reflection_ops a b p s = (r, s') \<Longrightarrow> same_reflections s s'"
  by (auto simp: rrepo_enqueue_def insert_outbox_def Let_def io same_reflections_def)

lemma registry_same:
  "registry_store (create_artifact clk) wr meta now a so = (r, so') \<Longrightarrow> same_reflections (fst so) (fst so')"
  by (auto simp: registry_store_def create_artifact_def Let_def same_reflections_def split: prod.splits sum.splits)

interpretation engine_repo: reflection_repository "engine_ports gen encp ence meta clk" ms_rview
  "\<lambda>so. reflections_wf (fst so)" True for gen encp ence meta clk
proof (unfold_locales, goal_cases)
  case (1 s d job cr s')
  then have "rrepo_create memory_reflection_ops d job (fst s) = (cr, fst s')" by simp
  from rrepo_create_any [OF 1(1) this] show ?case unfolding ms_rview_eq .
next
  case (2 s d r u ur s')
  then have u: "ur = Inr ()" "fst s' = snd (update_reflection (to_update_req u) (fst s))"
    by (auto simp: rrepo_update_def io update_reflection_def)
  from 2(3) have "r_id r = ur_id (to_update_req u)" by (simp add: to_update_req_def)
  from update_reflection_view [OF 2(1) _ this] 2(2) u show ?case by (simp add: ms_rview_eq)
next
  case (3 u s ur s')
  then show ?case by (auto simp: rrepo_update_def io update_reflection_def)
next
  case (4 s d fr s')
  then have "rrepo_find_latest memory_reflection_ops d (fst s) = (fr, fst s')" by simp
  then have "fst s' = fst s" "fr = Inr (map_option (\<lambda>r. \<lparr>rr_id = r_id r, rr_decision_id = r_decision_id r,
      rr_retry_count = r_retry_count r\<rparr>) (ms_rview s d))"
    by (auto simp: rrepo_find_latest_def get_reflection_by_decision_def io ms_rview_def)
  with 4 show ?case by (auto simp: ms_rview_def fun_eq_iff split: option.splits)
next
  case (5 s d lr s')
  then have "rrepo_load_context memory_reflection_ops d (fst s) = (lr, fst s')" by simp
  then have "fst s' = fst s"
    by (auto simp: rrepo_load_context_def find_decision_def list_outcomes_def list_evaluations_def io
        split: option.splits)
  with 5(1) show ?case by (simp add: ms_rview_def fun_eq_iff)
next
  case (6 s a b c er s')
  then have "same_reflections (fst s) (fst s')" by (auto dest: enqueue_same)
  with 6(1) same_reflectionsD show ?case by (simp add: ms_rview_def fun_eq_iff)
next
  case (7 s ctx gr s')
  then show ?case by simp
next
  case (8 s art ar s')
  then have "same_reflections (fst s) (fst s')" by (auto dest: registry_same)
  with 8(1) same_reflectionsD show ?case by (simp add: ms_rview_def fun_eq_iff)
next
  case (9 s ev pr s')
  then have "same_reflections (fst s) (fst s')" by (auto dest: event_log_same)
  with 9(1) same_reflectionsD show ?case by (simp add: ms_rview_def fun_eq_iff)
qed

definition engine_rows :: "engine_state \<Rightarrow> reflection_row list" where
  "engine_rows so = map snd (reflections (fst so))"

interpretation engine_cron: reflection_cron "engine_ports gen encp ence meta clk" ms_rview
  "\<lambda>so. reflections_wf (fst so)" True "\<lambda>q. on_store (update_reflection q)" engine_rows
  for gen encp ence meta clk
proof (unfold_locales, goal_cases)
  case (1 s r)
  then show ?case by (auto simp: engine_rows_def ms_rview_def reflections_wf_def)
next
  case (2 s d r q ur s')
  then have u: "ur = Inr ()" "fst s' = snd (update_reflection q (fst s))"
    by (auto simp: update_reflection_def)
  from update_reflection_view [OF 2(1) _ 2(3)] 2(2) u show ?case by (simp add: ms_rview_eq)
qed

end
