(* ===== verification/ReflectionClaims.thy ===== *)
theory ReflectionClaims
  imports ReflectionProps DecisionProps
begin

text \<open>
  The properties of the reflection loop, over the production adapter, with any language model:
  \<open>gen\<close> may answer anything, fail, and change its mind between calls.
\<close>

section \<open>Histories of the engine\<close>

text \<open>
  A call is a job run through the API or a cron cycle, each with the model that answers it and the
  clock readings of the artifact registry and of the engine.
\<close>

datatype engine_call =
    RunJob "engine_state \<Rightarrow> reflection_context \<Rightarrow> (string, reflection_draft) result" int reflection_job int
  | CronCycle "engine_state \<Rightarrow> reflection_context \<Rightarrow> (string, reflection_draft) result" int "nat \<Rightarrow> int" int

record engine_codecs =
  c_show :: "f64 \<Rightarrow> string"
  c_show2 :: "f64 \<Rightarrow> string"
  c_draft :: "reflection_draft \<Rightarrow> string"
  c_payload :: "reflection_payload \<Rightarrow> string"
  c_envelope :: "reflection_payload event_envelope \<Rightarrow> string"
  c_meta :: "registry_artifact \<Rightarrow> string"

abbreviation ports_of :: "engine_codecs \<Rightarrow> _ \<Rightarrow> int \<Rightarrow> engine_state reflection_ports" where
  "ports_of C gen clk \<equiv> engine_ports gen (c_payload C) (c_envelope C) (c_meta C) clk"

fun engine_exec :: "engine_codecs \<Rightarrow> engine_call \<Rightarrow> engine_state \<Rightarrow> engine_state" where
  "engine_exec C (RunJob gen clk job now) so =
     snd (execute_at (ports_of C gen clk) (c_show C) (c_show2 C) (c_draft C) job now so)"
| "engine_exec C (CronCycle gen clk clks now) so =
     process_pending_reflections (ports_of C gen clk) (\<lambda>q. on_store (update_reflection q))
       (\<lambda>so. decisions (fst so)) engine_rows (c_show C) (c_show2 C) (c_draft C) clks now so"

definition engine_run :: "engine_codecs \<Rightarrow> engine_call list \<Rightarrow> engine_state \<Rightarrow> engine_state" where
  "engine_run C calls so = fold (engine_exec C) calls so"

text \<open>A store with any decisions and facts and no reflection yet.\<close>

definition engine_start ::
  "decision_row list \<Rightarrow> outcome_event list \<Rightarrow> decision_evaluation list \<Rightarrow> string option list \<Rightarrow> engine_state" where
  "engine_start ds os es faults =
     (memory_store_new\<lparr>decisions := ds, outcomes := os, evaluations := es\<rparr>, \<lparr>r2_objects = [], r2_faults = faults\<rparr>)"

lemma engine_start_ok:
  "reflections_wf (fst (engine_start ds os es fs))" "all_rows reflection_ok (ms_rview (engine_start ds os es fs))"
  by (simp_all add: engine_start_def reflections_wf_def memory_store_new_def all_rows_def ms_rview_def)

lemma engine_rows_distinct: "reflections_wf (fst so) \<Longrightarrow> distinct (map r_decision_id (engine_rows so))"
proof -
  assume wf: "reflections_wf (fst so)"
  then have "map r_decision_id (engine_rows so) = map fst (reflections (fst so))"
    by (auto simp: engine_rows_def reflections_wf_def)
  with wf show ?thesis by (simp add: reflections_wf_def)
qed

abbreviation (input) kept_rows :: "engine_state \<Rightarrow> engine_state \<Rightarrow> bool" where
  "kept_rows so so' \<equiv> reflections_wf (fst so') \<and> all_rows reflection_ok (ms_rview so') \<and>
     (\<forall>d r. ms_rview so d = Some r \<longrightarrow> settled r \<longrightarrow> ms_rview so' d = Some r)"

lemma engine_exec_inv:
  assumes "reflections_wf (fst so)" "all_rows reflection_ok (ms_rview so)"
  shows "kept_rows so (engine_exec C c so)"
proof (cases c)
  case (RunJob gen clk job now)
  from engine_cron.execute_cron_inv [OF assms] show ?thesis
    unfolding RunJob engine_exec.simps engine_cron.cron_inv_def .
next
  case (CronCycle gen clk clks now)
  from engine_cron.cron_cycle_inv [OF assms engine_rows_distinct [OF assms(1)]] show ?thesis
    unfolding CronCycle engine_exec.simps engine_cron.cron_inv_def .
qed

lemma engine_run_inv:
  "reflections_wf (fst so) \<Longrightarrow> all_rows reflection_ok (ms_rview so) \<Longrightarrow> kept_rows so (engine_run C calls so)"
proof (induction calls arbitrary: so)
  case (Cons c calls)
  from engine_exec_inv [OF Cons.prems] have step: "kept_rows so (engine_exec C c so)" .
  then have "kept_rows (engine_exec C c so) (engine_run C calls (engine_exec C c so))"
    by (intro Cons.IH) simp_all
  with step show ?case by (simp add: engine_run_def)
qed (simp add: engine_run_def)

section \<open>Properties\<close>

text \<open>
  Validation accepts exactly the drafts the contract allows: a known result, at least one
  lesson, every lesson with a description of twenty bytes, a confidence in [0, 1] and some evidence,
  every rule with an action, an instruction and a confidence in [0, 1]; and the quality score it
  reports lies in [0, 1] unless the draft's is not a number.
\<close>

theorem validate_draft_spec:
  "vr_valid (validate_draft show d) = (dr_result d \<in> {''correct'', ''wrong'', ''mixed''} \<and> dr_lessons d \<noteq> [] \<and>
     list_all good_lesson (dr_lessons d) \<and> list_all good_rule (dr_rules d)) \<and>
   (dr_quality_score d = NaN \<or> in_range (Fin 0) (Fin 1) (vr_quality_score (validate_draft show d)))"
proof -
  have "vr_quality_score (validate_draft show d) = fclamp (dr_quality_score d) (Fin 0) (Fin 1)"
    by (simp add: validate_draft_def Let_def)
  then show ?thesis
    using fclamp_bounds [of "dr_quality_score d" "Fin 0" "Fin 1"]
    by (auto simp: validate_valid_iff in_range_def)
qed

text \<open>
  C2: whatever runs and cron cycles happen and whatever the model answers, every reflection row is
  generating with fewer than three failures, failed with at most three, or generated with a valid
  result, at least one lesson and an artifact key.
\<close>

theorem engine_history_ok:
  "all_rows reflection_ok (ms_rview (engine_run C calls (engine_start ds os es faults)))"
  using engine_run_inv [OF engine_start_ok] by blast

text \<open>
  C8: a reflection once generated, and one whose three attempts failed, is never touched again by
  any later run or cycle.
\<close>

theorem settled_rows_stay:
  assumes "ms_rview (engine_run C calls (engine_start ds os es faults)) d = Some r" "settled r"
  shows "ms_rview (engine_run C (calls @ later) (engine_start ds os es faults)) d = Some r"
proof -
  let ?s = "engine_run C calls (engine_start ds os es faults)"
  from engine_run_inv [OF engine_start_ok, of C calls ds os es faults]
  have "reflections_wf (fst ?s)" "all_rows reflection_ok (ms_rview ?s)" by simp_all
  from engine_run_inv [OF this, of C later] assms show ?thesis by (simp add: engine_run_def)
qed

text \<open>
  When a run reports success, the model gave a draft that passes validation, and the decision's
  row is the reported reflection, generated, with that draft's result, clamped quality and lessons.
\<close>

theorem run_success_persists:
  assumes "reflections_wf (fst so)" "all_rows reflection_ok (ms_rview so)"
    and "execute_at (ports_of C gen clk) (c_show C) (c_show2 C) (c_draft C) job now so = (Inr res, so')"
  shows "\<exists>ctx so3 d r. gen so3 ctx = Inr d \<and> vr_valid (validate_draft (c_show C) d) \<and>
    ms_rview so' (rj_decision_id job) = Some r \<and> r_id r = rres_reflection_id res \<and>
    r_status r = ''generated'' \<and> r_result r = Some (dr_result d) \<and>
    r_quality_score r = Some (fclamp (dr_quality_score d) (Fin 0) (Fin 1)) \<and>
    r_lessons_count r = int (length (dr_lessons d))"
  using engine_repo.execute_success [OF assms(1,2) TrueI assms(3)] by simp metis

section \<open>Runs that fail\<close>

lemma builder_on_decision:
  assumes "ms_row (fst so) d = Some row"
  shows "\<exists>ctx. builder_build (engine_ports gen encp ence meta clk) d so = (Inr ctx, so) \<and>
    \<not> flt (rc_completeness_score ctx) (lit64 0.4)"
proof -
  obtain facts where "rrepo_load_context memory_reflection_ops d (fst so) = (Inr (Some facts), fst so)"
    using assms
    by (simp add: rrepo_load_context_def find_decision_def list_outcomes_def list_evaluations_def io ms_row_def)
  then have "builder_build (engine_ports gen encp ence meta clk) d so = (Inr (build_context facts), so)"
    by (simp add: builder_build_def io_bind_def on_store_def)
  with completeness_scores show ?thesis by blast
qed

lemma start_run:
  assumes "reflections_wf (fst so)" "ms_row (fst so) d = Some row"
    and "case ms_rview so d of None \<Rightarrow> n = 0 | Some r \<Rightarrow> r_status r = ''failed'' \<and> r_retry_count r < 3 \<and> n = r_retry_count r"
  obtains i so1 where "rp_create (engine_ports gen encp ence meta clk) d job so = (Inr i, so1)"
    "engine_repo.in_run so1 d i n" "ms_row (fst so1) d = Some row"
proof -
  obtain cr s1 where c: "rrepo_create memory_reflection_ops d job (fst so) = (cr, s1)" by fastforce
  from assms(3) c obtain i where i: "cr = Inr i" and dec: "decisions s1 = decisions (fst so)"
    by (auto simp: rrepo_create_def get_reflection_by_decision_def create_reflection_def update_reflection_def
        io Let_def ms_rview_def max_reflection_retries_def split: option.splits)
  from rrepo_create_any [OF assms(1) c] i assms(3) have "engine_repo.in_run (s1, snd so) d i n"
    by (auto simp: engine_repo.in_run_def ms_rview_def split: option.splits)
  moreover have "rp_create (engine_ports gen encp ence meta clk) d job so = (Inr i, (s1, snd so))"
    using c i by (simp add: on_store_def)
  ultimately show thesis using that [of i "(s1, snd so)"] dec assms(2) by (simp add: ms_row_def)
qed

lemma lease_decisions:
  "ms_row (fst (io_ignore (rp_update (engine_ports gen encp ence meta clk) u) so)) d = ms_row (fst so) d"
  by (simp add: io_ignore_def on_store_def rrepo_update_def update_reflection_def io ms_row_def)

lemma mark_failed_exact:
  assumes "engine_repo.in_run so d i n"
  shows "\<exists>r. ms_rview (mark_failed_job (engine_ports gen encp ence meta clk) i d err so) d = Some r \<and>
    r_status r = ''failed'' \<and> r_retry_count r = n + 1"
proof -
  from assms obtain r where r: "reflections_wf (fst so)" "ms_rview so d = Some r" "r_id r = i" "r_retry_count r = n"
    by (auto simp: engine_repo.in_run_def)
  let ?P = "engine_ports gen encp ence meta clk"
  have m: "mark_failed_job ?P i d err so = io_ignore (rp_update ?P (failed_update i (n + 1) err)) so"
    using r by (simp add: mark_failed_job_def on_store_def rrepo_find_latest_def get_reflection_by_decision_def io
        ms_rview_def)
  have "r_id r = ru_id (failed_update i (n + 1) err)" using r by (simp add: failed_update_def)
  from engine_repo.update_ignore(2) [OF r(1,2) this] show ?thesis
    by (auto simp: m apply_update_def to_update_req_def failed_update_def)
qed

text \<open>
  A run of a stored decision whose draft does not pass validation reports the error, and leaves
  its row failed with one more attempt on its count, so that three such runs exhaust it.
\<close>

theorem invalid_draft_counts:
  assumes "reflections_wf (fst so)" "ms_row (fst so) (rj_decision_id job) = Some row"
    and "case ms_rview so (rj_decision_id job) of None \<Rightarrow> n = 0
         | Some r \<Rightarrow> r_status r = ''failed'' \<and> r_retry_count r < 3 \<and> n = r_retry_count r"
    and "\<And>x ctx. \<exists>d. gen x ctx = Inr d \<and> \<not> vr_valid (validate_draft (c_show C) d)"
    and "execute_at (ports_of C gen clk) (c_show C) (c_show2 C) (c_draft C) job now so = (res, so')"
  shows "\<not> is_ok res \<and> (\<exists>r. ms_rview so' (rj_decision_id job) = Some r \<and> r_status r = ''failed'' \<and>
    r_retry_count r = n + 1)"
proof -
  let ?P = "ports_of C gen clk" and ?d = "rj_decision_id job"
  obtain i so1 where c: "rp_create ?P ?d (job_id ?d now) so = (Inr i, so1)" "engine_repo.in_run so1 ?d i n"
    "ms_row (fst so1) ?d = Some row" using start_run [OF assms(1-3)] by blast
  let ?so2 = "io_ignore (rp_update ?P (lease_update i now)) so1"
  from engine_repo.lease_step(1) [OF c(2)] have run: "engine_repo.in_run ?so2 ?d i n" .
  have "ms_row (fst ?so2) ?d = Some row" using c(3) by (simp only: lease_decisions)
  from builder_on_decision [OF this] obtain ctx where b: "builder_build ?P ?d ?so2 = (Inr ctx, ?so2)"
    "\<not> flt (rc_completeness_score ctx) (lit64 0.4)" by blast
  from assms(4) obtain d where d: "gen ?so2 ctx = Inr d" "\<not> vr_valid (validate_draft (c_show C) d)" by blast
  have g: "rp_generate ?P ctx ?so2 = (Inr d, ?so2)" using d by simp
  obtain msg err where "res = Inl err" "so' = mark_failed_job ?P i ?d msg ?so2"
    using assms(5) unfolding execute_at_def Let_def c(1) prod.case sum.case b(1) g
    using b(2) d(2) by (auto split: if_splits)
  with mark_failed_exact [OF run] show ?thesis by auto
qed

text \<open>
  C10: when the model call fails, the error is reported but the row stays in generation with its
  count unchanged, because the future that would mark it failed is dropped; and a further run of the
  decision is refused, until the cron cycle's lease recovery.
\<close>

theorem model_error_strands_row:
  assumes "reflections_wf (fst so)" "ms_row (fst so) (rj_decision_id job) = Some row"
    and "case ms_rview so (rj_decision_id job) of None \<Rightarrow> n = 0
         | Some r \<Rightarrow> r_status r = ''failed'' \<and> r_retry_count r < 3 \<and> n = r_retry_count r"
    and "\<And>x ctx. \<exists>e. gen x ctx = Inl e"
    and "execute_at (ports_of C gen clk) (c_show C) (c_show2 C) (c_draft C) job now so = (res, so')"
  shows "\<not> is_ok res \<and> (\<exists>r. ms_rview so' (rj_decision_id job) = Some r \<and> r_status r = ''generating'' \<and>
    r_retry_count r = n) \<and>
    (\<exists>e. fst (execute_at (ports_of C gen' clk') (c_show C) (c_show2 C) (c_draft C) job now' so') = Inl e)"
proof -
  let ?P = "ports_of C gen clk" and ?d = "rj_decision_id job"
  obtain i so1 where c: "rp_create ?P ?d (job_id ?d now) so = (Inr i, so1)" "engine_repo.in_run so1 ?d i n"
    "ms_row (fst so1) ?d = Some row" using start_run [OF assms(1-3)] by blast
  let ?so2 = "io_ignore (rp_update ?P (lease_update i now)) so1"
  from engine_repo.lease_step(1) [OF c(2)] have run: "engine_repo.in_run ?so2 ?d i n" .
  have "ms_row (fst ?so2) ?d = Some row" using c(3) by (simp only: lease_decisions)
  from builder_on_decision [OF this] obtain ctx where b: "builder_build ?P ?d ?so2 = (Inr ctx, ?so2)"
    "\<not> flt (rc_completeness_score ctx) (lit64 0.4)" by blast
  from assms(4) obtain e where e: "gen ?so2 ctx = Inl e" by blast
  have g: "rp_generate ?P ctx ?so2 = (Inl e, ?so2)" using e by simp
  obtain err where res: "res = Inl err" "so' = ?so2"
    using assms(5) unfolding execute_at_def Let_def c(1) prod.case sum.case b(1) g
    using b(2) by (auto split: if_splits)
  from run obtain r where r: "reflections_wf (fst ?so2)" "ms_rview ?so2 ?d = Some r"
    "r_status r = ''generating''" "r_retry_count r = n" by (auto simp: engine_repo.in_run_def)
  obtain q t where "execute_at (ports_of C gen' clk') (c_show C) (c_show2 C) (c_draft C) job now' ?so2 = (q, t)"
    by (rule prod.exhaust)
  with engine_repo.execute_tracked [OF r(1,2) _ this] r res show ?thesis
    by (cases q) auto
qed

text \<open>
  C9: a run of a stored decision that is not settled or in generation, with a model whose drafts
  pass validation, succeeds, and the row is generated with the draft's result.
\<close>

theorem valid_draft_generates:
  assumes "reflections_wf (fst so)" "ms_row (fst so) (rj_decision_id job) = Some row"
    and "case ms_rview so (rj_decision_id job) of None \<Rightarrow> n = 0
         | Some r \<Rightarrow> r_status r = ''failed'' \<and> 0 \<le> r_retry_count r \<and> r_retry_count r < 3 \<and> n = r_retry_count r"
    and "\<And>x ctx. gen x ctx = Inr d" "vr_valid (validate_draft (c_show C) d)"
    and "execute_at (ports_of C gen clk) (c_show C) (c_show2 C) (c_draft C) job now so = (res, so')"
  shows "is_ok res \<and> (\<exists>r. ms_rview so' (rj_decision_id job) = Some r \<and> r_status r = ''generated'' \<and>
    r_result r = Some (dr_result d))"
proof -
  let ?P = "ports_of C gen clk" and ?d = "rj_decision_id job"
  from assms(3) have n: "0 \<le> n" "n < 3" by (auto split: option.splits)
  from assms(3) have "case ms_rview so ?d of None \<Rightarrow> n = 0
         | Some r \<Rightarrow> r_status r = ''failed'' \<and> r_retry_count r < 3 \<and> n = r_retry_count r"
    by (auto split: option.splits)
  from start_run [OF assms(1,2) this] obtain i so1 where c: "rp_create ?P ?d (job_id ?d now) so = (Inr i, so1)"
    "engine_repo.in_run so1 ?d i n" "ms_row (fst so1) ?d = Some row" by blast
  let ?so2 = "io_ignore (rp_update ?P (lease_update i now)) so1"
  from engine_repo.lease_step(1) [OF c(2)] have run: "engine_repo.in_run ?so2 ?d i n" .
  have "ms_row (fst ?so2) ?d = Some row" using c(3) by (simp only: lease_decisions)
  from builder_on_decision [OF this] obtain ctx where b: "builder_build ?P ?d ?so2 = (Inr ctx, ?so2)"
    "\<not> flt (rc_completeness_score ctx) (lit64 0.4)" by blast
  have g: "rp_generate ?P ctx ?so2 = (Inr d, ?so2)" using assms(4) by simp
  have "is_ok res" "so' = persist_draft ?P (c_draft C) job now i d (validate_draft (c_show C) d) ?so2"
    using assms(6) unfolding execute_at_def Let_def c(1) prod.case sum.case b(1) g
    using b(2) assms(5) by (auto split: if_splits)
  with engine_repo.persist_step(3) [OF run n assms(5)] show ?thesis by fastforce
qed

section \<open>Witnesses\<close>

definition good_draft :: reflection_draft where
  "good_draft =
     \<lparr>dr_result = ''correct'', dr_confidence_calibration = ''accurate'', dr_quality_score = Fin (3/4),
      dr_lessons = [\<lparr>ld_category = ''evidence'', ld_domain = ''ai'',
        ld_description = ''watch the second order effects'', ld_severity = ''high'',
        ld_confidence = Fin (1/2), ld_evidence_basis = [''outcome 1'']\<rparr>],
      dr_rules = []\<rparr>"

definition bad_draft :: reflection_draft where
  "bad_draft = good_draft\<lparr>dr_lessons := []\<rparr>"

lemma sample_drafts: "vr_valid (validate_draft sh good_draft)" "\<not> vr_valid (validate_draft sh bad_draft)"
  by (simp_all add: validate_valid_iff good_draft_def bad_draft_def good_lesson_def in_range_def)

definition sample_codecs :: engine_codecs where
  "sample_codecs = \<lparr>c_show = (\<lambda>_. []), c_show2 = (\<lambda>_. []), c_draft = (\<lambda>_. []), c_payload = (\<lambda>_. []),
     c_envelope = (\<lambda>_. []), c_meta = (\<lambda>_. [])\<rparr>"

definition sample_job :: reflection_job where
  "sample_job = \<lparr>rj_decision_id = 1, rj_correlation_id = ''c''\<rparr>"

abbreviation sample_engine :: engine_state where
  "sample_engine \<equiv> engine_start [sample_row] [] [] []"

abbreviation run_sample :: "_ \<Rightarrow> (string, reflection_result) result \<times> engine_state" where
  "run_sample gen \<equiv> execute_at (ports_of sample_codecs gen 5) (c_show sample_codecs) (c_show2 sample_codecs)
     (c_draft sample_codecs) sample_job 1000 sample_engine"

lemma sample_engine_facts:
  "reflections_wf (fst sample_engine)" "ms_row (fst sample_engine) (rj_decision_id sample_job) = Some sample_row"
  "ms_rview sample_engine (rj_decision_id sample_job) = None" "all_rows reflection_ok (ms_rview sample_engine)"
proof -
  show "reflections_wf (fst sample_engine)" "all_rows reflection_ok (ms_rview sample_engine)"
    by (rule engine_start_ok)+
  show "ms_row (fst sample_engine) (rj_decision_id sample_job) = Some sample_row"
    "ms_rview sample_engine (rj_decision_id sample_job) = None"
    by (simp_all add: engine_start_def ms_row_def sample_row_def sample_job_def ms_rview_def memory_store_new_def)
qed

lemma sample_run:
  "\<exists>res so'. run_sample (\<lambda>_ _. Inr good_draft) = (Inr res, so') \<and>
     (\<exists>r. ms_rview so' 1 = Some r \<and> r_status r = ''generated'')"
proof -
  obtain res so' where e: "run_sample (\<lambda>_ _. Inr good_draft) = (res, so')" by (rule prod.exhaust)
  let ?P = "ports_of sample_codecs (\<lambda>_ _. Inr good_draft) 5"
  have job: "rj_decision_id sample_job = 1" by (simp add: sample_job_def)
  note facts = sample_engine_facts [unfolded job]
  have "case ms_rview sample_engine 1 of None \<Rightarrow> 0 = (0::int)
         | Some r \<Rightarrow> r_status r = ''failed'' \<and> r_retry_count r < 3 \<and> 0 = r_retry_count r"
    by (simp add: facts)
  from start_run [OF facts(1,2) this] obtain i so1 where
    c: "rp_create ?P 1 (job_id 1 1000) sample_engine = (Inr i, so1)" "engine_repo.in_run so1 1 i 0"
    "ms_row (fst so1) 1 = Some sample_row" by blast
  let ?so2 = "io_ignore (rp_update ?P (lease_update i 1000)) so1"
  from engine_repo.lease_step(1) [OF c(2)] have run: "engine_repo.in_run ?so2 1 i 0" .
  have "ms_row (fst ?so2) 1 = Some sample_row" using c(3) by (simp only: lease_decisions)
  from builder_on_decision [OF this] obtain ctx where b: "builder_build ?P 1 ?so2 = (Inr ctx, ?so2)"
    "\<not> flt (rc_completeness_score ctx) (lit64 0.4)" by blast
  have g: "rp_generate ?P ctx ?so2 = (Inr good_draft, ?so2)" by simp
  obtain x where "res = Inr x" "so' = persist_draft ?P (c_draft sample_codecs) sample_job 1000 i good_draft
      (validate_draft (c_show sample_codecs) good_draft) ?so2"
    using e unfolding execute_at_def Let_def job c(1) prod.case sum.case b(1) g
    using b(2) sample_drafts(1) by (auto split: if_splits)
  with engine_repo.persist_step(3) [OF run _ _ sample_drafts(1)] e show ?thesis by fastforce
qed

theorem valid_draft_generates_witness: "is_ok (fst (run_sample (\<lambda>_ _. Inr good_draft)))"
proof -
  obtain res so' where e: "run_sample (\<lambda>_ _. Inr good_draft) = (res, so')" by (rule prod.exhaust)
  from valid_draft_generates [OF sample_engine_facts(1,2) _ _ sample_drafts(1) e, of 0] e
  show ?thesis by (simp add: sample_engine_facts)
qed

theorem run_success_persists_witness:
  "\<exists>res so' r. run_sample (\<lambda>_ _. Inr good_draft) = (Inr res, so') \<and> ms_rview so' (rj_decision_id sample_job) = Some r \<and>
     r_id r = rres_reflection_id res"
proof -
  obtain res so' where e: "run_sample (\<lambda>_ _. Inr good_draft) = (Inr res, so')" using sample_run by blast
  from run_success_persists [OF sample_engine_facts(1,4) e] e show ?thesis by blast
qed

theorem settled_rows_stay_witness:
  "\<exists>r. r_status r = ''generated'' \<and>
     ms_rview (engine_run sample_codecs
       [RunJob (\<lambda>_ _. Inr good_draft) 5 sample_job 1000, RunJob (\<lambda>_ _. Inl ''down'') 6 sample_job 2000] sample_engine) 1 = Some r"
proof -
  obtain res so' r where e: "run_sample (\<lambda>_ _. Inr good_draft) = (Inr res, so')"
    "ms_rview so' 1 = Some r" "r_status r = ''generated''" using sample_run by blast
  then have "ms_rview (engine_run sample_codecs [RunJob (\<lambda>_ _. Inr good_draft) 5 sample_job 1000] sample_engine) 1 = Some r"
    by (simp add: engine_run_def)
  from settled_rows_stay [OF this, of "[RunJob (\<lambda>_ _. Inl ''down'') 6 sample_job 2000]"] e(3)
  show ?thesis by (auto simp: settled_def)
qed

theorem invalid_draft_counts_witness: "\<not> is_ok (fst (run_sample (\<lambda>_ _. Inr bad_draft)))"
proof -
  obtain res so' where e: "run_sample (\<lambda>_ _. Inr bad_draft) = (res, so')" by (rule prod.exhaust)
  from invalid_draft_counts [OF sample_engine_facts(1,2) _ _ e, of 0] e sample_drafts(2)
  show ?thesis by (simp add: sample_engine_facts)
qed

theorem model_error_strands_row_witness:
  "\<exists>so' r. snd (run_sample (\<lambda>_ _. Inl ''down'')) = so' \<and> ms_rview so' (rj_decision_id sample_job) = Some r \<and>
     r_status r = ''generating''"
proof -
  obtain res so' where e: "run_sample (\<lambda>_ _. Inl ''down'') = (res, so')" by (rule prod.exhaust)
  have "case ms_rview sample_engine (rj_decision_id sample_job) of None \<Rightarrow> 0 = (0::int)
         | Some r \<Rightarrow> r_status r = ''failed'' \<and> r_retry_count r < 3 \<and> 0 = r_retry_count r"
    by (simp add: sample_engine_facts)
  from model_error_strands_row [OF sample_engine_facts(1,2) this _ e, of undefined 0 0]
  have "\<exists>r. ms_rview so' (rj_decision_id sample_job) = Some r \<and> r_status r = ''generating''" by blast
  then show ?thesis unfolding e by simp
qed

end
