(* ===== verification/Scoring.thy ===== *)
theory Scoring
  imports Floats RustText "HOL-Library.Signed_Division"
begin

text \<open>
  The scores of the signal engine: impact labels, the four-factor health
  (\<open>signal-engine/src/scoring\<close>, and its copy in \<open>store/src/d1/signal/health.rs\<close>), the five-factor
  score of entity candidates and the radar rank (\<open>store/src/d1/signal\<close>), and the V2 score of a
  semantic cluster.  All arithmetic is the rounded one of \<open>Floats\<close>.

  A weighted sum with non-negative weights is monotone in every factor, rounding included, so its
  bounds are its values at the corners, and a better metric never lowers a score.
\<close>

section \<open>Weighted sums\<close>

text \<open>\<open>w1 * x1 + w2 * x2 + ...\<close>, from the left.\<close>

fun wsum_from :: "fmt \<Rightarrow> fl \<Rightarrow> (fl \<times> fl) list \<Rightarrow> fl" where
  "wsum_from m acc [] = acc"
| "wsum_from m acc ((w, x) # ps) = wsum_from m (fadd m acc (fmul m w x)) ps"

fun wsum :: "fmt \<Rightarrow> (fl \<times> fl) list \<Rightarrow> fl" where
  "wsum m [] = Fin 0"
| "wsum m ((w, x) # ps) = wsum_from m (fmul m w x) ps"

abbreviation (input) nonneg :: "fl \<Rightarrow> bool" where
  "nonneg x \<equiv> fle (Fin 0) x"

lemma rnd_nonneg: "0 \<le> q \<Longrightarrow> 0 < prec m \<Longrightarrow> nonneg (rnd m q)"
  using rnd_mono [of 0 q m] by simp

lemma fle_antisym: "fle x y \<Longrightarrow> fle y x \<Longrightarrow> x = y"
  by (cases x; cases y) auto

lemma rnd_le_PInf: "fle (rnd m q) PInf"
proof -
  have "rnd m q \<noteq> NaN" by (simp add: rnd_def Let_def)
  then show ?thesis by (cases "rnd m q") auto
qed

lemma NInf_le_rnd: "fle NInf (rnd m q)"
proof -
  have "rnd m q \<noteq> NaN" by (simp add: rnd_def Let_def)
  then show ?thesis by (cases "rnd m q") auto
qed

lemma nonneg_cases: "nonneg x \<Longrightarrow> (\<And>q. x = Fin q \<Longrightarrow> 0 \<le> q \<Longrightarrow> P) \<Longrightarrow> (x = PInf \<Longrightarrow> P) \<Longrightarrow> P"
  by (cases x) auto

lemma fadd_mono:
  assumes "fle x x'" "fle y y'" "nonneg x" "nonneg y" "0 < prec m"
  shows "fle (fadd m x y) (fadd m x' y') \<and> nonneg (fadd m x y)"
proof -
  have "nonneg x'" "nonneg y'" using assms fle_trans by blast+
  with assms show ?thesis
    by (elim nonneg_cases) (simp_all add: rnd_mono rnd_nonneg rnd_le_PInf)
qed

lemma fmul_mono:
  assumes "0 \<le> w" "fle x (Fin b)" "fle x x'" "nonneg x" "fle x' (Fin b')" "0 < prec m"
  shows "fle (fmul m (Fin w) x) (fmul m (Fin w) x')" "nonneg (fmul m (Fin w) x)"
  using assms by (cases x; cases x'; auto intro!: rnd_mono rnd_nonneg mult_left_mono)+

lemma wsum_from_mono:
  assumes "list_all2 (\<lambda>(w, x) (w', x'). w' = w \<and> between 0 1 w \<and> between 0 1 x \<and> between 0 1 x' \<and> fle x x') ps ps'"
    and "fle acc acc'" "nonneg acc" "0 < prec m"
  shows "fle (wsum_from m acc ps) (wsum_from m acc' ps') \<and> nonneg (wsum_from m acc ps)"
  using assms
proof (induction ps ps' arbitrary: acc acc' rule: list_all2_induct)
  case (Cons p ps p' ps')
  obtain w x where p: "p = (w, x)" by fastforce
  obtain w' x' where p': "p' = (w', x')" by fastforce
  from Cons.hyps(1) p p' obtain q where q: "w = Fin q" "w' = Fin q" "0 \<le> q"
    and x: "fle x (Fin 1)" "fle x x'" "nonneg x" "fle x' (Fin 1)" by (cases w) (auto simp: between_fle)
  note mul = fmul_mono [OF q(3) x Cons.prems(3)]
  note add = fadd_mono [OF Cons.prems(1) mul(1) Cons.prems(2) mul(2) Cons.prems(3)]
  from Cons.IH [OF conjunct1 [OF add] conjunct2 [OF add] Cons.prems(3)] show ?case by (simp add: p p' q)
qed simp

lemma wsum_mono:
  assumes "list_all2 (\<lambda>(w, x) (w', x'). w' = w \<and> between 0 1 w \<and> between 0 1 x \<and> between 0 1 x' \<and> fle x x') ps ps'"
    and "0 < prec m"
  shows "fle (wsum m ps) (wsum m ps')" "nonneg (wsum m ps)"
proof -
  have "fle (wsum m ps) (wsum m ps') \<and> nonneg (wsum m ps)"
  proof (cases ps)
    case (Cons p qs)
    with assms(1) obtain p' qs' where ps': "ps' = p' # qs'" by (auto simp: list_all2_Cons1)
    obtain w x where p: "p = (w, x)" by fastforce
    obtain w' x' where p': "p' = (w', x')" by fastforce
    from assms(1) Cons ps' p p' obtain q where q: "w = Fin q" "w' = Fin q" "0 \<le> q"
      and x: "fle x (Fin 1)" "fle x x'" "nonneg x" "fle x' (Fin 1)"
      and rest: "list_all2 (\<lambda>(w, x) (w', x'). w' = w \<and> between 0 1 w \<and>
        between 0 1 x \<and> between 0 1 x' \<and> fle x x') qs qs'" by (cases w) (auto simp: between_fle)
    note mul = fmul_mono [OF q(3) x assms(2)]
    from wsum_from_mono [OF rest mul assms(2)] show ?thesis by (simp add: Cons ps' p p' q)
  qed (use assms in \<open>simp\<close>)
  then show "fle (wsum m ps) (wsum m ps')" "nonneg (wsum m ps)" by simp_all
qed

lemma wsum_between:
  assumes "list_all (\<lambda>(w, x). between 0 1 w \<and> between 0 1 x) ps"
    and "wsum m (map (\<lambda>(w, x). (w, Fin 1)) ps) = Fin b" "0 < prec m"
  shows "between 0 b (wsum m ps)"
proof -
  have "list_all2 (\<lambda>(w, x) (w', x'). w' = w \<and> between 0 1 w \<and> between 0 1 x \<and> between 0 1 x' \<and> fle x x')
      ps (map (\<lambda>(w, x). (w, Fin 1)) ps)"
    using assms(1) by (induction ps) (auto simp: between_fle)
  from wsum_mono [OF this assms(3)] assms(2) show ?thesis by (simp add: between_fle)
qed

section \<open>Monotone pieces\<close>

lemma fmin_mono: "fle x y \<Longrightarrow> fle (fmin x c) (fmin y c)"
  by (cases x; cases y; cases c) auto

lemma fdiv_mono: "0 < c \<Longrightarrow> fle x y \<Longrightarrow> 0 < prec m \<Longrightarrow> fle (fdiv m x (Fin c)) (fdiv m y (Fin c))"
  by (cases x; cases y) (auto simp: inf_of_sign_def rnd_le_PInf NInf_le_rnd intro!: rnd_mono divide_right_mono)

lemma fclamp_mono: "fle x y \<Longrightarrow> fle (Fin a) (Fin b) \<Longrightarrow> fle (fclamp x (Fin a) (Fin b)) (fclamp y (Fin a) (Fin b))"
  by (cases x; cases y) (auto simp: fclamp_def)

lemma round_away_mono: "p \<le> q \<Longrightarrow> round_away p \<le> round_away q"
proof -
  assume pq: "p \<le> q"
  show ?thesis
  proof (cases "0 \<le> p")
    case True
    with pq show ?thesis by (simp add: round_away_def floor_mono)
  next
    case False
    have "0 \<le> \<lfloor>- p + 1/2\<rfloor>" using False by simp
    moreover have "0 \<le> q \<Longrightarrow> 0 \<le> \<lfloor>q + 1/2\<rfloor>" by simp
    moreover have "\<lfloor>- q + 1/2\<rfloor> \<le> \<lfloor>- p + 1/2\<rfloor>" using pq by (intro floor_mono) simp
    ultimately show ?thesis using False unfolding round_away_def by (simp only: if_False split: if_split) linarith
  qed
qed

lemma fround_mono: "fle x y \<Longrightarrow> fle (fround x) (fround y)"
  by (cases x; cases y) (auto simp: round_away_mono)

text \<open>\<open>(x * 100.0).round() / 100.0\<close>.\<close>

definition round2 :: "f64 \<Rightarrow> f64" where
  "round2 x = fdiv binary64 (fround (fmul binary64 x (Fin 100))) (Fin 100)"

lemma fmul_comm: "fmul m x y = fmul m y x"
  by (cases x; cases y) (simp_all add: mult.commute)

lemma rnd_small:
  assumes "0 \<le> q" "q \<le> 1000"
  shows "\<exists>r. rnd binary64 q = Fin r \<and> 0 \<le> r \<and> r \<le> 1000"
proof -
  have "rnd binary64 1000 = Fin 1000" by code_simp
  with between_rnd [OF assms, of binary64 0 1000] show ?thesis by (auto simp: between_iff)
qed

lemma round2_mono:
  assumes "between 0 2 x" "between 0 2 y" "fle x y"
  shows "fle (round2 x) (round2 y)" "nonneg (round2 x)"
proof -
  from assms obtain p q where pq: "x = Fin p" "y = Fin q" "0 \<le> p" "p \<le> q" "q \<le> 2" by (auto simp: between_iff)
  from pq obtain r s where r: "rnd binary64 (p * 100) = Fin r" "rnd binary64 (q * 100) = Fin s"
    "0 \<le> r" "r \<le> s"
    using rnd_small [of "p * 100"] rnd_small [of "q * 100"] rnd_mono [of "p * 100" "q * 100" binary64] by auto
  have "0 \<le> round_away r" using r(3) by (simp add: round_away_def)
  with pq r round_away_mono [OF r(4)] show "fle (round2 x) (round2 y)" "nonneg (round2 x)"
    by (auto simp: round2_def intro!: rnd_mono rnd_nonneg divide_right_mono)
qed

section \<open>Impact\<close>

definition score_to_impact :: "f64 \<Rightarrow> string" where
  "score_to_impact score =
     (if fle (lit64 0.7) score then ''High'' else if fle (lit64 0.4) score then ''Medium'' else ''Low'')"

section \<open>Health\<close>

record signal_health_metrics =
  hm_article_count :: int
  hm_source_count :: int
  hm_avg_score :: f64
  hm_trend :: string
  hm_days_active :: f64

definition trend_velocity :: "string \<Rightarrow> f64" where
  "trend_velocity t = (if t = ''rising'' then Fin 1 else if t = ''stable'' then lit64 0.5 else lit64 0.15)"

definition health_activity :: "signal_health_metrics \<Rightarrow> f64" where
  "health_activity h =
     fdiv binary64 (fmin (fdiv binary64 (of_i64 binary64 (hm_article_count h)) (hm_days_active h)) (Fin 10)) (Fin 10)"

definition health_diversity :: "signal_health_metrics \<Rightarrow> f64" where
  "health_diversity h = fdiv binary64 (fmin (of_i64 binary64 (hm_source_count h)) (Fin 15)) (Fin 15)"

definition health_quality :: "signal_health_metrics \<Rightarrow> f64" where
  "health_quality h = fclamp (fdiv binary64 (hm_avg_score h) (Fin 10)) (Fin 0) (Fin 1)"

definition calculate_health :: "signal_health_metrics \<Rightarrow> f64" where
  "calculate_health h =
     round2 (wsum binary64 [(lit64 0.35, health_activity h), (lit64 0.25, health_diversity h),
       (lit64 0.20, health_quality h), (lit64 0.20, trend_velocity (hm_trend h))])"

definition health_breakdown :: "signal_health_metrics \<Rightarrow> f64 \<times> f64 \<times> f64 \<times> f64" where
  "health_breakdown h = (round2 (health_activity h), round2 (health_diversity h), round2 (health_quality h),
     round2 (trend_velocity (hm_trend h)))"

record signal_health_breakdown =
  hb_activity :: f64
  hb_diversity :: f64
  hb_quality :: f64
  hb_velocity :: f64

record signal_health =
  sh_score :: f64
  sh_breakdown :: signal_health_breakdown

text \<open>The store's copy of the formula.\<close>

definition calculate_signal_health :: "int \<Rightarrow> int \<Rightarrow> f64 \<Rightarrow> string \<Rightarrow> f64 \<Rightarrow> signal_health" where
  "calculate_signal_health article_count source_count avg_score trend days_active =
     (let activity = fdiv binary64 (fmin (fdiv binary64 (of_i64 binary64 article_count) days_active) (Fin 10)) (Fin 10);
          diversity = fdiv binary64 (fmin (of_i64 binary64 source_count) (Fin 15)) (Fin 15);
          quality = fclamp (fdiv binary64 avg_score (Fin 10)) (Fin 0) (Fin 1);
          velocity = (if trend = ''rising'' then Fin 1 else if trend = ''stable'' then lit64 0.5 else lit64 0.15);
          score = wsum binary64 [(lit64 0.35, activity), (lit64 0.25, diversity), (lit64 0.20, quality),
            (lit64 0.20, velocity)]
      in \<lparr>sh_score = round2 score,
          sh_breakdown = \<lparr>hb_activity = round2 activity, hb_diversity = round2 diversity,
            hb_quality = round2 quality, hb_velocity = round2 velocity\<rparr>\<rparr>)"

section \<open>Radar rank and entity candidates\<close>

definition radar_score :: "f64 \<Rightarrow> f64 \<Rightarrow> f64 \<Rightarrow> f64" where
  "radar_score health last_evidence_ago_secs first_seen_ago_secs =
     (let recency = fsub binary64 (Fin 1) (fclamp (fdiv binary64 last_evidence_ago_secs (Fin 604800)) (Fin 0) (Fin 1));
          novelty = fsub binary64 (Fin 1) (fclamp (fdiv binary64 first_seen_ago_secs (Fin 1209600)) (Fin 0) (Fin 1))
      in wsum binary64 [(lit64 0.5, health), (lit64 0.3, recency), (lit64 0.2, novelty)])"

text \<open>Counts of articles: their products with 12 stay far below \<open>2 ^ 63\<close>; \<open>/\<close> truncates.\<close>

definition compute_trend :: "int \<Rightarrow> int \<Rightarrow> string" where
  "compute_trend recent_count earlier_count =
     (if earlier_count = 0 \<or> recent_count > (earlier_count * 12) sdiv 10 then ''rising''
      else if recent_count < (earlier_count * 8) sdiv 10 then ''declining''
      else ''stable'')"

definition compute_novelty :: "f64 \<Rightarrow> int \<Rightarrow> int \<Rightarrow> f64" where
  "compute_novelty current_rate historical_count days =
     (let historical_rate = (if historical_count > 0 then fdiv binary64 (of_i64 binary64 historical_count) (Fin 21)
                             else fmul binary64 current_rate (lit64 0.5));
          novelty_raw = (if flt (Fin 0) historical_rate then fdiv binary64 current_rate historical_rate else Fin 1)
      in fmin (fdiv binary64 novelty_raw (Fin 3)) (Fin 1))"

record signal_scores =
  ss_score :: f64
  ss_volume :: f64
  ss_diversity :: f64
  ss_quality :: f64
  ss_velocity :: f64
  ss_novelty :: f64

definition compute_5_factor_score ::
  "int \<Rightarrow> int \<Rightarrow> f64 \<Rightarrow> string \<Rightarrow> f64 \<Rightarrow> int \<Rightarrow> int \<Rightarrow> signal_scores" where
  "compute_5_factor_score article_count source_count avg_score trend current_rate historical_count days =
     (let volume = fdiv binary64 (fmin (fdiv binary64 (of_i64 binary64 article_count) (of_i64 binary64 days)) (Fin 20)) (Fin 20);
          diversity = fdiv binary64 (fmin (of_i64 binary64 source_count) (Fin 10)) (Fin 10);
          quality = fclamp (fdiv binary64 avg_score (Fin 10)) (Fin 0) (Fin 1);
          velocity = (if trend = ''rising'' then Fin 1 else if trend = ''stable'' then lit64 0.5 else Fin 0);
          novelty = compute_novelty current_rate historical_count days
      in \<lparr>ss_score = wsum binary64 [(lit64 0.25, volume), (lit64 0.20, diversity), (lit64 0.20, quality),
            (lit64 0.20, velocity), (lit64 0.15, novelty)],
          ss_volume = volume, ss_diversity = diversity, ss_quality = quality, ss_velocity = velocity,
          ss_novelty = novelty\<rparr>)"

section \<open>The V2 score of a cluster\<close>

record semantic_cluster_score_input =
  sci_avg_similarity :: f64
  sci_entity_focus :: f64
  sci_temporal_momentum :: f64
  sci_source_diversity :: f64

definition signal_score_v2 :: "semantic_cluster_score_input \<Rightarrow> f64" where
  "signal_score_v2 i =
     (let cohesion = fclamp (sci_avg_similarity i) (Fin 0) (Fin 1);
          focus = fclamp (sci_entity_focus i) (Fin 0) (Fin 1);
          momentum = fclamp (sci_temporal_momentum i) (Fin 0) (Fin 1);
          diversity = fclamp (sci_source_diversity i) (Fin 0) (Fin 1)
      in wsum binary64 [(lit64 0.30, cohesion), (lit64 0.25, focus), (lit64 0.25, fmin momentum (Fin 1)),
           (lit64 0.20, diversity)])"

definition entity_focus :: "nat list \<Rightarrow> f64" where
  "entity_focus counts =
     (let total = sum_list counts in
      if total = 0 then Fin 0
      else fdiv binary64 (of_i64 binary64 (int (fold max counts 0))) (of_i64 binary64 (int total)))"

definition temporal_momentum :: "f64 \<Rightarrow> f64 \<Rightarrow> f64" where
  "temporal_momentum recent_count historical_count =
     (if fle historical_count (Fin 0) then Fin 1 else fdiv binary64 recent_count historical_count)"

definition source_diversity :: "nat \<Rightarrow> nat \<Rightarrow> f64" where
  "source_diversity unique_sources total_articles =
     (if total_articles = 0 then Fin 0
      else fclamp (fdiv binary64 (of_i64 binary64 (int unique_sources)) (of_i64 binary64 (int total_articles)))
             (Fin 0) (Fin 1))"

definition avg_pairwise_similarity :: "(int \<times> int \<times> f64) list \<Rightarrow> f64" where
  "avg_pairwise_similarity edges =
     (if edges = [] then Fin 0
      else fdiv binary64 (fsum binary64 (map (\<lambda>(_, _, sim). sim) edges)) (of_i64 binary64 (int (length edges))))"

section \<open>Bounds\<close>

abbreviation (input) nan_or_nonneg :: "fl \<Rightarrow> bool" where
  "nan_or_nonneg x \<equiv> x = NaN \<or> nonneg x"

text \<open>\<open>min\<close> drops a NaN, so a rate that is none still gives a full factor.\<close>

lemma cap_between: "nan_or_nonneg x \<Longrightarrow> 0 \<le> c \<Longrightarrow> between 0 c (fmin x (Fin c))"
  by (cases x) auto

lemma factor_between:
  assumes "nan_or_nonneg x" "0 < c"
  shows "between 0 1 (fdiv binary64 (fmin x (Fin c)) (Fin c))"
proof -
  from cap_between [OF assms(1) less_imp_le [OF assms(2)]] obtain q where q: "fmin x (Fin c) = Fin q" "0 \<le> q" "q \<le> c"
    by (auto simp: between_iff)
  with assms(2) have "0 \<le> q / c" "q / c \<le> 1" by simp_all
  from between_rnd [OF this, of binary64 0 1] q(1) assms(2) show ?thesis by simp
qed

lemma fdiv_nonneg: "nan_or_nonneg x \<Longrightarrow> \<not> flt d (Fin 0) \<Longrightarrow> nan_or_nonneg (fdiv binary64 x d)"
  by (cases x; cases d) (auto simp: inf_of_sign_def intro!: rnd_nonneg)

lemma fmul_nonneg: "nan_or_nonneg x \<Longrightarrow> 0 \<le> c \<Longrightarrow> nan_or_nonneg (fmul binary64 x (Fin c))"
  by (cases x) (auto simp: inf_of_sign_def intro!: rnd_nonneg)

lemma count_nonneg: "0 \<le> n \<Longrightarrow> nan_or_nonneg (of_i64 binary64 n)"
  by (simp add: of_i64_def rnd_nonneg)

lemma count_not_negative: "0 \<le> n \<Longrightarrow> \<not> flt (of_i64 binary64 n) (Fin 0)"
  using count_nonneg [of n] by (cases "of_i64 binary64 n") auto

lemma clamp_div_between: "x \<noteq> NaN \<Longrightarrow> 0 < c \<Longrightarrow> between 0 1 (fclamp (fdiv binary64 x (Fin c)) (Fin 0) (Fin 1))"
  by (rule between_fclamp) (cases x; auto simp: rnd_not_NaN)+

lemma one_minus_between: "between 0 1 x \<Longrightarrow> between 0 1 (fsub binary64 (Fin 1) x)"
proof -
  assume "between 0 1 x"
  then obtain q where "x = Fin q" "0 \<le> 1 - q" "1 - q \<le> 1" by (auto simp: between_iff)
  with between_rnd [of 0 "1 - q" 1 binary64 0 1] show ?thesis by (simp add: fsub_def)
qed

lemma literal: "0 \<le> q \<Longrightarrow> q \<le> 1 \<Longrightarrow> between 0 1 (lit64 q)"
  using between_rnd [of 0 q 1 binary64 0 1] by simp

lemma trend_velocity_between: "between 0 1 (trend_velocity t)"
  by (simp add: trend_velocity_def literal)

lemma health_factors:
  assumes "0 \<le> hm_article_count h" "0 \<le> hm_source_count h" "\<not> flt (hm_days_active h) (Fin 0)" "hm_avg_score h \<noteq> NaN"
  shows "between 0 1 (health_activity h)" "between 0 1 (health_diversity h)" "between 0 1 (health_quality h)"
  unfolding health_activity_def health_diversity_def health_quality_def
  using assms by (simp_all add: factor_between fdiv_nonneg count_nonneg clamp_div_between)

lemma novelty_between: "nan_or_nonneg rate \<Longrightarrow> between 0 1 (compute_novelty rate hist days)"
proof -
  assume r: "nan_or_nonneg rate"
  let ?old = "if hist > 0 then fdiv binary64 (of_i64 binary64 hist) (Fin 21) else fmul binary64 rate (lit64 0.5)"
  have "nan_or_nonneg (if flt (Fin 0) ?old then fdiv binary64 rate ?old else Fin 1)"
    using fdiv_nonneg [OF r, of ?old] by (cases ?old) auto
  from cap_between [OF fdiv_nonneg [OF this, of "Fin 3"], of 1] show ?thesis
    by (simp add: compute_novelty_def Let_def)
qed

lemma unit_corners:
  "wsum binary64 [(lit64 0.35, Fin 1), (lit64 0.25, Fin 1), (lit64 0.20, Fin 1), (lit64 0.20, Fin 1)] = Fin 1"
  "wsum binary64 [(lit64 0.30, Fin 1), (lit64 0.25, Fin 1), (lit64 0.25, Fin 1), (lit64 0.20, Fin 1)] = Fin 1"
  "wsum binary64 [(lit64 0.25, Fin 1), (lit64 0.20, Fin 1), (lit64 0.20, Fin 1), (lit64 0.20, Fin 1),
     (lit64 0.15, Fin 1)] = Fin 1"
  "wsum binary64 [(lit64 0.5, Fin 1), (lit64 0.3, Fin 1), (lit64 0.2, Fin 1)] = Fin 1"
  by code_simp+

lemma fmin_unit: "between 0 1 x \<Longrightarrow> between 0 1 (fmin x (Fin 1))"
  by (cases x) auto

lemma unit_sum:
  assumes "wsum binary64 qs = Fin 1" "map (\<lambda>(w, x). (w, Fin 1)) ps = qs"
    and "list_all (\<lambda>(w, x). between 0 1 w \<and> between 0 1 x) ps"
  shows "between 0 1 (wsum binary64 ps)"
  using wsum_between [OF assms(3), of binary64 1] assms by simp

lemma five_factor_between:
  assumes "0 \<le> article_count" "0 \<le> source_count" "avg \<noteq> NaN" "0 \<le> days"
  shows "between 0 1 (ss_score (compute_5_factor_score article_count source_count avg trend
       (fdiv binary64 (of_i64 binary64 article_count) (of_i64 binary64 days)) hist days))"
proof -
  have rate: "nan_or_nonneg (fdiv binary64 (of_i64 binary64 article_count) (of_i64 binary64 days))"
    by (intro fdiv_nonneg count_nonneg count_not_negative assms)
  show ?thesis
    unfolding compute_5_factor_score_def Let_def signal_scores.simps
    by (rule unit_sum [OF unit_corners(3)])
      (use assms rate in \<open>simp_all add: literal factor_between count_nonneg clamp_div_between novelty_between\<close>)
qed

text \<open>
  C29: the five-factor score of an entity candidate, the radar rank of a signal with a health in
  [0, 1], and the V2 score of a cluster all lie in [0, 1], for every non-negative count, however
  large, every age, and inputs that are numbers.
\<close>

theorem scores_in_unit_interval:
  assumes "0 \<le> article_count" "0 \<le> source_count" "avg \<noteq> NaN" "0 \<le> days"
    and "between 0 1 health" "ago \<noteq> NaN" "seen \<noteq> NaN"
    and "sci_avg_similarity i \<noteq> NaN" "sci_entity_focus i \<noteq> NaN" "sci_temporal_momentum i \<noteq> NaN"
      "sci_source_diversity i \<noteq> NaN"
  shows "between 0 1 (ss_score (compute_5_factor_score article_count source_count avg trend
       (fdiv binary64 (of_i64 binary64 article_count) (of_i64 binary64 days)) hist days)) \<and>
    between 0 1 (radar_score health ago seen) \<and> between 0 1 (signal_score_v2 i)"
proof (intro conjI)
  show "between 0 1 (ss_score (compute_5_factor_score article_count source_count avg trend
       (fdiv binary64 (of_i64 binary64 article_count) (of_i64 binary64 days)) hist days))"
    by (rule five_factor_between [OF assms(1-4)])
  show "between 0 1 (radar_score health ago seen)"
    unfolding radar_score_def Let_def
    by (rule unit_sum [OF unit_corners(4)])
      (use assms in \<open>simp_all add: literal one_minus_between clamp_div_between\<close>)
  show "between 0 1 (signal_score_v2 i)"
    unfolding signal_score_v2_def Let_def
    by (rule unit_sum [OF unit_corners(2)])
      (use assms in \<open>simp_all add: literal fmin_unit between_fclamp\<close>)
qed

theorem scores_in_unit_interval_witness:
  "between 0 1 (ss_score (compute_5_factor_score 4 3 (Fin 6) ''rising''
      (fdiv binary64 (of_i64 binary64 4) (of_i64 binary64 7)) 2 7)) \<and>
   between 0 1 (radar_score (Fin 1) (Fin 3600) (Fin 7200)) \<and>
   between 0 1 (signal_score_v2 \<lparr>sci_avg_similarity = Fin 2, sci_entity_focus = Fin 1,
     sci_temporal_momentum = Fin 5, sci_source_diversity = Fin 1\<rparr>)"
  by (rule scores_in_unit_interval) simp_all

section \<open>Health is bounded and monotone\<close>

lemma count_mono: "a \<le> b \<Longrightarrow> fle (of_i64 binary64 a) (of_i64 binary64 b)"
  by (simp add: of_i64_def rnd_mono)

lemma health_corner_low:
  "round2 (wsum binary64 [(lit64 0.35, Fin 0), (lit64 0.25, Fin 0), (lit64 0.20, Fin 0),
     (lit64 0.20, lit64 0.15)]) = lit64 0.03"
  by code_simp

lemma round2_one: "round2 (Fin 1) = Fin 1"
  by code_simp

lemma velocity_low: "fle (lit64 0.15) (trend_velocity t)"
proof -
  have "fle (lit64 0.15) (Fin 1)" "fle (lit64 0.15) (lit64 0.5)" "fle (lit64 0.15) (lit64 0.15)" by code_simp+
  then show ?thesis by (simp add: trend_velocity_def)
qed

lemma health_terms_mono:
  assumes "0 \<le> hm_article_count h" "0 \<le> hm_source_count h" "hm_days_active h = Fin d" "0 < d"
    and "hm_article_count h \<le> hm_article_count h'" "hm_source_count h \<le> hm_source_count h'"
      "fle (hm_avg_score h) (hm_avg_score h')" "hm_days_active h' = hm_days_active h"
  shows "fle (health_activity h) (health_activity h')" "fle (health_diversity h) (health_diversity h')"
    "fle (health_quality h) (health_quality h')"
  unfolding health_activity_def health_diversity_def health_quality_def
  using assms by (simp_all add: fdiv_mono fmin_mono fclamp_mono count_mono)

lemma calculate_health_mono:
  assumes "list_all (between 0 1) [a, b, c, v, a', b', c', v']" "fle a a'" "fle b b'" "fle c c'" "fle v v'"
  defines "w \<equiv> \<lambda>a b c v. round2 (wsum binary64 [(lit64 0.35, a), (lit64 0.25, b), (lit64 0.20, c), (lit64 0.20, v)])"
  shows "fle (w a b c v) (w a' b' c' v')"
proof -
  let ?ws = "\<lambda>a b c v. wsum binary64 [(lit64 0.35, a), (lit64 0.25, b), (lit64 0.20, c), (lit64 0.20, v)]"
  have unit: "between 0 1 (?ws a b c v)" if "list_all (between 0 1) [a, b, c, v]" for a b c v
    by (rule unit_sum [OF unit_corners(1)]) (use that in \<open>simp_all add: literal\<close>)
  have two: "between 0 2 x" if "between 0 1 x" for x using that by (auto simp: between_iff)
  have "fle (?ws a b c v) (?ws a' b' c' v')"
    by (rule wsum_mono) (use assms(1-5) in \<open>simp_all add: literal\<close>)
  moreover have "between 0 2 (?ws a b c v)" "between 0 2 (?ws a' b' c' v')"
    by (rule two, rule unit, use assms(1) in simp)+
  ultimately show ?thesis unfolding w_def by (intro round2_mono)
qed

lemma zero_le_between: "between 0 1 x \<Longrightarrow> fle (Fin 0) x" "between 0 1 x \<Longrightarrow> fle x (Fin 1)"
  by (simp_all add: between_fle)

lemma health_bounds:
  fixes t :: string
  assumes "list_all (between 0 1) [a, b, c]"
  defines "s \<equiv> round2 (wsum binary64 [(lit64 0.35, a), (lit64 0.25, b), (lit64 0.20, c), (lit64 0.20, trend_velocity t)])"
  shows "fle (lit64 0.03) s \<and> fle s (Fin 1)"
proof
  show "fle (lit64 0.03) s" unfolding s_def health_corner_low [symmetric]
    by (rule calculate_health_mono)
      (use assms(1) in \<open>simp_all add: literal trend_velocity_between velocity_low [simplified] zero_le_between\<close>)
  have "fle s (round2 (wsum binary64 [(lit64 0.35, Fin 1), (lit64 0.25, Fin 1), (lit64 0.20, Fin 1),
      (lit64 0.20, Fin 1)]))" unfolding s_def
    by (rule calculate_health_mono)
      (use assms(1) in \<open>simp_all add: trend_velocity_between zero_le_between\<close>)
  then show "fle s (Fin 1)" by (simp only: unit_corners(1) round2_one)
qed

text \<open>
  The health of a signal lies in [0.03, 1] for every non-negative count, average score and
  positive age, however large: never below the credit a declining trend gets.  And more articles,
  more sources, a better average score or a better trend never lower it, although every step rounds.
\<close>

theorem health_bounded_monotone:
  assumes "0 \<le> hm_article_count h" "0 \<le> hm_source_count h" "hm_days_active h = Fin d" "0 < d"
    and "hm_article_count h \<le> hm_article_count h'" "hm_source_count h \<le> hm_source_count h'"
      "fle (hm_avg_score h) (hm_avg_score h')" "hm_days_active h' = hm_days_active h"
      "fle (trend_velocity (hm_trend h)) (trend_velocity (hm_trend h'))"
  shows "fle (lit64 0.03) (calculate_health h) \<and> fle (calculate_health h) (calculate_health h') \<and>
    fle (calculate_health h') (Fin 1)"
proof -
  have num: "hm_avg_score h \<noteq> NaN" "hm_avg_score h' \<noteq> NaN"
    using assms(7) by (cases "hm_avg_score h"; cases "hm_avg_score h'"; simp)+
  have f: "list_all (between 0 1) [health_activity h, health_diversity h, health_quality h]"
    using assms num by (simp add: health_factors)
  have f': "list_all (between 0 1) [health_activity h', health_diversity h', health_quality h']"
    using assms num by (simp add: health_factors)
  note mono = health_terms_mono [OF assms(1-8)]
  have "fle (calculate_health h) (calculate_health h')" unfolding calculate_health_def
    by (rule calculate_health_mono [OF _ mono assms(9)]) (use f f' in \<open>simp add: trend_velocity_between\<close>)
  with health_bounds [OF f, of "hm_trend h"] health_bounds [OF f', of "hm_trend h'"]
  show ?thesis unfolding calculate_health_def by blast
qed

definition quiet_signal :: signal_health_metrics where
  "quiet_signal = \<lparr>hm_article_count = 3, hm_source_count = 2, hm_avg_score = Fin 6, hm_trend = ''stable'', hm_days_active = Fin 4\<rparr>"

definition busy_signal :: signal_health_metrics where
  "busy_signal = \<lparr>hm_article_count = 9, hm_source_count = 2, hm_avg_score = Fin 7, hm_trend = ''rising'', hm_days_active = Fin 4\<rparr>"

theorem health_bounded_monotone_witness:
  "fle (lit64 0.03) (calculate_health quiet_signal) \<and> fle (calculate_health quiet_signal) (calculate_health busy_signal) \<and>
    fle (calculate_health busy_signal) (Fin 1)"
proof (rule health_bounded_monotone [where d = 4])
  show "fle (trend_velocity (hm_trend quiet_signal)) (trend_velocity (hm_trend busy_signal))" by code_simp
qed (simp_all add: quiet_signal_def busy_signal_def)

text \<open>
  The store computes the same health as the engine: its own copy of the formula returns the
  engine's score and the engine's breakdown for all inputs, floating point included.
\<close>

theorem store_health_agrees:
  "calculate_signal_health articles sources avg trend days =
     (let h = \<lparr>hm_article_count = articles, hm_source_count = sources, hm_avg_score = avg, hm_trend = trend,
          hm_days_active = days\<rparr>;
          (activity, diversity, quality, velocity) = health_breakdown h
      in \<lparr>sh_score = calculate_health h, sh_breakdown = \<lparr>hb_activity = activity, hb_diversity = diversity,
          hb_quality = quality, hb_velocity = velocity\<rparr>\<rparr>)"
  by (simp only: calculate_signal_health_def calculate_health_def health_breakdown_def health_activity_def
    health_diversity_def health_quality_def trend_velocity_def Let_def prod.case signal_health_metrics.simps)

end
