(* ===== verification/SignalTables.thy ===== *)
theory SignalTables
  imports Scoring StoreModels
begin

text \<open>
  The signal tables of the D1 store (\<open>store/src/d1/signal\<close>): threads, unique by their key, the
  instances appended to them, and the articles, mentions and entities the candidates are computed
  from.  A statement is an operation on the tables; \<open>db_faults\<close> is the schedule of statement
  failures, and a failed statement changes nothing.  \<open>db_clock\<close> is the worker's clock in seconds.
  SQL's \<open>AVG\<close> is a parameter, as is the database's answer to \<open>xmax = 0\<close>, a column SQLite does not
  define.  \<open>ORDER BY\<close> keeps rows that tie in the order of the table.
\<close>

section \<open>Rows\<close>

datatype discovery_method = Entity | Semantic | Hybrid

fun discovery_method_str :: "discovery_method \<Rightarrow> string" where
  "discovery_method_str Entity = ''entity''"
| "discovery_method_str Semantic = ''semantic''"
| "discovery_method_str Hybrid = ''hybrid''"

definition discovery_method_of :: "string \<Rightarrow> discovery_method" where
  "discovery_method_of s = (if s = ''semantic'' then Semantic else if s = ''hybrid'' then Hybrid else Entity)"

datatype signal_mutation = Created | Updated

record signal_upsert_result =
  su_id :: int
  su_mutation :: signal_mutation

record signal_thread =
  st_id :: int
  st_key :: string
  st_anchor :: "int option"
  st_title :: string
  st_description :: string
  st_status :: string
  st_health :: f64
  st_method :: string
  st_score :: "f64 option"
  st_first_seen :: "int option"
  st_last_seen :: "int option"
  st_created :: int
  st_updated :: int

record signal_instance =
  si_id :: int
  si_thread :: int
  si_anchor :: "int option"
  si_score :: f64
  si_confidence :: f64
  si_impact :: string
  si_trend :: string
  si_articles :: int
  si_sources :: int
  si_avg :: f64
  si_created :: int

record db_article =
  at_id :: int
  at_feed :: int
  at_title :: string
  at_url :: "string option"
  at_published :: "int option"
  at_vector :: "string option"
  at_score :: f64
  at_created :: int

record db_entity =
  en_id :: int
  en_name :: string
  en_type :: string

record signal_evidence =
  sv_id :: int
  sv_title :: string
  sv_url :: "string option"
  sv_feed :: "string option"
  sv_published :: "int option"
  sv_score :: f64

record entity_signal_candidate =
  ec_entity :: int
  ec_name :: string
  ec_type :: string
  ec_score :: f64
  ec_volume :: f64
  ec_diversity :: f64
  ec_quality :: f64
  ec_velocity :: f64
  ec_novelty :: f64
  ec_articles :: int
  ec_sources :: int
  ec_avg :: f64
  ec_trend :: string
  ec_evidence :: "signal_evidence list"
  ec_related :: "int list"

record article_embedding_ref =
  ae_article :: int
  ae_vector :: string
  ae_published :: "int option"
  ae_source :: int
  ae_entities :: "int list"

record signal_db =
  db_threads :: "signal_thread list"
  db_next_thread :: int
  db_instances :: "signal_instance list"
  db_next_instance :: int
  db_articles :: "db_article list"
  db_mentions :: "(int \<times> int) list"
  db_entities :: "db_entity list"
  db_feeds :: "(int \<times> string) list"
  db_clock :: int
  db_faults :: "bool list"

type_synonym 'a db_io = "(signal_db, store_error, 'a) io"

definition db_statement :: "(signal_db \<Rightarrow> 'a \<times> signal_db) \<Rightarrow> 'a db_io" where
  "db_statement f d =
     (case db_faults d of
        True # fs \<Rightarrow> (Inl (D1 ''statement failed''), d\<lparr>db_faults := fs\<rparr>)
      | False # fs \<Rightarrow> (let (a, d') = f (d\<lparr>db_faults := fs\<rparr>) in (Inr a, d'))
      | [] \<Rightarrow> (let (a, d') = f d in (Inr a, d')))"

definition db_query :: "(signal_db \<Rightarrow> 'a) \<Rightarrow> 'a db_io" where
  "db_query f = db_statement (\<lambda>d. (f d, d))"

section \<open>Threads and instances\<close>

text \<open>
  \<open>INSERT .. ON CONFLICT(signal_key) DO UPDATE .. RETURNING id, (xmax = 0)\<close>.  \<open>xmax\<close> is \<open>None\<close> where
  the database refuses the statement; otherwise it maps whether a row was inserted to the value of
  the column, \<open>None\<close> when that is no integer.
\<close>

definition bump_thread :: "string \<Rightarrow> f64 option \<Rightarrow> int \<Rightarrow> signal_thread \<Rightarrow> signal_thread" where
  "bump_thread title score now t =
     t\<lparr>st_title := title, st_last_seen := Some now, st_updated := now,
       st_score := (case score of None \<Rightarrow> st_score t | Some x \<Rightarrow> Some x)\<rparr>"

definition new_thread ::
  "int \<Rightarrow> string \<Rightarrow> int option \<Rightarrow> string \<Rightarrow> string \<Rightarrow> discovery_method \<Rightarrow> f64 option \<Rightarrow> int \<Rightarrow> signal_thread" where
  "new_thread i key anchor title status method score now =
     \<lparr>st_id = i, st_key = key, st_anchor = anchor, st_title = title, st_description = '''',
      st_status = status, st_health = Fin 0, st_method = discovery_method_str method, st_score = score,
      st_first_seen = Some now, st_last_seen = Some now, st_created = now, st_updated = now\<rparr>"

definition d1_upsert_signal_thread ::
  "(bool \<Rightarrow> int option) option \<Rightarrow> string \<Rightarrow> int option \<Rightarrow> string \<Rightarrow> string \<Rightarrow> discovery_method
    \<Rightarrow> f64 option \<Rightarrow> signal_upsert_result db_io" where
  "d1_upsert_signal_thread xmax key anchor title status method score =
     (case xmax of
        None \<Rightarrow> io_err (D1 ''no such column: xmax'')
      | Some is_insert \<Rightarrow>
          io_bind (db_statement (\<lambda>d.
            (case List.find (\<lambda>t. st_key t = key) (db_threads d) of
               Some t \<Rightarrow> ((st_id t, is_insert False),
                 d\<lparr>db_threads := update_first (\<lambda>t. st_key t = key) (bump_thread title score (db_clock d)) (db_threads d)\<rparr>)
             | None \<Rightarrow> ((db_next_thread d, is_insert True),
                 d\<lparr>db_next_thread := db_next_thread d + 1,
                   db_threads := db_threads d @
                     [new_thread (db_next_thread d) key anchor title status method score (db_clock d)]\<rparr>))))
          (\<lambda>(i, ins). io_ret
             \<lparr>su_id = i,
              su_mutation = (if (case ins of Some n \<Rightarrow> n \<noteq> 0 | None \<Rightarrow> False) then Created else Updated)\<rparr>))"

definition d1_get_latest_instance_fingerprint :: "int \<Rightarrow> (f64 \<times> string) option db_io" where
  "d1_get_latest_instance_fingerprint thread = db_query (\<lambda>d.
     (case sort_by (\<lambda>x y. si_created y \<le> si_created x) (filter (\<lambda>i. si_thread i = thread) (db_instances d)) of
        [] \<Rightarrow> None
      | i # _ \<Rightarrow> Some (si_score i, si_trend i)))"

definition d1_append_signal_instance_v2 ::
  "int \<Rightarrow> f64 \<Rightarrow> string \<Rightarrow> string \<Rightarrow> int \<Rightarrow> int \<Rightarrow> f64 \<Rightarrow> int \<Rightarrow> int db_io" where
  "d1_append_signal_instance_v2 thread score impact trend articles sources avg entity = db_statement (\<lambda>d.
     (db_next_instance d,
      d\<lparr>db_next_instance := db_next_instance d + 1,
        db_instances := db_instances d @
          [\<lparr>si_id = db_next_instance d, si_thread = thread, si_anchor = Some entity, si_score = score,
            si_confidence = score, si_impact = impact, si_trend = trend, si_articles = articles,
            si_sources = sources, si_avg = avg, si_created = db_clock d\<rparr>]\<rparr>))"

text \<open>The four statements of the lifecycle; a comparison with a missing \<open>last_seen_at\<close> is false.\<close>

definition seen_before :: "int \<Rightarrow> signal_thread \<Rightarrow> bool" where
  "seen_before cutoff t \<longleftrightarrow> (case st_last_seen t of Some s \<Rightarrow> s < cutoff | None \<Rightarrow> False)"

definition seen_since :: "int \<Rightarrow> signal_thread \<Rightarrow> bool" where
  "seen_since cutoff t \<longleftrightarrow> (case st_last_seen t of Some s \<Rightarrow> cutoff \<le> s | None \<Rightarrow> False)"

definition set_status_where :: "string \<Rightarrow> (signal_thread \<Rightarrow> bool) \<Rightarrow> string \<Rightarrow> int \<Rightarrow> unit db_io" where
  "set_status_where old p new now = db_statement (\<lambda>d.
     ((), d\<lparr>db_threads := map (\<lambda>t. if st_status t = old \<and> p t then t\<lparr>st_status := new, st_updated := now\<rparr> else t)
              (db_threads d)\<rparr>))"

definition d1_update_signal_lifecycle :: "int \<Rightarrow> unit db_io" where
  "d1_update_signal_lifecycle now =
     io_bind (set_status_where ''active'' (seen_before (now - 7 * 86400)) ''decaying'' now) (\<lambda>_.
     io_bind (set_status_where ''decaying'' (seen_before (now - 14 * 86400)) ''resolved'' now) (\<lambda>_.
     io_bind (set_status_where ''decaying'' (seen_since (now - 3 * 86400)) ''active'' now) (\<lambda>_.
       set_status_where ''resolved'' (seen_before (now - 30 * 86400)) ''archived'' now)))"

section \<open>Entity candidates\<close>

definition published_since :: "int \<Rightarrow> db_article \<Rightarrow> bool" where
  "published_since cutoff a \<longleftrightarrow> (case at_published a of Some p \<Rightarrow> cutoff \<le> p | None \<Rightarrow> False)"

definition published_before :: "int \<Rightarrow> db_article \<Rightarrow> bool" where
  "published_before cutoff a \<longleftrightarrow> (case at_published a of Some p \<Rightarrow> p < cutoff | None \<Rightarrow> False)"

text \<open>\<open>article_entities ae JOIN articles a ON a.id = ae.article_id WHERE ae.entity_id = e\<close>.\<close>

definition mention_articles :: "signal_db \<Rightarrow> int \<Rightarrow> db_article list" where
  "mention_articles d e =
     concat (map (\<lambda>(article, entity). if entity = e then filter (\<lambda>a. at_id a = article) (db_articles d) else [])
       (db_mentions d))"

record entity_row =
  er_id :: int
  er_name :: string
  er_type :: string
  er_articles :: int
  er_sources :: int
  er_avg :: f64

definition entity_row_of :: "(f64 list \<Rightarrow> f64) \<Rightarrow> signal_db \<Rightarrow> int \<Rightarrow> db_entity \<Rightarrow> entity_row" where
  "entity_row_of avg d cutoff e =
     (let as = filter (published_since cutoff) (mention_articles d (en_id e)) in
      \<lparr>er_id = en_id e, er_name = en_name e, er_type = en_type e, er_articles = int (length as),
       er_sources = int (length (remdups (map at_feed as))), er_avg = avg (map at_score as)\<rparr>)"

definition entity_rows ::
  "(f64 list \<Rightarrow> f64) \<Rightarrow> int \<Rightarrow> (entity_row \<Rightarrow> bool) \<Rightarrow> nat \<Rightarrow> signal_db \<Rightarrow> entity_row list" where
  "entity_rows avg cutoff p limit d =
     take limit (sort_by (\<lambda>x y. er_articles y \<le> er_articles x)
       (filter (\<lambda>r. 0 < er_articles r \<and> p r) (map (entity_row_of avg d cutoff) (db_entities d))))"

definition count_mentions :: "int \<Rightarrow> (db_article \<Rightarrow> bool) \<Rightarrow> int db_io" where
  "count_mentions e p = db_query (\<lambda>d. int (length (filter p (mention_articles d e))))"

definition entity_evidence :: "int \<Rightarrow> int \<Rightarrow> signal_evidence list db_io" where
  "entity_evidence e cutoff = db_query (\<lambda>d.
     map (\<lambda>a. \<lparr>sv_id = at_id a, sv_title = at_title a, sv_url = at_url a,
               sv_feed = map_of (db_feeds d) (at_feed a), sv_published = at_published a, sv_score = at_score a\<rparr>)
       (take 10 (sort_by (\<lambda>x y. fle (at_score y) (at_score x))
         (filter (published_since cutoff) (mention_articles d e)))))"

text \<open>The body of the loop over the rows, the same in both functions.\<close>

definition entity_candidate :: "int \<Rightarrow> int \<Rightarrow> entity_row \<Rightarrow> entity_signal_candidate db_io" where
  "entity_candidate now days r =
     (let cutoff = now - days * 86400;
          hist_cutoff = now - (days + 21) * 86400;
          recent_cutoff = now - 3 * 86400;
          earlier_cutoff = now - 6 * 86400
      in io_bind (count_mentions (er_id r) (published_since recent_cutoff)) (\<lambda>recent.
         io_bind (count_mentions (er_id r) (\<lambda>a. published_since earlier_cutoff a \<and> published_before recent_cutoff a)) (\<lambda>earlier.
         io_bind (count_mentions (er_id r) (\<lambda>a. published_since hist_cutoff a \<and> published_before cutoff a)) (\<lambda>historical.
           let trend = (if earlier = 0 \<or> recent > (earlier * 12) sdiv 10 then ''rising''
                        else if recent < (earlier * 8) sdiv 10 then ''declining'' else ''stable'');
               current_rate = fdiv binary64 (of_i64 binary64 (er_articles r)) (of_i64 binary64 days);
               historical_rate = (if historical > 0 then fdiv binary64 (of_i64 binary64 historical) (Fin 21)
                                  else fmul binary64 current_rate (lit64 0.5));
               novelty_raw = (if flt (Fin 0) historical_rate then fdiv binary64 current_rate historical_rate else Fin 1);
               volume = fdiv binary64 (fmin (fdiv binary64 (of_i64 binary64 (er_articles r)) (of_i64 binary64 days)) (Fin 20)) (Fin 20);
               diversity = fdiv binary64 (fmin (of_i64 binary64 (er_sources r)) (Fin 10)) (Fin 10);
               quality = fclamp (fdiv binary64 (er_avg r) (Fin 10)) (Fin 0) (Fin 1);
               velocity = (if trend = ''rising'' then Fin 1 else if trend = ''stable'' then lit64 0.5 else Fin 0);
               novelty = fmin (fdiv binary64 novelty_raw (Fin 3)) (Fin 1);
               score = wsum binary64 [(lit64 0.25, volume), (lit64 0.20, diversity), (lit64 0.20, quality),
                         (lit64 0.20, velocity), (lit64 0.15, novelty)]
           in io_bind (entity_evidence (er_id r) cutoff) (\<lambda>evidence. io_ret
                \<lparr>ec_entity = er_id r, ec_name = er_name r, ec_type = er_type r, ec_score = score, ec_volume = volume,
                 ec_diversity = diversity, ec_quality = quality, ec_velocity = velocity, ec_novelty = novelty,
                 ec_articles = er_articles r, ec_sources = er_sources r, ec_avg = er_avg r, ec_trend = trend,
                 ec_evidence = evidence, ec_related = []\<rparr>)))))"

fun entity_candidate_loop :: "int \<Rightarrow> int \<Rightarrow> entity_row list \<Rightarrow> entity_signal_candidate list db_io" where
  "entity_candidate_loop now days [] = io_ret []"
| "entity_candidate_loop now days (r # rs) =
     io_bind (entity_candidate now days r) (\<lambda>c.
     io_bind (entity_candidate_loop now days rs) (\<lambda>cs. io_ret (c # cs)))"

text \<open>\<open>sort_by(|a, b| b.score.partial_cmp(&a.score).unwrap_or(Equal))\<close>.\<close>

definition by_score_desc :: "entity_signal_candidate \<Rightarrow> entity_signal_candidate \<Rightarrow> bool" where
  "by_score_desc a b \<longleftrightarrow> \<not> flt (ec_score a) (ec_score b)"

definition d1_entity_signal_candidates ::
  "(f64 list \<Rightarrow> f64) \<Rightarrow> int \<Rightarrow> int \<Rightarrow> nat \<Rightarrow> entity_signal_candidate list db_io" where
  "d1_entity_signal_candidates avg now days limit =
     io_bind (db_query (entity_rows avg (now - days * 86400) (\<lambda>r. 2 \<le> er_articles r) limit)) (\<lambda>rows.
       if rows = [] then io_ret []
       else io_bind (entity_candidate_loop now days rows) (\<lambda>cs. io_ret (sort_by by_score_desc cs)))"

definition d1_entity_signal_candidates_filtered ::
  "(f64 list \<Rightarrow> f64) \<Rightarrow> int \<Rightarrow> int \<Rightarrow> nat \<Rightarrow> nat \<Rightarrow> nat \<Rightarrow> entity_signal_candidate list db_io" where
  "d1_entity_signal_candidates_filtered avg now days limit min_articles min_sources =
     io_bind (db_query (entity_rows avg (now - days * 86400)
       (\<lambda>r. er_type r \<noteq> ''unknown'' \<and> int min_articles \<le> er_articles r \<and> int min_sources \<le> er_sources r) limit)) (\<lambda>rows.
       if rows = [] then io_ret []
       else io_bind (entity_candidate_loop now days rows) (\<lambda>cs. io_ret (sort_by by_score_desc cs)))"

definition d1_recent_embedded_articles :: "int \<Rightarrow> int \<Rightarrow> nat \<Rightarrow> article_embedding_ref list db_io" where
  "d1_recent_embedded_articles now days limit = db_query (\<lambda>d.
     take limit (map (\<lambda>a. \<lparr>ae_article = at_id a, ae_vector = the (at_vector a), ae_published = at_published a,
            ae_source = at_feed a, ae_entities = map snd (filter (\<lambda>(article, _). article = at_id a) (db_mentions d))\<rparr>)
       (sort_by (\<lambda>x y. the (at_published y) \<le> the (at_published x))
         (filter (\<lambda>a. at_vector a \<noteq> None \<and> published_since (now - days * 86400) a) (db_articles d)))))"

end
