(* ===== verification/Clustering.thy ===== *)
theory Clustering
  imports Floats "HOL-Library.Monad_Syntax"
begin

text \<open>
  Semantic clustering (\<open>crates/intelligence/signal-engine/src/discovery/clustering.rs\<close>): the
  union-find structure with union by size and path compression, and the grouping of articles by
  similarity edges.

  An operation answers \<open>None\<close> when the code panics on an index out of range or does not come back
  from \<open>find\<close>; on a well-formed structure neither happens.  The abstraction of a structure is the
  function \<open>root\<close>; \<open>find\<close> keeps it, \<open>union\<close> merges two of its classes, and the clusters are the
  connected components of the similarity graph.  Sizes are natural numbers: they are bounded by
  the number of articles.
\<close>

section \<open>Union-find\<close>

record union_find =
  uf_parent :: "nat list"
  uf_size :: "nat list"

definition uf_new :: "nat \<Rightarrow> union_find" where
  "uf_new n = \<lparr>uf_parent = [0..<n], uf_size = replicate n 1\<rparr>"

partial_function (option) uf_find :: "nat \<Rightarrow> union_find \<Rightarrow> (nat \<times> union_find) option" where
  [code]: "uf_find x u =
     (if x < length (uf_parent u)
      then (if uf_parent u ! x \<noteq> x
            then Option.bind (uf_find (uf_parent u ! x) u)
                   (\<lambda>ru. Some (fst ru, (snd ru)\<lparr>uf_parent := (uf_parent (snd ru))[x := fst ru]\<rparr>))
            else Some (x, u))
      else None)"

definition uf_link :: "nat \<Rightarrow> nat \<Rightarrow> union_find \<Rightarrow> union_find" where
  "uf_link a b u = u\<lparr>uf_parent := (uf_parent u)[a := b], uf_size := (uf_size u)[b := uf_size u ! b + uf_size u ! a]\<rparr>"

definition uf_union :: "nat \<Rightarrow> nat \<Rightarrow> union_find \<Rightarrow> union_find option" where
  "uf_union a b u =
     Option.bind (uf_find a u) (\<lambda>(ra, u1).
     Option.bind (uf_find b u1) (\<lambda>(rb, u2).
       Some (if ra \<noteq> rb
             then (if uf_size u2 ! ra < uf_size u2 ! rb then uf_link ra rb u2 else uf_link rb ra u2)
             else u2)))"

text \<open>The \<open>BTreeMap\<close> of the clusters, as a list in the order of its keys.\<close>

fun btree_push :: "nat \<Rightarrow> 'a \<Rightarrow> (nat \<times> 'a list) list \<Rightarrow> (nat \<times> 'a list) list" where
  "btree_push k v [] = [(k, [v])]"
| "btree_push k v ((k', vs) # m) =
     (if k < k' then (k, [v]) # (k', vs) # m
      else if k = k' then (k', vs @ [v]) # m
      else (k', vs) # btree_push k v m)"

fun collect_clusters :: "nat list \<Rightarrow> union_find \<Rightarrow> (nat \<times> nat list) list \<Rightarrow> (nat \<times> nat list) list option" where
  "collect_clusters [] u m = Some m"
| "collect_clusters (i # is) u m =
     Option.bind (uf_find i u) (\<lambda>(r, u'). collect_clusters is u' (btree_push r i m))"

definition uf_clusters :: "union_find \<Rightarrow> nat list list option" where
  "uf_clusters u = map_option (map snd) (collect_clusters [0..<length (uf_parent u)] u [])"

section \<open>Clusters of articles\<close>

record similarity_edge =
  se_article_a :: int
  se_article_b :: int
  se_similarity :: f64

definition build_index_map :: "int list \<Rightarrow> int \<Rightarrow> nat option" where
  "build_index_map ids = map_of (rev (zip ids [0..<length ids]))"

fun union_edges :: "(int \<Rightarrow> nat option) \<Rightarrow> f64 \<Rightarrow> similarity_edge list \<Rightarrow> union_find \<Rightarrow> union_find option" where
  "union_edges idx ms [] u = Some u"
| "union_edges idx ms (e # es) u =
     (if flt (se_similarity e) ms then union_edges idx ms es u
      else case (idx (se_article_a e), idx (se_article_b e)) of
             (Some a, Some b) \<Rightarrow> Option.bind (uf_union a b u) (union_edges idx ms es)
           | _ \<Rightarrow> union_edges idx ms es u)"

definition cluster_by_similarity :: "similarity_edge list \<Rightarrow> int list \<Rightarrow> f64 \<Rightarrow> nat \<Rightarrow> int list list option" where
  "cluster_by_similarity edges ids ms min_size =
     (if ids = [] then Some []
      else Option.bind (union_edges (build_index_map ids) ms edges (uf_new (length ids))) (\<lambda>u.
        map_option (\<lambda>raw.
          sort_by (\<lambda>a b. length b \<le> length a)
            (map (\<lambda>c. sort (map (\<lambda>i. ids ! i) c)) (filter (\<lambda>c. min_size \<le> length c) raw)))
          (uf_clusters u)))"

section \<open>The roots of a structure\<close>

inductive root_of :: "nat list \<Rightarrow> nat \<Rightarrow> nat \<Rightarrow> bool" for p where
  root_here: "p ! x = x \<Longrightarrow> root_of p x x"
| root_up: "p ! x \<noteq> x \<Longrightarrow> root_of p (p ! x) r \<Longrightarrow> root_of p x r"

inductive_simps root_of_iff: "root_of p x r"

lemma root_of_unique: "root_of p x r \<Longrightarrow> root_of p x r' \<Longrightarrow> r' = r"
proof (induction rule: root_of.induct)
  case (root_here x)
  from root_here(2,1) show ?case by cases simp_all
next
  case (root_up x r)
  from root_up.prems root_up.hyps(1) show ?case by cases (use root_up.IH in simp_all)
qed

lemma root_of_root: "root_of p x r \<Longrightarrow> p ! r = r"
  by (induction rule: root_of.induct) auto

text \<open>
  A structure is well formed when the size of a node is below its parent's; sizes are the rank
  that makes every chain of parents end.
\<close>

definition uf_wf :: "nat \<Rightarrow> union_find \<Rightarrow> bool" where
  "uf_wf n u \<longleftrightarrow> length (uf_parent u) = n \<and> length (uf_size u) = n \<and>
     (\<forall>i < n. uf_parent u ! i < n \<and> 1 \<le> uf_size u ! i \<and>
        (uf_parent u ! i \<noteq> i \<longrightarrow> uf_size u ! i < uf_size u ! (uf_parent u ! i)))"

definition root :: "union_find \<Rightarrow> nat \<Rightarrow> nat" where
  "root u x = (THE r. root_of (uf_parent u) x r)"

lemma root_eq: "root_of (uf_parent u) x r \<Longrightarrow> root u x = r"
  unfolding root_def by (rule the_equality) (auto dest: root_of_unique)

lemma uf_wf_new: "uf_wf n (uf_new n)" "x < n \<Longrightarrow> root (uf_new n) x = x"
proof -
  show "uf_wf n (uf_new n)" by (simp add: uf_wf_def uf_new_def)
  show "x < n \<Longrightarrow> root (uf_new n) x = x" by (rule root_eq) (simp add: uf_new_def root_here)
qed

text \<open>Induction along the parents: the distance of a node's size to the total decreases.\<close>

lemma uf_induct [consumes 2, case_names root up]:
  assumes "uf_wf n u" "x < n"
    and "\<And>x. x < n \<Longrightarrow> uf_parent u ! x = x \<Longrightarrow> P x"
    and "\<And>x. x < n \<Longrightarrow> uf_parent u ! x \<noteq> x \<Longrightarrow> uf_parent u ! x < n \<Longrightarrow> P (uf_parent u ! x) \<Longrightarrow> P x"
  shows "P x"
  using assms(2)
proof (induction "sum_list (uf_size u) - uf_size u ! x" arbitrary: x rule: less_induct)
  case less
  show ?case
  proof (cases "uf_parent u ! x = x")
    case False
    with assms(1) less.prems have up: "uf_parent u ! x < n" "uf_size u ! x < uf_size u ! (uf_parent u ! x)"
      "length (uf_size u) = n" by (auto simp: uf_wf_def)
    then have "uf_size u ! (uf_parent u ! x) \<le> sum_list (uf_size u)"
      by (intro member_le_sum_list) simp_all
    with up have "sum_list (uf_size u) - uf_size u ! (uf_parent u ! x) < sum_list (uf_size u) - uf_size u ! x"
      by linarith
    from less.hyps [OF this up(1)] assms(4) [OF less.prems False up(1)] show ?thesis by simp
  qed (use assms(3) less.prems in simp)
qed

lemma root_total:
  assumes "uf_wf n u" "x < n"
  shows "root_of (uf_parent u) x (root u x)"
  using assms
proof (induction rule: uf_induct)
  case (root x)
  then show ?case using root_eq [OF root_here] by (auto intro: root_here)
next
  case (up x)
  then have "root_of (uf_parent u) x (root u (uf_parent u ! x))" by (auto intro: root_up)
  with root_eq [OF this] show ?case by simp
qed

lemma root_parent: "uf_wf n u \<Longrightarrow> x < n \<Longrightarrow> root u (uf_parent u ! x) = root u x"
  using root_total [of n u x] by (auto simp: root_of_iff [of _ x] intro: root_eq)

lemma root_bound:
  assumes "uf_wf n u" "x < n"
  shows "root u x < n \<and> uf_size u ! x \<le> uf_size u ! root u x \<and> uf_parent u ! root u x = root u x"
  using assms
proof (induction rule: uf_induct)
  case (root x)
  then show ?case by (auto simp: root_eq [OF root_here])
next
  case (up x)
  with root_parent [OF assms(1) up.hyps(1)] show ?case
    using assms(1) by (fastforce simp: uf_wf_def)
qed

lemma root_fixed: "uf_wf n u \<Longrightarrow> x < n \<Longrightarrow> uf_parent u ! x = x \<longleftrightarrow> root u x = x"
  using root_bound [of n u x] by (metis root_eq root_here)

text \<open>Two structures with the same edges to follow have the same roots.\<close>

lemma root_ofI:
  assumes "uf_wf n u'" "x < n"
    and "\<And>y. y < n \<Longrightarrow> (if uf_parent u' ! y = y then f y = y else f y = f (uf_parent u' ! y))"
  shows "root u' x = f x"
  using assms(1,2)
proof (induction rule: uf_induct)
  case (root x)
  then show ?case using assms(3) [of x] root_eq [OF root_here] by auto
next
  case (up x)
  then show ?case using assms(3) [of x] root_parent [OF assms(1)] by auto
qed

section \<open>Find and union\<close>

text \<open>Path compression: a node is hung below the root of its class.\<close>

lemma compress_step:
  assumes "uf_wf n u" "x < n" "uf_parent u ! x \<noteq> x"
  shows "uf_wf n (u\<lparr>uf_parent := (uf_parent u)[x := root u x]\<rparr>)"
    "\<forall>y < n. root (u\<lparr>uf_parent := (uf_parent u)[x := root u x]\<rparr>) y = root u y"
proof -
  let ?u = "u\<lparr>uf_parent := (uf_parent u)[x := root u x]\<rparr>"
  have par: "uf_parent u ! x < n" "uf_size u ! x < uf_size u ! (uf_parent u ! x)"
    using assms by (auto simp: uf_wf_def)
  from root_bound [OF assms(1) par(1)] root_parent [OF assms(1,2)] par(2)
  have r: "root u x < n" "uf_size u ! x < uf_size u ! root u x" by auto
  show wf: "uf_wf n ?u"
    using assms(1,2) r by (auto simp: uf_wf_def nth_list_update)
  show "\<forall>y < n. root ?u y = root u y"
  proof (intro allI impI root_ofI [OF wf])
    fix y assume "y < n"
    then show "if uf_parent ?u ! y = y then root u y = y else root u y = root u (uf_parent ?u ! y)"
      using assms(1,2) root_bound [OF assms(1,2)] root_fixed [OF assms(1)] root_parent [OF assms(1)]
      by (auto simp: uf_wf_def nth_list_update)
  qed
qed

lemma find_ok:
  assumes "uf_wf n u" "x < n"
  shows "\<exists>u'. uf_find x u = Some (root u x, u') \<and> uf_wf n u' \<and> (\<forall>y < n. root u' y = root u y) \<and>
    uf_size u' = uf_size u"
  using assms
proof (induction rule: uf_induct)
  case (root x)
  then have "uf_find x u = Some (x, u)"
    using assms(1) by (subst uf_find.simps) (simp add: uf_wf_def)
  with root root_fixed [OF assms(1)] assms(1) show ?case by simp
next
  case (up x)
  then obtain u' where u': "uf_find (uf_parent u ! x) u = Some (root u (uf_parent u ! x), u')"
    "uf_wf n u'" "\<forall>y < n. root u' y = root u y" "uf_size u' = uf_size u" by blast
  have r: "root u (uf_parent u ! x) = root u x" "root u' x = root u x"
    using u'(3) up.hyps root_parent [OF assms(1)] by auto
  have x: "uf_parent u' ! x \<noteq> x" "x < length (uf_parent u)"
    using up.hyps root_fixed [OF assms(1) up.hyps(1)] root_fixed [OF u'(2) up.hyps(1)] r(2) assms(1)
    by (auto simp: uf_wf_def)
  let ?u = "u'\<lparr>uf_parent := (uf_parent u')[x := root u' x]\<rparr>"
  have "uf_find x u = Some (root u x, ?u)"
    using x(2) up.hyps(2) u'(1) by (subst uf_find.simps) (simp only: r if_True bind.bind_lunit fst_conv snd_conv simp_thms)
  with compress_step [OF u'(2) up.hyps(1) x(1)] u'(3,4) show ?case by auto
qed

lemma link_ok:
  assumes "uf_wf n u" "a < n" "b < n" "uf_parent u ! a = a" "uf_parent u ! b = b" "a \<noteq> b"
  shows "uf_wf n (uf_link a b u)"
    "\<forall>y < n. root (uf_link a b u) y = (if root u y = a then b else root u y)"
proof -
  show wf: "uf_wf n (uf_link a b u)"
    using assms by (fastforce simp: uf_wf_def uf_link_def nth_list_update)
  show "\<forall>y < n. root (uf_link a b u) y = (if root u y = a then b else root u y)"
  proof (intro allI impI root_ofI [OF wf])
    fix y assume "y < n"
    then show "if uf_parent (uf_link a b u) ! y = y
      then (if root u y = a then b else root u y) = y
      else (if root u y = a then b else root u y) =
        (if root u (uf_parent (uf_link a b u) ! y) = a then b else root u (uf_parent (uf_link a b u) ! y))"
      using assms root_fixed [OF assms(1)] root_parent [OF assms(1)]
      by (auto simp: uf_wf_def uf_link_def nth_list_update)
  qed
qed

lemma union_ok:
  assumes "uf_wf n u" "a < n" "b < n"
  shows "\<exists>u'. uf_union a b u = Some u' \<and> uf_wf n u' \<and>
    (\<forall>y < n. \<forall>z < n. root u' y = root u' z \<longleftrightarrow> root u y = root u z \<or>
       (root u y = root u a \<and> root u z = root u b) \<or> (root u y = root u b \<and> root u z = root u a))"
proof -
  obtain u1 where u1: "uf_find a u = Some (root u a, u1)" "uf_wf n u1" "\<forall>y < n. root u1 y = root u y"
    using find_ok [OF assms(1,2)] by blast
  obtain u2 where u2: "uf_find b u1 = Some (root u b, u2)" "uf_wf n u2" "\<forall>y < n. root u2 y = root u y"
    using find_ok [OF u1(2) assms(3)] u1(3) assms(3) by auto
  let ?ra = "root u a" and ?rb = "root u b"
  have r: "?ra < n" "?rb < n" "uf_parent u2 ! ?ra = ?ra" "uf_parent u2 ! ?rb = ?rb"
    using root_bound [OF u2(2)] u2(3) assms(2,3) by metis+
  show ?thesis
  proof (cases "?ra = ?rb")
    case True
    with u1 u2 show ?thesis by (simp add: uf_union_def) metis
  next
    case False
    show ?thesis
    proof (cases "uf_size u2 ! ?ra < uf_size u2 ! ?rb")
      case True
      with u1(1) u2(1) False have "uf_union a b u = Some (uf_link ?ra ?rb u2)" by (simp add: uf_union_def)
      with link_ok [OF u2(2) r False] u2(3) False show ?thesis by auto
    next
      case less: False
      with u1(1) u2(1) False have "uf_union a b u = Some (uf_link ?rb ?ra u2)" by (simp add: uf_union_def)
      with link_ok [OF u2(2) r(2,1,4,3)] u2(3) False show ?thesis by auto
    qed
  qed
qed

section \<open>Clusters of a structure\<close>

lemma btree_push_keys:
  "sorted_wrt (<) (map fst m) \<Longrightarrow> sorted_wrt (<) (map fst (btree_push k v m)) \<and>
     set (map fst (btree_push k v m)) = insert k (set (map fst m))"
  by (induction k v m rule: btree_push.induct) auto

lemma btree_push_lookup:
  "sorted_wrt (<) (map fst m) \<Longrightarrow> map_of (btree_push k v m) =
     (map_of m)(k \<mapsto> (case map_of m k of None \<Rightarrow> [v] | Some vs \<Rightarrow> vs @ [v]))"
proof (induction k v m rule: btree_push.induct)
  case (2 k v k' vs m)
  show ?case
  proof (cases "k < k'")
    case True
    then have "k \<notin> fst ` set m" using 2(2) by auto
    then have "map_of m k = None" by (simp add: map_of_eq_None_iff)
    with True show ?thesis by auto
  next
    case False
    with 2 show ?thesis by (auto simp: fun_eq_iff)
  qed
qed simp

lemma collect_ok:
  assumes "uf_wf n u" "set is \<subseteq> {..<n}" "sorted_wrt (<) (map fst m)"
  shows "\<exists>m'. collect_clusters is u m = Some m' \<and> sorted_wrt (<) (map fst m') \<and>
    (\<forall>r. map_of m' r = (let l = filter (\<lambda>i. root u i = r) is in
       if l = [] then map_of m r else Some ((case map_of m r of None \<Rightarrow> [] | Some vs \<Rightarrow> vs) @ l)))"
  using assms
proof (induction "is" arbitrary: u m)
  case (Cons i js)
  then have "i < n" by simp
  with find_ok [OF Cons.prems(1)] obtain u' where u': "uf_find i u = Some (root u i, u')" "uf_wf n u'"
    "\<forall>y < n. root u' y = root u y" by blast
  have same: "filter (\<lambda>j. root u' j = r) js = filter (\<lambda>j. root u j = r) js" for r
    using u'(3) Cons.prems(2) by (intro filter_cong) auto
  have js: "set js \<subseteq> {..<n}" using Cons.prems(2) by simp
  note IH = Cons.IH [OF u'(2) js conjunct1 [OF btree_push_keys [OF Cons.prems(3)]], unfolded same]
  obtain m' where m': "collect_clusters js u' (btree_push (root u i) i m) = Some m'"
    "sorted_wrt (<) (map fst m')"
    "\<forall>r. map_of m' r = (let l = filter (\<lambda>j. root u j = r) js in
       if l = [] then map_of (btree_push (root u i) i m) r
       else Some ((case map_of (btree_push (root u i) i m) r of None \<Rightarrow> [] | Some vs \<Rightarrow> vs) @ l))"
    using IH [of "root u i" i] by blast
  show ?case
  proof (intro exI conjI allI)
    show "collect_clusters (i # js) u m = Some m'" using u'(1) m'(1) by simp
    show "sorted_wrt (<) (map fst m')" by (rule m'(2))
    fix r
    show "map_of m' r = (let l = filter (\<lambda>j. root u j = r) (i # js) in
       if l = [] then map_of m r else Some ((case map_of m r of None \<Rightarrow> [] | Some vs \<Rightarrow> vs) @ l))"
      by (auto simp: m'(3) Let_def btree_push_lookup [OF Cons.prems(3)] split: option.splits)
  qed
qed simp

text \<open>The classes of a structure, in the order of their roots.\<close>

abbreviation (input) class_of :: "union_find \<Rightarrow> nat \<Rightarrow> nat \<Rightarrow> nat list" where
  "class_of u n i \<equiv> filter (\<lambda>j. root u j = root u i) [0..<n]"

lemma clusters_ok:
  assumes "uf_wf n u"
  obtains cs where "uf_clusters u = Some cs" "distinct cs" "set cs = class_of u n ` {..<n}"
proof -
  have "set [0..<n] \<subseteq> {..<n}" by auto
  from collect_ok [OF assms this, of "[]"] obtain m where
    m: "collect_clusters [0..<n] u [] = Some m" "sorted_wrt (<) (map fst m)"
    "\<forall>r. map_of m r = (let l = filter (\<lambda>i. root u i = r) [0..<n] in if l = [] then None else Some l)"
    by (auto simp: Let_def)
  have d: "distinct (map fst m)" using m(2) strict_sorted_iff by blast
  have len: "length (uf_parent u) = n" using assms by (simp add: uf_wf_def)
  have "(r, l) \<in> set m \<longleftrightarrow> r \<in> root u ` {..<n} \<and> l = filter (\<lambda>i. root u i = r) [0..<n]" for r l
  proof -
    have "(r, l) \<in> set m \<longleftrightarrow> map_of m r = Some l" using d by simp
    also have "\<dots> \<longleftrightarrow> l \<noteq> [] \<and> l = filter (\<lambda>i. root u i = r) [0..<n]" by (auto simp: m(3) Let_def)
    also have "\<dots> \<longleftrightarrow> r \<in> root u ` {..<n} \<and> l = filter (\<lambda>i. root u i = r) [0..<n]"
      using filter_empty_conv [of "\<lambda>i. root u i = r" "[0..<n]"] by fastforce
    finally show ?thesis .
  qed
  then have m3: "set m = (\<lambda>r. (r, filter (\<lambda>i. root u i = r) [0..<n])) ` root u ` {..<n}" by auto
  have "inj_on snd (set m)"
  proof (rule inj_onI)
    fix x y assume xy: "x \<in> set m" "y \<in> set m" "snd x = snd y"
    then obtain i j where ij: "i < n" "x = (root u i, class_of u n i)" "j < n" "y = (root u j, class_of u n j)"
      unfolding m3 by blast
    from ij(1) have "i \<in> set (snd x)" unfolding ij(2) by simp
    then have "i \<in> set (snd y)" by (simp only: xy(3))
    with ij show "x = y" by simp
  qed
  with d have "distinct (map snd m)" by (simp add: distinct_map)
  moreover have "set (map snd m) = class_of u n ` {..<n}" by (simp add: m3 image_image)
  ultimately show thesis using that [of "map snd m"] m(1) by (simp add: uf_clusters_def len)
qed

section \<open>The similarity graph\<close>

definition links :: "similarity_edge list \<Rightarrow> int list \<Rightarrow> f64 \<Rightarrow> (int \<times> int) set" where
  "links edges ids ms = {(a, b). a \<in> set ids \<and> b \<in> set ids \<and>
     (\<exists>e \<in> set edges. \<not> flt (se_similarity e) ms \<and>
        (se_article_a e = a \<and> se_article_b e = b \<or> se_article_a e = b \<and> se_article_b e = a))}"

text \<open>The connected component of an article.\<close>

definition component :: "similarity_edge list \<Rightarrow> int list \<Rightarrow> f64 \<Rightarrow> int \<Rightarrow> int set" where
  "component edges ids ms a = {b \<in> set ids. (a, b) \<in> (links edges ids ms)\<^sup>*}"

lemma index_map:
  assumes "distinct ids"
  shows "build_index_map ids a = Some i \<longleftrightarrow> i < length ids \<and> ids ! i = a"
    "build_index_map ids a = None \<longleftrightarrow> a \<notin> set ids"
proof -
  have d: "distinct (map fst (rev (zip ids [0..<length ids])))"
    using assms by (simp add: rev_map [symmetric])
  then have "build_index_map ids a = Some i \<longleftrightarrow> (a, i) \<in> set (zip ids [0..<length ids])"
    unfolding build_index_map_def by (metis map_of_eq_Some_iff set_rev)
  then show "build_index_map ids a = Some i \<longleftrightarrow> i < length ids \<and> ids ! i = a"
    by (auto simp: in_set_zip)
  show "build_index_map ids a = None \<longleftrightarrow> a \<notin> set ids"
    by (simp add: build_index_map_def map_of_eq_None_iff flip: set_map)
qed

lemma links_add:
  "links (es @ [e]) ids ms = (if flt (se_similarity e) ms \<or> se_article_a e \<notin> set ids \<or> se_article_b e \<notin> set ids
     then links es ids ms
     else insert (se_article_a e, se_article_b e) (insert (se_article_b e, se_article_a e) (links es ids ms)))"
  by (auto simp: links_def)

lemma links_sym: "(a, b) \<in> (links es ids ms)\<^sup>* \<longleftrightarrow> (b, a) \<in> (links es ids ms)\<^sup>*"
proof -
  have "sym (links es ids ms)" by (auto simp: links_def sym_def)
  then show ?thesis by (meson sym_rtrancl symD)
qed

definition tracks :: "int list \<Rightarrow> (int \<times> int) set \<Rightarrow> union_find \<Rightarrow> bool" where
  "tracks ids R u \<longleftrightarrow> uf_wf (length ids) u \<and>
     (\<forall>y < length ids. \<forall>z < length ids. root u y = root u z \<longleftrightarrow> (ids ! y, ids ! z) \<in> R\<^sup>*)"

lemma union_edges_ok:
  assumes "distinct ids" "tracks ids (links done ids ms) u"
  shows "\<exists>u'. union_edges (build_index_map ids) ms es u = Some u' \<and> tracks ids (links (done @ es) ids ms) u'"
  using assms(2)
proof (induction es arbitrary: "done" u)
  case (Cons e es)
  note ix = index_map [OF assms(1)]
  show ?case
  proof (cases "flt (se_similarity e) ms \<or> se_article_a e \<notin> set ids \<or> se_article_b e \<notin> set ids")
    case True
    then have "union_edges (build_index_map ids) ms (e # es) u = union_edges (build_index_map ids) ms es u"
      by (auto simp: ix(2) [symmetric] split: option.splits)
    moreover have "tracks ids (links (done @ [e]) ids ms) u"
      using True Cons.prems by (simp add: links_add)
    ultimately show ?thesis using Cons.IH [of "done @ [e]" u] by simp
  next
    case False
    then obtain a b where ab: "build_index_map ids (se_article_a e) = Some a"
      "build_index_map ids (se_article_b e) = Some b" using ix(2) by (metis not_Some_eq)
    then have n: "a < length ids" "ids ! a = se_article_a e" "b < length ids" "ids ! b = se_article_b e"
      by (simp_all add: ix(1))
    from Cons.prems have wf: "uf_wf (length ids) u" by (simp add: tracks_def)
    from union_ok [OF wf n(1,3)] obtain u' where u': "uf_union a b u = Some u'" "uf_wf (length ids) u'"
      "\<forall>y < length ids. \<forall>z < length ids. root u' y = root u' z \<longleftrightarrow> root u y = root u z \<or>
        (root u y = root u a \<and> root u z = root u b) \<or> (root u y = root u b \<and> root u z = root u a)"
      by blast
    let ?R = "links done ids ms"
    have old: "root u y = root u z \<longleftrightarrow> (ids ! y, ids ! z) \<in> ?R\<^sup>*"
      if "y < length ids" "z < length ids" for y z
      using Cons.prems that by (simp add: tracks_def)
    have new: "(x, y) \<in> (insert (ids ! a, ids ! b) (insert (ids ! b, ids ! a) ?R))\<^sup>* \<longleftrightarrow> (x, y) \<in> ?R\<^sup>* \<or>
        ((x, ids ! a) \<in> ?R\<^sup>* \<and> (y, ids ! b) \<in> ?R\<^sup>*) \<or> ((x, ids ! b) \<in> ?R\<^sup>* \<and> (y, ids ! a) \<in> ?R\<^sup>*)" for x y
      by (simp add: rtrancl_insert links_sym [of y]) (blast intro: rtrancl_trans iffD1 [OF links_sym])
    have "tracks ids (links (done @ [e]) ids ms) u'"
      using False u' n new old by (simp add: tracks_def links_add)
    from Cons.IH [OF this] show ?thesis using False ab u'(1) by simp
  qed
qed simp

section \<open>Correctness\<close>

lemma new_tracks: "distinct ids \<Longrightarrow> tracks ids (links [] ids ms) (uf_new (length ids))"
  by (simp add: tracks_def uf_wf_new links_def nth_eq_iff_index_eq)

lemma class_component:
  assumes "tracks ids (links es ids ms) u" "i < length ids"
  shows "(\<lambda>j. ids ! j) ` set (filter (\<lambda>j. root u j = root u i) [0..<length ids]) = component es ids ms (ids ! i)"
proof -
  have "ids ! j \<in> component es ids ms (ids ! i) \<longleftrightarrow> root u j = root u i" if "j < length ids" for j
    using assms that links_sym [of "ids ! j" "ids ! i"] by (auto simp: tracks_def component_def)
  then show ?thesis by (auto simp: component_def in_set_conv_nth)
qed

lemma image_of_classes:
  assumes "A = f ` I" "\<And>i. i \<in> I \<Longrightarrow> g (f i) = h i"
  shows "g ` {c \<in> A. P (g c)} = {c. (\<exists>i \<in> I. c = h i) \<and> P c}"
proof (intro set_eqI iffI)
  fix c assume "c \<in> {c. (\<exists>i \<in> I. c = h i) \<and> P c}"
  then obtain i where "i \<in> I" "c = g (f i)" "P (g (f i))" using assms(2) by auto
  with assms(1) show "c \<in> g ` {c \<in> A. P (g c)}" by blast
qed (use assms in auto)

text \<open>The articles of the classes: as long as the class, and different for different classes.\<close>

lemma class_articles:
  assumes "distinct ids" "c \<in> class_of u (length ids) ` {..<length ids}"
  shows "distinct (map (\<lambda>i. ids ! i) c)" "card (set (sort (map (\<lambda>i. ids ! i) c))) = length c"
proof -
  have "inj_on (\<lambda>i. ids ! i) (set c)" "distinct c"
    using assms by (auto simp: inj_on_def nth_eq_iff_index_eq)
  then show d: "distinct (map (\<lambda>i. ids ! i) c)" by (simp add: distinct_map)
  show "card (set (sort (map (\<lambda>i. ids ! i) c))) = length c" using distinct_card [OF d] by simp
qed

lemma class_articles_inj:
  assumes "distinct ids"
  shows "inj_on (\<lambda>c. set (sort (map (\<lambda>i. ids ! i) c))) (class_of u (length ids) ` {..<length ids})"
proof (rule inj_onI)
  fix c d assume "c \<in> class_of u (length ids) ` {..<length ids}" "d \<in> class_of u (length ids) ` {..<length ids}"
    and eq: "set (sort (map (\<lambda>i. ids ! i) c)) = set (sort (map (\<lambda>i. ids ! i) d))"
  then obtain i j where ij: "i < length ids" "c = class_of u (length ids) i"
    "j < length ids" "d = class_of u (length ids) j" by blast
  have "inj_on (\<lambda>i. ids ! i) {..<length ids}" using assms by (simp add: inj_on_def nth_eq_iff_index_eq)
  moreover have "set c \<subseteq> {..<length ids}" "set d \<subseteq> {..<length ids}" unfolding ij by auto
  ultimately have "set c = set d" using eq by (simp add: inj_on_image_eq_iff)
  moreover have "i \<in> set c" using ij(1) unfolding ij(2) by simp
  ultimately have "i \<in> set d" by simp
  then have "root u i = root u j" unfolding ij(4) by simp
  with ij(2,4) show "c = d" by simp
qed

text \<open>
  C20: for distinct article ids, clustering returns, and returns exactly the connected components of
  the similarity graph that have the least size, each one once and as a strictly increasing list,
  larger clusters first.  The graph joins two listed articles when an edge between them is not below
  the threshold; edges to other articles are ignored.
\<close>

theorem clusters_are_components:
  assumes "distinct ids"
  shows "\<exists>res. cluster_by_similarity edges ids ms k = Some res \<and>
    set ` set res = {c. (\<exists>a \<in> set ids. c = component edges ids ms a) \<and> k \<le> card c} \<and>
    distinct (map set res) \<and> (\<forall>c \<in> set res. sorted_wrt (<) c) \<and>
    sorted_wrt (\<lambda>c d. length d \<le> length c) res"
proof (cases "ids = []")
  case False
  let ?n = "length ids" and ?R = "links edges ids ms"
  from union_edges_ok [OF assms new_tracks [OF assms], of ms edges] obtain u where
    u: "union_edges (build_index_map ids) ms edges (uf_new ?n) = Some u" "tracks ids ?R u" by auto
  then obtain cs where cs: "uf_clusters u = Some cs" "distinct cs" "set cs = class_of u ?n ` {..<?n}"
    using clusters_ok [of ?n u] by (auto simp: tracks_def)
  let ?ids = "\<lambda>c. sort (map (\<lambda>i. ids ! i) c)" and ?keep = "filter (\<lambda>c. k \<le> length c) cs"
  let ?res = "sort_by (\<lambda>a b. length b \<le> length a) (map ?ids ?keep)"
  note articles = class_articles [OF assms, where u = u, folded cs(3)]
  have "cluster_by_similarity edges ids ms k = Some ?res"
    using False by (simp add: cluster_by_similarity_def u(1) cs(1))
  moreover have "set ` set ?res = {c. (\<exists>a \<in> set ids. c = component edges ids ms a) \<and> k \<le> card c}"
  proof -
    have "set ` set ?res = (\<lambda>c. set (?ids c)) ` {c \<in> set cs. k \<le> length c}"
      by (simp only: set_sort_by set_map set_filter image_image)
    also have "{c \<in> set cs. k \<le> length c} = {c \<in> set cs. k \<le> card (set (?ids c))}"
      using articles(2) by (intro Collect_cong conj_cong refl) simp
    also have "(\<lambda>c. set (?ids c)) ` \<dots> = {c. (\<exists>i \<in> {..<?n}. c = component edges ids ms (ids ! i)) \<and> k \<le> card c}"
      using class_component [OF u(2)] by (intro image_of_classes [OF cs(3)]) simp
    also have "\<dots> = {c. (\<exists>a \<in> set ids. c = component edges ids ms a) \<and> k \<le> card c}"
      by (metis (no_types, lifting) in_set_conv_nth lessThan_iff)
    finally show ?thesis .
  qed
  moreover have "distinct (map set ?res)"
  proof -
    have "distinct (map (\<lambda>c. set (?ids c)) ?keep)"
      using cs(2) inj_on_subset [OF class_articles_inj [OF assms, where u = u, folded cs(3)], of "set ?keep"]
      by (simp only: distinct_map distinct_filter) auto
    then have "distinct (map set (map ?ids ?keep))" by (simp only: map_map o_def)
    then show ?thesis by (simp only: distinct_sort_by)
  qed
  moreover have "\<forall>c \<in> set ?res. sorted_wrt (<) c" using articles(1) by (auto simp: strict_sorted_iff)
  moreover have "sorted_wrt (\<lambda>c d. length d \<le> length c) ?res" by (rule sort_by_sorted) auto
  ultimately show ?thesis by blast
qed (simp add: cluster_by_similarity_def)

definition sample_edges :: "similarity_edge list" where
  "sample_edges =
     [\<lparr>se_article_a = 1, se_article_b = 2, se_similarity = Fin (9/10)\<rparr>,
      \<lparr>se_article_a = 2, se_article_b = 3, se_similarity = Fin (8/10)\<rparr>,
      \<lparr>se_article_a = 4, se_article_b = 5, se_similarity = Fin (85/100)\<rparr>,
      \<lparr>se_article_a = 5, se_article_b = 6, se_similarity = Fin (5/10)\<rparr>]"

theorem clusters_are_components_witness:
  "cluster_by_similarity sample_edges [1, 2, 3, 4, 5, 6] (Fin (3/4)) 2 = Some [[1, 2, 3], [4, 5]] \<and>
   {c. (\<exists>a \<in> {1, 2, 3, 4, 5, 6}. c = component sample_edges [1, 2, 3, 4, 5, 6] (Fin (3/4)) a) \<and> 2 \<le> card c} =
     {{1, 2, 3}, {4, 5}}"
proof -
  have r: "cluster_by_similarity sample_edges [1, 2, 3, 4, 5, 6] (Fin (3/4)) 2 = Some [[1, 2, 3], [4, 5]]"
    by code_simp
  with clusters_are_components [of "[1, 2, 3, 4, 5, 6]" sample_edges "Fin (3/4)" 2] show ?thesis
    by (simp add: insert_commute)
qed

end
