(* ===== verification/SignalEngine.thy ===== *)
theory SignalEngine
  imports SignalTables Clustering Reflection
begin

text \<open>
  The signal engine (\<open>signal-engine/src\<close>): the ports it works through, the two candidate sources, the
  run over the candidates, the adapters of the ports (\<open>infrastructure/src/signal_repository.rs\<close>,
  \<open>signal_event_log.rs\<close>, \<open>semantic_query.rs\<close>) and the cron job with its checkpoint
  (\<open>worker-entry/src/jobs/signal.rs\<close>).
\<close>

section \<open>Records and ports\<close>

datatype signal_error = SigPersistence string | SigDiscovery string | SigQuery string | SigEventLog string | SigSemantic string

fun signal_error_str :: "signal_error \<Rightarrow> string" where
  "signal_error_str (SigPersistence e) = ''signal persistence: '' @ e"
| "signal_error_str (SigDiscovery e) = ''signal discovery: '' @ e"
| "signal_error_str (SigQuery e) = ''signal query: '' @ e"
| "signal_error_str (SigEventLog e) = ''signal event log: '' @ e"
| "signal_error_str (SigSemantic e) = ''semantic index: '' @ e"

record brief_article =
  ba_id :: int
  ba_title :: string
  ba_url :: "string option"
  ba_feed :: "string option"
  ba_score :: f64

record related_entity_ref =
  re_id :: int
  re_name :: string
  re_type :: string
  re_relation_type :: string
  re_relation :: "string option"
  re_confidence :: "f64 option"

record engine_candidate =
  ca_entity :: int
  ca_name :: string
  ca_type :: string
  ca_score :: f64
  ca_trend :: string
  ca_articles :: int
  ca_sources :: int
  ca_avg :: f64
  ca_evidence :: "brief_article list"
  ca_related :: "int list"

record embedded_article =
  em_article :: int
  em_vector :: string

record similar_article =
  sa_vector :: string
  sa_score :: f64

record signal_candidate =
  sc_key :: string
  sc_anchor :: "int option"
  sc_title :: string
  sc_status :: string
  sc_method :: discovery_method
  sc_discovery_score :: "f64 option"
  sc_score :: f64
  sc_trend :: string
  sc_articles :: int
  sc_sources :: int
  sc_avg :: f64
  sc_evidence :: "brief_article list"
  sc_related :: "related_entity_ref list"

text \<open>The two payloads the engine builds with \<open>json!\<close>.\<close>

datatype signal_payload =
  ScoreChanged f64 string int int string string
| KeyOnly string

record 'j signal_event =
  se_type :: string
  se_aggregate :: string
  se_payload :: 'j
  se_occurred_at :: int

record 's signal_ports =
  sp_upsert :: "string \<Rightarrow> int option \<Rightarrow> string \<Rightarrow> string \<Rightarrow> discovery_method \<Rightarrow> f64 option
    \<Rightarrow> ('s, signal_error, signal_upsert_result) io"
  sp_fingerprint :: "int \<Rightarrow> ('s, signal_error, (f64 \<times> string) option) io"
  sp_append :: "int \<Rightarrow> f64 \<Rightarrow> string \<Rightarrow> string \<Rightarrow> int \<Rightarrow> int \<Rightarrow> f64 \<Rightarrow> int \<Rightarrow> ('s, signal_error, int) io"
  sp_lifecycle :: "int \<Rightarrow> ('s, signal_error, unit) io"

record 's discovery_ports =
  dp_entities :: "int \<Rightarrow> int \<Rightarrow> nat \<Rightarrow> nat \<Rightarrow> nat \<Rightarrow> ('s, signal_error, engine_candidate list) io"
  dp_embedded :: "int \<Rightarrow> int \<Rightarrow> nat \<Rightarrow> ('s, signal_error, embedded_article list) io"

type_synonym 'l signal_log = "signal_payload signal_event \<Rightarrow> nat \<Rightarrow> ('l, signal_error, unit) io"
type_synonym semantic_query = "string \<Rightarrow> nat \<Rightarrow> f64 \<Rightarrow> (signal_error, similar_article list) result"

section \<open>Sources\<close>

definition entity_to_candidate :: "engine_candidate \<Rightarrow> signal_candidate" where
  "entity_to_candidate c =
     \<lparr>sc_key = ''entity:'' @ show_i64 (ca_entity c), sc_anchor = Some (ca_entity c), sc_title = ca_name c,
      sc_status = ''active'', sc_method = Entity, sc_discovery_score = Some (ca_score c), sc_score = ca_score c,
      sc_trend = ca_trend c, sc_articles = ca_articles c, sc_sources = ca_sources c, sc_avg = ca_avg c,
      sc_evidence = ca_evidence c,
      sc_related = map (\<lambda>i. \<lparr>re_id = i, re_name = '''', re_type = '''', re_relation_type = '''',
        re_relation = None, re_confidence = None\<rparr>) (ca_related c)\<rparr>"

definition entity_source :: "'s discovery_ports \<Rightarrow> int \<Rightarrow> ('s, string, signal_candidate list) io" where
  "entity_source D now =
     io_bind (io_map_err (\<lambda>e. ''entity_candidates failed: '' @ signal_error_str e) (dp_entities D now 7 50 3 2))
       (\<lambda>rows. io_ret (map entity_to_candidate rows))"

text \<open>The edges to the matches of one article; \<open>seen\<close> holds the unordered pairs met so far.\<close>

fun match_edges ::
  "int \<Rightarrow> similar_article list \<Rightarrow> similarity_edge list \<times> (int \<times> int) list \<Rightarrow> similarity_edge list \<times> (int \<times> int) list" where
  "match_edges a [] st = st"
| "match_edges a (m # ms) (edges, seen) =
     match_edges a ms
       (case parse_i64 (sa_vector m) of
          None \<Rightarrow> (edges, seen)
        | Some n \<Rightarrow>
            (if n \<noteq> a
             then (let key = (if a < n then (a, n) else (n, a)) in
                   if key \<in> set seen then (edges, seen)
                   else (edges @ [\<lparr>se_article_a = a, se_article_b = n, se_similarity = sa_score m\<rparr>], key # seen))
             else (edges, seen)))"

fun similarity_edges ::
  "semantic_query \<Rightarrow> embedded_article list \<Rightarrow> similarity_edge list \<times> (int \<times> int) list
    \<Rightarrow> (string, similarity_edge list \<times> (int \<times> int) list) result" where
  "similarity_edges Q [] st = Inr st"
| "similarity_edges Q (a # as) st =
     (case Q (em_vector a) 20 (lit64 0.75) of
        Inl e \<Rightarrow> Inl (''semantic query for '' @ em_vector a @ '': '' @ signal_error_str e)
      | Inr ms \<Rightarrow> similarity_edges Q as (match_edges (em_article a) ms st))"

text \<open>\<open>hash\<close> is the hexadecimal digest of the standard library's default hasher over the ids.\<close>

definition cluster_id :: "(int list \<Rightarrow> string) \<Rightarrow> int list \<Rightarrow> string" where
  "cluster_id hash ids = ''semantic:'' @ hash ids"

definition cluster_to_candidate :: "(int list \<Rightarrow> string) \<Rightarrow> int list \<Rightarrow> similarity_edge list \<Rightarrow> signal_candidate" where
  "cluster_to_candidate hash ids edges =
     (let inner = map (\<lambda>e. (se_article_a e, se_article_b e, se_similarity e))
            (filter (\<lambda>e. se_article_a e \<in> set ids \<and> se_article_b e \<in> set ids) edges);
          avg_sim = avg_pairwise_similarity inner;
          v2 = signal_score_v2 \<lparr>sci_avg_similarity = avg_sim, sci_entity_focus = lit64 0.5,
                 sci_temporal_momentum = lit64 0.5, sci_source_diversity = lit64 0.5\<rparr>
      in \<lparr>sc_key = cluster_id hash ids, sc_anchor = None,
          sc_title = ''cluster:'' @ show_i64 (case ids of [] \<Rightarrow> 0 | i # _ \<Rightarrow> i), sc_status = ''active'',
          sc_method = Semantic, sc_discovery_score = Some v2, sc_score = v2, sc_trend = ''rising'',
          sc_articles = int (length ids), sc_sources = 0, sc_avg = avg_sim, sc_evidence = [], sc_related = []\<rparr>)"

definition semantic_candidates ::
  "(int list \<Rightarrow> string) \<Rightarrow> semantic_query \<Rightarrow> embedded_article list \<Rightarrow> (string, signal_candidate list) result" where
  "semantic_candidates hash Q arts =
     (if length arts < 3 then Inr []
      else case similarity_edges Q arts ([], []) of
        Inl e \<Rightarrow> Inl e
      | Inr (edges, _) \<Rightarrow>
          (case cluster_by_similarity edges (map em_article arts) (lit64 0.75) 3 of
             None \<Rightarrow> Inl ''index out of bounds''
           | Some clusters \<Rightarrow> Inr (map (\<lambda>c. cluster_to_candidate hash c edges) clusters)))"

definition semantic_source ::
  "(int list \<Rightarrow> string) \<Rightarrow> 's discovery_ports \<Rightarrow> semantic_query option \<Rightarrow> int \<Rightarrow> ('s, string, signal_candidate list) io" where
  "semantic_source hash D sem now =
     (case sem of
        None \<Rightarrow> io_ret []
      | Some Q \<Rightarrow>
          io_bind (io_map_err (\<lambda>e. ''d1_recent_embedded_articles failed: '' @ signal_error_str e) (dp_embedded D now 7 200))
            (\<lambda>arts. io_lift (semantic_candidates hash Q arts)))"

section \<open>The run\<close>

record signal_engine_report =
  sr_threads :: nat
  sr_instances :: nat
  sr_events :: nat
  sr_transitions :: nat

definition empty_report :: signal_engine_report where
  "empty_report = \<lparr>sr_threads = 0, sr_instances = 0, sr_events = 0, sr_transitions = 0\<rparr>"

text \<open>A failed source contributes nothing and does not stop the others.\<close>

fun gather_candidates :: "('s, string, signal_candidate list) io list \<Rightarrow> 's \<Rightarrow> signal_candidate list \<times> 's" where
  "gather_candidates [] s = ([], s)"
| "gather_candidates (src # srcs) s =
     (case src s of (r, s1) \<Rightarrow>
        (case gather_candidates srcs s1 of (cs, s2) \<Rightarrow>
           ((case r of Inr xs \<Rightarrow> xs @ cs | Inl _ \<Rightarrow> cs), s2)))"

definition should_append :: "(signal_error, (f64 \<times> string) option) result \<Rightarrow> signal_candidate \<Rightarrow> bool" where
  "should_append r c =
     (case r of
        Inr (Some (score, trend)) \<Rightarrow>
          flt (lit64 0.01) (fabs (fsub binary64 score (sc_score c))) \<or> trend \<noteq> sc_trend c
      | _ \<Rightarrow> True)"

text \<open>The event log is used in two places; its result is dropped, its counter is not.\<close>

definition log_signal ::
  "'l signal_log option \<Rightarrow> signal_payload signal_event \<Rightarrow> signal_engine_report \<Rightarrow> 'l \<Rightarrow> signal_engine_report \<times> 'l" where
  "log_signal L ev rep l =
     (case L of
        None \<Rightarrow> (rep, l)
      | Some put \<Rightarrow>
          (let n = Suc (sr_events rep) in (rep\<lparr>sr_events := n\<rparr>, io_ignore (put ev n) l)))"

definition log_candidate ::
  "'l signal_log option \<Rightarrow> int \<Rightarrow> int \<Rightarrow> bool \<Rightarrow> signal_candidate \<Rightarrow> signal_engine_report \<Rightarrow> 'l \<Rightarrow> signal_engine_report \<times> 'l" where
  "log_candidate L now thread created c rep l =
     (let sig = agg_signal thread;
          (rep1, l1) = log_signal L \<lparr>se_type = ''SignalScoreChanged'', se_aggregate = sig,
             se_payload = ScoreChanged (sc_score c) (score_to_impact (sc_score c)) (sc_articles c) (sc_sources c)
               (sc_trend c) (sc_key c), se_occurred_at = now\<rparr> rep l
      in if created
         then log_signal L \<lparr>se_type = ''SignalCreated'', se_aggregate = sig, se_payload = KeyOnly (sc_key c),
                se_occurred_at = now\<rparr> rep1 l1
         else (rep1, l1))"

definition write_instance ::
  "'s signal_ports \<Rightarrow> int \<Rightarrow> signal_candidate \<Rightarrow> signal_engine_report \<Rightarrow> ('s, signal_error, signal_engine_report) io" where
  "write_instance P thread c rep s =
     (case sp_fingerprint P thread s of (fp, s1) \<Rightarrow>
        if should_append fp c
        then io_bind (sp_append P thread (sc_score c) (score_to_impact (sc_score c)) (sc_trend c) (sc_articles c)
               (sc_sources c) (sc_avg c) (case sc_anchor c of Some e \<Rightarrow> e | None \<Rightarrow> 0))
               (\<lambda>_. io_ret (rep\<lparr>sr_instances := Suc (sr_instances rep)\<rparr>)) s1
        else (Inr rep, s1))"

definition persist_candidate ::
  "'s signal_ports \<Rightarrow> 'l signal_log option \<Rightarrow> int \<Rightarrow> signal_candidate \<Rightarrow> signal_engine_report
    \<Rightarrow> ('s \<times> 'l, signal_error, signal_engine_report) io" where
  "persist_candidate P L now c rep sl =
     (case sp_upsert P (sc_key c) (sc_anchor c) (sc_title c) (sc_status c) (sc_method c) (sc_discovery_score c) (fst sl) of
        (Inl e, s1) \<Rightarrow> (Inl e, (s1, snd sl))
      | (Inr u, s1) \<Rightarrow>
          (let created = (su_mutation u = Created);
               rep1 = (if created then rep\<lparr>sr_threads := Suc (sr_threads rep)\<rparr> else rep)
           in case write_instance P (su_id u) c rep1 s1 of
                (Inl e, s2) \<Rightarrow> (Inl e, (s2, snd sl))
              | (Inr rep2, s2) \<Rightarrow>
                  (let (rep3, l') = log_candidate L now (su_id u) created c rep2 (snd sl) in (Inr rep3, (s2, l')))))"

fun persist_candidates ::
  "'s signal_ports \<Rightarrow> 'l signal_log option \<Rightarrow> int \<Rightarrow> signal_candidate list \<Rightarrow> signal_engine_report
    \<Rightarrow> ('s \<times> 'l, signal_error, signal_engine_report) io" where
  "persist_candidates P L now [] rep = io_ret rep"
| "persist_candidates P L now (c # cs) rep = io_bind (persist_candidate P L now c rep) (persist_candidates P L now cs)"

definition signal_engine_run ::
  "'s signal_ports \<Rightarrow> 'l signal_log option \<Rightarrow> ('s, string, signal_candidate list) io list \<Rightarrow> int
    \<Rightarrow> ('s \<times> 'l, signal_error, signal_engine_report) io" where
  "signal_engine_run P L srcs now sl =
     (case gather_candidates srcs (fst sl) of (cands, s1) \<Rightarrow>
        (case persist_candidates P L now cands empty_report (s1, snd sl) of
           (Inl e, sl2) \<Rightarrow> (Inl e, sl2)
         | (Inr rep, sl2) \<Rightarrow>
             (case sp_lifecycle P now (fst sl2) of
                (Inl e, s3) \<Rightarrow> (Inl e, (s3, snd sl2))
              | (Inr _, s3) \<Rightarrow> (Inr (rep\<lparr>sr_transitions := 1\<rparr>), (s3, snd sl2)))))"

section \<open>Adapters\<close>

abbreviation to_persistence :: "('s, store_error, 'a) io \<Rightarrow> ('s, signal_error, 'a) io" where
  "to_persistence \<equiv> io_map_err (\<lambda>e. SigPersistence (store_error_str e))"

abbreviation to_discovery :: "('s, store_error, 'a) io \<Rightarrow> ('s, signal_error, 'a) io" where
  "to_discovery \<equiv> io_map_err (\<lambda>e. SigDiscovery (store_error_str e))"

definition d1_signal_persistence :: "(bool \<Rightarrow> int option) option \<Rightarrow> signal_db signal_ports" where
  "d1_signal_persistence xmax =
     \<lparr>sp_upsert = (\<lambda>key anchor title status method score.
        to_persistence (d1_upsert_signal_thread xmax key anchor title status method score)),
      sp_fingerprint = (\<lambda>thread. to_persistence (d1_get_latest_instance_fingerprint thread)),
      sp_append = (\<lambda>thread score impact trend arts srcs avg entity.
        to_persistence (d1_append_signal_instance_v2 thread score impact trend arts srcs avg entity)),
      sp_lifecycle = (\<lambda>now. to_persistence (d1_update_signal_lifecycle now))\<rparr>"

definition to_owned_candidate :: "entity_signal_candidate \<Rightarrow> engine_candidate" where
  "to_owned_candidate c =
     \<lparr>ca_entity = ec_entity c, ca_name = ec_name c, ca_type = ec_type c, ca_score = ec_score c, ca_trend = ec_trend c,
      ca_articles = ec_articles c, ca_sources = ec_sources c, ca_avg = ec_avg c,
      ca_evidence = map (\<lambda>e. \<lparr>ba_id = sv_id e, ba_title = sv_title e, ba_url = sv_url e, ba_feed = sv_feed e,
        ba_score = sv_score e\<rparr>) (ec_evidence c),
      ca_related = ec_related c\<rparr>"

definition to_owned_embedded :: "article_embedding_ref \<Rightarrow> embedded_article" where
  "to_owned_embedded e = \<lparr>em_article = ae_article e, em_vector = ae_vector e\<rparr>"

definition d1_signal_discovery :: "(f64 list \<Rightarrow> f64) \<Rightarrow> signal_db discovery_ports" where
  "d1_signal_discovery avg =
     \<lparr>dp_entities = (\<lambda>now days limit arts srcs.
        io_bind (to_discovery (d1_entity_signal_candidates_filtered avg now days limit arts srcs))
          (\<lambda>rows. io_ret (map to_owned_candidate rows))),
      dp_embedded = (\<lambda>now days limit.
        io_bind (to_discovery (d1_recent_embedded_articles now days limit))
          (\<lambda>rows. io_ret (map to_owned_embedded rows)))\<rparr>"

definition signal_envelope :: "'j signal_event \<Rightarrow> nat \<Rightarrow> 'j event_envelope" where
  "signal_envelope ev n =
     \<lparr>ee_schema_version = 1, ee_event_id = format_id (se_occurred_at ev) n, ee_event_version = 1,
      ee_aggregate = \<lparr>ar_aggregate_type = ''signal_thread'', ar_aggregate_id = se_aggregate ev\<rparr>,
      ee_event_type = se_type ev, ee_payload = se_payload ev,
      ee_metadata = \<lparr>em_actor = ''system'', em_source = ''cron''\<rparr>, ee_correlation_id = '''', ee_causation_id = '''',
      ee_occurred_at = se_occurred_at ev, ee_created_at = se_occurred_at ev\<rparr>"

definition signal_log_append ::
  "'s outbox_ops \<Rightarrow> ('j event_envelope \<Rightarrow> string) \<Rightarrow> 'j signal_event \<Rightarrow> nat \<Rightarrow> ('s, signal_error, unit) io" where
  "signal_log_append S enc ev n =
     io_map_err (\<lambda>e. SigEventLog (event_store_error_str e)) (io_bind (append_event S enc (signal_envelope ev n)) (\<lambda>_. io_ret ()))"

definition signal_log_load ::
  "'s outbox_ops \<Rightarrow> (string \<Rightarrow> ('o, object_store_error, string option) io) \<Rightarrow> (string \<Rightarrow> 'j event_envelope option)
    \<Rightarrow> string \<Rightarrow> nat \<Rightarrow> ('s \<times> 'o, signal_error, 'j signal_event list) io" where
  "signal_log_load S rd dec aggregate limit =
     io_bind (io_map_err (\<lambda>e. SigEventLog (event_store_error_str e)) (load_events S rd dec ''signal_thread'' aggregate limit))
       (\<lambda>evs. io_ret (map (\<lambda>e. \<lparr>se_type = ee_event_type e, se_aggregate = ar_aggregate_id (ee_aggregate e),
          se_payload = ee_payload e, se_occurred_at = ee_occurred_at e\<rparr>) evs))"

section \<open>The cron job\<close>

text \<open>
  \<open>run_signal_engine\<close> with its checkpoint.  \<open>kv\<close> is the cache: \<open>None\<close> without the binding, else
  the value of \<open>signal_engine:last_run\<close>; \<open>put_ok\<close> says whether storing the new value succeeds.  A
  count that cannot be read is zero.  The bindings of the database are taken to exist.
\<close>

definition new_articles :: "int \<Rightarrow> int db_io" where
  "new_articles ts = db_query (\<lambda>d. int (length (filter (\<lambda>a. ts < at_created a) (db_articles d))))"

definition run_signal_engine ::
  "signal_db signal_ports \<Rightarrow> 'l signal_log option \<Rightarrow> (signal_db, string, signal_candidate list) io list \<Rightarrow> bool \<Rightarrow> int
    \<Rightarrow> string option option \<times> signal_db \<times> 'l \<Rightarrow> string option option \<times> signal_db \<times> 'l" where
  "run_signal_engine P L srcs put_ok now st =
     (let (kv, d, l) = st;
          last_ts = (case kv of Some (Some v) \<Rightarrow> parse_i64 (trim v) | _ \<Rightarrow> None);
          (skip, d1) = (case last_ts of
              None \<Rightarrow> (False, d)
            | Some ts \<Rightarrow> (case new_articles ts d of (r, d1) \<Rightarrow> ((case r of Inr n \<Rightarrow> n | Inl _ \<Rightarrow> 0) = 0, d1)))
      in if skip then (kv, d1, l)
         else (case signal_engine_run P L srcs now (d1, l) of
             (_, (d2, l2)) \<Rightarrow> (case kv of None \<Rightarrow> None | Some v \<Rightarrow> Some (if put_ok then Some (show_i64 now) else v), d2, l2)))"

end
