(* ===== verification/SignalLaws.thy ===== *)
theory SignalLaws
  imports SignalEngine
begin

text \<open>
  What the signal engine relies on and what it keeps.  The locale \<open>signal_store\<close> states the laws of
  the persistence port; inside it a run over any sources that only read is shown to keep the store
  well formed and to let the rows of the threads evolve only along the lifecycle.  The D1 tables are
  its instance.
\<close>

section \<open>How a row may change\<close>

text \<open>A resolved thread is resolved or archived ever after, an archived one archived.\<close>

definition status_moves :: "string \<Rightarrow> string \<Rightarrow> bool" where
  "status_moves s s' \<longleftrightarrow> (s = ''resolved'' \<longrightarrow> s' = ''resolved'' \<or> s' = ''archived'') \<and> (s = ''archived'' \<longrightarrow> s' = ''archived'')"

definition row_evolves :: "signal_thread \<Rightarrow> signal_thread \<Rightarrow> bool" where
  "row_evolves t t' \<longleftrightarrow> st_id t' = st_id t \<and> st_key t' = st_key t \<and> st_anchor t' = st_anchor t \<and>
     st_method t' = st_method t \<and> st_first_seen t' = st_first_seen t \<and> st_created t' = st_created t \<and>
     status_moves (st_status t) (st_status t')"

definition threads_evolve :: "signal_thread list \<Rightarrow> signal_thread list \<Rightarrow> bool" where
  "threads_evolve ts ts' \<longleftrightarrow> length ts \<le> length ts' \<and> list_all2 row_evolves ts (take (length ts) ts')"

lemma status_moves_refl [simp]: "status_moves s s"
  by (simp add: status_moves_def)

lemma moves_trans:
  "(s = a \<longrightarrow> t = a \<or> t = b) \<and> (s = b \<longrightarrow> t = b) \<Longrightarrow> (t = a \<longrightarrow> u = a \<or> u = b) \<and> (t = b \<longrightarrow> u = b) \<Longrightarrow>
   (s = a \<longrightarrow> u = a \<or> u = b) \<and> (s = b \<longrightarrow> u = b)"
  by blast

lemma status_moves_trans: "status_moves s t \<Longrightarrow> status_moves t u \<Longrightarrow> status_moves s u"
  unfolding status_moves_def by (rule moves_trans)

lemma row_evolves_refl [simp]: "row_evolves t t"
  by (simp add: row_evolves_def)

lemma row_evolves_trans: "row_evolves t u \<Longrightarrow> row_evolves u v \<Longrightarrow> row_evolves t v"
  unfolding row_evolves_def by (metis status_moves_trans)

lemma threads_evolve_refl [simp]: "threads_evolve ts ts"
  by (simp add: threads_evolve_def list.rel_refl)

lemma threads_evolve_trans:
  assumes "threads_evolve a b" "threads_evolve b c"
  shows "threads_evolve a c"
proof -
  have "row_evolves (a ! i) (c ! i)" if "i < length a" for i
  proof -
    from assms(1) that have "row_evolves (a ! i) (b ! i)" "i < length b"
      by (auto simp: threads_evolve_def list_all2_conv_all_nth)
    moreover from this(2) assms(2) have "row_evolves (b ! i) (c ! i)"
      by (auto simp: threads_evolve_def list_all2_conv_all_nth)
    ultimately show ?thesis by (blast intro: row_evolves_trans)
  qed
  with assms show ?thesis by (auto simp: threads_evolve_def list_all2_conv_all_nth)
qed

lemma threads_evolve_append [simp]: "threads_evolve ts (ts @ us)"
  by (simp add: threads_evolve_def list.rel_refl)

lemma threads_evolve_map:
  "(\<And>t. t \<in> set ts \<Longrightarrow> row_evolves t (f t)) \<Longrightarrow> threads_evolve ts (map f ts)"
  by (auto simp: threads_evolve_def list_all2_conv_all_nth)

lemma threads_evolve_update_first:
  "(\<And>t. t \<in> set ts \<Longrightarrow> row_evolves t (f t)) \<Longrightarrow> threads_evolve ts (update_first p f ts)"
proof -
  assume "\<And>t. t \<in> set ts \<Longrightarrow> row_evolves t (f t)"
  then have "list_all2 row_evolves ts (update_first p f ts)"
    by (induction ts) (auto simp: list.rel_refl)
  then show ?thesis by (simp add: threads_evolve_def)
qed

lemma threads_evolve_nth:
  "threads_evolve ts ts' \<Longrightarrow> i < length ts \<Longrightarrow> i < length ts' \<and> row_evolves (ts ! i) (ts' ! i)"
  by (auto simp: threads_evolve_def list_all2_conv_all_nth)

lemma threads_evolve_ids: "threads_evolve ts ts' \<Longrightarrow> st_id ` set ts \<subseteq> st_id ` set ts'"
proof
  fix i
  assume "threads_evolve ts ts'" "i \<in> st_id ` set ts"
  then obtain k where "k < length ts" "i = st_id (ts ! k)" by (auto simp: in_set_conv_nth)
  with threads_evolve_nth [OF \<open>threads_evolve ts ts'\<close>] show "i \<in> st_id ` set ts'"
    by (metis (no_types, lifting) image_eqI nth_mem row_evolves_def)
qed

section \<open>The persistence port\<close>

text \<open>
  \<open>threads\<close> and \<open>instances\<close> are the tables, \<open>wf\<close> the invariant of the store; the laws hold whether
  the operation succeeds or fails.
\<close>

locale signal_store =
  fixes P :: "'s signal_ports"
    and threads :: "'s \<Rightarrow> signal_thread list"
    and instances :: "'s \<Rightarrow> signal_instance list"
    and wf :: "'s \<Rightarrow> bool"
  assumes upsert_any: "wf s \<Longrightarrow> st = ''active'' \<Longrightarrow> sp_upsert P k a ti st m sc s = (ur, s') \<Longrightarrow>
        wf s' \<and> threads_evolve (threads s) (threads s') \<and> instances s' = instances s \<and>
        (case ur of Inl _ \<Rightarrow> threads s' = threads s | Inr u \<Rightarrow> su_id u \<in> st_id ` set (threads s'))"
    and fingerprint_any: "wf s \<Longrightarrow> sp_fingerprint P i s = (fr, s') \<Longrightarrow>
        wf s' \<and> threads s' = threads s \<and> instances s' = instances s"
    and append_any: "wf s \<Longrightarrow> i \<in> st_id ` set (threads s) \<Longrightarrow> sp_append P i x im tr ac so av e s = (ar, s') \<Longrightarrow>
        wf s' \<and> threads s' = threads s \<and> (\<exists>is. instances s' = instances s @ is)"
    and lifecycle_any: "wf s \<Longrightarrow> sp_lifecycle P now s = (lr, s') \<Longrightarrow>
        wf s' \<and> threads_evolve (threads s) (threads s') \<and> instances s' = instances s"

context signal_store
begin

definition keeps :: "'s \<Rightarrow> 's \<Rightarrow> bool" where
  "keeps s s' \<longleftrightarrow> wf s' \<and> threads_evolve (threads s) (threads s') \<and> (\<exists>is. instances s' = instances s @ is)"

definition only_reads :: "('s, string, signal_candidate list) io \<Rightarrow> bool" where
  "only_reads src \<longleftrightarrow> (\<forall>s r s'. wf s \<longrightarrow> src s = (r, s') \<longrightarrow>
     wf s' \<and> threads s' = threads s \<and> instances s' = instances s \<and>
     (case r of Inl _ \<Rightarrow> True | Inr cs \<Rightarrow> \<forall>c \<in> set cs. sc_status c = ''active''))"

lemma keeps_refl: "wf s \<Longrightarrow> keeps s s"
  by (simp add: keeps_def)

lemma keeps_trans: "keeps s t \<Longrightarrow> keeps t u \<Longrightarrow> keeps s u"
  unfolding keeps_def using threads_evolve_trans by fastforce

lemma gather_keeps:
  assumes "wf s" "\<And>src. src \<in> set srcs \<Longrightarrow> only_reads src" "gather_candidates srcs s = (cs, s')"
  shows "keeps s s' \<and> threads s' = threads s \<and> instances s' = instances s \<and> (\<forall>c \<in> set cs. sc_status c = ''active'')"
  using assms
proof (induction srcs arbitrary: s cs)
  case (Cons src srcs)
  obtain r s1 where src: "src s = (r, s1)" by fastforce
  obtain cs2 s2 where rest: "gather_candidates srcs s1 = (cs2, s2)" by fastforce
  from Cons.prems(1,2) src have s1: "wf s1" "threads s1 = threads s" "instances s1 = instances s"
    "case r of Inl _ \<Rightarrow> True | Inr cs \<Rightarrow> \<forall>c \<in> set cs. sc_status c = ''active''"
    unfolding only_reads_def by (meson list.set_intros(1))+
  from Cons.prems(3) src rest have "s2 = s'" "cs = (case r of Inr xs \<Rightarrow> xs @ cs2 | Inl _ \<Rightarrow> cs2)" by simp_all
  with Cons.IH [OF s1(1)] Cons.prems(2) rest s1 show ?case by (cases r) (simp_all add: keeps_def ball_Un)
qed (simp add: keeps_refl)

lemma write_instance_keeps:
  assumes "wf s" "i \<in> st_id ` set (threads s)" "write_instance P i c rep s = (r, s')"
  shows "keeps s s'"
proof -
  obtain fp s1 where fp: "sp_fingerprint P i s = (fp, s1)" by fastforce
  note s1 = fingerprint_any [OF assms(1) fp]
  show ?thesis
  proof (cases "should_append fp c")
    case True
    obtain ar s2 where app: "sp_append P i (sc_score c) (score_to_impact (sc_score c)) (sc_trend c) (sc_articles c)
        (sc_sources c) (sc_avg c) (case sc_anchor c of Some e \<Rightarrow> e | None \<Rightarrow> 0) s1 = (ar, s2)" by fastforce
    from append_any [OF _ _ app] s1 assms(2) have "keeps s s2" by (auto simp: keeps_def)
    moreover from assms(3) True fp app have "s' = s2"
      by (cases ar) (auto simp: write_instance_def io_bind_def io_ret_def)
    ultimately show ?thesis by simp
  next
    case False
    with assms(3) fp have "s' = s1" by (simp add: write_instance_def)
    with s1 show ?thesis by (simp add: keeps_def)
  qed
qed

lemma persist_candidate_keeps:
  assumes "wf (fst sl)" "sc_status c = ''active''" "persist_candidate P L now c rep sl = (r, sl')"
  shows "keeps (fst sl) (fst sl')"
proof -
  obtain ur s1 where up: "sp_upsert P (sc_key c) (sc_anchor c) (sc_title c) (sc_status c) (sc_method c)
      (sc_discovery_score c) (fst sl) = (ur, s1)" by fastforce
  note s1 = upsert_any [OF assms(1,2) up]
  then have k1: "keeps (fst sl) s1" by (simp add: keeps_def)
  show ?thesis
  proof (cases ur)
    case (Inl e)
    with assms(3) up k1 show ?thesis by (auto simp: persist_candidate_def)
  next
    case (Inr u)
    let ?rep = "if su_mutation u = Created then rep\<lparr>sr_threads := Suc (sr_threads rep)\<rparr> else rep"
    obtain wr s2 where wr: "write_instance P (su_id u) c ?rep s1 = (wr, s2)" by fastforce
    from s1 Inr have "wf s1" "su_id u \<in> st_id ` set (threads s1)" by auto
    from write_instance_keeps [OF this wr] k1 have "keeps (fst sl) s2" by (blast intro: keeps_trans)
    moreover from assms(3) up Inr wr have "fst sl' = s2"
      by (cases wr) (auto simp: persist_candidate_def Let_def split: prod.splits)
    ultimately show ?thesis by simp
  qed
qed

lemma persist_candidates_keeps:
  assumes "wf (fst sl)" "\<forall>c \<in> set cs. sc_status c = ''active''" "persist_candidates P L now cs rep sl = (r, sl')"
  shows "keeps (fst sl) (fst sl')"
  using assms
proof (induction cs arbitrary: rep sl)
  case (Cons c cs)
  obtain r1 sl1 where c: "persist_candidate P L now c rep sl = (r1, sl1)" by (rule prod.exhaust)
  from Cons.prems(2) have "sc_status c = ''active''" by simp
  note k = persist_candidate_keeps [OF Cons.prems(1) this c]
  show ?case
  proof (cases r1)
    case (Inl e)
    with Cons.prems c k show ?thesis by (simp add: io_bind_def)
  next
    case (Inr rep1)
    from Cons.prems(3) c Inr have "persist_candidates P L now cs rep1 sl1 = (r, sl')" by (simp add: io_bind_def)
    with Cons.IH [OF _ _ this] Cons.prems(2) k show ?thesis by (auto simp: keeps_def intro: threads_evolve_trans)
  qed
qed (simp add: keeps_refl)

lemma run_keeps:
  assumes "wf (fst sl)" "\<And>src. src \<in> set srcs \<Longrightarrow> only_reads src"
    and "signal_engine_run P L srcs now sl = (r, sl')"
  shows "keeps (fst sl) (fst sl')"
proof -
  obtain cs s1 where g: "gather_candidates srcs (fst sl) = (cs, s1)" by fastforce
  note k1 = gather_keeps [OF assms(1,2) g]
  obtain pr sl2 where p: "persist_candidates P L now cs empty_report (s1, snd sl) = (pr, sl2)" by (rule prod.exhaust)
  from k1 persist_candidates_keeps [OF _ _ p] have k2: "keeps (fst sl) (fst sl2)" by (auto simp: keeps_def intro: keeps_trans)
  show ?thesis
  proof (cases pr)
    case (Inl e)
    with assms(3) g p k2 show ?thesis by (simp add: signal_engine_run_def)
  next
    case (Inr rep)
    obtain lr s3 where l: "sp_lifecycle P now (fst sl2) = (lr, s3)" by fastforce
    from assms(3) g p Inr l have "fst sl' = s3" by (cases lr) (auto simp: signal_engine_run_def)
    moreover from k2 lifecycle_any [OF _ l] have "keeps (fst sl2) s3" by (auto simp: keeps_def)
    ultimately show ?thesis using k2 keeps_trans by blast
  qed
qed

end

section \<open>The D1 tables\<close>

lemma db_statement_cases:
  assumes "db_statement f d = (r, d')"
  obtains fs where "r = Inl (D1 ''statement failed'')" "d' = d\<lparr>db_faults := fs\<rparr>" "db_faults d \<noteq> []"
  | a fs where "r = Inr a" "f (d\<lparr>db_faults := fs\<rparr>) = (a, d')" "db_faults d = [] \<longrightarrow> fs = []"
proof (cases "db_faults d")
  case Nil
  have d: "d = d\<lparr>db_faults := []\<rparr>" using Nil by simp
  obtain a d1 where f: "f d = (a, d1)" by fastforce
  with assms Nil have "r = Inr a" "d' = d1" by (simp_all add: db_statement_def)
  with f d that(2) [of a "[]"] show ?thesis by (metis)
next
  case (Cons b fs)
  show ?thesis
  proof (cases b)
    case True
    with assms Cons that(1) [of fs] show ?thesis by (simp add: db_statement_def)
  next
    case False
    obtain a d1 where "f (d\<lparr>db_faults := fs\<rparr>) = (a, d1)" by fastforce
    with assms Cons False that(2) [of a fs] show ?thesis by (simp add: db_statement_def)
  qed
qed

lemma db_statement_up: "db_faults d = [] \<Longrightarrow> db_statement f d = (case f d of (a, d') \<Rightarrow> (Inr a, d'))"
  by (simp add: db_statement_def split: prod.split)

lemma db_query_up: "db_faults d = [] \<Longrightarrow> db_query f d = (Inr (f d), d)"
  by (simp add: db_query_def db_statement_up)

lemma db_query_any:
  assumes "db_query f d = (r, d')"
  shows "\<exists>fs. d' = d\<lparr>db_faults := fs\<rparr>"
  using assms unfolding db_query_def by (cases rule: db_statement_cases) auto

definition lifecycle_status :: "string \<Rightarrow> bool" where
  "lifecycle_status s \<longleftrightarrow> s \<in> {''active'', ''decaying'', ''resolved'', ''archived''}"

definition threads_ok :: "int \<Rightarrow> signal_thread list \<Rightarrow> bool" where
  "threads_ok n ts \<longleftrightarrow> distinct (map st_key ts) \<and> distinct (map st_id ts) \<and>
     (\<forall>t \<in> set ts. st_id t < n \<and> lifecycle_status (st_status t))"

definition db_wf :: "signal_db \<Rightarrow> bool" where
  "db_wf d \<longleftrightarrow> threads_ok (db_next_thread d) (db_threads d) \<and>
     distinct (map si_id (db_instances d)) \<and> (\<forall>i \<in> set (db_instances d). si_id i < db_next_instance d) \<and>
     si_thread ` set (db_instances d) \<subseteq> st_id ` set (db_threads d)"

lemma db_wf_faults [simp]: "db_wf (d\<lparr>db_faults := fs\<rparr>) = db_wf d"
  by (simp add: db_wf_def)

lemma threads_ok_step:
  assumes "threads_ok n ts" "list_all2 (\<lambda>t t'. st_key t' = st_key t \<and> st_id t' = st_id t \<and> lifecycle_status (st_status t')) ts ts'"
  shows "threads_ok n ts'" "st_id ` set ts' = st_id ` set ts"
proof -
  from assms(2) have "map st_key ts' = map st_key ts" "map st_id ts' = map st_id ts"
    and st: "\<forall>t' \<in> set ts'. lifecycle_status (st_status t')"
    by (induction rule: list_all2_induct) auto
  moreover from this(2) show ids: "st_id ` set ts' = st_id ` set ts" by (metis list.set_map)
  ultimately show "threads_ok n ts'" using assms(1) unfolding threads_ok_def by (metis image_iff list.set_map)
qed

lemma threads_ok_map:
  assumes "threads_ok n ts" "\<And>t. t \<in> set ts \<Longrightarrow> st_key (f t) = st_key t \<and> st_id (f t) = st_id t \<and> lifecycle_status (st_status (f t))"
  shows "threads_ok n (map f ts) \<and> st_id ` set (map f ts) = st_id ` set ts"
  using threads_ok_step [OF assms(1), of "map f ts"] assms(2) by (simp add: list_all2_conv_all_nth)

lemma threads_ok_update_first:
  assumes "threads_ok n ts" "\<And>t. st_key (f t) = st_key t \<and> st_id (f t) = st_id t \<and> st_status (f t) = st_status t"
  shows "threads_ok n (update_first p f ts) \<and> st_id ` set (update_first p f ts) = st_id ` set ts"
proof -
  have "list_all2 (\<lambda>t t'. st_key t' = st_key t \<and> st_id t' = st_id t \<and> lifecycle_status (st_status t')) ts (update_first p f ts)"
    if "\<forall>t \<in> set ts. lifecycle_status (st_status t)"
    using that by (induction ts) (auto simp: assms(2) list_all2_same)
  with assms(1) threads_ok_step show ?thesis unfolding threads_ok_def by blast
qed

lemma threads_ok_snoc:
  assumes "threads_ok n ts" "st_id t = n" "st_key t \<notin> st_key ` set ts" "lifecycle_status (st_status t)"
  shows "threads_ok (n + 1) (ts @ [t])"
proof -
  have "n \<notin> st_id ` set ts" using assms(1) by (auto simp: threads_ok_def)
  moreover have "st_id u < n + 1" if "u \<in> set ts" for u
    using assms(1) that by (auto simp: threads_ok_def intro: less_trans [of _ n])
  ultimately show ?thesis using assms by (auto simp: threads_ok_def)
qed

lemma db_upsert_law:
  assumes "db_wf d" "st = ''active''" "d1_upsert_signal_thread xm k a ti st m sc d = (r, d')"
  shows "db_wf d' \<and> threads_evolve (db_threads d) (db_threads d') \<and> db_instances d' = db_instances d \<and>
    (case r of Inl _ \<Rightarrow> db_threads d' = db_threads d | Inr u \<Rightarrow> su_id u \<in> st_id ` set (db_threads d'))"
proof (cases xm)
  case None
  with assms show ?thesis by (simp add: d1_upsert_signal_thread_def)
next
  case (Some ins)
  let ?f = "\<lambda>d. (case List.find (\<lambda>t. st_key t = k) (db_threads d) of
       Some t \<Rightarrow> ((st_id t, ins False),
         d\<lparr>db_threads := update_first (\<lambda>t. st_key t = k) (bump_thread ti sc (db_clock d)) (db_threads d)\<rparr>)
     | None \<Rightarrow> ((db_next_thread d, ins True),
         d\<lparr>db_next_thread := db_next_thread d + 1,
           db_threads := db_threads d @ [new_thread (db_next_thread d) k a ti st m sc (db_clock d)]\<rparr>))"
  obtain r0 d0 where s: "db_statement ?f d = (r0, d0)" by fastforce
  have bump: "st_key (bump_thread ti sc n t) = st_key t \<and> st_id (bump_thread ti sc n t) = st_id t \<and>
      st_status (bump_thread ti sc n t) = st_status t \<and> row_evolves t (bump_thread ti sc n t)" for n t
    by (simp add: bump_thread_def row_evolves_def)
  from s show ?thesis
  proof (cases rule: db_statement_cases)
    case (1 fs)
    with assms(3) s have "is_ok r = False" "d' = d\<lparr>db_faults := fs\<rparr>"
      unfolding Some d1_upsert_signal_thread_def by (auto simp: io_bind_def)
    with assms(1) show ?thesis by (cases r) simp_all
  next
    case (2 x fs)
    show ?thesis
    proof (cases "List.find (\<lambda>t. st_key t = k) (db_threads d)")
      case None
      with 2 assms(3) s have d': "d' = d\<lparr>db_faults := fs, db_next_thread := db_next_thread d + 1,
          db_threads := db_threads d @ [new_thread (db_next_thread d) k a ti st m sc (db_clock d)]\<rparr>"
        and r: "\<exists>u. r = Inr u \<and> su_id u = db_next_thread d"
        unfolding Some d1_upsert_signal_thread_def by (auto simp: io_bind_def io_ret_def)
      from None have key: "k \<notin> st_key ` set (db_threads d)" by (auto simp: find_None_iff_all)
      from assms(1) have ok: "threads_ok (db_next_thread d) (db_threads d)" by (simp add: db_wf_def)
      let ?t = "new_thread (db_next_thread d) k a ti st m sc (db_clock d)"
      have "threads_ok (db_next_thread d + 1) (db_threads d @ [?t])"
        by (rule threads_ok_snoc [OF ok]) (use assms(2) key in \<open>simp_all add: new_thread_def lifecycle_status_def\<close>)
      with assms(1) have "db_wf d'" unfolding d' db_wf_def by auto
      then show ?thesis using r d' by (auto simp: new_thread_def)
    next
      case (Some t)
      with 2 assms(3) s have d': "d' = d\<lparr>db_faults := fs,
          db_threads := update_first (\<lambda>t. st_key t = k) (bump_thread ti sc (db_clock d)) (db_threads d)\<rparr>"
        and r: "\<exists>u. r = Inr u \<and> su_id u = st_id t"
        unfolding \<open>xm = Some ins\<close> d1_upsert_signal_thread_def by (auto simp: io_bind_def io_ret_def)
      from Some have t: "t \<in> set (db_threads d)" by (simp add: find_Some_in)
      from assms(1) have ok: "threads_ok (db_next_thread d) (db_threads d)" by (simp add: db_wf_def)
      note u = threads_ok_update_first [OF ok, of "bump_thread ti sc (db_clock d)" "\<lambda>t. st_key t = k"]
      from u bump assms(1) have "db_wf d'" unfolding d' db_wf_def by simp
      moreover have "threads_evolve (db_threads d) (db_threads d')" unfolding d'
        by (simp add: threads_evolve_update_first bump)
      ultimately show ?thesis using r u bump t unfolding d' by auto
    qed
  qed
qed

lemma db_append_law:
  assumes "db_wf d" "i \<in> st_id ` set (db_threads d)" "d1_append_signal_instance_v2 i x im tr ac so av e d = (r, d')"
  shows "db_wf d' \<and> db_threads d' = db_threads d \<and> (\<exists>is. db_instances d' = db_instances d @ is)"
  using assms(3) unfolding d1_append_signal_instance_v2_def
proof (cases rule: db_statement_cases)
  case (1 fs)
  with assms show ?thesis by simp
next
  case (2 a fs)
  with assms(1,2) show ?thesis unfolding db_wf_def by fastforce
qed

lemma set_status_law:
  assumes "db_wf d" "status_moves old new" "lifecycle_status new" "set_status_where old p new now d = (r, d')"
  shows "db_wf d' \<and> threads_evolve (db_threads d) (db_threads d') \<and> db_instances d' = db_instances d"
  using assms(4) unfolding set_status_where_def
proof (cases rule: db_statement_cases)
  case (2 a fs)
  let ?f = "\<lambda>t. if st_status t = old \<and> p t then t\<lparr>st_status := new, st_updated := now\<rparr> else t"
  from assms(1) have ok: "threads_ok (db_next_thread d) (db_threads d)" by (simp add: db_wf_def)
  then have "threads_ok (db_next_thread d) (map ?f (db_threads d)) \<and> st_id ` set (map ?f (db_threads d)) = st_id ` set (db_threads d)"
    by (rule threads_ok_map) (use ok assms(3) in \<open>simp add: threads_ok_def\<close>)
  moreover have "threads_evolve (db_threads d) (map ?f (db_threads d))"
    by (rule threads_evolve_map) (use assms(2) in \<open>simp add: row_evolves_def\<close>)
  moreover from 2 have "d' = d\<lparr>db_faults := fs, db_threads := map ?f (db_threads d)\<rparr>" by auto
  ultimately show ?thesis using assms(1) by (simp add: db_wf_def)
qed (use assms(1) in simp)

lemma lifecycle_moves:
  "status_moves ''active'' ''decaying''" "status_moves ''decaying'' ''resolved''"
  "status_moves ''decaying'' ''active''" "status_moves ''resolved'' ''archived''"
  "lifecycle_status ''active''" "lifecycle_status ''decaying''" "lifecycle_status ''resolved''" "lifecycle_status ''archived''"
  by (simp_all add: status_moves_def lifecycle_status_def)

lemma db_lifecycle_law:
  assumes "db_wf d" "d1_update_signal_lifecycle now d = (r, d')"
  shows "db_wf d' \<and> threads_evolve (db_threads d) (db_threads d') \<and> db_instances d' = db_instances d"
proof -
  define good where "good f \<longleftrightarrow> (\<forall>d r d'. db_wf d \<longrightarrow> f d = (r, d') \<longrightarrow>
      db_wf d' \<and> threads_evolve (db_threads d) (db_threads d') \<and> db_instances d' = db_instances d)" for f :: "unit db_io"
  have step: "good (set_status_where old p new now)" if "status_moves old new" "lifecycle_status new" for old p new
    unfolding good_def using set_status_law [OF _ that] by blast
  have bind: "good (io_bind f (\<lambda>_. g))" if f: "good f" and g: "good g" for f g
    unfolding good_def
  proof (intro allI impI)
    fix d r d'
    assume wf: "db_wf d" and b: "io_bind f (\<lambda>_. g) d = (r, d')"
    obtain r1 d1 where 1: "f d = (r1, d1)" by fastforce
    from f wf 1 have k: "db_wf d1 \<and> threads_evolve (db_threads d) (db_threads d1) \<and> db_instances d1 = db_instances d"
      unfolding good_def by blast
    show "db_wf d' \<and> threads_evolve (db_threads d) (db_threads d') \<and> db_instances d' = db_instances d"
    proof (cases r1)
      case (Inl e)
      with b 1 k show ?thesis by (simp add: io_bind_def)
    next
      case (Inr u)
      with b 1 have "g d1 = (r, d')" by (simp add: io_bind_def)
      with g k have "db_wf d' \<and> threads_evolve (db_threads d1) (db_threads d') \<and> db_instances d' = db_instances d1"
        unfolding good_def by blast
      with k show ?thesis using threads_evolve_trans by metis
    qed
  qed
  have "good (d1_update_signal_lifecycle now)" unfolding d1_update_signal_lifecycle_def
    by (intro bind step lifecycle_moves)
  with assms show ?thesis unfolding good_def by blast
qed

interpretation d1_signals: signal_store "d1_signal_persistence xmax" db_threads db_instances db_wf for xmax
proof unfold_locales
  fix s s' :: signal_db and k a ti st m sc and ur :: "(signal_error, signal_upsert_result) result"
  assume "db_wf s" "st = ''active''" "sp_upsert (d1_signal_persistence xmax) k a ti st m sc s = (ur, s')"
  then show "db_wf s' \<and> threads_evolve (db_threads s) (db_threads s') \<and> db_instances s' = db_instances s \<and>
      (case ur of Inl _ \<Rightarrow> db_threads s' = db_threads s | Inr u \<Rightarrow> su_id u \<in> st_id ` set (db_threads s'))"
    using db_upsert_law [of s st xmax k a ti m sc]
    by (cases ur) (auto simp: d1_signal_persistence_def split: sum.splits)
next
  fix s s' :: signal_db and i and fr :: "(signal_error, (f64 \<times> string) option) result"
  assume "db_wf s" "sp_fingerprint (d1_signal_persistence xmax) i s = (fr, s')"
  moreover from this(2) obtain r where "d1_get_latest_instance_fingerprint i s = (r, s')"
    by (auto simp: d1_signal_persistence_def io_map_err_def split: prod.splits)
  ultimately show "db_wf s' \<and> db_threads s' = db_threads s \<and> db_instances s' = db_instances s"
    unfolding d1_get_latest_instance_fingerprint_def by (auto dest: db_query_any)
next
  fix s s' :: signal_db and i x im tr ac so av e and ar :: "(signal_error, int) result"
  assume "db_wf s" "i \<in> st_id ` set (db_threads s)" "sp_append (d1_signal_persistence xmax) i x im tr ac so av e s = (ar, s')"
  moreover from this(3) obtain r where "d1_append_signal_instance_v2 i x im tr ac so av e s = (r, s')"
    by (auto simp: d1_signal_persistence_def io_map_err_def split: prod.splits)
  ultimately show "db_wf s' \<and> db_threads s' = db_threads s \<and> (\<exists>is. db_instances s' = db_instances s @ is)"
    using db_append_law by blast
next
  fix s s' :: signal_db and now and lr :: "(signal_error, unit) result"
  assume "db_wf s" "sp_lifecycle (d1_signal_persistence xmax) now s = (lr, s')"
  moreover from this(2) obtain r where "d1_update_signal_lifecycle now s = (r, s')"
    by (auto simp: d1_signal_persistence_def io_map_err_def split: prod.splits)
  ultimately show "db_wf s' \<and> threads_evolve (db_threads s) (db_threads s') \<and> db_instances s' = db_instances s"
    using db_lifecycle_law by blast
qed

end
