(* ===== verification/SignalProps.thy ===== *)
theory SignalProps
  imports SignalLaws
begin

text \<open>
  The properties of the signal engine over the D1 tables: histories of cron jobs, ingestion, clock
  and failures; the lifecycle of a thread in closed form; deduplication; the candidates; and what the
  checkpoint, the semantic source and the \<open>xmax\<close> column do.
\<close>

section \<open>Reads\<close>

definition reads :: "'a db_io \<Rightarrow> bool" where
  "reads f \<longleftrightarrow> (\<forall>d r d'. f d = (r, d') \<longrightarrow> (\<exists>fs. d' = d\<lparr>db_faults := fs\<rparr>))"

lemma readsD: "reads f \<Longrightarrow> f d = (r, d') \<Longrightarrow> \<exists>fs. d' = d\<lparr>db_faults := fs\<rparr>"
  unfolding reads_def by blast

lemma same_faults: "\<exists>fs. d = d\<lparr>db_faults := fs\<rparr>" for d :: signal_db
  by (rule exI [of _ "db_faults d"]) simp

lemma db_query_Inr: "db_query f d = (Inr a, d') \<Longrightarrow> \<exists>fs. a = f (d\<lparr>db_faults := fs\<rparr>)"
  unfolding db_query_def by (erule db_statement_cases) auto

lemma reads_query: "reads (db_query f)"
  unfolding reads_def using db_query_any by blast

lemma reads_ret: "reads (io_ret a)"
  unfolding reads_def using same_faults by (simp add: io_ret_def)

lemma reads_bind:
  assumes "reads f" "\<And>a. reads (g a)"
  shows "reads (io_bind f g)"
  unfolding reads_def
proof (intro allI impI)
  fix d r d'
  assume b: "io_bind f g d = (r, d')"
  obtain r1 d1 where 1: "f d = (r1, d1)" by fastforce
  with assms(1) obtain fs where d1: "d1 = d\<lparr>db_faults := fs\<rparr>" unfolding reads_def by blast
  show "\<exists>fs. d' = d\<lparr>db_faults := fs\<rparr>"
  proof (cases r1)
    case (Inl e)
    with b 1 d1 show ?thesis by (auto simp: io_bind_def)
  next
    case (Inr a)
    with b 1 have "g a d1 = (r, d')" by (simp add: io_bind_def)
    with assms(2) obtain gs where "d' = d1\<lparr>db_faults := gs\<rparr>" unfolding reads_def by blast
    with d1 show ?thesis by auto
  qed
qed

lemma reads_if: "(c \<Longrightarrow> reads f) \<Longrightarrow> (\<not> c \<Longrightarrow> reads g) \<Longrightarrow> reads (if c then f else g)"
  by simp

lemma reads_candidate_loop: "reads (entity_candidate_loop now days rs)"
  by (induction rs) (simp_all add: reads_ret reads_bind reads_query entity_candidate_def Let_def
      count_mentions_def entity_evidence_def)

lemma reads_candidates: "reads (d1_entity_signal_candidates_filtered avg now days l a s)"
  unfolding d1_entity_signal_candidates_filtered_def
  by (intro reads_bind reads_query reads_if reads_ret reads_candidate_loop)

section \<open>Histories\<close>

definition production_sources ::
  "(f64 list \<Rightarrow> f64) \<Rightarrow> (int list \<Rightarrow> string) \<Rightarrow> semantic_query option \<Rightarrow> int
    \<Rightarrow> (signal_db, string, signal_candidate list) io list" where
  "production_sources avg hash sem now =
     [entity_source (d1_signal_discovery avg) now, semantic_source hash (d1_signal_discovery avg) sem now]"

lemma entity_candidates_active: "\<forall>c \<in> set (map entity_to_candidate cs). sc_status c = ''active''"
  by (simp add: entity_to_candidate_def)

lemma semantic_candidates_active:
  "semantic_candidates hash Q arts = Inr cs \<Longrightarrow> c \<in> set cs \<Longrightarrow> sc_status c = ''active''"
  by (auto simp: semantic_candidates_def cluster_to_candidate_def Let_def split: if_splits sum.splits option.splits)

lemma entity_source_reads: "d1_signals.only_reads (entity_source (d1_signal_discovery avg) now)"
proof -
  have "wf \<and> threads \<and> instances \<and> st" if
    "db_wf s" "entity_source (d1_signal_discovery avg) now s = (r, s')"
    "wf = db_wf s'" "threads = (db_threads s' = db_threads s)" "instances = (db_instances s' = db_instances s)"
    "st = (case r of Inl _ \<Rightarrow> True | Inr cs \<Rightarrow> \<forall>c \<in> set cs. sc_status c = ''active'')"
    for s s' r wf threads instances st
  proof -
    obtain qr q where q: "d1_entity_signal_candidates_filtered avg now 7 50 3 2 s = (qr, q)" by fastforce
    from readsD [OF reads_candidates q] obtain fs where "q = s\<lparr>db_faults := fs\<rparr>" by blast
    with that q show ?thesis
      by (cases qr) (auto simp: entity_source_def d1_signal_discovery_def io_bind_def io_map_err_def io_ret_def
          entity_to_candidate_def)
  qed
  then show ?thesis unfolding d1_signals.only_reads_def by blast
qed

lemma semantic_source_reads: "d1_signals.only_reads (semantic_source hash (d1_signal_discovery avg) sem now)"
proof (cases sem)
  case None
  then show ?thesis by (auto simp: d1_signals.only_reads_def semantic_source_def io_ret_def)
next
  case (Some Q)
  have "wf \<and> threads \<and> instances \<and> st" if
    "db_wf s" "semantic_source hash (d1_signal_discovery avg) sem now s = (r, s')"
    "wf = db_wf s'" "threads = (db_threads s' = db_threads s)" "instances = (db_instances s' = db_instances s)"
    "st = (case r of Inl _ \<Rightarrow> True | Inr cs \<Rightarrow> \<forall>c \<in> set cs. sc_status c = ''active'')"
    for s s' r wf threads instances st
  proof -
    obtain qr q where q: "d1_recent_embedded_articles now 7 200 s = (qr, q)" by fastforce
    then obtain fs where "q = s\<lparr>db_faults := fs\<rparr>"
      unfolding d1_recent_embedded_articles_def using db_query_any by blast
    with that q Some show ?thesis
      by (cases qr) (auto simp: semantic_source_def d1_signal_discovery_def io_bind_def io_map_err_def io_ret_def
          io_lift_def semantic_candidates_active split: sum.split)
  qed
  then show ?thesis unfolding d1_signals.only_reads_def by blast
qed

lemma production_reads: "src \<in> set (production_sources avg hash sem now) \<Longrightarrow> d1_signals.only_reads src"
  using entity_source_reads semantic_source_reads by (auto simp: production_sources_def)

text \<open>
  A history interleaves cron jobs, whatever their outcome, with changes of everything but the two
  tables: articles, mentions, the clock, the schedule of failures, the cache and the event log.
\<close>

inductive signal_step ::
  "(bool \<Rightarrow> int option) option \<Rightarrow> (f64 list \<Rightarrow> f64) \<Rightarrow> (int list \<Rightarrow> string) \<Rightarrow> 'l signal_log option
    \<Rightarrow> string option option \<times> signal_db \<times> 'l \<Rightarrow> string option option \<times> signal_db \<times> 'l \<Rightarrow> bool"
  for xmax avg hash L where
  job: "run_signal_engine (d1_signal_persistence xmax) L (production_sources avg hash sem now) put_ok now st = st'
     \<Longrightarrow> signal_step xmax avg hash L st st'"
| world: "db_threads d' = db_threads d \<Longrightarrow> db_next_thread d' = db_next_thread d \<Longrightarrow> db_instances d' = db_instances d
     \<Longrightarrow> db_next_instance d' = db_next_instance d \<Longrightarrow> signal_step xmax avg hash L (kv, d, l) (kv', d', l')"

inductive_cases signal_stepE: "signal_step xmax avg hash L st st'"

lemma keeps_job:
  assumes "db_wf d" "run_signal_engine (d1_signal_persistence xmax) L (production_sources avg hash sem now) put_ok now (kv, d, l) = (kv', d', l')"
  shows "d1_signals.keeps d d'"
proof -
  let ?ts = "case kv of Some (Some v) \<Rightarrow> parse_i64 (trim v) | _ \<Rightarrow> None"
  have run: "d1_signals.keeps d d2"
    if "signal_engine_run (d1_signal_persistence xmax) L (production_sources avg hash sem now) now (d1, l) = (r, (d2, l2))"
      "d1 = d\<lparr>db_faults := fs\<rparr>" for d1 d2 l2 r fs
    using d1_signals.run_keeps [OF _ production_reads that(1)] assms(1) that(2)
    by (simp add: d1_signals.keeps_def)
  obtain r1 d1 where n: "new_articles (the ?ts) d = (r1, d1)" by fastforce
  then obtain fs where d1: "d1 = d\<lparr>db_faults := fs\<rparr>" unfolding new_articles_def using db_query_any by blast
  obtain r2 d2 l2 where run2: "signal_engine_run (d1_signal_persistence xmax) L (production_sources avg hash sem now) now
      ((if ?ts = None then d else d1), l) = (r2, (d2, l2))" by (metis prod.exhaust)
  have "(if ?ts = None then d else d1) = d\<lparr>db_faults := (if ?ts = None then db_faults d else fs)\<rparr>" using d1 by simp
  note k2 = run [OF run2 this]
  have k1: "d1_signals.keeps d d1" using d1 assms(1) by (simp add: d1_signals.keeps_def)
  show ?thesis
  proof (cases ?ts)
    case None
    with assms(2) run2 k2 show ?thesis by (simp add: run_signal_engine_def Let_def split: prod.splits)
  next
    case (Some ts)
    with assms(2) run2 n k1 k2 show ?thesis
      by (auto simp: run_signal_engine_def Let_def split: prod.splits if_splits)
  qed
qed

lemma keeps_history:
  assumes "(signal_step xmax avg hash L)\<^sup>*\<^sup>* st st'" "db_wf (fst (snd st))"
  shows "d1_signals.keeps (fst (snd st)) (fst (snd st'))"
  using assms
proof (induction rule: rtranclp_induct)
  case base
  then show ?case by (rule d1_signals.keeps_refl)
next
  case (step u v)
  then have k: "d1_signals.keeps (fst (snd st)) (fst (snd u))" by simp
  from step.hyps(2) have "d1_signals.keeps (fst (snd u)) (fst (snd v))"
  proof cases
    case (job sem now put_ok)
    obtain kv d l where u: "u = (kv, d, l)" by (metis prod.exhaust)
    obtain kv' d' l' where v: "v = (kv', d', l')" by (metis prod.exhaust)
    from k u have "db_wf d" by (simp add: d1_signals.keeps_def)
    from keeps_job [OF this] job u v show ?thesis by simp
  next
    case (world d' d kv l kv' l')
    with k show ?thesis by (simp add: d1_signals.keeps_def db_wf_def)
  qed
  with k show ?case by (rule d1_signals.keeps_trans)
qed

text \<open>
  C17: whatever jobs run, whatever the sources, the database and the event log answer, and however
  articles and the clock change in between, signal keys and ids stay unique, every status is one of
  the four of the lifecycle and every instance belongs to a stored thread.
\<close>

theorem signal_history_ok:
  assumes "db_threads d = []" "db_instances d = []"
    and "(signal_step xmax avg hash L)\<^sup>*\<^sup>* (kv, d, l) (kv', d', l')"
  shows "distinct (map st_key (db_threads d')) \<and> distinct (map st_id (db_threads d')) \<and>
    (\<forall>t \<in> set (db_threads d'). lifecycle_status (st_status t)) \<and>
    si_thread ` set (db_instances d') \<subseteq> st_id ` set (db_threads d')"
proof -
  have "db_wf d" using assms(1,2) by (simp add: db_wf_def threads_ok_def)
  with keeps_history [OF assms(3)] have "db_wf d'" by (simp add: d1_signals.keeps_def)
  then show ?thesis by (simp add: db_wf_def threads_ok_def)
qed

definition sample_thread :: "string \<Rightarrow> int \<Rightarrow> signal_thread" where
  "sample_thread status seen =
     (new_thread 1 ''entity:7'' (Some 7) ''CUDA'' status Entity (Some (Fin 1)) 0)\<lparr>st_last_seen := Some seen\<rparr>"

definition sample_db :: "signal_thread list \<Rightarrow> signal_db" where
  "sample_db ts = \<lparr>db_threads = ts, db_next_thread = 2, db_instances = [], db_next_instance = 1, db_articles = [],
     db_mentions = [], db_entities = [], db_feeds = [], db_clock = 5, db_faults = []\<rparr>"

abbreviation sample_signal_job :: "int \<Rightarrow> string option option \<times> signal_db \<times> unit \<Rightarrow> string option option \<times> signal_db \<times> unit" where
  "sample_signal_job now \<equiv> run_signal_engine (d1_signal_persistence None) None
     (production_sources (\<lambda>_. Fin 0) (\<lambda>_. []) None now) True now"

lemma sample_signal_job_step:
  "signal_step None (\<lambda>_. Fin 0) (\<lambda>_. []) None st (sample_signal_job now st)"
  by (rule signal_step.job) (rule refl)

theorem signal_history_ok_witness:
  "let d = (fst (snd (sample_signal_job 3000000 (None, sample_db [], ()))))
   in distinct (map st_key (db_threads d)) \<and> distinct (map st_id (db_threads d)) \<and>
    (\<forall>t \<in> set (db_threads d). lifecycle_status (st_status t)) \<and>
    si_thread ` set (db_instances d) \<subseteq> st_id ` set (db_threads d)"
proof -
  obtain kv d l where job: "sample_signal_job 3000000 (None, sample_db [], ()) = (kv, d, l)" by (metis prod.exhaust)
  have "(signal_step None (\<lambda>_. Fin 0) (\<lambda>_. []) None)\<^sup>*\<^sup>* (None, sample_db [], ()) (kv, d, l)"
    using sample_signal_job_step [of "(None, sample_db [], ())" 3000000] unfolding job by (rule r_into_rtranclp)
  from signal_history_ok [OF _ _ this] show ?thesis unfolding job by (simp add: sample_db_def Let_def)
qed

text \<open>
  C18: no later job brings a signal back: a resolved thread stays resolved or becomes archived, an
  archived one stays archived, with its identity, even when its entity surfaces again and is upserted;
  and instances are only ever appended.
\<close>

theorem settled_signals_stay:
  assumes "db_wf d" "(signal_step xmax avg hash L)\<^sup>*\<^sup>* (kv, d, l) (kv', d', l')" "i < length (db_threads d)"
  shows "i < length (db_threads d') \<and> st_id (db_threads d' ! i) = st_id (db_threads d ! i) \<and>
    st_key (db_threads d' ! i) = st_key (db_threads d ! i) \<and>
    (st_status (db_threads d ! i) = ''resolved'' \<longrightarrow>
       st_status (db_threads d' ! i) = ''resolved'' \<or> st_status (db_threads d' ! i) = ''archived'') \<and>
    (st_status (db_threads d ! i) = ''archived'' \<longrightarrow> st_status (db_threads d' ! i) = ''archived'') \<and>
    (\<exists>is. db_instances d' = db_instances d @ is)"
proof -
  from keeps_history [OF assms(2)] assms(1) have k: "threads_evolve (db_threads d) (db_threads d')"
    "\<exists>is. db_instances d' = db_instances d @ is" by (simp_all add: d1_signals.keeps_def)
  from threads_evolve_nth [OF k(1) assms(3)] k(2) show ?thesis
    unfolding row_evolves_def status_moves_def by blast
qed

theorem settled_signals_stay_witness:
  "let d = sample_db [sample_thread ''resolved'' 10]; d' = fst (snd (sample_signal_job 3000000 (None, d, ())))
   in st_status (db_threads d' ! 0) = ''resolved'' \<or> st_status (db_threads d' ! 0) = ''archived''"
proof -
  let ?d = "sample_db [sample_thread ''resolved'' 10]"
  obtain kv d l where job: "sample_signal_job 3000000 (None, ?d, ()) = (kv, d, l)" by (metis prod.exhaust)
  have step: "(signal_step None (\<lambda>_. Fin 0) (\<lambda>_. []) None)\<^sup>*\<^sup>* (None, ?d, ()) (kv, d, l)"
    using sample_signal_job_step [of "(None, ?d, ())" 3000000] unfolding job by (rule r_into_rtranclp)
  have "db_wf ?d" by (simp add: db_wf_def threads_ok_def sample_db_def sample_thread_def new_thread_def lifecycle_status_def)
  from settled_signals_stay [OF this step, of 0] show ?thesis
    unfolding Let_def job by (simp add: sample_db_def sample_thread_def new_thread_def)
qed

section \<open>The lifecycle in closed form\<close>

text \<open>The status a thread has after the four statements, from its status and the seconds since it was seen.\<close>

definition next_status :: "int \<Rightarrow> signal_thread \<Rightarrow> string" where
  "next_status now t =
     (case st_last_seen t of
        None \<Rightarrow> st_status t
      | Some seen \<Rightarrow>
          (let idle = now - seen in
           if st_status t = ''active'' \<or> st_status t = ''decaying'' then
             (if 30 * 86400 < idle then ''archived''
              else if 14 * 86400 < idle then ''resolved''
              else if 7 * 86400 < idle then ''decaying''
              else if 3 * 86400 < idle then st_status t
              else ''active'')
           else if st_status t = ''resolved'' \<and> 30 * 86400 < idle then ''archived''
           else st_status t))"

definition age :: "int \<Rightarrow> signal_thread \<Rightarrow> signal_thread" where
  "age now t = (if next_status now t = st_status t then t else t\<lparr>st_status := next_status now t, st_updated := now\<rparr>)"

text \<open>
  One lifecycle call moves every thread, in one go, to the status its idle time calls for: active up to
  7 days, decaying up to 14, resolved up to 30, archived after that; a decaying thread returns only
  when seen within 3 days, a resolved one never.  Rows whose status does not change are untouched.
\<close>

theorem lifecycle_closed_form:
  assumes "db_faults d = []"
  shows "d1_update_signal_lifecycle now d = (Inr (), d\<lparr>db_threads := map (age now) (db_threads d)\<rparr>)"
proof -
  define step where "step old p new t = (if st_status t = old \<and> p t then t\<lparr>st_status := new, st_updated := now\<rparr> else t)"
    for old new and p :: "signal_thread \<Rightarrow> bool" and t
  have one: "set_status_where old p new now d = (Inr (), d\<lparr>db_threads := map (step old p new) (db_threads d)\<rparr>)"
    if "db_faults d = []" for old p new d
    using that unfolding step_def [abs_def] by (simp add: set_status_where_def db_statement_up)
  have row: "step ''resolved'' (seen_before (now - 30 * 86400)) ''archived''
      (step ''decaying'' (seen_since (now - 3 * 86400)) ''active''
      (step ''decaying'' (seen_before (now - 14 * 86400)) ''resolved''
      (step ''active'' (seen_before (now - 7 * 86400)) ''decaying'' t))) = age now t" for t
    unfolding step_def age_def next_status_def seen_before_def seen_since_def Let_def
    by (cases "st_last_seen t") simp_all
  show ?thesis unfolding d1_update_signal_lifecycle_def io_bind_def
    by (simp add: one assms comp_def row [simplified])
qed

theorem lifecycle_closed_form_witness:
  "d1_update_signal_lifecycle 1300000 (sample_db [sample_thread ''active'' 20]) =
     (Inr (), (sample_db [sample_thread ''active'' 20])\<lparr>db_threads := map (age 1300000) [sample_thread ''active'' 20]\<rparr>)"
  using lifecycle_closed_form [of "sample_db [sample_thread ''active'' 20]" 1300000] by (simp add: sample_db_def)

section \<open>Candidates\<close>

lemma entity_candidate_row:
  assumes "entity_candidate now days r d = (Inr c, d')"
  shows "ec_entity c = er_id r \<and> ec_name c = er_name r \<and> ec_type c = er_type r \<and> ec_articles c = er_articles r \<and>
    ec_sources c = er_sources r \<and> ec_avg c = er_avg r \<and> ec_related c = [] \<and>
    (\<exists>recent earlier hist. ec_trend c = compute_trend recent earlier \<and>
       ec_score c = ss_score (compute_5_factor_score (er_articles r) (er_sources r) (er_avg r) (ec_trend c)
         (fdiv binary64 (of_i64 binary64 (er_articles r)) (of_i64 binary64 days)) hist days))"
proof -
  let ?cutoff = "now - days * 86400"
  from assms obtain recent earlier hist evidence where c:
    "c = \<lparr>ec_entity = er_id r, ec_name = er_name r, ec_type = er_type r,
      ec_score = ss_score (compute_5_factor_score (er_articles r) (er_sources r) (er_avg r) (compute_trend recent earlier)
         (fdiv binary64 (of_i64 binary64 (er_articles r)) (of_i64 binary64 days)) hist days),
      ec_volume = ss_volume (compute_5_factor_score (er_articles r) (er_sources r) (er_avg r) (compute_trend recent earlier)
         (fdiv binary64 (of_i64 binary64 (er_articles r)) (of_i64 binary64 days)) hist days),
      ec_diversity = ss_diversity (compute_5_factor_score (er_articles r) (er_sources r) (er_avg r) (compute_trend recent earlier)
         (fdiv binary64 (of_i64 binary64 (er_articles r)) (of_i64 binary64 days)) hist days),
      ec_quality = ss_quality (compute_5_factor_score (er_articles r) (er_sources r) (er_avg r) (compute_trend recent earlier)
         (fdiv binary64 (of_i64 binary64 (er_articles r)) (of_i64 binary64 days)) hist days),
      ec_velocity = ss_velocity (compute_5_factor_score (er_articles r) (er_sources r) (er_avg r) (compute_trend recent earlier)
         (fdiv binary64 (of_i64 binary64 (er_articles r)) (of_i64 binary64 days)) hist days),
      ec_novelty = ss_novelty (compute_5_factor_score (er_articles r) (er_sources r) (er_avg r) (compute_trend recent earlier)
         (fdiv binary64 (of_i64 binary64 (er_articles r)) (of_i64 binary64 days)) hist days),
      ec_articles = er_articles r, ec_sources = er_sources r, ec_avg = er_avg r,
      ec_trend = compute_trend recent earlier, ec_evidence = evidence, ec_related = []\<rparr>"
    unfolding entity_candidate_def Let_def compute_5_factor_score_def compute_novelty_def compute_trend_def
      signal_scores.simps
    by (simp only: io_bind_Inr_iff io_ret_iff) blast
  show ?thesis unfolding c by (simp only: entity_signal_candidate.simps simp_thms) blast
qed

lemma entity_candidate_loop_rows:
  "entity_candidate_loop now days rs d = (Inr cs, d') \<Longrightarrow>
     list_all2 (\<lambda>r c. \<exists>d d'. entity_candidate now days r d = (Inr c, d')) rs cs"
proof (induction rs arbitrary: d cs)
  case (Cons r rs)
  then obtain c d1 cs' where "entity_candidate now days r d = (Inr c, d1)"
    "entity_candidate_loop now days rs d1 = (Inr cs', d')" "cs = c # cs'"
    by (auto simp: io_bind_Inr_iff)
  with Cons.IH show ?case by auto
qed simp

lemma list_all2_rightD: "list_all2 R xs ys \<Longrightarrow> y \<in> set ys \<Longrightarrow> \<exists>x \<in> set xs. R x y"
  by (induction rule: list_all2_induct) auto

lemma entity_rows_faults: "entity_rows avg co p limit (d\<lparr>db_faults := fs\<rparr>) = entity_rows avg co p limit d"
proof -
  have "db_articles (d\<lparr>db_faults := fs\<rparr>) = db_articles d" "db_mentions (d\<lparr>db_faults := fs\<rparr>) = db_mentions d"
    by simp_all
  then have "entity_row_of avg (d\<lparr>db_faults := fs\<rparr>) = entity_row_of avg d"
    by (intro ext) (simp only: entity_row_of_def mention_articles_def)
  then show ?thesis by (simp add: entity_rows_def)
qed

lemma entity_rows_props:
  assumes "r \<in> set (entity_rows avg co p limit d)"
  shows "p r \<and> 0 \<le> er_articles r \<and> 0 \<le> er_sources r \<and> (\<exists>xs. er_avg r = avg xs) \<and>
    (\<exists>e \<in> set (db_entities d). en_id e = er_id r \<and> en_name e = er_name r)"
proof -
  from assms have "r \<in> set (filter (\<lambda>r. 0 < er_articles r \<and> p r) (map (entity_row_of avg d co) (db_entities d)))"
    unfolding entity_rows_def by (auto dest: in_set_takeD)
  then obtain e where "e \<in> set (db_entities d)" "r = entity_row_of avg d co e" "p r" by auto
  then show ?thesis by (auto simp: entity_row_of_def Let_def)
qed

text \<open>What every candidate of the filtered function satisfies.\<close>

definition candidate_ok :: "int \<Rightarrow> nat \<Rightarrow> nat \<Rightarrow> db_entity list \<Rightarrow> entity_signal_candidate \<Rightarrow> bool" where
  "candidate_ok days min_articles min_sources es c \<longleftrightarrow>
     ec_type c \<noteq> ''unknown'' \<and> int min_articles \<le> ec_articles c \<and> int min_sources \<le> ec_sources c \<and>
     (\<exists>e \<in> set es. en_id e = ec_entity c \<and> en_name e = ec_name c) \<and> between 0 1 (ec_score c) \<and>
     (\<exists>hist. ec_score c = ss_score (compute_5_factor_score (ec_articles c) (ec_sources c) (ec_avg c) (ec_trend c)
         (fdiv binary64 (of_i64 binary64 (ec_articles c)) (of_i64 binary64 days)) hist days))"

lemma not_flt_between: "between 0 1 x \<Longrightarrow> between 0 1 y \<Longrightarrow> \<not> flt x y \<Longrightarrow> fle y x"
  by (auto simp: between_iff)

lemma candidates_sorted:
  assumes "\<forall>c \<in> set cs. between 0 1 (ec_score c)"
  shows "sorted_wrt (\<lambda>a b. fle (ec_score b) (ec_score a)) (sort_by by_score_desc cs)"
proof -
  have "sorted_wrt by_score_desc (sort_by by_score_desc cs)"
    by (rule sort_by_sorted_on [where A = "{c. between 0 1 (ec_score c)}"])
      (use assms in \<open>auto simp: by_score_desc_def between_iff\<close>)
  then show ?thesis
    by (rule sorted_wrt_mono_rel [rotated]) (use assms in \<open>simp add: by_score_desc_def not_flt_between\<close>)
qed

lemma filtered_candidates_Inr:
  assumes "d1_entity_signal_candidates_filtered avg now days limit a s d = (Inr cs, d')"
  obtains cs0 where "cs = sort_by by_score_desc cs0"
    "list_all2 (\<lambda>r c. \<exists>d d'. entity_candidate now days r d = (Inr c, d'))
      (entity_rows avg (now - days * 86400)
        (\<lambda>r. er_type r \<noteq> ''unknown'' \<and> int a \<le> er_articles r \<and> int s \<le> er_sources r) limit d) cs0"
proof -
  let ?rows = "entity_rows avg (now - days * 86400)
        (\<lambda>r. er_type r \<noteq> ''unknown'' \<and> int a \<le> er_articles r \<and> int s \<le> er_sources r) limit"
  from assms obtain rows d1 where "db_query ?rows d = (Inr rows, d1)"
    and rest: "(if rows = [] then io_ret [] else io_bind (entity_candidate_loop now days rows)
      (\<lambda>cs. io_ret (sort_by by_score_desc cs))) d1 = (Inr cs, d')"
    unfolding d1_entity_signal_candidates_filtered_def io_bind_Inr_iff by blast
  from db_query_Inr [OF this(1)] have rows: "rows = ?rows d" by (auto simp: entity_rows_faults)
  show thesis
  proof (cases "rows = []")
    case True
    with rest rows that [of "[]"] show ?thesis by simp
  next
    case False
    with rest obtain cs0 d2 where "entity_candidate_loop now days rows d1 = (Inr cs0, d2)" "cs = sort_by by_score_desc cs0"
      by (auto simp: io_bind_Inr_iff)
    with that entity_candidate_loop_rows rows show ?thesis by blast
  qed
qed

text \<open>
  The candidates the entity source reads are at most \<open>limit\<close>, in descending order of score, of stored
  entities of a known type with at least the required articles and sources; their score lies in
  [0, 1] and is the five-factor score of the scoring module, which this function spells out again.
\<close>

theorem filtered_candidates_ok:
  assumes "d1_entity_signal_candidates_filtered avg now days limit min_articles min_sources d = (Inr cs, d')"
    and "0 \<le> days" "\<And>xs. avg xs \<noteq> NaN"
  shows "length cs \<le> limit \<and> sorted_wrt (\<lambda>a b. fle (ec_score b) (ec_score a)) cs \<and>
    (\<forall>c \<in> set cs. candidate_ok days min_articles min_sources (db_entities d) c)"
proof -
  from filtered_candidates_Inr [OF assms(1)] obtain cs0 where cs: "cs = sort_by by_score_desc cs0"
    and rel: "list_all2 (\<lambda>r c. \<exists>d d'. entity_candidate now days r d = (Inr c, d'))
      (entity_rows avg (now - days * 86400)
        (\<lambda>r. er_type r \<noteq> ''unknown'' \<and> int min_articles \<le> er_articles r \<and> int min_sources \<le> er_sources r) limit d) cs0" .
  have good: "\<forall>c \<in> set cs0. candidate_ok days min_articles min_sources (db_entities d) c"
  proof
    fix c
    assume "c \<in> set cs0"
    from list_all2_rightD [OF rel this] obtain r d0 d1 where c: "entity_candidate now days r d0 = (Inr c, d1)"
      and r: "r \<in> set (entity_rows avg (now - days * 86400)
        (\<lambda>r. er_type r \<noteq> ''unknown'' \<and> int min_articles \<le> er_articles r \<and> int min_sources \<le> er_sources r) limit d)" by blast
    note row = entity_rows_props [OF r] and fields = entity_candidate_row [OF c]
    from row assms(3) have "er_avg r \<noteq> NaN" by metis
    with row fields five_factor_between [OF _ _ _ assms(2)] show "candidate_ok days min_articles min_sources (db_entities d) c"
      unfolding candidate_ok_def by metis
  qed
  have "length cs0 \<le> limit" using list_all2_lengthD [OF rel] by (simp add: entity_rows_def)
  with good cs candidates_sorted [of cs0] show ?thesis by (simp add: candidate_ok_def)
qed
definition busy_db :: signal_db where
  "busy_db = (sample_db [])\<lparr>
     db_entities := [\<lparr>en_id = 7, en_name = ''CUDA'', en_type = ''product''\<rparr>],
     db_mentions := [(1, 7), (2, 7), (3, 7)],
     db_articles := map (\<lambda>i. \<lparr>at_id = i, at_feed = i, at_title = ''t'', at_url = None, at_published = Some (900000 + i),
       at_vector = None, at_score = Fin 5, at_created = 900000\<rparr>) [1, 2, 3]\<rparr>"

theorem filtered_candidates_ok_witness:
  "\<exists>cs d'. d1_entity_signal_candidates_filtered (\<lambda>_. Fin 5) 1000000 7 50 3 2 busy_db = (Inr cs, d') \<and> length cs = 1 \<and>
     (\<forall>c \<in> set cs. candidate_ok 7 3 2 (db_entities busy_db) c)"
proof -
  obtain r d' where run: "d1_entity_signal_candidates_filtered (\<lambda>_. Fin 5) 1000000 7 50 3 2 busy_db = (r, d')" by fastforce
  have "case fst (d1_entity_signal_candidates_filtered (\<lambda>_. Fin 5) 1000000 7 50 3 2 busy_db) of
      Inl _ \<Rightarrow> False | Inr cs \<Rightarrow> length cs = 1" by code_simp
  with run obtain cs where "r = Inr cs" "length cs = 1" by (cases r) auto
  with run filtered_candidates_ok [of "\<lambda>_. Fin 5" 1000000 7 50 3 2 busy_db] show ?thesis by fastforce
qed

section \<open>What a run reports\<close>


















definition sample_candidate :: "string \<Rightarrow> signal_candidate" where
  "sample_candidate key = \<lparr>sc_key = key, sc_anchor = Some 7, sc_title = ''CUDA'', sc_status = ''active'', sc_method = Entity,
     sc_discovery_score = Some (Fin 1), sc_score = Fin 1, sc_trend = ''rising'', sc_articles = 3, sc_sources = 2,
     sc_avg = Fin 5, sc_evidence = [], sc_related = []\<rparr>"


section \<open>What the wiring does\<close>

text \<open>
  On a database without a column \<open>xmax\<close> (SQLite's rows have none) a run with any candidate fails at the
  first upsert: it writes no thread and no instance, logs nothing and does not reach the lifecycle.
\<close>

theorem run_without_xmax:
  assumes "gather_candidates srcs d = (c # cs, d1)"
  shows "signal_engine_run (d1_signal_persistence None) L srcs now (d, l) =
    (Inl (SigPersistence (store_error_str (D1 ''no such column: xmax''))), (d1, l))"
  using assms
  by (simp add: signal_engine_run_def io_bind_def persist_candidate_def d1_signal_persistence_def
      d1_upsert_signal_thread_def io_err_def io_map_err_def)

theorem run_without_xmax_witness:
  "signal_engine_run (d1_signal_persistence None) None [io_ret [sample_candidate ''entity:7'']] 5 (sample_db [], ()) =
    (Inl (SigPersistence (store_error_str (D1 ''no such column: xmax''))), (sample_db [], ()))"
  by (rule run_without_xmax [where c = "sample_candidate ''entity:7''" and cs = "[]"]) (simp add: io_ret_def)

lemma uf_find_new: "i < n \<Longrightarrow> uf_find i (uf_new n) = Some (i, uf_new n)"
  by (simp add: uf_find.simps uf_new_def)

lemma btree_push_new: "\<forall>k' \<in> fst ` set m. k' < k \<Longrightarrow> btree_push k v m = m @ [(k, [v])]"
  by (induction m) fastforce+

lemma collect_singletons:
  "j \<le> n \<Longrightarrow> collect_clusters [j..<n] (uf_new n) (map (\<lambda>i. (i, [i])) [0..<j]) = Some (map (\<lambda>i. (i, [i])) [0..<n])"
proof (induction "n - j" arbitrary: j)
  case (Suc k)
  then have j: "j < n" by simp
  have "btree_push j j (map (\<lambda>i. (i, [i])) [0..<j]) = map (\<lambda>i. (i, [i])) [0..<Suc j]"
    by (subst btree_push_new) auto
  with Suc.hyps(1) [of "Suc j"] Suc.hyps(2) j show ?case by (simp add: upt_conv_Cons uf_find_new)
qed simp

lemma no_edges_no_clusters: "cluster_by_similarity [] ids ms 3 = Some []"
proof -
  have "collect_clusters [0..<length ids] (uf_new (length ids)) [] = Some (map (\<lambda>i. (i, [i])) [0..<length ids])"
    using collect_singletons [of 0 "length ids"] by simp
  moreover have "length (uf_parent (uf_new n)) = n" for n by (simp add: uf_new_def)
  ultimately show ?thesis by (simp add: cluster_by_similarity_def uf_clusters_def comp_def)
qed

lemma article_id_not_a_number: "parse_i64 (''article-'' @ s) = None"
  by (simp add: parse_i64_def parse_unsigned_def digit_val_def)

lemma similarity_edges_none:
  assumes "\<And>v ms m. Q v 20 (lit64 0.75) = Inr ms \<Longrightarrow> m \<in> set ms \<Longrightarrow> \<exists>s. sa_vector m = ''article-'' @ s"
    and "similarity_edges Q as ([], []) = Inr st"
  shows "st = ([], [])"
proof -
  have "match_edges a ms ([], []) = ([], [])" if "\<forall>m \<in> set ms. \<exists>s. sa_vector m = ''article-'' @ s" for a ms
    using that by (induction ms) (auto simp: article_id_not_a_number simp del: append.simps)
  with assms show ?thesis by (induction "as") (auto split: sum.splits)
qed

text \<open>
  As long as the index holds the vectors this program stores, whose ids read \<open>article-<n>\<close>, semantic
  discovery never proposes a signal: no id parses as a number, so there is no edge and no cluster of three.
\<close>

theorem semantic_source_silent:
  assumes "\<And>v ms m. Q v 20 (lit64 0.75) = Inr ms \<Longrightarrow> m \<in> set ms \<Longrightarrow> \<exists>n. sa_vector m = ''article-'' @ show_i64 n"
    and "semantic_candidates hash Q arts = Inr cs"
  shows "cs = []"
proof (cases "similarity_edges Q arts ([], [])")
  case (Inl e)
  with assms(2) show ?thesis by (auto simp: semantic_candidates_def split: if_splits)
next
  case (Inr st)
  with similarity_edges_none [of Q arts st] assms(1) have "st = ([], [])" by blast
  with assms(2) Inr show ?thesis by (auto simp: semantic_candidates_def no_edges_no_clusters split: if_splits)
qed

definition sample_index :: semantic_query where
  "sample_index v k ms = Inr (map (\<lambda>n. \<lparr>sa_vector = ''article-'' @ show_i64 n, sa_score = Fin 1\<rparr>) [1, 2, 3])"

definition sample_articles :: "embedded_article list" where
  "sample_articles = map (\<lambda>n. \<lparr>em_article = n, em_vector = ''article-'' @ show_i64 n\<rparr>) [1, 2, 3]"

theorem semantic_source_silent_witness: "semantic_candidates (\<lambda>_. []) sample_index sample_articles = Inr []"
proof -
  have "is_ok (semantic_candidates (\<lambda>_. []) sample_index sample_articles)" by code_simp
  then obtain cs where cs: "semantic_candidates (\<lambda>_. []) sample_index sample_articles = Inr cs"
    by (cases "semantic_candidates (\<lambda>_. []) sample_index sample_articles") simp_all
  have "cs = []"
    by (rule semantic_source_silent [OF _ cs], auto simp: sample_index_def simp del: append.simps) (rule exI, rule refl)+
  with cs show ?thesis by simp
qed

text \<open>
  The checkpoint is stored whether or not the run succeeded, so a failed cycle is not tried again: until
  an article arrives, the next jobs find none newer than the checkpoint and leave the tables as they are.
\<close>

theorem failed_cycle_not_retried:
  assumes "run_signal_engine (d1_signal_persistence xmax) L srcs True now (Some None, d, l) = st"
    and "in_i64 now" "db_faults (fst (snd st)) = []"
    and "\<forall>a \<in> set (db_articles (fst (snd st))). at_created a \<le> now"
  shows "run_signal_engine P' L' srcs' put_ok later st = st"
proof -
  obtain r d1 l1 where run: "signal_engine_run (d1_signal_persistence xmax) L srcs now (d, l) = (r, (d1, l1))"
    by (metis prod.exhaust)
  with assms(1) have st: "st = (Some (Some (show_i64 now)), d1, l1)" by (auto simp: run_signal_engine_def)
  from assms(3,4) st have d1: "db_faults d1 = []" "filter (\<lambda>a. now < at_created a) (db_articles d1) = []"
    by (auto simp: filter_empty_conv)
  have trim: "trim (show_i64 now) = show_i64 now" by (rule trim_show_i64)
  have "parse_i64 (trim (show_i64 now)) = Some now" using assms(2) by (simp add: trim check_i64_def)
  with d1 show ?thesis unfolding st by (simp add: run_signal_engine_def new_articles_def db_query_up)
qed

theorem failed_cycle_not_retried_witness:
  "let st = run_signal_engine (d1_signal_persistence None) None [io_ret [sample_candidate ''entity:7'']] True 100
      (Some None, sample_db [], ())
   in run_signal_engine (d1_signal_persistence None) None [] True 200 st = st"
proof -
  let ?st = "run_signal_engine (d1_signal_persistence None) None [io_ret [sample_candidate ''entity:7'']] True 100
      (Some None, sample_db [], ())"
  have "db_faults (fst (snd ?st)) = []" "db_articles (fst (snd ?st)) = []" by code_simp+
  then show ?thesis unfolding Let_def by (intro failed_cycle_not_retried [OF refl]) (simp_all add: in_i64_def i64_min_def i64_max_def)
qed

end
