(* ===== verification/FeedTables.thy ===== *)
theory FeedTables
  imports Prelude StoreModels
begin

text \<open>
  The feed and article tables of the D1 store (\<open>store/src/d1/feed.rs\<close>, \<open>article.rs\<close>, \<open>feed_analytics.rs\<close>,
  \<open>feed_rules.rs\<close>, \<open>entity/crud.rs\<close>, \<open>artifact.rs\<close>), statement by statement.  \<open>fdb_faults\<close> is the schedule
  of statement failures, and a failed statement changes nothing; a broken foreign key, which D1
  enforces, fails the statement too.  \<open>fdb_clock\<close> is the worker's clock in seconds.  Rows keep the
  order of insertion, and \<open>ORDER BY\<close> keeps rows that tie in that order.  Ids and times are integers:
  the bindings go through \<open>f64\<close>, which is exact up to \<open>2 ^ 53\<close>.
\<close>

section \<open>Rows\<close>

record article_row =
  ar_id :: int
  ar_feed :: int
  ar_guid :: string
  ar_title :: string
  ar_url :: "string option"
  ar_published :: "int option"
  ar_r2_key :: "string option"
  ar_summary :: string
  ar_tags :: "string option"
  ar_vector :: "string option"
  ar_score :: f64
  ar_created :: int

record article_link =
  al_article :: int
  al_entity :: int
  al_relevance :: f64
  al_context :: "string option"
  al_created :: int

record relation_row =
  rl_id :: int
  rl_source :: int
  rl_target :: int
  rl_type :: string
  rl_confidence :: f64
  rl_first_seen :: int
  rl_last_seen :: int

record filter_rule =
  fr_json :: string
  fr_audience :: string
  fr_enabled :: bool

record backfill_article =
  ba_id :: int
  ba_title :: string
  ba_score :: f64
  ba_r2_key :: "string option"
  ba_vector :: "string option"

record feed_db =
  fdb_feeds :: "feed list"
  fdb_articles :: "article_row list"
  fdb_entities :: "entity_internal list"
  fdb_next_entity :: int
  fdb_links :: "article_link list"
  fdb_relations :: "relation_row list"
  fdb_next_relation :: int
  fdb_artifacts :: "artifact_data list"
  fdb_next_artifact :: int
  fdb_rules :: "filter_rule list"
  fdb_clock :: int
  fdb_faults :: "bool list"

type_synonym 'a fdb_io = "(feed_db, store_error, 'a) io"

definition fdb_statement :: "'a fdb_io \<Rightarrow> 'a fdb_io" where
  "fdb_statement f d =
     (case fdb_faults d of
        True # fs \<Rightarrow> (Inl (D1 ''statement failed''), d\<lparr>fdb_faults := fs\<rparr>)
      | False # fs \<Rightarrow> f (d\<lparr>fdb_faults := fs\<rparr>)
      | [] \<Rightarrow> f d)"

definition fdb_query :: "(feed_db \<Rightarrow> 'a) \<Rightarrow> 'a fdb_io" where
  "fdb_query f = fdb_statement (\<lambda>d. (Inr (f d), d))"

definition fk_error :: store_error where
  "fk_error = D1 ''FOREIGN KEY constraint failed''"

text \<open>An \<open>INTEGER PRIMARY KEY\<close> without \<open>AUTOINCREMENT\<close>: one more than the largest id in the table.\<close>

definition next_rowid :: "int list \<Rightarrow> int" where
  "next_rowid ids = fold max ids 0 + 1"

section \<open>Feeds\<close>

definition feed_due :: "int \<Rightarrow> feed \<Rightarrow> bool" where
  "feed_due now f \<longleftrightarrow> f_status f = ''active'' \<and>
     (case f_last_fetched_at f of None \<Rightarrow> True | Some t \<Rightarrow> f_fetch_interval_sec f \<le> now - t)"

definition fdb_feeds_due :: "int \<Rightarrow> string option \<Rightarrow> feed list fdb_io" where
  "fdb_feeds_due now category = fdb_query (\<lambda>d.
     filter (\<lambda>f. feed_due now f \<and> (case category of None \<Rightarrow> True | Some c \<Rightarrow> f_category f = Some c)) (fdb_feeds d))"

definition fdb_get_feed :: "int \<Rightarrow> feed option fdb_io" where
  "fdb_get_feed i = fdb_query (\<lambda>d. List.find (\<lambda>f. f_id f = i) (fdb_feeds d))"

definition fdb_insert_feed :: "string \<Rightarrow> string \<Rightarrow> string \<Rightarrow> int \<Rightarrow> int option fdb_io" where
  "fdb_insert_feed url title category interval = fdb_statement (\<lambda>d.
     if list_ex (\<lambda>f. f_url f = url) (fdb_feeds d) then (Inr None, d)
     else (let i = next_rowid (map f_id (fdb_feeds d)) in
       (Inr (Some i), d\<lparr>fdb_feeds := fdb_feeds d @
          [\<lparr>f_id = i, f_url = url, f_title = Some title, f_category = Some category, f_fetch_interval_sec = interval,
            f_last_fetched_at = None, f_etag = None, f_last_modified = None, f_status = ''active'',
            f_extraction_level = ''summary_only''\<rparr>]\<rparr>)))"

definition map_feeds :: "(feed \<Rightarrow> bool) \<Rightarrow> (feed \<Rightarrow> feed) \<Rightarrow> unit fdb_io" where
  "map_feeds p g = fdb_statement (\<lambda>d. (Inr (), d\<lparr>fdb_feeds := map (\<lambda>f. if p f then g f else f) (fdb_feeds d)\<rparr>))"

definition or_else :: "'a option \<Rightarrow> 'a option \<Rightarrow> 'a option" where
  "or_else x y = (case x of Some a \<Rightarrow> Some a | None \<Rightarrow> y)"

definition fdb_update_feed ::
  "int \<Rightarrow> string option \<Rightarrow> string option \<Rightarrow> int option \<Rightarrow> string option \<Rightarrow> unit fdb_io" where
  "fdb_update_feed i title category interval level =
     (if title = None \<and> category = None \<and> interval = None \<and> level = None then io_ret ()
      else map_feeds (\<lambda>f. f_id f = i) (\<lambda>f. f\<lparr>f_title := or_else title (f_title f),
        f_category := or_else category (f_category f),
        f_fetch_interval_sec := (case interval of Some v \<Rightarrow> v | None \<Rightarrow> f_fetch_interval_sec f),
        f_extraction_level := (case level of Some v \<Rightarrow> v | None \<Rightarrow> f_extraction_level f)\<rparr>))"

definition fdb_set_feed_status :: "int \<Rightarrow> string \<Rightarrow> unit fdb_io" where
  "fdb_set_feed_status i status = map_feeds (\<lambda>f. f_id f = i) (\<lambda>f. f\<lparr>f_status := status\<rparr>)"

text \<open>\<open>COALESCE(?2, etag)\<close>: a missing validator keeps the stored one.\<close>

definition fetched_at :: "int \<Rightarrow> string option \<Rightarrow> string option \<Rightarrow> feed \<Rightarrow> feed" where
  "fetched_at t etag last_modified f = f\<lparr>f_last_fetched_at := Some t, f_etag := or_else etag (f_etag f),
     f_last_modified := or_else last_modified (f_last_modified f)\<rparr>"

definition fdb_record_fetch :: "int \<Rightarrow> int \<Rightarrow> string option \<Rightarrow> string option \<Rightarrow> unit fdb_io" where
  "fdb_record_fetch i t etag last_modified = map_feeds (\<lambda>f. f_id f = i) (fetched_at t etag last_modified)"

section \<open>Articles\<close>

definition fdb_guids_for_feed :: "int \<Rightarrow> string list fdb_io" where
  "fdb_guids_for_feed i = fdb_query (\<lambda>d. map ar_guid (filter (\<lambda>a. ar_feed a = i) (fdb_articles d)))"

definition article_of :: "int \<Rightarrow> int \<Rightarrow> new_article \<Rightarrow> article_row" where
  "article_of i clock n = \<lparr>ar_id = i, ar_feed = na_feed_id n, ar_guid = na_guid n, ar_title = na_title n, ar_url = na_url n,
     ar_published = na_published_at n, ar_r2_key = na_raw_content_r2_key n, ar_summary = [], ar_tags = None,
     ar_vector = None, ar_score = Fin 0, ar_created = clock\<rparr>"

text \<open>\<open>INSERT OR IGNORE\<close> with \<open>UNIQUE(feed_id, guid)\<close> and a foreign key to the feed.\<close>

definition fdb_insert_article :: "new_article \<Rightarrow> int option fdb_io" where
  "fdb_insert_article n = fdb_statement (\<lambda>d.
     if list_ex (\<lambda>a. ar_feed a = na_feed_id n \<and> ar_guid a = na_guid n) (fdb_articles d) then (Inr None, d)
     else if \<not> list_ex (\<lambda>f. f_id f = na_feed_id n) (fdb_feeds d) then (Inl fk_error, d)
     else (let i = next_rowid (map ar_id (fdb_articles d)) in
       (Inr (Some i), d\<lparr>fdb_articles := fdb_articles d @ [article_of i (fdb_clock d) n]\<rparr>)))"

definition map_articles :: "int \<Rightarrow> (article_row \<Rightarrow> article_row) \<Rightarrow> unit fdb_io" where
  "map_articles i g = fdb_statement (\<lambda>d.
     (Inr (), d\<lparr>fdb_articles := map (\<lambda>a. if ar_id a = i then g a else a) (fdb_articles d)\<rparr>))"

definition fdb_set_ai_summary :: "int \<Rightarrow> string \<Rightarrow> string \<Rightarrow> string \<Rightarrow> f64 \<Rightarrow> unit fdb_io" where
  "fdb_set_ai_summary i summary tags vector score = map_articles i (\<lambda>a.
     a\<lparr>ar_summary := summary, ar_tags := Some tags, ar_vector := Some vector, ar_score := score\<rparr>)"

definition fdb_set_r2_key :: "int \<Rightarrow> string option \<Rightarrow> unit fdb_io" where
  "fdb_set_r2_key i key = map_articles i (\<lambda>a. a\<lparr>ar_r2_key := key\<rparr>)"

definition fdb_raw_content_key :: "int \<Rightarrow> string option fdb_io" where
  "fdb_raw_content_key i = fdb_query (\<lambda>d.
     case List.find (\<lambda>a. ar_id a = i) (fdb_articles d) of Some a \<Rightarrow> ar_r2_key a | None \<Rightarrow> None)"

definition backfill_of :: "article_row \<Rightarrow> backfill_article" where
  "backfill_of a = \<lparr>ba_id = ar_id a, ba_title = ar_title a, ba_score = ar_score a, ba_r2_key = ar_r2_key a,
     ba_vector = ar_vector a\<rparr>"

definition backfill_rows :: "int \<Rightarrow> nat \<Rightarrow> feed_db \<Rightarrow> article_row list" where
  "backfill_rows cursor limit d =
     take limit (sort_key ar_id (filter (\<lambda>a. cursor < ar_id a \<and> ar_summary a = []) (fdb_articles d)))"

definition fdb_backfill_candidates :: "int \<Rightarrow> nat \<Rightarrow> backfill_article list fdb_io" where
  "fdb_backfill_candidates cursor limit = fdb_query (\<lambda>d. map backfill_of (backfill_rows cursor limit d))"

definition fdb_article_count :: "int fdb_io" where
  "fdb_article_count = fdb_query (\<lambda>d. int (length (fdb_articles d)))"

definition fdb_trending_count :: "int fdb_io" where
  "fdb_trending_count = fdb_query (\<lambda>d. int (length (filter (\<lambda>a. ar_score a \<noteq> Fin 0) (fdb_articles d))))"

definition fdb_article_by_id :: "int \<Rightarrow> article_row option fdb_io" where
  "fdb_article_by_id i = fdb_query (\<lambda>d. List.find (\<lambda>a. ar_id a = i) (fdb_articles d))"

definition fdb_articles_by_ids :: "int list \<Rightarrow> article_row list fdb_io" where
  "fdb_articles_by_ids ids =
     (if ids = [] then io_ret [] else fdb_query (\<lambda>d. filter (\<lambda>a. ar_id a \<in> set ids) (fdb_articles d)))"

section \<open>Expiry\<close>

definition article_expired :: "int \<Rightarrow> article_row \<Rightarrow> bool" where
  "article_expired cutoff a \<longleftrightarrow> (case ar_published a of Some p \<Rightarrow> p < cutoff | None \<Rightarrow> False) \<and> ar_summary a \<noteq> []"

definition fdb_expired_r2_keys :: "int \<Rightarrow> int \<Rightarrow> string list fdb_io" where
  "fdb_expired_r2_keys now days = fdb_query (\<lambda>d.
     List.map_filter ar_r2_key (filter (article_expired (now - days * 86400)) (fdb_articles d)))"

text \<open>The links of a deleted article go with it (\<open>ON DELETE CASCADE\<close>).\<close>

definition fdb_expire_articles :: "int \<Rightarrow> int \<Rightarrow> nat fdb_io" where
  "fdb_expire_articles now days = fdb_statement (\<lambda>d.
     let old = filter (article_expired (now - days * 86400)) (fdb_articles d) in
     (Inr (length old),
      d\<lparr>fdb_articles := filter (\<lambda>a. \<not> article_expired (now - days * 86400) a) (fdb_articles d),
        fdb_links := filter (\<lambda>l. al_article l \<notin> set (map ar_id old)) (fdb_links d)\<rparr>))"

section \<open>Entities, artifacts, rules\<close>

definition refresh_entity :: "string \<Rightarrow> int \<Rightarrow> entity_internal \<Rightarrow> entity_internal" where
  "refresh_entity entity_type now e = e\<lparr>e_entity_type := entity_type,
     e_updated_at := (if 86400 < now - e_updated_at e then now else e_updated_at e)\<rparr>"

definition fdb_upsert_entity :: "string \<Rightarrow> string \<Rightarrow> string \<Rightarrow> int fdb_io" where
  "fdb_upsert_entity name normalized entity_type = fdb_statement (\<lambda>d.
     case List.find (\<lambda>e. e_normalized_name e = normalized) (fdb_entities d) of
       Some e \<Rightarrow> (Inr (e_id e), d\<lparr>fdb_entities :=
         update_first (\<lambda>e. e_normalized_name e = normalized) (refresh_entity entity_type (fdb_clock d)) (fdb_entities d)\<rparr>)
     | None \<Rightarrow> (Inr (fdb_next_entity d), d\<lparr>fdb_next_entity := fdb_next_entity d + 1,
         fdb_entities := fdb_entities d @
           [\<lparr>e_id = fdb_next_entity d, e_name = name, e_normalized_name = normalized, e_entity_type = entity_type,
             e_canonical_id = None, e_description = None, e_metadata = None,
             e_created_at = fdb_clock d, e_updated_at = fdb_clock d\<rparr>]\<rparr>))"

definition fdb_link_article_entity :: "int \<Rightarrow> int \<Rightarrow> f64 \<Rightarrow> string option \<Rightarrow> unit fdb_io" where
  "fdb_link_article_entity article entity relevance ctxt = fdb_statement (\<lambda>d.
     if list_ex (\<lambda>l. al_article l = article \<and> al_entity l = entity) (fdb_links d) then (Inr (), d)
     else if \<not> list_ex (\<lambda>a. ar_id a = article) (fdb_articles d) \<or> \<not> list_ex (\<lambda>e. e_id e = entity) (fdb_entities d)
     then (Inl fk_error, d)
     else (Inr (), d\<lparr>fdb_links := fdb_links d @
       [\<lparr>al_article = article, al_entity = entity, al_relevance = relevance, al_context = ctxt,
         al_created = fdb_clock d\<rparr>]\<rparr>))"

definition fdb_link_relation :: "int \<Rightarrow> int \<Rightarrow> string \<Rightarrow> f64 \<Rightarrow> unit fdb_io" where
  "fdb_link_relation source target rtype confidence = fdb_statement (\<lambda>d.
     if list_ex (\<lambda>r. rl_source r = source \<and> rl_target r = target \<and> rl_type r = rtype) (fdb_relations d) then (Inr (), d)
     else if \<not> list_ex (\<lambda>e. e_id e = source) (fdb_entities d) \<or> \<not> list_ex (\<lambda>e. e_id e = target) (fdb_entities d)
     then (Inl fk_error, d)
     else (Inr (), d\<lparr>fdb_next_relation := fdb_next_relation d + 1, fdb_relations := fdb_relations d @
       [\<lparr>rl_id = fdb_next_relation d, rl_source = source, rl_target = target, rl_type = rtype,
         rl_confidence = confidence, rl_first_seen = fdb_clock d, rl_last_seen = fdb_clock d\<rparr>]\<rparr>))"

definition fdb_create_artifact :: "new_artifact \<Rightarrow> int fdb_io" where
  "fdb_create_artifact n = fdb_statement (\<lambda>d.
     (Inr (fdb_next_artifact d), d\<lparr>fdb_next_artifact := fdb_next_artifact d + 1, fdb_artifacts := fdb_artifacts d @
       [\<lparr>a_id = fdb_next_artifact d, a_artifact_type = nar_artifact_type n, a_entity_id = nar_entity_id n,
         a_r2_key = nar_r2_key n, a_schema_version = nar_schema_version n, a_model = nar_model n,
         a_pipeline_version = nar_pipeline_version n, a_metadata = nar_metadata n, a_created_at = fdb_clock d\<rparr>]\<rparr>))"

definition fdb_active_rule_jsons :: "string \<Rightarrow> string list fdb_io" where
  "fdb_active_rule_jsons audience = fdb_query (\<lambda>d.
     map fr_json (filter (\<lambda>r. fr_audience r = audience \<and> fr_enabled r) (fdb_rules d)))"

end
