(* ===== verification/Content.thy ===== *)
theory Content
  imports RustText Floats StoreModels "HOL-Library.List_Lexorder" "HOL-Library.Char_ord"
begin

text \<open>
  What ingestion does to text: the rules engine (\<open>rules/src/lib.rs\<close>), the tag normaliser
  (\<open>ai-pipeline/src/tag_normalizer.rs\<close>), the entity canonicaliser and classifier (\<open>entity/src\<close>), the text
  that is embedded (\<open>embedding/src/lib.rs\<close>) and the content policy (\<open>content-governance/src/lib.rs\<close>).

  The Unicode tables behind \<open>to_lowercase\<close>, \<open>trim\<close>, \<open>is_alphanumeric\<close> and \<open>is_uppercase\<close> are a record of
  functions on UTF-8 strings; \<open>ascii\<close> is what they do on ASCII text.
\<close>

section \<open>Unicode\<close>

record unicode =
  uc_lower :: "string \<Rightarrow> string"
  uc_trim :: "string \<Rightarrow> string"
  uc_alnum :: "string \<Rightarrow> string"   \<comment> \<open>keeps the alphanumeric characters\<close>
  uc_upper :: "string \<Rightarrow> bool"      \<comment> \<open>every character is upper case or an ASCII digit\<close>

definition ascii_lower_char :: "char \<Rightarrow> char" where
  "ascii_lower_char c = (let n = of_char c :: nat in if 65 \<le> n \<and> n \<le> 90 then char_of (n + 32) else c)"

definition ascii_upper_char :: "char \<Rightarrow> bool" where
  "ascii_upper_char c \<longleftrightarrow> (let n = of_char c :: nat in 65 \<le> n \<and> n \<le> 90)"

definition ascii_digit :: "char \<Rightarrow> bool" where
  "ascii_digit c \<longleftrightarrow> (let n = of_char c :: nat in 48 \<le> n \<and> n \<le> 57)"

definition ascii_alnum_char :: "char \<Rightarrow> bool" where
  "ascii_alnum_char c \<longleftrightarrow> ascii_digit c \<or> ascii_upper_char c \<or> (let n = of_char c :: nat in 97 \<le> n \<and> n \<le> 122)"

definition ascii_lower :: "string \<Rightarrow> string" where
  "ascii_lower = map ascii_lower_char"

definition ascii :: unicode where
  "ascii = \<lparr>uc_lower = ascii_lower, uc_trim = trim, uc_alnum = filter ascii_alnum_char,
     uc_upper = list_all (\<lambda>c. ascii_upper_char c \<or> ascii_digit c)\<rparr>"

section \<open>Rules\<close>

datatype rule_field = Title | Summary

datatype condition =
  KeywordIncludes rule_field string
| KeywordExcludes rule_field string
| SourceIn "string list"
| All_of "condition list"
| Any_of "condition list"

record rule =
  ru_name :: string
  ru_audience_tag :: string
  ru_condition :: condition
  ru_score_delta :: f64

record article_input =
  ai_title :: string
  ai_summary :: string
  ai_feed_url :: string

definition field_text :: "rule_field \<Rightarrow> article_input \<Rightarrow> string" where
  "field_text f a = (case f of Title \<Rightarrow> ai_title a | Summary \<Rightarrow> ai_summary a)"

fun str_contains :: "string \<Rightarrow> string \<Rightarrow> bool" where
  "str_contains [] p = (p = [])"
| "str_contains (c # cs) p = (starts_with p (c # cs) \<or> str_contains cs p)"

fun eval_condition :: "unicode \<Rightarrow> condition \<Rightarrow> article_input \<Rightarrow> bool" where
  "eval_condition U (KeywordIncludes f k) a = str_contains (uc_lower U (field_text f a)) (uc_lower U k)"
| "eval_condition U (KeywordExcludes f k) a = (\<not> str_contains (uc_lower U (field_text f a)) (uc_lower U k))"
| "eval_condition U (SourceIn urls) a = list_ex (\<lambda>u. u = ai_feed_url a) urls"
| "eval_condition U (All_of cs) a = list_all (\<lambda>c. eval_condition U c a) cs"
| "eval_condition U (Any_of cs) a = list_ex (\<lambda>c. eval_condition U c a) cs"

definition rules_score :: "unicode \<Rightarrow> article_input \<Rightarrow> rule list \<Rightarrow> string \<Rightarrow> f64" where
  "rules_score U a rules audience =
     fsum binary64 (map ru_score_delta (filter (\<lambda>r. eval_condition U (ru_condition r) a)
       (filter (\<lambda>r. ru_audience_tag r = audience) rules)))"

section \<open>Tags\<close>

definition tag_canonical_map :: "(string \<times> string) list" where
  "tag_canonical_map =
     [
      (''rce'', ''Remote Code Execution''), (''llm'', ''Large Language Models''),
      (''xss'', ''Cross-Site Scripting''), (''idp'', ''Identity Providers''),
      (''cyber security'', ''Cybersecurity''), (''cybersecurity'', ''Cybersecurity''),
      (''malware'', ''Malware''), (''ransomware'', ''Ransomware''), (''phishing'', ''Phishing''),
      (''botnet'', ''Botnet''), (''zeroday'', ''Zero-Day Vulnerabilities''),
      (''zero-day'', ''Zero-Day Vulnerabilities''), (''zero day'', ''Zero-Day Vulnerabilities''),
      (''zero-day exploits'', ''Zero-Day Vulnerabilities''), (''github'', ''GitHub''),
      (''kubernetes'', ''Kubernetes''), (''docker'', ''Docker''), (''openai'', ''OpenAI''),
      (''microsoft 365'', ''Microsoft 365''), (''ai security'', ''AI Security''),
      (''ai safety'', ''AI Safety''), (''ai governance'', ''AI Governance''),
      (''network security'', ''Network Security''), (''cloud security'', ''Cloud Security''),
      (''cloud computing'', ''Cloud Computing''), (''machine learning'', ''Machine Learning''),
      (''supply chain'', ''Supply Chain''), (''identity security'', ''Identity Security'')]"

definition canonicalize_tag :: "unicode \<Rightarrow> string \<Rightarrow> string" where
  "canonicalize_tag U tag =
     (case List.find (\<lambda>kv. uc_lower U (uc_trim U tag) = fst kv) tag_canonical_map of
        Some kv \<Rightarrow> snd kv
      | None \<Rightarrow> uc_trim U tag)"

text \<open>\<open>sort_unstable\<close> orders by bytes; \<open>dedup\<close> drops equal neighbours.\<close>

definition normalize_tags :: "unicode \<Rightarrow> string list \<Rightarrow> string list" where
  "normalize_tags U tags =
     remdups_adj (sort (map (canonicalize_tag U) (filter (\<lambda>t. t \<noteq> []) (map (uc_trim U) tags))))"

section \<open>Entities\<close>

definition normalize_name :: "unicode \<Rightarrow> string \<Rightarrow> string" where
  "normalize_name U name = uc_alnum U (uc_lower U name)"

definition canonical_map :: "(string \<times> string) list" where
  "canonical_map =
     [
      (''openai'', ''OpenAI''), (''anthropicai'', ''Anthropic''), (''googledeepmind'', ''DeepMind''),
      (''metaai'', ''Meta''), (''nvidia'', ''NVIDIA''), (''nvidiacorp'', ''NVIDIA''),
      (''nvidiacorporation'', ''NVIDIA''), (''amd'', ''AMD''), (''advancedmicrodevices'', ''AMD''),
      (''google'', ''Google''), (''googleai'', ''Google''), (''meta'', ''Meta''), (''facebook'', ''Meta''),
      (''microsoft'', ''Microsoft''), (''msft'', ''Microsoft''), (''apple'', ''Apple''),
      (''appleinc'', ''Apple''), (''amazon'', ''Amazon''), (''amazonwebservices'', ''AWS''),
      (''aws'', ''AWS''), (''googlecloud'', ''GCP''), (''microsoftazure'', ''Azure''), (''gpt5'', ''GPT-5''),
      (''gpt4'', ''GPT-4''), (''gpt4o'', ''GPT-4o''), (''pytorch'', ''PyTorch''),
      (''tensorflow'', ''TensorFlow''), (''llama'', ''Llama''), (''kubernetes'', ''Kubernetes''),
      (''k8s'', ''Kubernetes''), (''gcp'', ''GCP''), (''azure'', ''Azure''), (''rce'', ''RCE''),
      (''remotecodeexecution'', ''RCE''), (''remotecodeexecutionrce'', ''RCE'')]"

text \<open>A later \<open>insert\<close> of the map replaces an earlier one.\<close>

definition canonicalize :: "unicode \<Rightarrow> string \<Rightarrow> string" where
  "canonicalize U raw =
     (case map_of (rev canonical_map) (normalize_name U raw) of Some v \<Rightarrow> v | None \<Rightarrow> uc_trim U raw)"

definition known_organizations :: "string list" where
  "known_organizations =
     [
      ''OpenAI'', ''Google'', ''Microsoft'', ''Apple'', ''Meta'', ''Amazon'', ''TSMC'', ''NVIDIA'', ''AMD'',
      ''Intel'', ''IBM'', ''Tesla'', ''SpaceX'', ''ByteDance'', ''Tencent'', ''Alibaba'', ''DeepMind'',
      ''Anthropic'', ''Hugging Face'', ''Mistral AI'', ''Cohere'', ''Stability AI'', ''Midjourney'',
      ''Cloudflare'', ''Netflix'', ''Spotify'', ''Uber'', ''Airbnb'', ''Stripe'', ''Salesforce'', ''Oracle'',
      ''SAP'', ''Samsung'', ''Sony'', ''Qualcomm'', ''ARM'', ''ASML'']"

definition known_products :: "string list" where
  "known_products =
     [
      ''GPT-5'', ''GPT-4'', ''GPT-4o'', ''Claude'', ''Gemini'', ''Gemma'', ''Llama'', ''Mistral'',
      ''Kubernetes'', ''Docker'', ''PyTorch'', ''TensorFlow'', ''JAX'', ''CUDA'', ''ROCm'', ''WebGPU'',
      ''WebAssembly'', ''Rust'', ''Python'', ''TypeScript'', ''React'', ''Next.js'', ''Astro'', ''Redis'',
      ''PostgreSQL'', ''SQLite'', ''Kafka'', ''Spark'', ''Flink'', ''Ray'', ''vLLM'', ''Triton'',
      ''LangChain'', ''AutoGPT'', ''iPhone'', ''Android'', ''Windows'', ''Linux'', ''macOS'', ''AWS'', ''GCP'',
      ''Azure'']"

definition company_suffixes :: "string list" where
  "company_suffixes = [''Inc'', ''Corp'', ''LLC'', ''Ltd'', ''GmbH'', ''Co'', ''Corporation'', ''Incorporated'']"

definition eq_ignore_case :: "unicode \<Rightarrow> string \<Rightarrow> string \<Rightarrow> bool" where
  "eq_ignore_case U a b \<longleftrightarrow> uc_lower U a = uc_lower U b"

definition classify :: "unicode \<Rightarrow> string \<Rightarrow> string" where
  "classify U name =
     (let t = uc_trim U name in
      if t = [] then ''unknown''
      else if starts_with ''CVE-'' t then ''vulnerability''
      else if list_ex (eq_ignore_case U t) known_organizations then ''organization''
      else if list_ex (eq_ignore_case U t) known_products then ''product''
      else if list_ex (\<lambda>suf. ends_with suf t) company_suffixes then ''organization''
      else if 3 \<le> length t \<and> length t \<le> 8 \<and> uc_upper U t then ''product''
      else ''unknown'')"

definition build_embedding_text :: "string \<Rightarrow> string \<Rightarrow> string list \<Rightarrow> string option \<Rightarrow> string" where
  "build_embedding_text title summary tags feed_name =
     (let nl = [CHR 0x0A];
          tags_str = (if tags = [] then [] else nl @ ''Topics:'' @ nl @ join '', '' tags);
          source = (case feed_name of None \<Rightarrow> [] | Some n \<Rightarrow> nl @ ''Source:'' @ nl @ n)
      in ''Title:'' @ nl @ title @ nl @ nl @ ''Summary:'' @ nl @ summary @ tags_str @ source)"

section \<open>Content policy\<close>

datatype storage_permission = StorageDenied | StorageAllowed
datatype serving_permission = ServingDenied | ServingAllowed
datatype embedding_permission = EmbeddingDenied | EmbeddingLimited | EmbeddingAllowed
datatype ai_summary_permission = TitleOnly | AiAllowed

record policy_decision =
  pd_storage :: storage_permission
  pd_serving :: serving_permission
  pd_embedding :: embedding_permission
  pd_ai_summary :: ai_summary_permission
  pd_retention_days :: int
  pd_attribution_required :: bool
  pd_reason :: string

definition retention_or :: "int option \<Rightarrow> int \<Rightarrow> int" where
  "retention_or r dflt = (case r of Some d \<Rightarrow> as_u32 d | None \<Rightarrow> dflt)"

definition evaluate_policy :: "source_row \<Rightarrow> policy_decision" where
  "evaluate_policy s =
     (if s_policy s = ''MetadataOnly'' then
        \<lparr>pd_storage = StorageDenied, pd_serving = ServingDenied, pd_embedding = EmbeddingDenied,
         pd_ai_summary = TitleOnly, pd_retention_days = retention_or (s_retention_days s) 7,
         pd_attribution_required = True, pd_reason = ''Source policy: metadata only''\<rparr>
      else if s_policy s = ''SummaryAllowed'' then
        \<lparr>pd_storage = StorageDenied, pd_serving = ServingDenied, pd_embedding = EmbeddingLimited,
         pd_ai_summary = AiAllowed, pd_retention_days = retention_or (s_retention_days s) 30,
         pd_attribution_required = True, pd_reason = ''Source policy: summary allowed, no full-text''\<rparr>
      else if s_policy s = ''FullTextAllowed'' then
        \<lparr>pd_storage = StorageAllowed, pd_serving = ServingAllowed, pd_embedding = EmbeddingAllowed,
         pd_ai_summary = AiAllowed, pd_retention_days = retention_or (s_retention_days s) 30,
         pd_attribution_required = (s_tier s \<noteq> ''Tier0''), pd_reason = ''Source policy: full text allowed''\<rparr>
      else if s_policy s = ''UserOwned'' then
        \<lparr>pd_storage = StorageAllowed, pd_serving = ServingAllowed, pd_embedding = EmbeddingAllowed,
         pd_ai_summary = AiAllowed, pd_retention_days = retention_or (s_retention_days s) 90,
         pd_attribution_required = True, pd_reason = ''User-owned content''\<rparr>
      else
        \<lparr>pd_storage = StorageDenied, pd_serving = ServingDenied, pd_embedding = EmbeddingDenied,
         pd_ai_summary = TitleOnly, pd_retention_days = 7,
         pd_attribution_required = True, pd_reason = ''Unknown policy: '' @ s_policy s\<rparr>)"

definition can_extract :: "source_row \<Rightarrow> bool" where
  "can_extract s \<longleftrightarrow> s_policy s = ''FullTextAllowed'' \<or> s_policy s = ''UserOwned''"

section \<open>Normalised tags\<close>

text \<open>What the Unicode functions do on ASCII text, and trimming twice is trimming once.\<close>

definition unicode_ok :: "unicode \<Rightarrow> bool" where
  "unicode_ok U \<longleftrightarrow> (\<forall>s. uc_trim U (uc_trim U s) = uc_trim U s) \<and>
     (\<forall>s. list_all (\<lambda>c. of_char c < (128 :: nat)) s \<longrightarrow> uc_lower U s = ascii_lower s \<and> uc_trim U s = trim s)"

lemma strict_sorted_dedup: "sorted xs \<Longrightarrow> sorted_wrt (<) (remdups_adj xs)" for xs :: "string list"
  by (induction xs rule: remdups_adj.induct) (auto simp: order.strict_iff_order)

lemma canonical_values:
  "list_all (\<lambda>(k, v). list_all (\<lambda>c. of_char c < (128 :: nat)) v \<and> trim v = v \<and> v \<noteq> [] \<and>
     (case List.find (\<lambda>kv. ascii_lower v = fst kv) tag_canonical_map of None \<Rightarrow> True | Some kv \<Rightarrow> snd kv = v))
   tag_canonical_map"
  by code_simp

lemma canonicalize_tag_fixed:
  assumes "unicode_ok U" "uc_trim U t \<noteq> []"
  shows "canonicalize_tag U (canonicalize_tag U t) = canonicalize_tag U t \<and> uc_trim U (canonicalize_tag U t) = canonicalize_tag U t \<and>
    canonicalize_tag U t \<noteq> []"
proof (cases "List.find (\<lambda>kv. uc_lower U (uc_trim U t) = fst kv) tag_canonical_map")
  case None
  with assms show ?thesis by (simp add: canonicalize_tag_def unicode_ok_def)
next
  case (Some kv)
  then obtain k v where kv: "kv = (k, v)" "(k, v) \<in> set tag_canonical_map" by (cases kv) (auto dest: find_Some_in)
  with canonical_values have v: "list_all (\<lambda>c. of_char c < (128 :: nat)) v" "trim v = v" "v \<noteq> []"
    "case List.find (\<lambda>kv. ascii_lower v = fst kv) tag_canonical_map of None \<Rightarrow> True | Some kv \<Rightarrow> snd kv = v"
    unfolding list_all_iff by auto
  with assms(1) have "uc_lower U v = ascii_lower v" "uc_trim U v = v" by (auto simp: unicode_ok_def)
  with v Some kv show ?thesis
    by (auto simp: canonicalize_tag_def split: option.splits)
qed

text \<open>
  Normalising tags gives a strictly sorted list without duplicates or blanks, which holds exactly the
  canonical forms of the tags that are not blank; and normalising it again changes nothing, so tags that
  are stored, reread and normalised once more are the same.
\<close>

theorem normalize_tags_idempotent:
  assumes "unicode_ok U"
  shows "normalize_tags U (normalize_tags U tags) = normalize_tags U tags \<and> sorted_wrt (<) (normalize_tags U tags) \<and>
    [] \<notin> set (normalize_tags U tags) \<and>
    set (normalize_tags U tags) = canonicalize_tag U ` uc_trim U ` {t \<in> set tags. uc_trim U t \<noteq> []}"
proof -
  let ?n = "normalize_tags U tags"
  have set: "set ?n = canonicalize_tag U ` uc_trim U ` {t \<in> set tags. uc_trim U t \<noteq> []}"
    by (auto simp: normalize_tags_def)
  have fixed: "canonicalize_tag U t = t \<and> uc_trim U t = t \<and> t \<noteq> []" if "t \<in> set ?n" for t
    using that canonicalize_tag_fixed [OF assms] assms unfolding set unicode_ok_def by auto
  have sorted: "sorted ?n" "distinct ?n" unfolding normalize_tags_def
    using strict_sorted_dedup [OF sorted_sort] unfolding strict_sorted_iff by simp_all
  have "map (uc_trim U) ?n = ?n" "filter (\<lambda>t. t \<noteq> []) ?n = ?n" "map (canonicalize_tag U) ?n = ?n"
    using fixed by (auto simp: map_idI filter_id_conv)
  then have "normalize_tags U ?n = remdups_adj (sort ?n)" by (simp add: normalize_tags_def [of U ?n])
  also have "\<dots> = ?n" using sorted by (simp add: sorted_sort_id remdups_adj_distinct)
  finally have "normalize_tags U ?n = ?n" .
  moreover have "sorted_wrt (<) ?n" using sorted by (simp add: strict_sorted_iff)
  moreover have "[] \<notin> set ?n" using fixed by blast
  ultimately show ?thesis using set by blast
qed

lemma unicode_ok_ascii: "unicode_ok ascii"
proof -
  have d: "dropWhile p (dropWhile p xs) = dropWhile p xs" for p and xs :: string by (induction xs) auto
  have front: "dropWhile is_ws (rev (dropWhile is_ws (rev t))) = rev (dropWhile is_ws (rev t))"
    if "dropWhile is_ws t = t" for t
  proof (cases "rev (dropWhile is_ws (rev t))")
    case (Cons x xs)
    have "t = rev (dropWhile is_ws (rev t)) @ rev (takeWhile is_ws (rev t))"
      by (metis rev_append rev_rev_ident takeWhile_dropWhile_id)
    with Cons obtain ys where "t = x # ys" by (metis append_Cons)
    with that have "\<not> is_ws x" by (metis dropWhile.simps(2) dropWhile_eq_Cons_conv)
    with Cons show ?thesis by simp
  next
    case Nil
    then show ?thesis by (simp only: dropWhile.simps)
  qed
  have "trim (trim s) = trim s" for s using front [OF d] by (simp add: trim_def d)
  then show ?thesis by (simp add: unicode_ok_def ascii_def)
qed

theorem normalize_tags_idempotent_witness:
  "normalize_tags ascii (normalize_tags ascii [''RCE'', '' ai security'', ''rce'', '' '']) = normalize_tags ascii [''RCE'', '' ai security'', ''rce'', '' ''] \<and>
   normalize_tags ascii [''RCE'', '' ai security'', ''rce'', '' ''] = [''AI Security'', ''Remote Code Execution'']"
proof
  show "normalize_tags ascii (normalize_tags ascii [''RCE'', '' ai security'', ''rce'', '' '']) = normalize_tags ascii [''RCE'', '' ai security'', ''rce'', '' '']"
    using normalize_tags_idempotent [OF unicode_ok_ascii, of "[''RCE'', '' ai security'', ''rce'', '' '']"] by (elim conjE)
  show "normalize_tags ascii [''RCE'', '' ai security'', ''rce'', '' ''] = [''AI Security'', ''Remote Code Execution'']"
    by code_simp
qed

end
