(* ===== verification/Ssrf.thy ===== *)
theory Ssrf
  imports Content
begin

text \<open>
  The SSRF guard of the fetcher (\<open>fetcher/src/ssrf.rs\<close>), the errors of a fetch and which of them are
  transient (\<open>fetcher/src/lib.rs\<close>), and the decisions of \<open>fetch_feed\<close> on a response.  \<open>Url::parse\<close> is a
  parameter that yields the scheme and \<open>host_str\<close>, in which the host of an IPv6 literal keeps its
  brackets.  \<open>str::parse::<IpAddr>\<close> is modelled: its IPv4 part in full, its IPv6 part as the parameter
  \<open>parse_v6\<close>, which accepts no text with a bracket.
\<close>

section \<open>Errors\<close>

datatype fetch_error =
  FetchHttp string
| FetchStatus nat
| FetchParse string
| FetchSsrf string
| FetchExtraction string

fun is_transient :: "fetch_error \<Rightarrow> bool" where
  "is_transient (FetchHttp _) = True"
| "is_transient (FetchStatus code) = (500 \<le> code \<or> code = 429)"
| "is_transient (FetchParse _) = False"
| "is_transient (FetchSsrf _) = False"
| "is_transient (FetchExtraction _) = False"

section \<open>Addresses\<close>

type_synonym ipv4 = "nat \<times> nat \<times> nat \<times> nat"

fun split_on :: "char \<Rightarrow> string \<Rightarrow> string list" where
  "split_on c [] = [[]]"
| "split_on c (x # xs) =
     (if x = c then [] # split_on c xs
      else (case split_on c xs of [] \<Rightarrow> [[x]] | p # ps \<Rightarrow> (x # p) # ps))"

text \<open>An octet: one to three digits, no leading zero, at most 255.\<close>

definition parse_octet :: "string \<Rightarrow> nat option" where
  "parse_octet s =
     (if s = [] \<or> 3 < length s \<or> (1 < length s \<and> hd s = CHR ''0'') then None
      else (case parse_digits 0 s of Some n \<Rightarrow> (if n \<le> 255 then Some n else None) | None \<Rightarrow> None))"

definition parse_ipv4 :: "string \<Rightarrow> ipv4 option" where
  "parse_ipv4 s =
     (case map parse_octet (split_on CHR ''.'' s) of
        [Some a, Some b, Some c, Some d] \<Rightarrow> Some (a, b, c, d)
      | _ \<Rightarrow> None)"

definition show_ipv4 :: "ipv4 \<Rightarrow> string" where
  "show_ipv4 ip = (case ip of (a, b, c, d) \<Rightarrow>
     dec_nat a @ ''.'' @ dec_nat b @ ''.'' @ dec_nat c @ ''.'' @ dec_nat d)"

fun v4_is_loopback :: "ipv4 \<Rightarrow> bool" where "v4_is_loopback (a, _, _, _) = (a = 127)"

fun v4_is_private :: "ipv4 \<Rightarrow> bool" where
  "v4_is_private (a, b, _, _) = (a = 10 \<or> (a = 172 \<and> 16 \<le> b \<and> b \<le> 31) \<or> (a = 192 \<and> b = 168))"

fun v4_is_link_local :: "ipv4 \<Rightarrow> bool" where "v4_is_link_local (a, b, _, _) = (a = 169 \<and> b = 254)"

section \<open>The guard\<close>

text \<open>A parsed URL: scheme and host.  The eight segments of an IPv6 address are a list.\<close>

definition guard_public_url ::
  "(string \<Rightarrow> (string, string \<times> string option) result) \<Rightarrow> (string \<Rightarrow> nat list option) \<Rightarrow> (nat list \<Rightarrow> string)
    \<Rightarrow> string \<Rightarrow> (fetch_error, unit) result" where
  "guard_public_url url_parse parse_v6 show_v6 url =
     (case url_parse url of
        Inl e \<Rightarrow> Inl (FetchSsrf e)
      | Inr (scheme, host_str) \<Rightarrow>
          (if scheme \<noteq> ''http'' \<and> scheme \<noteq> ''https'' then Inl (FetchSsrf (''disallowed scheme: '' @ scheme))
           else case host_str of
             None \<Rightarrow> Inl (FetchSsrf ''missing host'')
           | Some host \<Rightarrow>
               (if ascii_lower host = ''localhost'' \<or> ends_with ''.local'' host
                then Inl (FetchSsrf (''localhost-alias host: '' @ host))
                else case parse_ipv4 host of
                  Some ip \<Rightarrow>
                    (if v4_is_loopback ip \<or> v4_is_private ip \<or> v4_is_link_local ip \<or> ip = (169, 254, 169, 254)
                     then Inl (FetchSsrf (''IP-literal host in blocked range: '' @ show_ipv4 ip)) else Inr ())
                | None \<Rightarrow>
                    (case parse_v6 host of
                       Some segs \<Rightarrow>
                         (if segs = [0, 0, 0, 0, 0, 0, 0, 1] \<or> 0xfc00 \<le> hd segs \<and> hd segs < 0xfe00
                          then Inl (FetchSsrf (''IP-literal host in blocked range: '' @ show_v6 segs)) else Inr ())
                     | None \<Rightarrow> Inr ()))))"

section \<open>Fetching\<close>

record 'e fetched_feed =
  ff_entries :: "'e list"
  ff_raw_body :: string
  ff_etag :: "string option"
  ff_last_modified :: "string option"

datatype 'e fetch_outcome = Updated "'e fetched_feed" | NotModified

text \<open>
  \<open>http_get\<close> behind the guard: \<open>net\<close> is the network, which answers a URL and the validators with a
  failure or a response; \<open>feed_parse\<close> is the feed parser.
\<close>

record response =
  rs_status :: nat
  rs_body :: string
  rs_etag :: "string option"
  rs_last_modified :: "string option"

definition http_get ::
  "(string \<Rightarrow> (fetch_error, unit) result) \<Rightarrow> (string \<Rightarrow> string option \<Rightarrow> string option \<Rightarrow> (string, response) result)
    \<Rightarrow> string \<Rightarrow> string option \<Rightarrow> string option \<Rightarrow> (fetch_error, response) result" where
  "http_get guard net url etag last_modified =
     (case guard url of
        Inl e \<Rightarrow> Inl e
      | Inr _ \<Rightarrow> map_err FetchHttp (net url etag last_modified))"

definition fetch_feed ::
  "(string \<Rightarrow> (fetch_error, unit) result) \<Rightarrow> (string \<Rightarrow> string option \<Rightarrow> string option \<Rightarrow> (string, response) result)
    \<Rightarrow> (string \<Rightarrow> (string, 'e list) result) \<Rightarrow> string \<Rightarrow> string option \<Rightarrow> string option
    \<Rightarrow> (fetch_error, 'e fetch_outcome) result" where
  "fetch_feed guard net feed_parse url etag last_modified =
     (case http_get guard net url etag last_modified of
        Inl e \<Rightarrow> Inl e
      | Inr r \<Rightarrow>
          (if rs_status r = 304 then Inr NotModified
           else if 400 \<le> rs_status r then Inl (FetchStatus (rs_status r))
           else case feed_parse (rs_body r) of
             Inl e \<Rightarrow> Inl (FetchParse e)
           | Inr es \<Rightarrow> Inr (Updated \<lparr>ff_entries = es, ff_raw_body = rs_body r, ff_etag = rs_etag r,
                 ff_last_modified = rs_last_modified r\<rparr>)))"

section \<open>What the guard lets through\<close>

lemma split_on_append: "c \<notin> set p \<Longrightarrow> split_on c (p @ c # s) = p # split_on c s"
  by (induction p) auto

lemma split_on_none: "c \<notin> set p \<Longrightarrow> split_on c p = [p]"
  by (induction p) auto

lemma dot_not_digit: "CHR ''.'' \<notin> set (dec_nat n)"
proof
  assume "CHR ''.'' \<in> set (dec_nat n)"
  with set_dec_nat [of n] obtain d where d: "CHR ''.'' = digit_char d" "d < 10" by auto
  then have "digit_val (CHR ''.'') = Some d" by simp
  moreover have "digit_val (CHR ''.'') = None" by code_simp
  ultimately show False by simp
qed

lemma dec_nat_no_leading_zero: "0 < n \<Longrightarrow> hd (dec_nat n) \<noteq> CHR ''0''"
proof (induction n rule: dec_nat.induct)
  case (1 n)
  show ?case
  proof (cases "n < 10")
    case True
    have "digit_val (CHR ''0'') = Some 0" by code_simp
    with True 1 have "digit_char n \<noteq> CHR ''0''" by (metis digit_val_char less_irrefl option.inject)
    with True show ?thesis by (subst dec_nat.simps) simp
  next
    case False
    with 1 show ?thesis by (subst dec_nat.simps) simp
  qed
qed

lemma dec_nat_length: "n < 10 \<Longrightarrow> length (dec_nat n) = 1" "n < 100 \<Longrightarrow> length (dec_nat n) \<le> 2" "n < 1000 \<Longrightarrow> length (dec_nat n) \<le> 3"
proof -
  have one: "length (dec_nat n) = 1" if "n < 10" for n using that by (subst dec_nat.simps) simp
  have two: "length (dec_nat n) \<le> 2" if "n < 100" for n
    using that one [of "n div 10"] one [of n] by (subst dec_nat.simps) auto
  have three: "length (dec_nat n) \<le> 3" if "n < 1000" for n
    using that two [of "n div 10"] one [of n] by (subst dec_nat.simps) auto
  from one two three show "n < 10 \<Longrightarrow> length (dec_nat n) = 1" "n < 100 \<Longrightarrow> length (dec_nat n) \<le> 2"
    "n < 1000 \<Longrightarrow> length (dec_nat n) \<le> 3" by blast+
qed

lemma parse_octet_dec: "n < 256 \<Longrightarrow> parse_octet (dec_nat n) = Some n"
proof -
  assume n: "n < 256"
  then have "length (dec_nat n) \<le> 3" by (simp add: dec_nat_length)
  moreover have "1 < length (dec_nat n) \<Longrightarrow> hd (dec_nat n) \<noteq> CHR ''0''"
    using dec_nat_no_leading_zero [of n] dec_nat_length(1) [of n] by (cases "n = 0") auto
  ultimately show ?thesis using n by (auto simp: parse_octet_def parse_dec_nat)
qed

lemma parse_show_ipv4:
  assumes "a < 256" "b < 256" "c < 256" "d < 256"
  shows "parse_ipv4 (show_ipv4 (a, b, c, d)) = Some (a, b, c, d)"
  using assms
  by (simp add: parse_ipv4_def show_ipv4_def split_on_append split_on_none dot_not_digit parse_octet_dec)

lemma ends_with_set: "ends_with p s \<Longrightarrow> set p \<subseteq> set s"
  by (auto simp: ends_with_def) (metis in_set_dropD)

lemma ends_with_last: "ends_with p s \<Longrightarrow> p \<noteq> [] \<Longrightarrow> last s = last p"
  by (auto simp: ends_with_def) (metis drop_eq_Nil last_drop linorder_not_le)

text \<open>The addresses that reach no public host and that the guard leaves open.\<close>

definition v4_special :: "ipv4 \<Rightarrow> bool" where
  "v4_special ip \<longleftrightarrow> fst ip = 0 \<or> (fst ip = 100 \<and> 64 \<le> fst (snd ip) \<and> fst (snd ip) \<le> 127) \<or> 224 \<le> fst ip"

lemma not_special_name:
  assumes "a < 256" "b < 256" "c < 256" "d < 256"
  shows "ascii_lower (show_ipv4 (a, b, c, d)) \<noteq> ''localhost''" "\<not> ends_with ''.local'' (show_ipv4 (a, b, c, d))"
proof -
  have dec: "set (dec_nat n) \<subseteq> digit_char ` {..<10}" for n by (rule set_dec_nat)
  have digits: "set (show_ipv4 (a, b, c, d)) \<subseteq> insert (CHR ''.'') (digit_char ` {..<10})"
    using dec by (auto simp: show_ipv4_def)
  have "of_char (digit_char n) < (97 :: nat)" if "n < 10" for n using that by (simp add: digit_char_def of_char_of)
  moreover have "of_char (CHR ''.'') < (97 :: nat)" by code_simp
  ultimately have low: "\<forall>x \<in> set (show_ipv4 (a, b, c, d)). of_char x < (58 :: nat)"
    using digits by (fastforce simp: digit_char_def of_char_of)
  have l: "58 \<le> (of_char (CHR ''l'') :: nat)" by code_simp
  show "\<not> ends_with ''.local'' (show_ipv4 (a, b, c, d))"
  proof
    assume "ends_with ''.local'' (show_ipv4 (a, b, c, d))"
    then have "CHR ''l'' \<in> set (show_ipv4 (a, b, c, d))" using ends_with_set by fastforce
    with low l show False by fastforce
  qed
  have "ascii_lower_char x = x" if "of_char x < (58 :: nat)" for x using that by (simp add: ascii_lower_char_def)
  with low have "ascii_lower (show_ipv4 (a, b, c, d)) = show_ipv4 (a, b, c, d)" by (simp add: ascii_lower_def map_idI)
  moreover have "CHR ''l'' \<in> set ''localhost''" by simp
  ultimately show "ascii_lower (show_ipv4 (a, b, c, d)) \<noteq> ''localhost''" using low l by fastforce
qed

lemma bracket_not_digit: "digit_val (CHR ''['') = None"
  by code_simp

lemma parse_ipv4_bracket: "parse_ipv4 (CHR ''['' # h) = None"
proof -
  obtain p ps where "split_on CHR ''.'' (CHR ''['' # h) = (CHR ''['' # p) # ps"
    by (cases "split_on CHR ''.'' h") auto
  moreover have "parse_octet (CHR ''['' # p) = None" for p
    by (simp add: parse_octet_def bracket_not_digit)
  ultimately show ?thesis by (simp add: parse_ipv4_def)
qed

text \<open>
  C30: for an IPv4 host the guard refuses exactly loopback, private and link-local addresses, so the unspecified
  address 0.0.0.0, carrier-grade NAT and multicast pass; and every IPv6 literal passes, loopback and unique
  local ones too, since \<open>host_str\<close> keeps the brackets and no bracketed text parses as an address.
\<close>

theorem ssrf_guard_exact:
  assumes "\<And>h. parse_v6 (CHR ''['' # h) = None"
    and "a < 256" "b < 256" "c < 256" "d < 256"
    and "url_parse u4 = Inr (''http'', Some (show_ipv4 (a, b, c, d)))" "url_parse u6 = Inr (''http'', Some (''['' @ v6 @ '']''))"
  shows "(is_ok (guard_public_url url_parse parse_v6 show_v6 u4) \<longleftrightarrow>
      \<not> (a = 127 \<or> a = 10 \<or> (a = 172 \<and> 16 \<le> b \<and> b \<le> 31) \<or> (a = 192 \<and> b = 168) \<or> (a = 169 \<and> b = 254))) \<and>
    (v4_special (a, b, c, d) \<longrightarrow> is_ok (guard_public_url url_parse parse_v6 show_v6 u4)) \<and>
    is_ok (guard_public_url url_parse parse_v6 show_v6 u6)"
proof (intro conjI impI)
  show v4: "is_ok (guard_public_url url_parse parse_v6 show_v6 u4) \<longleftrightarrow>
      \<not> (a = 127 \<or> a = 10 \<or> (a = 172 \<and> 16 \<le> b \<and> b \<le> 31) \<or> (a = 192 \<and> b = 168) \<or> (a = 169 \<and> b = 254))"
    using assms(6) by (auto simp: guard_public_url_def not_special_name [OF assms(2-5)] parse_show_ipv4 [OF assms(2-5)])
  show "is_ok (guard_public_url url_parse parse_v6 show_v6 u4)" if "v4_special (a, b, c, d)"
    using v4 that by (auto simp: v4_special_def)
  have "ascii_lower (''['' @ v6 @ '']'') \<noteq> ''localhost''"
    by (simp add: ascii_lower_def ascii_lower_char_def)
  moreover have "\<not> ends_with ''.local'' (''['' @ v6 @ '']'')"
    using ends_with_last [of "''.local''" "''['' @ v6 @ '']''"] by auto
  ultimately show "is_ok (guard_public_url url_parse parse_v6 show_v6 u6)"
    using assms(1,7) parse_ipv4_bracket by (simp add: guard_public_url_def)
qed

text \<open>A resolver that knows two URLs and a literal parser that refuses brackets.\<close>

definition two_urls :: "string \<Rightarrow> (string, string \<times> string option) result" where
  "two_urls u = (if u = ''http://0.0.0.0/'' then Inr (''http'', Some ''0.0.0.0'')
     else if u = ''http://[::1]/'' then Inr (''http'', Some ''[::1]'')
     else Inl ''relative URL without a base'')"

definition v6_of :: "string \<Rightarrow> nat list option" where
  "v6_of h = (if h = ''::1'' then Some [0, 0, 0, 0, 0, 0, 0, 1] else None)"

theorem ssrf_guard_exact_witness:
  "is_ok (guard_public_url two_urls v6_of (\<lambda>_. []) ''http://0.0.0.0/'') \<and>
   is_ok (guard_public_url two_urls v6_of (\<lambda>_. []) ''http://[::1]/'')"
proof -
  have shown: "show_ipv4 (0, 0, 0, 0) = ''0.0.0.0''" by code_simp
  have "is_ok (guard_public_url two_urls v6_of (\<lambda>_. []) ''http://0.0.0.0/'')"
    "is_ok (guard_public_url two_urls v6_of (\<lambda>_. []) ''http://[::1]/'')"
    using ssrf_guard_exact [of v6_of 0 0 0 0 two_urls "''http://0.0.0.0/''" "''http://[::1]/''" "''::1''" "\<lambda>_. []"]
    by (simp_all add: v6_of_def two_urls_def shown)
  then show ?thesis ..
qed

end
