(* ===== verification/Ingestion.thy ===== *)
theory Ingestion
  imports FeedTables Ssrf EventArchive
begin

text \<open>
  The ingestion pipeline: the summariser and \<open>process_article\<close> (\<open>ai-pipeline/src/lib.rs\<close>), the full-text
  extraction (\<open>fetcher/src/extract.rs\<close>), the embedding step (\<open>worker-entry/src/jobs/embedding.rs\<close>),
  \<open>process_one_feed\<close> and its batch (\<open>jobs/ingestion.rs\<close>), the queue consumer (\<open>runtime/queue.rs\<close>), the
  garbage collection of R2 objects (\<open>jobs/gc.rs\<close>) and the backfill (\<open>jobs/backfill.rs\<close>).

  The world is the tables, the bucket, the vector index, the pipeline metrics and a count of the calls
  that left the worker; the network, the model and the embedder are functions of that count and of
  the request, so that the same request may be answered differently each time.  Timings and console
  output are left out.
\<close>

section \<open>The world\<close>

record 'v vector_record =
  vr_id :: string
  vr_values :: 'v
  vr_article :: int

record 'v vector_index =
  vx_records :: "'v vector_record list"
  vx_faults :: "string option list"

record pipeline_metrics =
  pm_articles_fetched :: nat
  pm_articles_new :: nat
  pm_articles_dup :: nat
  pm_entities_created :: nat
  pm_entity_links :: nat
  pm_entity_relations :: nat
  pm_errors :: nat

definition no_metrics :: pipeline_metrics where
  "no_metrics = \<lparr>pm_articles_fetched = 0, pm_articles_new = 0, pm_articles_dup = 0, pm_entities_created = 0,
     pm_entity_links = 0, pm_entity_relations = 0, pm_errors = 0\<rparr>"

record fetch_job =
  fj_feed_id :: int
  fj_feed_url :: string
  fj_etag :: "string option"
  fj_last_modified :: "string option"
  fj_extraction_level :: string

text \<open>\<open>FETCH_QUEUE\<close>: the messages sent, and the schedule of failed sends.\<close>

record 'v world =
  iw_db :: feed_db
  iw_bucket :: r2_state
  iw_index :: "'v vector_index"
  iw_metrics :: pipeline_metrics
  iw_queue :: "fetch_job list"
  iw_queue_faults :: "bool list"
  iw_calls :: nat

type_synonym ('v, 'e, 'a) wio = "('v world, 'e, 'a) io"

definition on_db :: "(feed_db, 'e, 'a) io \<Rightarrow> ('v, 'e, 'a) wio" where
  "on_db m w = (case m (iw_db w) of (r, d) \<Rightarrow> (r, w\<lparr>iw_db := d\<rparr>))"

definition on_bucket :: "(r2_state, 'e, 'a) io \<Rightarrow> ('v, 'e, 'a) wio" where
  "on_bucket m w = (case m (iw_bucket w) of (r, b) \<Rightarrow> (r, w\<lparr>iw_bucket := b\<rparr>))"

definition outside :: "(nat \<Rightarrow> ('e, 'a) result) \<Rightarrow> ('v, 'e, 'a) wio" where
  "outside f w = (f (iw_calls w), w\<lparr>iw_calls := Suc (iw_calls w)\<rparr>)"

definition meter :: "(pipeline_metrics \<Rightarrow> pipeline_metrics) \<Rightarrow> 'v world \<Rightarrow> 'v world" where
  "meter f w = w\<lparr>iw_metrics := f (iw_metrics w)\<rparr>"

definition count_fetched :: "'v world \<Rightarrow> 'v world" where
  "count_fetched = meter (\<lambda>m. m\<lparr>pm_articles_fetched := pm_articles_fetched m + 1\<rparr>)"
definition count_new :: "'v world \<Rightarrow> 'v world" where
  "count_new = meter (\<lambda>m. m\<lparr>pm_articles_new := pm_articles_new m + 1\<rparr>)"
definition count_dup :: "'v world \<Rightarrow> 'v world" where
  "count_dup = meter (\<lambda>m. m\<lparr>pm_articles_dup := pm_articles_dup m + 1\<rparr>)"
definition count_entity :: "'v world \<Rightarrow> 'v world" where
  "count_entity = meter (\<lambda>m. m\<lparr>pm_entities_created := pm_entities_created m + 1\<rparr>)"
definition count_link :: "'v world \<Rightarrow> 'v world" where
  "count_link = meter (\<lambda>m. m\<lparr>pm_entity_links := pm_entity_links m + 1\<rparr>)"
definition count_relation :: "'v world \<Rightarrow> 'v world" where
  "count_relation = meter (\<lambda>m. m\<lparr>pm_entity_relations := pm_entity_relations m + 1\<rparr>)"
definition count_error :: "'v world \<Rightarrow> 'v world" where
  "count_error = meter (\<lambda>m. m\<lparr>pm_errors := pm_errors m + 1\<rparr>)"

definition bucket_put :: "string \<Rightarrow> string \<Rightarrow> (r2_state, object_store_error, unit) io" where
  "bucket_put key obj = r2_call ''put'' (\<lambda>b. ((), b\<lparr>r2_objects := map_insert key obj (r2_objects b)\<rparr>))"

definition bucket_get :: "string \<Rightarrow> (r2_state, object_store_error, string option) io" where
  "bucket_get key = r2_call ''get'' (\<lambda>b. (map_of (r2_objects b) key, b))"

definition bucket_delete :: "string \<Rightarrow> (r2_state, object_store_error, unit) io" where
  "bucket_delete key = r2_call ''delete'' (\<lambda>b. ((), b\<lparr>r2_objects := filter (\<lambda>(k, _). k \<noteq> key) (r2_objects b)\<rparr>))"

section \<open>Summaries\<close>

datatype pipeline_error = SummarizerError string | PersistenceError string

fun pipeline_error_str :: "pipeline_error \<Rightarrow> string" where
  "pipeline_error_str (SummarizerError e) = ''summarizer error: '' @ e"
| "pipeline_error_str (PersistenceError e) = ''persistence error: '' @ e"

record summary_result =
  sr_summary :: string
  sr_tags :: "string list"
  sr_entities :: "string list"

record extraction_result =
  er_summary :: string
  er_topics :: "string list"
  er_entities :: "string list"
  er_tags :: "string list"

definition build_summarize_prompt :: "string \<Rightarrow> string \<Rightarrow> string" where
  "build_summarize_prompt title body =
     (let nl = [CHR 0x0A]; q = [CHR 0x22] in
      ''Analyze this article and return JSON. RULES:'' @ nl @
      ''1) summary: 2-3 sentences.'' @ nl @
      ''2) topics: broad subject areas, 3-5 items. '' @
      ''Use Title Case, singular. DO NOT include company names, '' @
      ''product names, version numbers, or CVE IDs here.'' @ nl @
      ''3) entities: specific named items (companies, products, people, CVE IDs).'' @ nl @ nl @
      ''Examples of good topics: '' @ q @ ''AI Safety'' @ q @ '', '' @ q @ ''Cloud Security'' @ q @ '', '' @ q @ ''Enterprise AI'' @ q @ nl @
      ''Examples of bad topics: '' @ q @ ''OpenAI'' @ q @ '', '' @ q @ ''GPT-5'' @ q @ '', '' @ q @ ''CVE-2026-xxxx'' @ q @ nl @ nl @
      ''Respond ONLY with JSON: '' @
      ''{'' @ q @ ''summary'' @ q @ '': string, '' @ q @ ''topics'' @ q @ '': string[], '' @ q @ ''entities'' @ q @ '': string[]}.'' @ nl @ nl @
      ''Title: '' @ title @ nl @ nl @ ''Body: '' @ body)"

text \<open>
  \<open>HttpSummarizer::summarize\<close>: \<open>generate\<close> is the model provider, which answers the prompt with the parsed
  JSON as text, when it parsed, and the raw text; \<open>from_json\<close> is serde's reading of the extraction.
\<close>

definition http_summarize ::
  "(nat \<Rightarrow> string \<Rightarrow> (string, string option \<times> string) result) \<Rightarrow> (string \<Rightarrow> (string, extraction_result) result)
    \<Rightarrow> nat \<Rightarrow> string \<Rightarrow> string \<Rightarrow> (pipeline_error, summary_result) result" where
  "http_summarize generate from_json k title body =
     (case generate k (build_summarize_prompt title body) of
        Inl e \<Rightarrow> Inl (SummarizerError e)
      | Inr (parsed, text) \<Rightarrow>
          (case from_json (case parsed of Some j \<Rightarrow> j | None \<Rightarrow> text) of
             Inl e \<Rightarrow> Inl (SummarizerError (''bad JSON from model: '' @ e))
           | Inr x \<Rightarrow> Inr \<lparr>sr_summary = er_summary x,
               sr_tags = (if er_topics x = [] \<and> er_tags x \<noteq> [] then er_tags x else er_topics x),
               sr_entities = er_entities x\<rparr>))"

definition vector_key :: "int \<Rightarrow> string" where
  "vector_key i = ''article-'' @ show_i64 i"

definition d1_set_ai_summary :: "int \<Rightarrow> string \<Rightarrow> string \<Rightarrow> string \<Rightarrow> f64 \<Rightarrow> ('v, pipeline_error, unit) wio" where
  "d1_set_ai_summary i summary tags vector score =
     io_map_err (\<lambda>e. PersistenceError (store_error_str e)) (on_db (fdb_set_ai_summary i summary tags vector score))"

section \<open>The feed context\<close>

text \<open>
  What \<open>FeedContext\<close> groups, and the code outside the repository: the network, the feed parser, the
  selectors of the HTML parser (for a document and a selector the texts of the elements it matches,
  each a list of text nodes), the JSON of the tags, and the Unicode tables with \<open>split_whitespace\<close>.
\<close>

record feed_entry =
  fe_id :: string
  fe_title :: "string option"
  fe_links :: "string list"
  fe_published :: "int option"
  fe_summary :: "string option"
  fe_content :: "string option option"   \<comment> \<open>the content element and its body\<close>
  fe_media :: "string option list"       \<comment> \<open>the description of each media object\<close>

record 'v feed_context =
  fc_guard :: "string \<Rightarrow> (fetch_error, unit) result"
  fc_net :: "nat \<Rightarrow> string \<Rightarrow> string option \<Rightarrow> string option \<Rightarrow> (string, response) result"
  fc_feed_parse :: "string \<Rightarrow> (string, feed_entry list) result"
  fc_select :: "string \<Rightarrow> string \<Rightarrow> string list list"
  fc_words :: "string \<Rightarrow> string list"
  fc_unicode :: unicode
  fc_lossy :: "string \<Rightarrow> string"           \<comment> \<open>\<open>String::from_utf8_lossy\<close>\<close>
  fc_tags_json :: "string list \<Rightarrow> string option"
  fc_rule_parse :: "string \<Rightarrow> rule option"
  fc_summarizer :: "(nat \<Rightarrow> string \<Rightarrow> string \<Rightarrow> (pipeline_error, summary_result) result) option"
  fc_embedder :: "(nat \<Rightarrow> string \<Rightarrow> (pipeline_error, 'v) result) option"
  fc_bucket :: bool
  fc_vectorize :: bool
  fc_rules :: "rule list"
  fc_now :: int

definition job_of :: "feed \<Rightarrow> fetch_job" where
  "job_of f = \<lparr>fj_feed_id = f_id f, fj_feed_url = f_url f, fj_etag = f_etag f, fj_last_modified = f_last_modified f,
     fj_extraction_level = f_extraction_level f\<rparr>"

definition process_article ::
  "'v feed_context \<Rightarrow> (nat \<Rightarrow> string \<Rightarrow> string \<Rightarrow> (pipeline_error, summary_result) result)
    \<Rightarrow> int \<Rightarrow> string \<Rightarrow> string \<Rightarrow> f64 \<Rightarrow> ('v, pipeline_error, summary_result) wio" where
  "process_article ctx summarize i title body score =
     io_bind (outside (\<lambda>k. summarize k title body)) (\<lambda>result.
       let normalized = normalize_tags (fc_unicode ctx) (sr_tags result);
           tags_json = (case fc_tags_json ctx normalized of Some j \<Rightarrow> j | None \<Rightarrow> ''[]'')
       in io_bind (d1_set_ai_summary i (sr_summary result) tags_json (vector_key i) score) (\<lambda>_. io_ret result))"

section \<open>Embedding\<close>

definition vx_upsert :: "'v vector_record \<Rightarrow> ('v vector_index, string, unit) io" where
  "vx_upsert r x =
     (let fs = tl (vx_faults x) in
      case vx_faults x of
        Some e # _ \<Rightarrow> (Inl e, x\<lparr>vx_faults := fs\<rparr>)
      | _ \<Rightarrow> (Inr (), \<lparr>vx_records = filter (\<lambda>r'. vr_id r' \<noteq> vr_id r) (vx_records x) @ [r], vx_faults = fs\<rparr>))"

definition upsert_vector :: "int \<Rightarrow> 'v \<Rightarrow> ('v, string, unit) wio" where
  "upsert_vector i embedding w =
     (case vx_upsert \<lparr>vr_id = vector_key i, vr_values = embedding, vr_article = i\<rparr> (iw_index w) of
        (r, x) \<Rightarrow> (r, w\<lparr>iw_index := x\<rparr>))"

definition embed_and_upsert ::
  "'v feed_context \<Rightarrow> (nat \<Rightarrow> string \<Rightarrow> (pipeline_error, 'v) result) \<Rightarrow> int \<Rightarrow> string \<Rightarrow> string \<Rightarrow> string list
    \<Rightarrow> ('v, string, unit) wio" where
  "embed_and_upsert ctx embedder i title summary raw_tags =
     (let tags = normalize_tags (fc_unicode ctx) raw_tags; text = build_embedding_text title summary tags None in
      io_bind (io_map_err (\<lambda>e. ''embed failed: '' @ pipeline_error_str e) (outside (\<lambda>k. embedder k text))) (upsert_vector i))"

section \<open>Full text\<close>

fun first_readable :: "(string \<Rightarrow> string list) \<Rightarrow> (string \<Rightarrow> string list list) \<Rightarrow> string list \<Rightarrow> string option" where
  "first_readable words select [] = None"
| "first_readable words select (s # ss) =
     (case select s of
        [] \<Rightarrow> first_readable words select ss
      | el # _ \<Rightarrow>
          (let text = join '' '' (words (join '' '' el)) in
           if text \<noteq> [] then Some text else first_readable words select ss))"

definition content_selectors :: "string list" where
  "content_selectors = [''article'', ''main'', ''.post-content'', ''.entry-content'', ''#content'', ''.content'', ''.article-body'']"

definition paragraphs :: "(string \<Rightarrow> string list) \<Rightarrow> (string \<Rightarrow> string list list) \<Rightarrow> string" where
  "paragraphs words select = join '' '' (words (join [CHR 0x0A, CHR 0x0A] (map concat (select ''p''))))"

definition extract_full_text :: "'v feed_context \<Rightarrow> string \<Rightarrow> ('v, fetch_error, string) wio" where
  "extract_full_text ctx url =
     io_bind (outside (\<lambda>k. http_get (fc_guard ctx) (fc_net ctx k) url None None)) (\<lambda>r.
       if 400 \<le> rs_status r then io_err (FetchStatus (rs_status r))
       else (let select = fc_select ctx (rs_body r) in
         case first_readable (fc_words ctx) select content_selectors of
           Some text \<Rightarrow> io_ret text
         | None \<Rightarrow>
             (let text = paragraphs (fc_words ctx) select in
              if text \<noteq> [] then io_ret text else io_err (FetchExtraction ''no readable content found''))))"

definition article_key :: "int \<Rightarrow> string" where
  "article_key i = ''articles/'' @ show_i64 i"

definition snapshot_artifact :: "int \<Rightarrow> new_artifact" where
  "snapshot_artifact i = \<lparr>nar_artifact_type = ''article_snapshot'', nar_entity_id = i, nar_r2_key = article_key i,
     nar_schema_version = ''article.v1'', nar_model = None, nar_pipeline_version = ''0.1.0'', nar_metadata = None\<rparr>"

text \<open>The pointer and the artifact row are written whether or not the object was.\<close>

definition store_full_text :: "int \<Rightarrow> string \<Rightarrow> 'v world \<Rightarrow> 'v world" where
  "store_full_text i text w =
     (case on_bucket (bucket_put (article_key i) text) w of
        (r, w1) \<Rightarrow>
          (let w2 = (if is_ok r then w1 else count_error w1);
               w3 = io_ignore (on_db (fdb_set_r2_key i (Some (article_key i)))) w2
           in io_ignore (on_db (fdb_create_artifact (snapshot_artifact i))) w3))"

definition full_text_step ::
  "'v feed_context \<Rightarrow> fetch_job \<Rightarrow> int \<Rightarrow> string option \<Rightarrow> string \<Rightarrow> 'v world \<Rightarrow> string \<times> 'v world" where
  "full_text_step ctx job i url body w =
     (if fj_extraction_level job = ''full_text'' then
        (case url of
           None \<Rightarrow> (body, w)
         | Some u \<Rightarrow>
             (case extract_full_text ctx u w of
                (Inl _, w1) \<Rightarrow> (body, w1)
              | (Inr text, w1) \<Rightarrow> (text, if fc_bucket ctx then store_full_text i text w1 else w1)))
      else (body, w))"

section \<open>Entities\<close>

text \<open>
  The loop over the extracted names; the backfill has the same loop without the metrics, so the
  flag says whether they are counted.
\<close>

definition counted :: "bool \<Rightarrow> ('v world \<Rightarrow> 'v world) \<Rightarrow> 'v world \<Rightarrow> 'v world" where
  "counted metered f w = (if metered then f w else w)"

fun persist_entities :: "unicode \<Rightarrow> bool \<Rightarrow> int \<Rightarrow> string list \<Rightarrow> int list \<Rightarrow> 'v world \<Rightarrow> int list \<times> 'v world" where
  "persist_entities U metered i [] ids w = (ids, w)"
| "persist_entities U metered i (name # names) ids w =
     (case on_db (fdb_upsert_entity name (normalize_name U name) (classify U name)) w of
        (Inl _, w1) \<Rightarrow> persist_entities U metered i names ids w1
      | (Inr eid, w1) \<Rightarrow>
          (case on_db (fdb_link_article_entity i eid (Fin 1) None) (counted metered count_entity w1) of
             (r, w2) \<Rightarrow> persist_entities U metered i names (ids @ [eid])
               (if is_ok r then counted metered count_link w2 else w2)))"

definition top_pairs :: "int list \<Rightarrow> (int \<times> int) list" where
  "top_pairs ids = (let n = min (length ids) 5 in
     concat (map (\<lambda>i. map (\<lambda>j. (ids ! i, ids ! j)) [Suc i..<n]) [0..<n]))"

fun link_relations :: "bool \<Rightarrow> (int \<times> int) list \<Rightarrow> 'v world \<Rightarrow> 'v world" where
  "link_relations metered [] w = w"
| "link_relations metered ((a, b) # ps) w =
     (case on_db (fdb_link_relation a b ''mentioned_together'' (Fin 1)) w of
        (r, w1) \<Rightarrow> link_relations metered ps (if is_ok r then counted metered count_relation w1 else w1))"

definition entity_step :: "unicode \<Rightarrow> bool \<Rightarrow> int \<Rightarrow> string list \<Rightarrow> 'v world \<Rightarrow> 'v world" where
  "entity_step U metered i names w =
     (if names = [] then w
      else case persist_entities U metered i names [] w of
        (ids, w1) \<Rightarrow> link_relations metered (top_pairs ids) w1)"

definition embed_step :: "'v feed_context \<Rightarrow> bool \<Rightarrow> int \<Rightarrow> string \<Rightarrow> summary_result \<Rightarrow> 'v world \<Rightarrow> 'v world" where
  "embed_step ctx metered i title result w =
     (case fc_embedder ctx of
        None \<Rightarrow> w
      | Some e \<Rightarrow>
          (if fc_vectorize ctx then
             (case embed_and_upsert ctx e i title (sr_summary result) (sr_tags result) w of
                (r, w1) \<Rightarrow> (if is_ok r then w1 else counted metered count_error w1))
           else w))"

section \<open>One article\<close>

definition keep_score :: "int \<Rightarrow> f64 \<Rightarrow> 'v world \<Rightarrow> 'v world" where
  "keep_score i score w =
     (if score \<noteq> Fin 0 then io_ignore (on_db (fdb_set_ai_summary i [] ''[]'' (vector_key i) score)) w else w)"

definition ai_step :: "'v feed_context \<Rightarrow> int \<Rightarrow> string \<Rightarrow> string \<Rightarrow> f64 \<Rightarrow> 'v world \<Rightarrow> 'v world" where
  "ai_step ctx i title body score w =
     (case fc_summarizer ctx of
        None \<Rightarrow> keep_score i score w
      | Some s \<Rightarrow>
          (case process_article ctx s i title body score w of
             (Inr result, w1) \<Rightarrow>
               entity_step (fc_unicode ctx) True i (sr_entities result) (embed_step ctx True i title result w1)
           | (Inl _, w1) \<Rightarrow> keep_score i score (count_error w1)))"

definition extract_body :: "feed_entry \<Rightarrow> string" where
  "extract_body e =
     (case fe_summary e of Some s \<Rightarrow> s
      | None \<Rightarrow> (case fe_content e of Some (Some b) \<Rightarrow> b
      | _ \<Rightarrow> (let texts = List.map_filter (\<lambda>m. m) (fe_media e) in
          if texts = [] then [] else join [CHR 0x0A] texts)))"

definition entry_article :: "int \<Rightarrow> fetch_job \<Rightarrow> feed_entry \<Rightarrow> new_article" where
  "entry_article now job e = \<lparr>na_feed_id = fj_feed_id job, na_guid = fe_id e,
     na_title = (case fe_title e of Some t \<Rightarrow> t | None \<Rightarrow> []),
     na_url = (case fe_links e of [] \<Rightarrow> None | l # _ \<Rightarrow> Some l),
     na_published_at = (case fe_published e of Some t \<Rightarrow> if t \<le> now then Some t else None | None \<Rightarrow> None),
     na_raw_content_r2_key = None\<rparr>"

definition new_article_step :: "'v feed_context \<Rightarrow> fetch_job \<Rightarrow> feed_entry \<Rightarrow> int \<Rightarrow> 'v world \<Rightarrow> 'v world" where
  "new_article_step ctx job e i w =
     (let a = entry_article (fc_now ctx) job e;
          summary = extract_body e;
          score = (if fc_rules ctx \<noteq> [] then
                     rules_score (fc_unicode ctx)
                       \<lparr>ai_title = na_title a, ai_summary = summary, ai_feed_url = fj_feed_url job\<rparr>
                       (fc_rules ctx) ''default''
                   else Fin 0)
      in case full_text_step ctx job i (na_url a) summary (count_new w) of
           (body, w1) \<Rightarrow> ai_step ctx i (na_title a) body score w1)"

section \<open>One feed\<close>

definition max_new_per_cycle :: nat where
  "max_new_per_cycle = 30"

fun process_entries ::
  "'v feed_context \<Rightarrow> fetch_job \<Rightarrow> string list \<Rightarrow> nat \<Rightarrow> feed_entry list \<Rightarrow> 'v world \<Rightarrow> bool \<times> 'v world" where
  "process_entries ctx job existing n [] w = (False, w)"
| "process_entries ctx job existing n (e # es) w =
     (if fe_id e \<in> set existing then process_entries ctx job existing n es w
      else case on_db (fdb_insert_article (entry_article (fc_now ctx) job e)) w of
        (Inr (Some i), w1) \<Rightarrow>
          (let w2 = new_article_step ctx job e i w1 in
           if max_new_per_cycle \<le> n + 1 then (True, w2) else process_entries ctx job existing (n + 1) es w2)
      | (Inr None, w1) \<Rightarrow> process_entries ctx job existing n es (count_dup w1)
      | (Inl _, w1) \<Rightarrow> process_entries ctx job existing n es (count_error w1))"

definition record_fetch :: "'v feed_context \<Rightarrow> fetch_job \<Rightarrow> string option \<Rightarrow> string option \<Rightarrow> 'v world \<Rightarrow> 'v world" where
  "record_fetch ctx job etag last_modified =
     io_ignore (on_db (fdb_record_fetch (fj_feed_id job) (fc_now ctx) etag last_modified))"

definition process_one_feed :: "'v feed_context \<Rightarrow> fetch_job \<Rightarrow> string list \<Rightarrow> 'v world \<Rightarrow> 'v world" where
  "process_one_feed ctx job existing w =
     (case outside (\<lambda>k. fetch_feed (fc_guard ctx) (fc_net ctx k) (fc_feed_parse ctx) (fj_feed_url job)
                        (fj_etag job) (fj_last_modified job)) w of
        (Inr NotModified, w1) \<Rightarrow> count_fetched (record_fetch ctx job None None w1)
      | (Inr (Updated f), w1) \<Rightarrow>
          (case process_entries ctx job existing 0 (ff_entries f) (count_fetched w1) of
             (capped, w2) \<Rightarrow> (if capped then w2 else record_fetch ctx job (ff_etag f) (ff_last_modified f) w2))
      | (Inl e, w1) \<Rightarrow>
          (let w2 = count_error w1 in if is_transient e then w2 else record_fetch ctx job None None w2))"

section \<open>Batches\<close>

text \<open>\<open>FeedContext\<close> is built with the rules the database has; without them articles are not scored.\<close>

definition load_rules :: "'v feed_context \<Rightarrow> 'v world \<Rightarrow> 'v feed_context \<times> 'v world" where
  "load_rules ctx w =
     (case on_db (fdb_active_rule_jsons ''default'') w of
        (r, w1) \<Rightarrow>
          (ctx\<lparr>fc_rules := List.map_filter (fc_rule_parse ctx) (case r of Inr js \<Rightarrow> js | Inl _ \<Rightarrow> [])\<rparr>,
           w1\<lparr>iw_metrics := no_metrics\<rparr>))"

text \<open>The feeds that were processed: one result each.\<close>

fun feed_batch_loop :: "'v feed_context \<Rightarrow> feed list \<Rightarrow> 'v world \<Rightarrow> int list \<times> 'v world" where
  "feed_batch_loop ctx [] w = ([], w)"
| "feed_batch_loop ctx (f # fs) w =
     (case on_db (fdb_guids_for_feed (f_id f)) w of
        (Inl _, w1) \<Rightarrow> feed_batch_loop ctx fs w1
      | (Inr existing, w1) \<Rightarrow>
          (case feed_batch_loop ctx fs (process_one_feed ctx (job_of f) existing w1) of
             (ids, w2) \<Rightarrow> (f_id f # ids, w2)))"

definition execute_feed_batch :: "'v feed_context \<Rightarrow> feed list \<Rightarrow> 'v world \<Rightarrow> int list \<times> 'v world" where
  "execute_feed_batch ctx0 fs w0 = (case load_rules ctx0 w0 of (ctx, w) \<Rightarrow> feed_batch_loop ctx fs w)"

definition queue_send :: "fetch_job \<Rightarrow> 'v world \<Rightarrow> 'v world" where
  "queue_send j w =
     (case iw_queue_faults w of
        True # fs \<Rightarrow> w\<lparr>iw_queue_faults := fs\<rparr>
      | fs \<Rightarrow> w\<lparr>iw_queue := iw_queue w @ [j], iw_queue_faults := tl fs\<rparr>)"

definition process_all_feeds :: "'v feed_context \<Rightarrow> bool \<Rightarrow> ('v, store_error, unit) wio" where
  "process_all_feeds ctx queue_bound =
     io_bind (on_db (fdb_feeds_due (fc_now ctx) None)) (\<lambda>due w.
       let w1 = (if queue_bound then fold (\<lambda>f. queue_send (job_of f)) due w else snd (execute_feed_batch ctx due w))
       in (Inr (), io_ignore (on_db (fdb_expire_articles (fc_now ctx) 30)) w1))"

text \<open>The consumer: the messages that are retried, the others are acknowledged.\<close>

fun queue_loop :: "'v feed_context \<Rightarrow> fetch_job list \<Rightarrow> 'v world \<Rightarrow> fetch_job list \<times> 'v world" where
  "queue_loop ctx [] w = ([], w)"
| "queue_loop ctx (j # js) w =
     (case on_db (fdb_guids_for_feed (fj_feed_id j)) w of
        (Inl _, w1) \<Rightarrow> (case queue_loop ctx js w1 of (retried, w2) \<Rightarrow> (j # retried, w2))
      | (Inr existing, w1) \<Rightarrow> queue_loop ctx js (process_one_feed ctx j existing w1))"

definition queue_handle :: "'v feed_context \<Rightarrow> fetch_job list \<Rightarrow> 'v world \<Rightarrow> fetch_job list \<times> 'v world" where
  "queue_handle ctx0 jobs w0 = (case load_rules ctx0 w0 of (ctx, w) \<Rightarrow> queue_loop ctx jobs w)"

section \<open>Garbage collection\<close>

fun gc_delete :: "string list \<Rightarrow> 'v world \<Rightarrow> nat \<times> 'v world" where
  "gc_delete [] w = (0, w)"
| "gc_delete (k # ks) w =
     (case on_bucket (bucket_delete k) w of
        (r, w1) \<Rightarrow> (case gc_delete ks w1 of (n, w2) \<Rightarrow> ((if is_ok r then n + 1 else n), w2)))"

definition gc_r2_objects :: "bool \<Rightarrow> int \<Rightarrow> ('v, store_error, nat) wio" where
  "gc_r2_objects bucket_bound now =
     (if \<not> bucket_bound then io_ret 0
      else io_bind (on_db (fdb_expired_r2_keys now 30)) (\<lambda>keys.
        if keys = [] then io_ret 0
        else (\<lambda>w. case gc_delete keys w of
          (n, w1) \<Rightarrow> io_bind (on_db (fdb_expire_articles now 30)) (\<lambda>_. io_ret n) w1)))"

section \<open>Backfill\<close>

definition backfill_per_cycle :: nat where
  "backfill_per_cycle = 50"

definition backfill_body :: "'v feed_context \<Rightarrow> backfill_article \<Rightarrow> 'v world \<Rightarrow> string \<times> 'v world" where
  "backfill_body ctx a w =
     (case ba_r2_key a of
        None \<Rightarrow> ([], w)
      | Some key \<Rightarrow>
          (if key \<noteq> [] \<and> fc_bucket ctx then
             (case on_bucket (bucket_get key) w of
                (Inr (Some obj), w1) \<Rightarrow> (obj, w1)
              | (_, w1) \<Rightarrow> ([], w1))
           else ([], w)))"

text \<open>One row; whether it counts as processed.\<close>

definition backfill_one ::
  "'v feed_context \<Rightarrow> (nat \<Rightarrow> string \<Rightarrow> string \<Rightarrow> (pipeline_error, summary_result) result)
    \<Rightarrow> backfill_article \<Rightarrow> 'v world \<Rightarrow> bool \<times> 'v world" where
  "backfill_one ctx s a w =
     (if ba_vector a \<noteq> None \<and> ba_vector a \<noteq> Some [] then (False, w)
      else case backfill_body ctx a w of
        (body, w1) \<Rightarrow>
          (case process_article ctx s (ba_id a) (ba_title a) (fc_lossy ctx body) (ba_score a) w1 of
             (Inr result, w2) \<Rightarrow>
               (True, entity_step (fc_unicode ctx) False (ba_id a) (sr_entities result)
                        (embed_step ctx False (ba_id a) (ba_title a) result w2))
           | (Inl _, w2) \<Rightarrow> (False, w2)))"

fun backfill_loop ::
  "'v feed_context \<Rightarrow> (nat \<Rightarrow> string \<Rightarrow> string \<Rightarrow> (pipeline_error, summary_result) result)
    \<Rightarrow> backfill_article list \<Rightarrow> 'v world \<Rightarrow> nat \<times> 'v world" where
  "backfill_loop ctx s [] w = (0, w)"
| "backfill_loop ctx s (a # as) w =
     (case backfill_one ctx s a w of
        (ok, w1) \<Rightarrow> (case backfill_loop ctx s as w1 of (n, w2) \<Rightarrow> ((if ok then n + 1 else n), w2)))"

definition process_backfill :: "'v feed_context \<Rightarrow> 'v world \<Rightarrow> nat \<times> 'v world" where
  "process_backfill ctx w =
     (case fc_summarizer ctx of
        None \<Rightarrow> (0, w)
      | Some s \<Rightarrow>
          (case on_db (fdb_backfill_candidates 0 backfill_per_cycle) w of
             (Inl _, w1) \<Rightarrow> (0, w1)
           | (Inr rows, w1) \<Rightarrow> backfill_loop ctx s rows w1))"

section \<open>The cron handler\<close>

text \<open>The jobs of the scheduled handler that work on these tables, in its order.\<close>

definition cron_cycle :: "bool \<Rightarrow> bool \<Rightarrow> 'v feed_context \<Rightarrow> int \<Rightarrow> 'v world \<Rightarrow> 'v world" where
  "cron_cycle ingestion_enabled queue_bound ctx now w =
     (let w1 = (if ingestion_enabled then io_ignore (process_all_feeds ctx queue_bound) w else w);
          w2 = io_ignore (gc_r2_objects (fc_bucket ctx) now) w1
      in snd (process_backfill ctx w2))"

end
