(* ===== verification/IngestionLaws.thy ===== *)
theory IngestionLaws
  imports Ingestion
begin

text \<open>
  The laws of the ingestion steps: \<open>tables_ok\<close>, the invariant of the tables; \<open>touches i\<close>, the relation of a
  step that works on the article \<open>i\<close> only and leaves what identifies it; and what the statements and the
  steps built from them do under that relation, whatever fails.
\<close>

section \<open>The invariant of the tables\<close>

definition article_core :: "article_row \<Rightarrow> int \<times> int \<times> string \<times> string \<times> string option \<times> int option" where
  "article_core a = (ar_id a, ar_feed a, ar_guid a, ar_title a, ar_url a, ar_published a)"

definition guid_key :: "article_row \<Rightarrow> int \<times> string" where
  "guid_key a = (ar_feed a, ar_guid a)"

definition articles_ok :: "feed_db \<Rightarrow> bool" where
  "articles_ok d \<longleftrightarrow> distinct (map ar_id (fdb_articles d)) \<and> distinct (map guid_key (fdb_articles d)) \<and>
     (\<forall>a \<in> set (fdb_articles d). 0 < ar_id a \<and> ar_feed a \<in> f_id ` set (fdb_feeds d) \<and>
        (ar_r2_key a = None \<or> ar_r2_key a = Some (article_key (ar_id a))) \<and>
        (ar_vector a = None \<or> ar_vector a = Some (vector_key (ar_id a))))"

definition entities_ok :: "feed_db \<Rightarrow> bool" where
  "entities_ok d \<longleftrightarrow> distinct (map e_id (fdb_entities d)) \<and> distinct (map e_normalized_name (fdb_entities d)) \<and>
     (\<forall>e \<in> set (fdb_entities d). e_id e < fdb_next_entity d)"

definition links_ok :: "feed_db \<Rightarrow> bool" where
  "links_ok d \<longleftrightarrow> distinct (map (\<lambda>l. (al_article l, al_entity l)) (fdb_links d)) \<and>
     (\<forall>l \<in> set (fdb_links d). al_article l \<in> ar_id ` set (fdb_articles d) \<and> al_entity l \<in> e_id ` set (fdb_entities d)) \<and>
     distinct (map (\<lambda>r. (rl_source r, rl_target r, rl_type r)) (fdb_relations d)) \<and>
     (\<forall>r \<in> set (fdb_relations d). rl_source r \<in> e_id ` set (fdb_entities d) \<and> rl_target r \<in> e_id ` set (fdb_entities d))"

definition tables_ok :: "feed_db \<Rightarrow> bool" where
  "tables_ok d \<longleftrightarrow> articles_ok d \<and> entities_ok d \<and> links_ok d"

lemma fold_max: "n \<le> fold max xs n \<and> (\<forall>x \<in> set xs. x \<le> fold max xs n)" for n :: int
proof (induction xs arbitrary: n)
  case (Cons x xs)
  from Cons.IH [of "max x n"] show ?case by auto
qed simp

lemma next_rowid_fresh: "i \<in> set ids \<Longrightarrow> i < next_rowid ids"
  using fold_max [of 0 ids] by (auto simp: next_rowid_def)

lemma next_rowid_pos: "0 < next_rowid ids"
  using fold_max [of 0 ids] by (auto simp: next_rowid_def)

section \<open>Steps that work on one article\<close>

definition core_kept :: "(article_row \<Rightarrow> article_row) \<Rightarrow> bool" where
  "core_kept g \<longleftrightarrow> (\<forall>a. article_core (g a) = article_core a)"

definition touches :: "int \<Rightarrow> feed_db \<Rightarrow> feed_db \<Rightarrow> bool" where
  "touches i d d' \<longleftrightarrow> (\<exists>g. core_kept g \<and> fdb_articles d' = map (\<lambda>a. if ar_id a = i then g a else a) (fdb_articles d)) \<and>
     fdb_feeds d' = fdb_feeds d \<and> fdb_clock d' = fdb_clock d \<and> fdb_rules d' = fdb_rules d \<and>
     (fdb_faults d = [] \<longrightarrow> fdb_faults d' = []) \<and> (tables_ok d \<longrightarrow> tables_ok d')"

lemma core_kept_id: "core_kept (\<lambda>a. a)"
  by (simp add: core_kept_def)

lemma core_kept_fields: "core_kept g \<Longrightarrow> ar_id (g a) = ar_id a \<and> ar_feed (g a) = ar_feed a \<and> ar_guid (g a) = ar_guid a \<and>
    ar_title (g a) = ar_title a \<and> ar_url (g a) = ar_url a \<and> ar_published (g a) = ar_published a"
  by (simp add: core_kept_def article_core_def)

lemma touches_refl [simp]: "touches i d d"
  by (auto simp: touches_def intro!: exI [of _ "\<lambda>a. a"] core_kept_id)

lemma touches_trans:
  assumes "touches i d d1" "touches i d1 d2"
  shows "touches i d d2"
proof -
  from assms obtain g h where g: "core_kept g" "fdb_articles d1 = map (\<lambda>a. if ar_id a = i then g a else a) (fdb_articles d)"
    and h: "core_kept h" "fdb_articles d2 = map (\<lambda>a. if ar_id a = i then h a else a) (fdb_articles d1)"
    unfolding touches_def by blast
  have "fdb_articles d2 = map (\<lambda>a. if ar_id a = i then h (g a) else a) (fdb_articles d)"
    using g h by (auto simp: core_kept_fields)
  moreover have "core_kept (\<lambda>a. h (g a))" using g h by (simp add: core_kept_def)
  ultimately show ?thesis using assms unfolding touches_def by (auto intro!: exI [of _ "\<lambda>a. h (g a)"])
qed

lemma touches_cores: "touches i d d' \<Longrightarrow> map article_core (fdb_articles d') = map article_core (fdb_articles d)"
  unfolding touches_def core_kept_def by (elim conjE exE) (simp del: map_map add: map_eq_conv flip: map_map, simp)

lemma touches_others: "touches i d d' \<Longrightarrow> filter (\<lambda>a. ar_id a \<noteq> i) (fdb_articles d') = filter (\<lambda>a. ar_id a \<noteq> i) (fdb_articles d)"
proof -
  assume "touches i d d'"
  then obtain g where g: "core_kept g" "fdb_articles d' = map (\<lambda>a. if ar_id a = i then g a else a) (fdb_articles d)"
    unfolding touches_def by blast
  have "filter (\<lambda>a. ar_id a \<noteq> i) (map (\<lambda>a. if ar_id a = i then g a else a) as) = filter (\<lambda>a. ar_id a \<noteq> i) as" for as
    using g(1) by (induction as) (auto simp: core_kept_fields)
  with g(2) show ?thesis by simp
qed

text \<open>What the statements read apart from their fault.\<close>

lemma articles_ok_map:
  assumes "articles_ok d" "core_kept g" "fdb_articles d' = map (\<lambda>a. if ar_id a = i then g a else a) (fdb_articles d)"
    "fdb_feeds d' = fdb_feeds d"
    and "\<And>a. ar_r2_key (g a) = ar_r2_key a \<or> ar_r2_key (g a) = None \<or> ar_r2_key (g a) = Some (article_key i)"
    and "\<And>a. ar_vector (g a) = ar_vector a \<or> ar_vector (g a) = Some (vector_key i)"
  shows "articles_ok d'"
proof -
  have "map ar_id (fdb_articles d') = map ar_id (fdb_articles d)" "map guid_key (fdb_articles d') = map guid_key (fdb_articles d)"
    using assms(2,3) by (auto simp: core_kept_fields guid_key_def)
  moreover have "\<forall>a \<in> set (fdb_articles d'). 0 < ar_id a \<and> ar_feed a \<in> f_id ` set (fdb_feeds d') \<and>
      (ar_r2_key a = None \<or> ar_r2_key a = Some (article_key (ar_id a))) \<and>
      (ar_vector a = None \<or> ar_vector a = Some (vector_key (ar_id a)))"
  proof
    fix a' assume "a' \<in> set (fdb_articles d')"
    then obtain a where a: "a \<in> set (fdb_articles d)" "a' = (if ar_id a = i then g a else a)" using assms(3) by auto
    with assms(1,4) show "0 < ar_id a' \<and> ar_feed a' \<in> f_id ` set (fdb_feeds d') \<and>
      (ar_r2_key a' = None \<or> ar_r2_key a' = Some (article_key (ar_id a'))) \<and>
      (ar_vector a' = None \<or> ar_vector a' = Some (vector_key (ar_id a')))"
      using assms(5,6) [of a] core_kept_fields [OF assms(2), of a] unfolding articles_ok_def by auto
  qed
  ultimately show ?thesis using assms(1) unfolding articles_ok_def by auto
qed

lemma links_ok_articles:
  assumes "links_ok d" "ar_id ` set (fdb_articles d) \<subseteq> ar_id ` set (fdb_articles d')" "fdb_links d' = fdb_links d"
    "e_id ` set (fdb_entities d) \<subseteq> e_id ` set (fdb_entities d')" "fdb_relations d' = fdb_relations d"
  shows "links_ok d'"
  using assms unfolding links_ok_def by (simp add: subset_iff)

text \<open>A statement is its body, or it fails and only uses up a fault.\<close>

lemma statement_cases [consumes 1, case_names failed ran]:
  assumes "fdb_statement f d = (r, d')"
  obtains fs where "fdb_faults d = True # fs" "r = Inl (D1 ''statement failed'')" "d' = d\<lparr>fdb_faults := fs\<rparr>"
  | fs where "fdb_faults d \<noteq> [] \<or> fs = []" "f (d\<lparr>fdb_faults := fs\<rparr>) = (r, d')"
proof (cases "fdb_faults d")
  case Nil
  then have "f (d\<lparr>fdb_faults := []\<rparr>) = f d" by (cases d) simp
  also have "\<dots> = (r, d')" using Nil assms by (simp add: fdb_statement_def)
  finally have "f (d\<lparr>fdb_faults := []\<rparr>) = (r, d')" .
  with that(2) [of "[]"] show ?thesis by simp
next
  case (Cons b fs)
  with assms that show ?thesis by (cases b) (auto simp: fdb_statement_def)
qed

lemma faults_touch [simp]: "fdb_faults d \<noteq> [] \<or> fs = [] \<Longrightarrow> touches i d (d\<lparr>fdb_faults := fs\<rparr>)"
  by (auto simp: touches_def tables_ok_def articles_ok_def entities_ok_def links_ok_def intro!: exI [of _ "\<lambda>a. a"] core_kept_id)

lemma touches_statement:
  assumes "fdb_statement f d = (r, d')" "\<And>d r d'. f d = (r, d') \<Longrightarrow> touches i d d'"
  shows "touches i d d'"
  using assms(1)
proof (cases rule: statement_cases)
  case (failed fs)
  then show ?thesis by simp
next
  case (ran fs)
  from touches_trans [OF faults_touch [OF ran(1)] assms(2) [OF ran(2)]] show ?thesis .
qed

lemma touches_query: "fdb_query f d = (r, d') \<Longrightarrow> touches i d d'"
  unfolding fdb_query_def by (erule touches_statement) simp

section \<open>The statements\<close>

lemma touches_map_articles:
  assumes "map_articles i g d = (r, d')" "core_kept g"
    and "\<And>a. ar_r2_key (g a) = ar_r2_key a \<or> ar_r2_key (g a) = None \<or> ar_r2_key (g a) = Some (article_key i)"
    and "\<And>a. ar_vector (g a) = ar_vector a \<or> ar_vector (g a) = Some (vector_key i)"
  shows "touches i d d'"
  using assms(1) unfolding map_articles_def
proof (rule touches_statement)
  fix d :: feed_db and r d'
  assume "(Inr (), d\<lparr>fdb_articles := map (\<lambda>a. if ar_id a = i then g a else a) (fdb_articles d)\<rparr>) = (r, d')"
  then have d': "d' = d\<lparr>fdb_articles := map (\<lambda>a. if ar_id a = i then g a else a) (fdb_articles d)\<rparr>" by simp
  have "articles_ok d'" if "articles_ok d"
    by (rule articles_ok_map [OF that assms(2) _ _ assms(3,4)]) (simp_all add: d')
  moreover have "map ar_id (fdb_articles d') = map ar_id (fdb_articles d)" using assms(2) by (simp add: d' core_kept_fields)
  then have "ar_id ` set (fdb_articles d') = ar_id ` set (fdb_articles d)" by (metis list.set_map)
  then have "links_ok d'" if "links_ok d"
    by (intro links_ok_articles [OF that]) (simp_all add: d')
  ultimately show "touches i d d'"
    using assms(2) by (auto simp: touches_def d' tables_ok_def entities_ok_def)
qed

lemma touches_set_ai_summary: "fdb_set_ai_summary i s t (vector_key i) x d = (r, d') \<Longrightarrow> touches i d d'"
  unfolding fdb_set_ai_summary_def by (erule touches_map_articles) (auto simp: core_kept_def article_core_def)

lemma touches_set_r2_key: "fdb_set_r2_key i (Some (article_key i)) d = (r, d') \<Longrightarrow> touches i d d'"
  unfolding fdb_set_r2_key_def by (erule touches_map_articles) (auto simp: core_kept_def article_core_def)

lemma touches_same_articles:
  assumes "fdb_articles d' = fdb_articles d" "fdb_feeds d' = fdb_feeds d" "fdb_clock d' = fdb_clock d"
    "fdb_rules d' = fdb_rules d" "fdb_faults d' = fdb_faults d"
    and "tables_ok d \<Longrightarrow> entities_ok d' \<and> links_ok d'"
  shows "touches i d d'"
  using assms by (auto simp: touches_def tables_ok_def articles_ok_def intro!: exI [of _ "\<lambda>a. a"] core_kept_id)

lemma touches_create_artifact: "fdb_create_artifact n d = (r, d') \<Longrightarrow> touches i d d'"
  unfolding fdb_create_artifact_def
  by (erule touches_statement) (auto intro!: touches_same_articles simp: tables_ok_def entities_ok_def links_ok_def)

lemma refresh_entity_fields [simp]: "e_id (refresh_entity t n e) = e_id e"
    "e_normalized_name (refresh_entity t n e) = e_normalized_name e"
  by (simp_all add: refresh_entity_def)

lemma entities_map_update:
  "map e_id (update_first p (refresh_entity t n) es) = map e_id es"
  "map e_normalized_name (update_first p (refresh_entity t n) es) = map e_normalized_name es"
  by (auto intro!: map_update_first)

lemma touches_upsert_entity: "fdb_upsert_entity a b c d = (r, d') \<Longrightarrow> touches i d d'"
  unfolding fdb_upsert_entity_def
proof (erule touches_statement)
  fix d :: feed_db and r d'
  assume step: "(case List.find (\<lambda>e. e_normalized_name e = b) (fdb_entities d) of
       Some e \<Rightarrow> (Inr (e_id e), d\<lparr>fdb_entities :=
         update_first (\<lambda>e. e_normalized_name e = b) (refresh_entity c (fdb_clock d)) (fdb_entities d)\<rparr>)
     | None \<Rightarrow> (Inr (fdb_next_entity d), d\<lparr>fdb_next_entity := fdb_next_entity d + 1,
         fdb_entities := fdb_entities d @
           [\<lparr>e_id = fdb_next_entity d, e_name = a, e_normalized_name = b, e_entity_type = c,
             e_canonical_id = None, e_description = None, e_metadata = None,
             e_created_at = fdb_clock d, e_updated_at = fdb_clock d\<rparr>]\<rparr>)) = (r :: (store_error, int) result, d')"
  show "touches i d d'"
  proof (cases "List.find (\<lambda>e. e_normalized_name e = b) (fdb_entities d)")
    case None
    then have new: "b \<notin> e_normalized_name ` set (fdb_entities d)" by (auto simp: find_None_iff_all)
    have d': "d' = d\<lparr>fdb_next_entity := fdb_next_entity d + 1, fdb_entities := fdb_entities d @
           [\<lparr>e_id = fdb_next_entity d, e_name = a, e_normalized_name = b, e_entity_type = c,
             e_canonical_id = None, e_description = None, e_metadata = None,
             e_created_at = fdb_clock d, e_updated_at = fdb_clock d\<rparr>]\<rparr>"
      using None step by simp
    have "entities_ok d'" if ok: "entities_ok d"
    proof -
      have "fdb_next_entity d \<notin> e_id ` set (fdb_entities d)" using ok by (force simp: entities_ok_def)
      moreover have "\<forall>e \<in> set (fdb_entities d). e_id e < fdb_next_entity d + 1" using ok by (force simp: entities_ok_def)
      ultimately show ?thesis using ok new by (simp add: entities_ok_def d')
    qed
    moreover have "links_ok d'" if "links_ok d"
      by (rule links_ok_articles [OF that]) (auto simp: d')
    ultimately show ?thesis by (intro touches_same_articles) (simp_all add: d' tables_ok_def)
  next
    case (Some e)
    let ?es = "update_first (\<lambda>e. e_normalized_name e = b) (refresh_entity c (fdb_clock d)) (fdb_entities d)"
    have ids: "e_id ` set ?es = e_id ` set (fdb_entities d)"
      by (metis entities_map_update(1) list.set_map)
    have d': "d' = d\<lparr>fdb_entities := ?es\<rparr>" using Some step by simp
    have "entities_ok d'" if ok: "entities_ok d"
    proof -
      have "\<forall>x \<in> e_id ` set ?es. x < fdb_next_entity d" unfolding ids using ok by (auto simp: entities_ok_def)
      with ok show ?thesis by (simp add: entities_ok_def d' entities_map_update)
    qed
    moreover have "links_ok d'" if "links_ok d"
      by (rule links_ok_articles [OF that]) (simp_all add: d' ids)
    ultimately show ?thesis by (intro touches_same_articles) (simp_all add: d' tables_ok_def)
  qed
qed

lemma touches_link: "fdb_link_article_entity a e x c d = (r, d') \<Longrightarrow> touches i d d'"
  unfolding fdb_link_article_entity_def
  by (erule touches_statement, rule touches_same_articles)
    (auto simp: tables_ok_def entities_ok_def links_ok_def list_ex_iff split: if_splits)

lemma touches_link_relation: "fdb_link_relation a b t x d = (r, d') \<Longrightarrow> touches i d d'"
  unfolding fdb_link_relation_def
  by (erule touches_statement, rule touches_same_articles)
    (auto simp: tables_ok_def entities_ok_def links_ok_def list_ex_iff split: if_splits)

section \<open>The steps on one article\<close>

definition wtouches :: "int \<Rightarrow> 'v world \<Rightarrow> 'v world \<Rightarrow> bool" where
  "wtouches i w w' \<longleftrightarrow> touches i (iw_db w) (iw_db w') \<and> iw_queue w' = iw_queue w"

lemma wtouches_refl [simp]: "wtouches i w w"
  by (simp add: wtouches_def)

lemma wtouches_trans [trans]: "wtouches i w w1 \<Longrightarrow> wtouches i w1 w2 \<Longrightarrow> wtouches i w w2"
  by (auto simp: wtouches_def intro: touches_trans)

lemma wtouches_on_db:
  assumes "on_db m w = (r, w')" "\<And>r d'. m (iw_db w) = (r, d') \<Longrightarrow> touches i (iw_db w) d'"
  shows "wtouches i w w'"
  using assms by (auto simp: on_db_def wtouches_def split: prod.splits)

lemma wtouches_on_db_ignore:
  "(\<And>r d'. m (iw_db w) = (r, d') \<Longrightarrow> touches i (iw_db w) d') \<Longrightarrow> wtouches i w (io_ignore (on_db m) w)"
  by (auto simp: io_ignore_def on_db_def wtouches_def split: prod.splits)

lemma wtouches_on_bucket: "on_bucket m w = (r, w') \<Longrightarrow> wtouches i w w'"
  by (auto simp: on_bucket_def wtouches_def split: prod.splits)

lemma wtouches_outside: "outside f w = (r, w') \<Longrightarrow> wtouches i w w'"
  by (auto simp: outside_def wtouches_def)

lemma wtouches_meter [simp]: "wtouches i w (meter f w)"
  by (simp add: meter_def wtouches_def)

lemma wtouches_counts [simp]:
  "wtouches i w (count_fetched w)" "wtouches i w (count_new w)" "wtouches i w (count_dup w)" "wtouches i w (count_entity w)"
  "wtouches i w (count_link w)" "wtouches i w (count_relation w)" "wtouches i w (count_error w)"
  by (simp_all add: count_fetched_def count_new_def count_dup_def count_entity_def count_link_def count_relation_def
      count_error_def)

lemma wtouches_counted [simp]: "(\<And>w. wtouches i w (f w)) \<Longrightarrow> wtouches i w (counted b f w)"
  by (simp add: counted_def)

lemma io_bind_cases [consumes 1]:
  assumes "io_bind m f s = (r, s')"
  obtains e where "m s = (Inl e, s')" "r = Inl e" | a s1 where "m s = (Inr a, s1)" "f a s1 = (r, s')"
  using assms by (auto simp: io_bind_def split: prod.splits sum.splits)

lemma io_map_err_world: "io_map_err f m s = (r, s') \<Longrightarrow> \<exists>r'. m s = (r', s')"
  by (auto simp: io_map_err_def split: prod.splits)

lemma wtouches_process_article: "process_article ctx s i t b x w = (r, w') \<Longrightarrow> wtouches i w w'"
  unfolding process_article_def Let_def d1_set_ai_summary_def
  by (auto elim!: io_bind_cases dest!: io_map_err_world wtouches_outside [of _ _ _ _ i]
      elim!: wtouches_on_db [THEN wtouches_trans [rotated]] simp: touches_set_ai_summary)

lemma wtouches_embed_and_upsert: "embed_and_upsert ctx e j t s tags w = (r, w') \<Longrightarrow> wtouches i w w'"
  unfolding embed_and_upsert_def Let_def
  by (auto elim!: io_bind_cases dest!: io_map_err_world wtouches_outside [of _ _ _ _ i]
      simp: upsert_vector_def wtouches_def split: prod.splits)

lemma wtouches_embed_step: "wtouches i w (embed_step ctx m j t r w)"
  by (auto simp: embed_step_def split: option.splits prod.splits
      intro: wtouches_embed_and_upsert wtouches_trans [OF wtouches_embed_and_upsert wtouches_counted])

lemma wtouches_persist_entities: "persist_entities U m j names ids w = (ids', w') \<Longrightarrow> wtouches i w w'"
proof (induction U m j names ids w arbitrary: ids' w' rule: persist_entities.induct)
  case (2 U m j name names ids w)
  obtain r w1 where up: "on_db (fdb_upsert_entity name (normalize_name U name) (classify U name)) w = (r, w1)"
    by (rule prod.exhaust)
  have t1: "wtouches i w w1" by (rule wtouches_on_db [OF up]) (rule touches_upsert_entity)
  show ?case
  proof (cases r)
    case (Inl e)
    with 2 up have "wtouches i w1 w'" by simp
    with t1 show ?thesis by (rule wtouches_trans)
  next
    case (Inr eid)
    obtain q w2 where link: "on_db (fdb_link_article_entity j eid (Fin 1) None) (counted m count_entity w1) = (q, w2)"
      by (rule prod.exhaust)
    have t2: "wtouches i (counted m count_entity w1) w2" by (rule wtouches_on_db [OF link]) (rule touches_link)
    have "wtouches i (if is_ok q then counted m count_link w2 else w2) w'"
      using "2.IH"(2) [OF up [symmetric] Inr link [symmetric]] "2.prems" up Inr link by simp
    moreover have "wtouches i w2 (if is_ok q then counted m count_link w2 else w2)" by simp
    ultimately show ?thesis using t1 t2 wtouches_counted [of i count_entity] by (meson wtouches_counts(4) wtouches_trans)
  qed
qed simp

lemma wtouches_link_relations: "wtouches i w (link_relations m ps w)"
proof (induction m ps w rule: link_relations.induct)
  case (2 m a b ps w)
  obtain r w1 where link: "on_db (fdb_link_relation a b ''mentioned_together'' (Fin 1)) w = (r, w1)" by (rule prod.exhaust)
  have "wtouches i w w1" by (rule wtouches_on_db [OF link]) (rule touches_link_relation)
  also have "wtouches i w1 (if is_ok r then counted m count_relation w1 else w1)" by simp
  also have "wtouches i \<dots> (link_relations m ((a, b) # ps) w)" using 2 [OF link [symmetric]] link by simp
  finally show ?case .
qed simp

lemma wtouches_entity_step: "wtouches i w (entity_step U m j names w)"
  by (auto simp: entity_step_def split: prod.splits intro: wtouches_trans [OF wtouches_persist_entities wtouches_link_relations])

lemma wtouches_keep_score: "wtouches i w (keep_score i x w)"
  by (auto simp: keep_score_def intro: wtouches_on_db_ignore touches_set_ai_summary)

lemma wtouches_ai_step: "wtouches i w (ai_step ctx i t b x w)"
  by (auto simp: ai_step_def wtouches_keep_score split: option.splits prod.splits sum.splits
      dest!: wtouches_process_article
      intro: wtouches_trans [OF _ wtouches_trans [OF wtouches_embed_step wtouches_entity_step]]
        wtouches_trans [OF _ wtouches_trans [OF wtouches_counts(7) wtouches_keep_score]])

lemma wtouches_store_full_text: "wtouches i w (store_full_text i t w)"
proof -
  obtain r w1 where put: "on_bucket (bucket_put (article_key i) t) w = (r, w1)" by (rule prod.exhaust)
  have "wtouches i w w1" by (rule wtouches_on_bucket [OF put])
  also have "wtouches i w1 (if is_ok r then w1 else count_error w1)" by simp
  also have "wtouches i \<dots> (io_ignore (on_db (fdb_set_r2_key i (Some (article_key i)))) \<dots>)"
    by (rule wtouches_on_db_ignore) (rule touches_set_r2_key)
  also have "wtouches i \<dots> (store_full_text i t w)"
    unfolding store_full_text_def put Let_def prod.case by (rule wtouches_on_db_ignore) (rule touches_create_artifact)
  finally show ?thesis .
qed

lemma wtouches_extract_full_text: "extract_full_text ctx u w = (r, w') \<Longrightarrow> wtouches i w w'"
  unfolding extract_full_text_def
  by (auto elim!: io_bind_cases dest: wtouches_outside simp: Let_def split: if_splits option.splits)

lemma wtouches_full_text_step: "full_text_step ctx job i u b w = (b', w') \<Longrightarrow> wtouches i w w'"
  by (auto simp: full_text_step_def split: if_splits option.splits prod.splits sum.splits
      dest!: wtouches_extract_full_text [where i = i] intro: wtouches_trans [OF _ wtouches_store_full_text])

lemma wtouches_new_article_step: "wtouches i w (new_article_step ctx job e i w)"
  by (auto simp: new_article_step_def Let_def split: prod.splits
      intro: wtouches_trans [OF wtouches_counts(2) wtouches_trans [OF wtouches_full_text_step wtouches_ai_step]])

section \<open>Runs that add articles\<close>

definition extends :: "feed_db \<Rightarrow> feed_db \<Rightarrow> article_row list \<Rightarrow> bool" where
  "extends d d' news \<longleftrightarrow> fdb_articles d' = fdb_articles d @ news \<and> fdb_feeds d' = fdb_feeds d \<and> fdb_clock d' = fdb_clock d \<and>
     fdb_rules d' = fdb_rules d \<and> (\<forall>a \<in> set (fdb_articles d). \<forall>x \<in> set news. ar_id a < ar_id x) \<and>
     (fdb_faults d = [] \<longrightarrow> fdb_faults d' = []) \<and> (tables_ok d \<longrightarrow> tables_ok d')"

lemma extends_refl [simp]: "extends d d []"
  by (simp add: extends_def)

lemma extends_trans: "extends d d1 xs \<Longrightarrow> extends d1 d2 ys \<Longrightarrow> extends d d2 (xs @ ys)"
  by (auto simp: extends_def)

lemma extends_faults [simp]: "fdb_faults d \<noteq> [] \<or> fs = [] \<Longrightarrow> extends d (d\<lparr>fdb_faults := fs\<rparr>) []"
  by (auto simp: extends_def tables_ok_def articles_ok_def entities_ok_def links_ok_def)

lemma extends_insert:
  assumes "\<not> list_ex (\<lambda>a. ar_feed a = na_feed_id n \<and> ar_guid a = na_guid n) (fdb_articles d)"
    "list_ex (\<lambda>f. f_id f = na_feed_id n) (fdb_feeds d)" "na_raw_content_r2_key n = None"
    "i = next_rowid (map ar_id (fdb_articles d))"
  shows "extends d (d\<lparr>fdb_articles := fdb_articles d @ [article_of i c n]\<rparr>) [article_of i c n]"
proof -
  let ?x = "article_of i c n" and ?d = "d\<lparr>fdb_articles := fdb_articles d @ [article_of i c n]\<rparr>"
  have x: "ar_id ?x = i" "guid_key ?x = (na_feed_id n, na_guid n)" "ar_feed ?x = na_feed_id n" "ar_r2_key ?x = None" "ar_vector ?x = None"
    using assms(3) by (simp_all add: article_of_def guid_key_def)
  have fresh: "i \<notin> ar_id ` set (fdb_articles d)" "0 < i"
    using next_rowid_fresh [of i "map ar_id (fdb_articles d)"] next_rowid_pos assms(4) by auto
  have new: "guid_key ?x \<notin> guid_key ` set (fdb_articles d)" using assms(1) x by (auto simp: guid_key_def list_ex_iff)
  have "na_feed_id n \<in> f_id ` set (fdb_feeds d)" using assms(2) by (force simp: list_ex_iff image_iff)
  then have "articles_ok ?d" if "articles_ok d"
    using that fresh new x by (auto simp: articles_ok_def)
  moreover have "links_ok ?d" if "links_ok d"
    by (rule links_ok_articles [OF that]) auto
  moreover have "\<forall>a \<in> set (fdb_articles d). ar_id a < i" using next_rowid_fresh assms(4) by auto
  ultimately show ?thesis using x(1) by (auto simp: extends_def tables_ok_def entities_ok_def)
qed

lemma insert_article_cases [consumes 2, case_names inserted ignored]:
  assumes "fdb_insert_article n d = (r, d')" "na_raw_content_r2_key n = None"
  obtains i where "r = Inr (Some i)" "extends d d' [article_of i (fdb_clock d) n]" "i \<notin> ar_id ` set (fdb_articles d)"
    "(na_feed_id n, na_guid n) \<notin> guid_key ` set (fdb_articles d)"
  | "\<nexists>i. r = Inr (Some i)" "extends d d' []"
    "fdb_faults d = [] \<Longrightarrow> na_feed_id n \<in> f_id ` set (fdb_feeds d) \<Longrightarrow> r = Inr None \<and> (na_feed_id n, na_guid n) \<in> guid_key ` set (fdb_articles d)"
  using assms(1) unfolding fdb_insert_article_def
proof (cases rule: statement_cases)
  case (failed fs)
  with that(2) show ?thesis by simp
next
  case (ran fs)
  let ?d = "d\<lparr>fdb_faults := fs\<rparr>"
  consider (dup) "list_ex (\<lambda>a. ar_feed a = na_feed_id n \<and> ar_guid a = na_guid n) (fdb_articles d)"
    | (orphan) "\<not> list_ex (\<lambda>a. ar_feed a = na_feed_id n \<and> ar_guid a = na_guid n) (fdb_articles d)" "\<not> list_ex (\<lambda>f. f_id f = na_feed_id n) (fdb_feeds d)"
    | (new) "\<not> list_ex (\<lambda>a. ar_feed a = na_feed_id n \<and> ar_guid a = na_guid n) (fdb_articles d)" "list_ex (\<lambda>f. f_id f = na_feed_id n) (fdb_feeds d)"
    by blast
  then show ?thesis
  proof cases
    case dup
    then have "(na_feed_id n, na_guid n) \<in> guid_key ` set (fdb_articles d)" by (force simp: list_ex_iff guid_key_def image_iff)
    moreover have d': "r = Inr None" "d' = ?d" using dup ran(2) by simp_all
    moreover have "extends d d' []" unfolding d'(2) by (rule extends_faults [OF ran(1)])
    ultimately show ?thesis using that(2) by simp
  next
    case orphan
    then have "na_feed_id n \<notin> f_id ` set (fdb_feeds d)" by (auto simp: list_ex_iff)
    moreover have d': "r = Inl fk_error" "d' = ?d" using orphan ran(2) by simp_all
    moreover have "extends d d' []" unfolding d'(2) by (rule extends_faults [OF ran(1)])
    ultimately show ?thesis using that(2) by simp
  next
    case new
    define i where "i = next_rowid (map ar_id (fdb_articles d))"
    have step: "r = Inr (Some i)" "d' = ?d\<lparr>fdb_articles := fdb_articles ?d @ [article_of i (fdb_clock d) n]\<rparr>"
      using new ran(2) by (simp_all add: i_def Let_def)
    have "extends ?d d' [article_of i (fdb_clock d) n]"
      unfolding step(2) by (rule extends_insert) (use new assms(2) i_def in simp_all)
    with extends_trans [OF extends_faults [OF ran(1)]] have "extends d d' [article_of i (fdb_clock d) n]" by fastforce
    moreover have "i \<notin> ar_id ` set (fdb_articles d)" using next_rowid_fresh [of i "map ar_id (fdb_articles d)"] by (auto simp: i_def)
    moreover have "(na_feed_id n, na_guid n) \<notin> guid_key ` set (fdb_articles d)" using new(1) by (auto simp: guid_key_def list_ex_iff)
    ultimately show ?thesis using that(1) step(1) by blast
  qed
qed

lemma touches_last:
  assumes "extends d d1 [x]" "touches (ar_id x) d1 d2" "ar_id x \<notin> ar_id ` set (fdb_articles d)"
  shows "\<exists>x'. extends d d2 [x'] \<and> article_core x' = article_core x"
proof -
  from assms(2) obtain g where g: "core_kept g" "fdb_articles d2 = map (\<lambda>a. if ar_id a = ar_id x then g a else a) (fdb_articles d1)"
    unfolding touches_def by blast
  have "map (\<lambda>a. if ar_id a = ar_id x then g a else a) (fdb_articles d) = fdb_articles d"
    by (rule map_idI) (metis assms(3) imageI)
  then have "fdb_articles d2 = fdb_articles d @ [g x]" using g(2) assms(1) by (simp add: extends_def)
  moreover have "article_core (g x) = article_core x" using g(1) by (simp add: core_kept_def)
  moreover have "ar_id (g x) = ar_id x" using g(1) core_kept_fields by blast
  ultimately show ?thesis using assms(1,2) unfolding extends_def touches_def by (intro exI [of _ "g x"]) auto
qed

text \<open>The row that an entry of a feed becomes.\<close>

definition is_entry :: "int \<Rightarrow> fetch_job \<Rightarrow> feed_entry \<Rightarrow> article_row \<Rightarrow> bool" where
  "is_entry now job e a \<longleftrightarrow> (let n = entry_article now job e in
     article_core a = (ar_id a, na_feed_id n, na_guid n, na_title n, na_url n, na_published_at n))"

lemma is_entry_guid: "is_entry now job e a \<Longrightarrow> ar_feed a = fj_feed_id job \<and> ar_guid a = fe_id e"
  by (simp add: is_entry_def article_core_def entry_article_def Let_def)

text \<open>One entry that is not known yet: it becomes one row, or nothing is added.\<close>

lemma insert_step:
  assumes "on_db (fdb_insert_article (entry_article (fc_now ctx) job e)) w = (r, w1)"
  shows "(\<exists>i x. r = Inr (Some i) \<and> extends (iw_db w) (iw_db (new_article_step ctx job e i w1)) [x] \<and> is_entry (fc_now ctx) job e x \<and>
        iw_queue (new_article_step ctx job e i w1) = iw_queue w \<and>
        (fj_feed_id job, fe_id e) \<notin> guid_key ` set (fdb_articles (iw_db w))) \<or>
     ((\<nexists>i. r = Inr (Some i)) \<and> extends (iw_db w) (iw_db w1) [] \<and> iw_queue w1 = iw_queue w \<and>
        (fdb_faults (iw_db w) = [] \<longrightarrow> fj_feed_id job \<in> f_id ` set (fdb_feeds (iw_db w)) \<longrightarrow>
           r = Inr None \<and> (fj_feed_id job, fe_id e) \<in> guid_key ` set (fdb_articles (iw_db w))))"
proof -
  let ?n = "entry_article (fc_now ctx) job e"
  have n: "na_feed_id ?n = fj_feed_id job" "na_guid ?n = fe_id e" "na_raw_content_r2_key ?n = None"
    by (simp_all add: entry_article_def)
  obtain d' where ins: "fdb_insert_article ?n (iw_db w) = (r, d')" and w1: "w1 = w\<lparr>iw_db := d'\<rparr>"
    using assms by (auto simp: on_db_def split: prod.splits)
  from ins n(3) show ?thesis
  proof (cases rule: insert_article_cases)
    case (inserted i)
    let ?x = "article_of i (fdb_clock (iw_db w)) ?n" and ?w2 = "new_article_step ctx job e i w1"
    have x: "ar_id ?x = i" by (simp add: article_of_def)
    have t: "wtouches i w1 ?w2" by (rule wtouches_new_article_step)
    then have "touches (ar_id ?x) d' (iw_db ?w2)" by (simp add: wtouches_def w1 x)
    with inserted(2,3) obtain x' where x': "extends (iw_db w) (iw_db ?w2) [x']" "article_core x' = article_core ?x"
      using touches_last [of "iw_db w" d' ?x] x by auto
    then have "is_entry (fc_now ctx) job e x'"
      by (simp add: is_entry_def article_core_def article_of_def Let_def)
    moreover have "iw_queue ?w2 = iw_queue w" using t by (simp add: wtouches_def w1)
    ultimately show ?thesis using inserted(1,4) x'(1) n by (intro disjI1 exI [of _ i] exI [of _ x']) simp
  next
    case ignored
    then show ?thesis using w1 n by auto
  qed
qed

section \<open>The entries of a feed\<close>

text \<open>The entries whose guid is not known, each guid once.\<close>

fun fresh_entries :: "string set \<Rightarrow> feed_entry list \<Rightarrow> feed_entry list" where
  "fresh_entries seen [] = []"
| "fresh_entries seen (e # es) =
     (if fe_id e \<in> seen then fresh_entries seen es else e # fresh_entries (insert (fe_id e) seen) es)"

definition feed_guids :: "int \<Rightarrow> feed_db \<Rightarrow> string set" where
  "feed_guids i d = {g. (i, g) \<in> guid_key ` set (fdb_articles d)}"

lemma feed_guids_extends: "extends d d' news \<Longrightarrow> feed_guids i d' = feed_guids i d \<union> {g. (i, g) \<in> guid_key ` set news}"
  by (auto simp: feed_guids_def extends_def)

lemma feed_guids_entry: "is_entry now job e x \<Longrightarrow> {g. (fj_feed_id job, g) \<in> guid_key ` set [x]} = {fe_id e}"
  by (auto simp: guid_key_def dest: is_entry_guid)

text \<open>Whatever fails, a run adds rows for entries it did not know and stops at the cap.\<close>

lemma process_entries_extends:
  assumes "process_entries ctx job existing n es w = (c, w')" "n < max_new_per_cycle"
  shows "\<exists>news. extends (iw_db w) (iw_db w') news \<and> iw_queue w' = iw_queue w \<and> n + length news \<le> max_new_per_cycle \<and>
      (c \<longleftrightarrow> n + length news = max_new_per_cycle) \<and>
      (\<forall>a \<in> set news. \<exists>e \<in> set es. fe_id e \<notin> set existing \<and> is_entry (fc_now ctx) job e a)"
  using assms
proof (induction ctx job existing n es w arbitrary: c w' rule: process_entries.induct)
  case (1 ctx job existing n w)
  then show ?case by (intro exI [of _ "[]"]) auto
next
  case (2 ctx job existing n e es w)
  show ?case
  proof (cases "fe_id e \<in> set existing")
    case True
    with 2 show ?thesis by fastforce
  next
    case new: False
    obtain r w1 where ins: "on_db (fdb_insert_article (entry_article (fc_now ctx) job e)) w = (r, w1)" by (rule prod.exhaust)
    from insert_step [OF ins] consider
      (row) i x where "r = Inr (Some i)" "extends (iw_db w) (iw_db (new_article_step ctx job e i w1)) [x]"
        "is_entry (fc_now ctx) job e x" "iw_queue (new_article_step ctx job e i w1) = iw_queue w"
      | (none) "\<nexists>i. r = Inr (Some i)" "extends (iw_db w) (iw_db w1) []" "iw_queue w1 = iw_queue w"
      by blast
    then show ?thesis
    proof cases
      case row
      let ?w2 = "new_article_step ctx job e i w1"
      show ?thesis
      proof (cases "max_new_per_cycle \<le> n + 1")
        case True
        with 2 new ins row show ?thesis by (intro exI [of _ "[x]"]) (auto simp: Let_def)
      next
        case False
        with 2 new ins row have "process_entries ctx job existing (n + 1) es ?w2 = (c, w')" by (simp add: Let_def)
        with 2(4) [OF new ins [symmetric] row(1) refl refl False] False obtain news where
          "extends (iw_db ?w2) (iw_db w') news" "iw_queue w' = iw_queue ?w2" "n + 1 + length news \<le> max_new_per_cycle"
          "c \<longleftrightarrow> n + 1 + length news = max_new_per_cycle"
          "\<forall>a \<in> set news. \<exists>e \<in> set es. fe_id e \<notin> set existing \<and> is_entry (fc_now ctx) job e a" by auto
        with row new extends_trans [OF row(2)] show ?thesis by (intro exI [of _ "x # news"]) fastforce
      qed
    next
      case none
      have same: "iw_db (count_dup w1) = iw_db w1" "iw_db (count_error w1) = iw_db w1"
        "iw_queue (count_dup w1) = iw_queue w1" "iw_queue (count_error w1) = iw_queue w1"
        by (simp_all add: count_dup_def count_error_def meter_def)
      have "\<exists>news. extends (iw_db w1) (iw_db w') news \<and> iw_queue w' = iw_queue w1 \<and> n + length news \<le> max_new_per_cycle \<and>
          (c \<longleftrightarrow> n + length news = max_new_per_cycle) \<and>
          (\<forall>a \<in> set news. \<exists>e \<in> set es. fe_id e \<notin> set existing \<and> is_entry (fc_now ctx) job e a)"
      proof (cases r)
        case (Inl err)
        with 2 new ins same show ?thesis by auto
      next
        case (Inr o')
        with none(1) have "o' = None" by (cases o') auto
        with 2 new ins Inr same show ?thesis by auto
      qed
      with none(2,3) extends_trans [OF none(2)] show ?thesis by fastforce
    qed
  qed
qed

text \<open>Without failures the rows are those of the first fresh entries, in their order.\<close>

lemma process_entries_exact:
  assumes "process_entries ctx job existing n es w = (c, w')" "n < max_new_per_cycle"
    and "fdb_faults (iw_db w) = []" "fj_feed_id job \<in> f_id ` set (fdb_feeds (iw_db w))"
    and "seen = set existing \<union> feed_guids (fj_feed_id job) (iw_db w)"
  shows "\<exists>news. extends (iw_db w) (iw_db w') news \<and>
      list_all2 (is_entry (fc_now ctx) job) (take (max_new_per_cycle - n) (fresh_entries seen es)) news \<and>
      (c \<longleftrightarrow> max_new_per_cycle - n \<le> length (fresh_entries seen es))"
  using assms
proof (induction ctx job existing n es w arbitrary: c w' seen rule: process_entries.induct)
  case (1 ctx job existing n w)
  then show ?case by (intro exI [of _ "[]"]) auto
next
  case (2 ctx job existing n e es w)
  let ?ids = "feed_guids (fj_feed_id job)"
  show ?case
  proof (cases "fe_id e \<in> set existing")
    case True
    with 2 show ?thesis by simp
  next
    case new: False
    obtain r w1 where ins: "on_db (fdb_insert_article (entry_article (fc_now ctx) job e)) w = (r, w1)" by (rule prod.exhaust)
    from insert_step [OF ins] 2(7,8) consider
      (row) i x where "r = Inr (Some i)" "extends (iw_db w) (iw_db (new_article_step ctx job e i w1)) [x]"
        "is_entry (fc_now ctx) job e x" "fe_id e \<notin> ?ids (iw_db w)"
      | (none) "r = Inr None" "extends (iw_db w) (iw_db w1) []" "fe_id e \<in> ?ids (iw_db w)"
      unfolding feed_guids_def by blast
    then show ?thesis
    proof cases
      case row
      let ?w2 = "new_article_step ctx job e i w1"
      have seen2: "insert (fe_id e) seen = set existing \<union> ?ids (iw_db ?w2)"
        using 2(9) feed_guids_extends [OF row(2)] feed_guids_entry [OF row(3)] by auto
      have unseen: "fe_id e \<notin> seen" using new row(4) 2(9) by simp
      show ?thesis
      proof (cases "max_new_per_cycle \<le> n + 1")
        case True
        with 2(6) have "max_new_per_cycle - n = 1" by simp
        with True 2(5) new ins row unseen show ?thesis by (intro exI [of _ "[x]"]) (auto simp: Let_def)
      next
        case False
        with 2(5) new ins row have run: "process_entries ctx job existing (n + 1) es ?w2 = (c, w')" by (simp add: Let_def)
        from 2(4) [OF new ins [symmetric] row(1) refl refl False run _ _ _ seen2] False row(2) 2(7,8)
        obtain news where
          "extends (iw_db ?w2) (iw_db w') news"
          "list_all2 (is_entry (fc_now ctx) job) (take (max_new_per_cycle - (n + 1)) (fresh_entries (insert (fe_id e) seen) es)) news"
          "c \<longleftrightarrow> max_new_per_cycle - (n + 1) \<le> length (fresh_entries (insert (fe_id e) seen) es)"
          by (auto simp: extends_def)
        moreover have "max_new_per_cycle - n = Suc (max_new_per_cycle - (n + 1))" using False by simp
        ultimately show ?thesis using row(3) unseen extends_trans [OF row(2)] by (intro exI [of _ "x # news"]) fastforce
      qed
    next
      case none
      have same: "iw_db (count_dup w1) = iw_db w1" by (simp add: count_dup_def meter_def)
      have "seen = set existing \<union> ?ids (iw_db (count_dup w1))" using 2(9) feed_guids_extends [OF none(2)] same by simp
      moreover have "process_entries ctx job existing n es (count_dup w1) = (c, w')" using 2(5) new ins none(1) by simp
      moreover have "fe_id e \<in> seen" using none(3) 2(9) by simp
      ultimately show ?thesis
        using 2(3) [OF new ins [symmetric] none(1) refl, of c w' seen] 2(6-8) none(2) same extends_trans [OF none(2)]
        by (fastforce simp: extends_def)
    qed
  qed
qed

end
