(* ===== verification/IngestionProps.thy ===== *)
theory IngestionProps
  imports IngestionLaws
begin

text \<open>
  What ingestion, garbage collection and backfill do to the tables over any history of calls.  Every
  call but the backfill \<open>grows\<close> the article table: it drops only summarised rows and appends rows with
  larger ids.  The backfill works on rows without a summary and without a vector id.
\<close>

section \<open>Growing tables\<close>

definition grows :: "feed_db \<Rightarrow> feed_db \<Rightarrow> bool" where
  "grows d d' \<longleftrightarrow> (tables_ok d \<longrightarrow> tables_ok d') \<and> (fdb_faults d = [] \<longrightarrow> fdb_faults d' = []) \<and>
     (\<exists>P news. fdb_articles d' = filter P (fdb_articles d) @ news \<and> (\<forall>a. ar_summary a = [] \<longrightarrow> P a) \<and>
        (\<forall>a \<in> set (fdb_articles d). ar_summary a = [] \<longrightarrow> (\<forall>x \<in> set news. ar_id a < ar_id x)))"

lemma growsI:
  assumes "tables_ok d \<Longrightarrow> tables_ok d'" "fdb_faults d = [] \<Longrightarrow> fdb_faults d' = []" "fdb_articles d' = filter P (fdb_articles d) @ news"
    "\<And>a. ar_summary a = [] \<Longrightarrow> P a" "\<And>a x. a \<in> set (fdb_articles d) \<Longrightarrow> x \<in> set news \<Longrightarrow> ar_id a < ar_id x"
  shows "grows d d'"
  using assms unfolding grows_def by blast

lemma grows_same: "(tables_ok d \<Longrightarrow> tables_ok d') \<Longrightarrow> (fdb_faults d = [] \<Longrightarrow> fdb_faults d' = []) \<Longrightarrow> fdb_articles d' = fdb_articles d \<Longrightarrow> grows d d'"
  by (rule growsI [where P = "\<lambda>_. True" and news = "[]"]) auto

lemma grows_refl [simp]: "grows d d"
  by (rule grows_same) simp_all

lemma grows_trans [trans]:
  assumes "grows d d1" "grows d1 d2"
  shows "grows d d2"
proof -
  from assms(1) obtain P1 n1 where 1: "fdb_articles d1 = filter P1 (fdb_articles d) @ n1" "\<forall>a. ar_summary a = [] \<longrightarrow> P1 a"
    "\<forall>a \<in> set (fdb_articles d). ar_summary a = [] \<longrightarrow> (\<forall>x \<in> set n1. ar_id a < ar_id x)" unfolding grows_def by blast
  from assms(2) obtain P2 n2 where 2: "fdb_articles d2 = filter P2 (fdb_articles d1) @ n2" "\<forall>a. ar_summary a = [] \<longrightarrow> P2 a"
    "\<forall>a \<in> set (fdb_articles d1). ar_summary a = [] \<longrightarrow> (\<forall>x \<in> set n2. ar_id a < ar_id x)" unfolding grows_def by blast
  have "fdb_articles d2 = filter (\<lambda>a. P1 a \<and> P2 a) (fdb_articles d) @ (filter P2 n1 @ n2)"
    unfolding 2(1) 1(1) by (simp add: conj_commute)
  moreover have "\<forall>a \<in> set (fdb_articles d). ar_summary a = [] \<longrightarrow> (\<forall>x \<in> set (filter P2 n1 @ n2). ar_id a < ar_id x)"
    using 1 2(3) by auto
  ultimately show ?thesis using assms 1(2) 2(2) unfolding grows_def
    by (intro conjI impI exI [of _ "\<lambda>a. P1 a \<and> P2 a"] exI [of _ "filter P2 n1 @ n2"]) auto
qed

lemma grows_extends: "extends d d' news \<Longrightarrow> grows d d'"
  by (rule growsI [where P = "\<lambda>_. True" and news = news]) (auto simp: extends_def)

lemma grows_faults [simp]: "fdb_faults d \<noteq> [] \<or> fs = [] \<Longrightarrow> grows d (d\<lparr>fdb_faults := fs\<rparr>)"
  by (rule grows_same) (auto simp: tables_ok_def articles_ok_def entities_ok_def links_ok_def)

lemma grows_statement:
  assumes "fdb_statement f d = (r, d')" "\<And>d r d'. f d = (r, d') \<Longrightarrow> grows d d'"
  shows "grows d d'"
  using assms(1)
proof (cases rule: statement_cases)
  case (ran fs)
  from grows_trans [OF grows_faults [OF ran(1)] assms(2) [OF ran(2)]] show ?thesis .
qed simp

lemma grows_query: "fdb_query f d = (r, d') \<Longrightarrow> grows d d'"
  unfolding fdb_query_def by (erule grows_statement) simp

lemma grows_map_feeds: "map_feeds p g d = (r, d') \<Longrightarrow> (\<And>f. f_id (g f) = f_id f) \<Longrightarrow> grows d d'"
  unfolding map_feeds_def
proof (erule grows_statement, rule grows_same)
  fix d :: feed_db and r :: "(store_error, unit) result" and d'
  assume g: "\<And>f. f_id (g f) = f_id f"
    and step: "(Inr (), d\<lparr>fdb_feeds := map (\<lambda>f. if p f then g f else f) (fdb_feeds d)\<rparr>) = (r, d')"
  have fs: "fdb_feeds d' = map (\<lambda>f. if p f then g f else f) (fdb_feeds d)" using step by auto
  have "map f_id (fdb_feeds d') = map f_id (fdb_feeds d)" using g by (simp add: fs)
  then have ids: "f_id ` set (fdb_feeds d') = f_id ` set (fdb_feeds d)" by (metis list.set_map)
  have same: "fdb_articles d' = fdb_articles d" "fdb_entities d' = fdb_entities d" "fdb_next_entity d' = fdb_next_entity d"
    "fdb_links d' = fdb_links d" "fdb_relations d' = fdb_relations d" using step by auto
  show "tables_ok d \<Longrightarrow> tables_ok d'"
    by (simp add: tables_ok_def articles_ok_def entities_ok_def links_ok_def ids same)
  show "fdb_faults d = [] \<Longrightarrow> fdb_faults d' = []" "fdb_articles d' = fdb_articles d" using step by auto
qed

lemma grows_record_fetch: "fdb_record_fetch i t e l d = (r, d') \<Longrightarrow> grows d d'"
  unfolding fdb_record_fetch_def by (erule grows_map_feeds) (simp add: fetched_at_def)

lemma grows_update_feed: "fdb_update_feed i t c v l d = (r, d') \<Longrightarrow> grows d d'"
  unfolding fdb_update_feed_def by (auto split: if_splits elim: grows_map_feeds simp: io_ret_def)

lemma grows_set_status: "fdb_set_feed_status i s d = (r, d') \<Longrightarrow> grows d d'"
  unfolding fdb_set_feed_status_def by (erule grows_map_feeds) simp

lemma grows_insert_feed: "fdb_insert_feed u t c v d = (r, d') \<Longrightarrow> grows d d'"
  unfolding fdb_insert_feed_def
  by (erule grows_statement, rule grows_same)
    (auto simp: Let_def tables_ok_def articles_ok_def entities_ok_def links_ok_def split: if_splits)

lemma distinct_map_filter: "distinct (map f xs) \<Longrightarrow> distinct (map f (filter P xs))"
  by (induction xs) auto

lemma grows_expire: "fdb_expire_articles t n d = (r, d') \<Longrightarrow> grows d d'"
  unfolding fdb_expire_articles_def
proof (erule grows_statement)
  fix d :: feed_db and r :: "(store_error, nat) result" and d'
  let ?old = "article_expired (t - n * 86400)"
  assume "(let old = filter ?old (fdb_articles d) in
     (Inr (length old), d\<lparr>fdb_articles := filter (\<lambda>a. \<not> ?old a) (fdb_articles d),
        fdb_links := filter (\<lambda>l. al_article l \<notin> set (map ar_id old)) (fdb_links d)\<rparr>)) = (r, d')"
  then have d': "d' = d\<lparr>fdb_articles := filter (\<lambda>a. \<not> ?old a) (fdb_articles d),
      fdb_links := filter (\<lambda>l. al_article l \<notin> ar_id ` {a \<in> set (fdb_articles d). ?old a}) (fdb_links d)\<rparr>"
    by (auto simp: Let_def)
  have "tables_ok d'" if ok: "tables_ok d"
  proof -
    have "articles_ok d'" using ok by (auto simp: tables_ok_def articles_ok_def d' distinct_map_filter)
    moreover have "links_ok d'" using ok by (fastforce simp: tables_ok_def links_ok_def d' distinct_map_filter)
    ultimately show ?thesis using ok by (simp add: tables_ok_def entities_ok_def d')
  qed
  then show "grows d d'"
    by (rule growsI [where P = "\<lambda>a. \<not> ?old a" and news = "[]"]) (auto simp: d' article_expired_def)
qed

section \<open>Calls that grow the tables\<close>

definition wgrows :: "'v world \<Rightarrow> 'v world \<Rightarrow> bool" where
  "wgrows w w' \<longleftrightarrow> grows (iw_db w) (iw_db w')"

lemma wgrows_refl [simp]: "wgrows w w"
  by (simp add: wgrows_def)

lemma wgrows_trans [trans]: "wgrows w w1 \<Longrightarrow> wgrows w1 w2 \<Longrightarrow> wgrows w w2"
  by (auto simp: wgrows_def intro: grows_trans)

lemma wgrows_on_db: "on_db m w = (r, w') \<Longrightarrow> (\<And>r d'. m (iw_db w) = (r, d') \<Longrightarrow> grows (iw_db w) d') \<Longrightarrow> wgrows w w'"
  by (auto simp: on_db_def wgrows_def split: prod.splits)

lemma wgrows_on_db_ignore: "(\<And>r d'. m (iw_db w) = (r, d') \<Longrightarrow> grows (iw_db w) d') \<Longrightarrow> wgrows w (io_ignore (on_db m) w)"
  by (auto simp: io_ignore_def on_db_def wgrows_def split: prod.splits)

lemma wgrows_meter [simp]: "wgrows w (meter f w)" "wgrows w (count_fetched w)" "wgrows w (count_error w)" "wgrows w (count_dup w)"
  by (simp_all add: meter_def wgrows_def count_fetched_def count_error_def count_dup_def)

lemma wgrows_process_entries: "process_entries ctx job existing 0 es w = (c, w') \<Longrightarrow> wgrows w w'"
  using process_entries_extends [of ctx job existing 0 es w c w'] by (auto simp: wgrows_def max_new_per_cycle_def intro: grows_extends)

lemma wgrows_record_fetch: "wgrows w (record_fetch ctx job e l w)"
  unfolding record_fetch_def by (rule wgrows_on_db_ignore) (rule grows_record_fetch)

lemma wgrows_process_one_feed: "wgrows w (process_one_feed ctx job existing w)"
proof -
  obtain r w1 where fetch: "outside (\<lambda>k. fetch_feed (fc_guard ctx) (fc_net ctx k) (fc_feed_parse ctx) (fj_feed_url job)
      (fj_etag job) (fj_last_modified job)) w = (r, w1)" by (rule prod.exhaust)
  then have w1: "wgrows w w1" by (auto simp: outside_def wgrows_def)
  show ?thesis
  proof (cases r)
    case (Inl e)
    have "wgrows w (count_error w1)" by (rule wgrows_trans [OF w1 wgrows_meter(3)])
    with Inl show ?thesis
      by (auto simp: process_one_feed_def fetch Let_def intro: wgrows_trans [OF _ wgrows_record_fetch])
  next
    case (Inr out)
    show ?thesis
    proof (cases out)
      case NotModified
      have "wgrows w (count_fetched (record_fetch ctx job None None w1))"
        by (rule wgrows_trans [OF wgrows_trans [OF w1 wgrows_record_fetch] wgrows_meter(2)])
      with NotModified Inr show ?thesis by (simp add: process_one_feed_def fetch)
    next
      case (Updated f)
      obtain c w2 where es: "process_entries ctx job existing 0 (ff_entries f) (count_fetched w1) = (c, w2)" by (rule prod.exhaust)
      have "wgrows w w2" by (rule wgrows_trans [OF wgrows_trans [OF w1 wgrows_meter(2)] wgrows_process_entries [OF es]])
      with Updated Inr es show ?thesis
        by (auto simp: process_one_feed_def fetch intro: wgrows_trans [OF _ wgrows_record_fetch])
    qed
  qed
qed

lemma wgrows_feed_batch_loop: "wgrows w (snd (feed_batch_loop ctx fs w))"
proof (induction fs arbitrary: w)
  case (Cons f fs)
  obtain r w1 where q: "on_db (fdb_guids_for_feed (f_id f)) w = (r, w1)" by (rule prod.exhaust)
  have w1: "wgrows w w1" by (rule wgrows_on_db [OF q]) (simp add: fdb_guids_for_feed_def grows_query)
  show ?case
  proof (cases r)
    case (Inl e)
    with q w1 Cons [of w1] show ?thesis by (auto intro: wgrows_trans)
  next
    case (Inr existing)
    have "wgrows w (process_one_feed ctx (job_of f) existing w1)" using w1 wgrows_process_one_feed by (rule wgrows_trans)
    with q Inr Cons [of "process_one_feed ctx (job_of f) existing w1"] show ?thesis
      by (auto split: prod.splits intro: wgrows_trans)
  qed
qed simp

lemma wgrows_queue_loop: "wgrows w (snd (queue_loop ctx js w))"
proof (induction js arbitrary: w)
  case (Cons j js)
  obtain r w1 where q: "on_db (fdb_guids_for_feed (fj_feed_id j)) w = (r, w1)" by (rule prod.exhaust)
  have w1: "wgrows w w1" by (rule wgrows_on_db [OF q]) (simp add: fdb_guids_for_feed_def grows_query)
  show ?case
  proof (cases r)
    case (Inl e)
    with q w1 Cons [of w1] show ?thesis by (auto split: prod.splits intro: wgrows_trans)
  next
    case (Inr existing)
    have "wgrows w (process_one_feed ctx j existing w1)" using w1 wgrows_process_one_feed by (rule wgrows_trans)
    with q Inr Cons [of "process_one_feed ctx j existing w1"] show ?thesis by (auto intro: wgrows_trans)
  qed
qed simp

lemma wgrows_load_rules: "load_rules ctx w = (ctx', w') \<Longrightarrow> wgrows w w'"
  unfolding load_rules_def
  by (auto simp: wgrows_def fdb_active_rule_jsons_def on_db_def dest: grows_query split: prod.splits)

lemma wgrows_execute_feed_batch: "wgrows w (snd (execute_feed_batch ctx fs w))"
  unfolding execute_feed_batch_def
  by (auto split: prod.splits intro: wgrows_trans [OF wgrows_load_rules]) (metis wgrows_feed_batch_loop wgrows_load_rules wgrows_trans snd_conv)

lemma wgrows_queue_handle: "wgrows w (snd (queue_handle ctx js w))"
  unfolding queue_handle_def
  by (auto split: prod.splits) (metis wgrows_queue_loop wgrows_load_rules wgrows_trans snd_conv)

lemma iw_db_queue_send [simp]: "iw_db (queue_send j w) = iw_db w"
  by (auto simp: queue_send_def split: list.splits bool.splits)

lemma iw_db_queue_sends [simp]: "iw_db (fold (\<lambda>f. queue_send (job_of f)) fs w) = iw_db w"
  by (induction fs arbitrary: w) auto

lemma wgrows_process_all_feeds: "process_all_feeds ctx q w = (r, w') \<Longrightarrow> wgrows w w'"
  unfolding process_all_feeds_def Let_def
proof (erule io_bind_cases)
  fix e assume "on_db (fdb_feeds_due (fc_now ctx) None) w = (Inl e, w')"
  then show "wgrows w w'" by (rule wgrows_on_db) (simp add: fdb_feeds_due_def grows_query)
next
  fix fs w1
  assume q: "on_db (fdb_feeds_due (fc_now ctx) None) w = (Inr fs, w1)"
    and w': "(Inr (), io_ignore (on_db (fdb_expire_articles (fc_now ctx) 30))
      (if q then fold (\<lambda>f. queue_send (job_of f)) fs w1 else snd (execute_feed_batch ctx fs w1))) = (r, w')"
  have "wgrows w w1" by (rule wgrows_on_db [OF q]) (simp add: fdb_feeds_due_def grows_query)
  also have "wgrows w1 (if q then fold (\<lambda>f. queue_send (job_of f)) fs w1 else snd (execute_feed_batch ctx fs w1))"
    using wgrows_execute_feed_batch [of w1 ctx fs] by (simp add: wgrows_def)
  also have "wgrows \<dots> w'" using w' by (auto intro!: wgrows_on_db_ignore grows_expire)
  finally show "wgrows w w'" .
qed

lemma iw_db_gc_delete: "gc_delete ks w = (n, w') \<Longrightarrow> iw_db w' = iw_db w"
  by (induction ks arbitrary: w n w') (auto simp: on_bucket_def split: prod.splits)

lemma wgrows_gc: "gc_r2_objects b t w = (r, w') \<Longrightarrow> wgrows w w'"
proof -
  assume gc: "gc_r2_objects b t w = (r, w')"
  have keys: "wgrows w w1" if "on_db (fdb_expired_r2_keys t 30) w = (q, w1)" for q w1
    by (rule wgrows_on_db [OF that]) (simp add: fdb_expired_r2_keys_def grows_query)
  have expire: "wgrows w1 w2" if "on_db (fdb_expire_articles t 30) w1 = (q, w2)" for q and w1 w2 :: "'a world"
    by (rule wgrows_on_db [OF that]) (rule grows_expire)
  from gc keys show ?thesis unfolding gc_r2_objects_def
    by (auto split: if_splits prod.splits elim!: io_bind_cases dest!: iw_db_gc_delete expire simp: wgrows_def)
       (metis grows_trans)+
qed

section \<open>The backfill\<close>

text \<open>A row without a summary that has a vector id: the backfill passes it over.\<close>

definition stuck :: "article_row \<Rightarrow> bool" where
  "stuck a \<longleftrightarrow> ar_summary a = [] \<and> ar_vector a \<noteq> None \<and> ar_vector a \<noteq> Some []"

definition skipped :: "backfill_article \<Rightarrow> bool" where
  "skipped b \<longleftrightarrow> ba_vector b \<noteq> None \<and> ba_vector b \<noteq> Some []"

lemma backfill_one_skips: "skipped b \<Longrightarrow> backfill_one ctx s b w = (False, w)"
  by (simp add: backfill_one_def skipped_def)

lemma backfill_one_touches: "backfill_one ctx s b w = (ok, w') \<Longrightarrow> wtouches (ba_id b) w w'"
proof -
  assume run: "backfill_one ctx s b w = (ok, w')"
  obtain body w1 where body: "backfill_body ctx b w = (body, w1)" by (rule prod.exhaust)
  have w1: "wtouches (ba_id b) w w1" using body
    by (auto simp: backfill_body_def split: option.splits if_splits prod.splits sum.splits dest: wtouches_on_bucket)
  obtain r w2 where art: "process_article ctx s (ba_id b) (ba_title b) (fc_lossy ctx body) (ba_score b) w1 = (r, w2)"
    by (rule prod.exhaust)
  have w2: "wtouches (ba_id b) w w2" using w1 wtouches_process_article [OF art] by (rule wtouches_trans)
  show ?thesis
  proof (cases r)
    case (Inl e)
    with run w2 show ?thesis by (auto simp: backfill_one_def body art split: if_splits)
  next
    case (Inr result)
    with run show ?thesis
      by (auto simp: backfill_one_def body art split: if_splits
          intro: wtouches_trans [OF w2 wtouches_trans [OF wtouches_embed_step wtouches_entity_step]])
  qed
qed

lemma touches_keeps_other: "touches i d d' \<Longrightarrow> a \<in> set (fdb_articles d) \<Longrightarrow> ar_id a \<noteq> i \<Longrightarrow> a \<in> set (fdb_articles d')"
proof -
  assume t: "touches i d d'" and a: "a \<in> set (fdb_articles d)" "ar_id a \<noteq> i"
  from a have "a \<in> set (filter (\<lambda>a. ar_id a \<noteq> i) (fdb_articles d))" by simp
  then show "a \<in> set (fdb_articles d')" unfolding touches_others [OF t, symmetric] by simp
qed

lemma backfill_loop_keeps:
  assumes "backfill_loop ctx s bs w = (n, w')" "a \<in> set (fdb_articles (iw_db w))"
    and "\<forall>b \<in> set bs. skipped b \<or> ba_id b \<noteq> ar_id a"
  shows "a \<in> set (fdb_articles (iw_db w'))"
  using assms
proof (induction bs arbitrary: w n)
  case (Cons b bs)
  obtain ok w1 where one: "backfill_one ctx s b w = (ok, w1)" by (rule prod.exhaust)
  obtain k where rest: "backfill_loop ctx s bs w1 = (k, w')"
    using Cons.prems(1) one by (cases "backfill_loop ctx s bs w1") simp
  have "a \<in> set (fdb_articles (iw_db w1))"
  proof (cases "skipped b")
    case True
    with one Cons.prems(2) show ?thesis by (simp add: backfill_one_skips)
  next
    case False
    with Cons.prems(3) have "ar_id a \<noteq> ba_id b" by auto
    with backfill_one_touches [OF one] Cons.prems(2) show ?thesis unfolding wtouches_def by (blast intro: touches_keeps_other)
  qed
  with Cons.IH [OF rest] Cons.prems(3) show ?case by simp
qed simp

lemma backfill_loop_ok: "backfill_loop ctx s bs w = (n, w') \<Longrightarrow> tables_ok (iw_db w) \<Longrightarrow> tables_ok (iw_db w')"
proof (induction bs arbitrary: w n)
  case (Cons b bs)
  obtain ok w1 where one: "backfill_one ctx s b w = (ok, w1)" by (rule prod.exhaust)
  with Cons backfill_one_touches [OF one] show ?case by (auto simp: wtouches_def touches_def split: prod.splits)
qed simp

lemma backfill_query:
  assumes "on_db (fdb_backfill_candidates c n) w = (r, w1)"
  shows "fdb_articles (iw_db w1) = fdb_articles (iw_db w)" "tables_ok (iw_db w) \<Longrightarrow> tables_ok (iw_db w1)"
    "r = Inr bs \<Longrightarrow> bs = map backfill_of (backfill_rows c n (iw_db w))"
proof -
  obtain d where q: "fdb_query (\<lambda>d. map backfill_of (backfill_rows c n d)) (iw_db w) = (r, d)" and w1: "iw_db w1 = d"
    using assms by (auto simp: on_db_def fdb_backfill_candidates_def split: prod.splits)
  from q obtain fs where d: "d = iw_db w\<lparr>fdb_faults := fs\<rparr>"
    and r: "r = Inr (map backfill_of (backfill_rows c n (iw_db w))) \<or> r = Inl (D1 ''statement failed'')"
    unfolding fdb_query_def by (cases rule: statement_cases) (auto simp: backfill_rows_def)
  show "fdb_articles (iw_db w1) = fdb_articles (iw_db w)" by (simp add: w1 d)
  show "tables_ok (iw_db w) \<Longrightarrow> tables_ok (iw_db w1)"
    by (simp add: w1 d tables_ok_def articles_ok_def entities_ok_def links_ok_def)
  show "r = Inr bs \<Longrightarrow> bs = map backfill_of (backfill_rows c n (iw_db w))" using r by auto
qed

lemma backfill_rows_subset: "a \<in> set (backfill_rows c n d) \<Longrightarrow> a \<in> set (fdb_articles d) \<and> ar_summary a = []"
  unfolding backfill_rows_def by (auto dest: in_set_takeD)

lemma process_backfill_keeps:
  assumes "process_backfill ctx w = (n, w')" "tables_ok (iw_db w)" "a \<in> set (fdb_articles (iw_db w))" "stuck a"
  shows "a \<in> set (fdb_articles (iw_db w'))"
proof (cases "fc_summarizer ctx")
  case (Some s)
  obtain r w1 where q: "on_db (fdb_backfill_candidates 0 backfill_per_cycle) w = (r, w1)" by (rule prod.exhaust)
  show ?thesis
  proof (cases r)
    case (Inr bs)
    have "skipped b \<or> ba_id b \<noteq> ar_id a" if b: "b \<in> set bs" for b
    proof -
      from b backfill_query(3) [OF q Inr] obtain a' where a': "a' \<in> set (fdb_articles (iw_db w))" "b = backfill_of a'"
        by (auto dest: backfill_rows_subset)
      with assms(2-4) show ?thesis
        by (cases "a' = a") (auto simp: skipped_def backfill_of_def stuck_def tables_ok_def articles_ok_def distinct_map dest: inj_onD)
    qed
    then have bs: "\<forall>b \<in> set bs. skipped b \<or> ba_id b \<noteq> ar_id a" by blast
    have "backfill_loop ctx s bs w1 = (n, w')" using assms(1) Some q Inr by (simp add: process_backfill_def)
    then show ?thesis by (rule backfill_loop_keeps) (use assms(3) backfill_query(1) [OF q] bs in simp_all)
  qed (use assms Some q backfill_query(1) [OF q] in \<open>auto simp: process_backfill_def\<close>)
qed (use assms in \<open>auto simp: process_backfill_def\<close>)

lemma process_backfill_ok: "process_backfill ctx w = (n, w') \<Longrightarrow> tables_ok (iw_db w) \<Longrightarrow> tables_ok (iw_db w')"
  unfolding process_backfill_def
  by (auto split: option.splits prod.splits sum.splits dest: backfill_query(2) backfill_loop_ok)

section \<open>Histories\<close>

text \<open>The entry points that reach these tables, and the passing of time: the cron handler, the manual trigger
  (\<open>runtime/http.rs\<close>), the queue consumer and the feed management of the API.\<close>

datatype 'v ingestion_call =
  CronCall bool bool "'v feed_context" int
| TriggerCall bool "'v feed_context"
| QueueCall "'v feed_context" "fetch_job list"
| AddFeedCall string string string int
| EditFeedCall int "string option" "string option" "int option" "string option"
| FeedStatusCall int string
| ClockCall int

fun ingestion_step :: "'v ingestion_call \<Rightarrow> 'v world \<Rightarrow> 'v world" where
  "ingestion_step (CronCall enabled queue ctx now) w = cron_cycle enabled queue ctx now w"
| "ingestion_step (TriggerCall queue ctx) w = io_ignore (process_all_feeds ctx queue) w"
| "ingestion_step (QueueCall ctx jobs) w = snd (queue_handle ctx jobs w)"
| "ingestion_step (AddFeedCall u t c i) w = io_ignore (on_db (fdb_insert_feed u t c i)) w"
| "ingestion_step (EditFeedCall i t c v l) w = io_ignore (on_db (fdb_update_feed i t c v l)) w"
| "ingestion_step (FeedStatusCall i s) w = io_ignore (on_db (fdb_set_feed_status i s)) w"
| "ingestion_step (ClockCall t) w = w\<lparr>iw_db := (iw_db w)\<lparr>fdb_clock := t\<rparr>\<rparr>"

text \<open>Every step grows the tables and may end with a backfill.\<close>

lemma ingestion_step_cases:
  "wgrows w (ingestion_step c w) \<or> (\<exists>ctx w1. wgrows w w1 \<and> ingestion_step c w = snd (process_backfill ctx w1))"
proof (cases c)
  case (CronCall enabled queue ctx now)
  let ?w1 = "if enabled then io_ignore (process_all_feeds ctx queue) w else w"
  have "wgrows w ?w1" by (auto simp: io_ignore_def intro: wgrows_process_all_feeds [OF prod.collapse [symmetric]])
  also have "wgrows ?w1 (io_ignore (gc_r2_objects (fc_bucket ctx) now) ?w1)"
    unfolding io_ignore_def by (rule wgrows_gc [OF prod.collapse [symmetric]])
  finally have g: "wgrows w (io_ignore (gc_r2_objects (fc_bucket ctx) now) ?w1)" .
  show ?thesis unfolding CronCall by (intro disjI2 exI conjI, rule g) (simp add: cron_cycle_def Let_def)
next
  case (TriggerCall queue ctx)
  then show ?thesis by (auto simp: io_ignore_def intro: wgrows_process_all_feeds [OF prod.collapse [symmetric]])
next
  case (QueueCall ctx jobs)
  then show ?thesis by (simp add: wgrows_queue_handle)
next
  case (AddFeedCall u t c i)
  then show ?thesis by (auto intro: wgrows_on_db_ignore grows_insert_feed)
next
  case (EditFeedCall i t c v l)
  then show ?thesis by (auto intro: wgrows_on_db_ignore grows_update_feed)
next
  case (FeedStatusCall i s)
  then show ?thesis by (auto intro: wgrows_on_db_ignore grows_set_status)
next
  case (ClockCall t)
  then show ?thesis
    by (auto simp: wgrows_def intro!: grows_same simp: tables_ok_def articles_ok_def entities_ok_def links_ok_def)
qed

lemma ingestion_step_ok: "tables_ok (iw_db w) \<Longrightarrow> tables_ok (iw_db (ingestion_step c w))"
  using ingestion_step_cases [of w c]
proof (elim disjE exE conjE)
  fix ctx w1
  assume "tables_ok (iw_db w)" "wgrows w w1" and s: "ingestion_step c w = snd (process_backfill ctx w1)"
  then have "tables_ok (iw_db w1)" by (simp add: wgrows_def grows_def)
  then show ?thesis unfolding s by (rule process_backfill_ok [OF prod.collapse [symmetric]])
qed (simp add: wgrows_def grows_def)

lemma wgrows_keeps: "wgrows w w1 \<Longrightarrow> a \<in> set (fdb_articles (iw_db w)) \<Longrightarrow> ar_summary a = [] \<Longrightarrow> a \<in> set (fdb_articles (iw_db w1))"
  by (auto simp: wgrows_def grows_def)

lemma ingestion_step_keeps:
  assumes "tables_ok (iw_db w)" "a \<in> set (fdb_articles (iw_db w))" "stuck a"
  shows "a \<in> set (fdb_articles (iw_db (ingestion_step c w)))"
  using ingestion_step_cases [of w c]
proof (elim disjE exE conjE)
  assume "wgrows w (ingestion_step c w)"
  with assms show ?thesis by (auto intro: wgrows_keeps simp: stuck_def)
next
  fix ctx w1
  assume g: "wgrows w w1" and s: "ingestion_step c w = snd (process_backfill ctx w1)"
  from g assms have "tables_ok (iw_db w1)" "a \<in> set (fdb_articles (iw_db w1))"
    by (auto simp: wgrows_def grows_def stuck_def)
  with assms(3) show ?thesis unfolding s by (metis process_backfill_keeps prod.collapse)
qed

text \<open>A database without articles, with rules and with any schedule of failures of the database, the bucket,
  the vector index and the queue.\<close>

definition new_world ::
  "filter_rule list \<Rightarrow> bool list \<Rightarrow> string option list \<Rightarrow> string option list \<Rightarrow> bool list \<Rightarrow> 'v world" where
  "new_world rls db_faults bucket_faults index_faults queue_faults =
     \<lparr>iw_db = \<lparr>fdb_feeds = [], fdb_articles = [], fdb_entities = [], fdb_next_entity = 1, fdb_links = [], fdb_relations = [],
        fdb_next_relation = 1, fdb_artifacts = [], fdb_next_artifact = 1, fdb_rules = rls, fdb_clock = 0, fdb_faults = db_faults\<rparr>,
      iw_bucket = \<lparr>r2_objects = [], r2_faults = bucket_faults\<rparr>,
      iw_index = \<lparr>vx_records = [], vx_faults = index_faults\<rparr>, iw_metrics = no_metrics, iw_queue = [],
      iw_queue_faults = queue_faults, iw_calls = 0\<rparr>"

lemma new_world_ok: "tables_ok (iw_db (new_world rls d b x q))"
  by (simp add: new_world_def tables_ok_def articles_ok_def entities_ok_def links_ok_def)

lemma fold_ingestion_ok: "tables_ok (iw_db w) \<Longrightarrow> tables_ok (iw_db (fold ingestion_step cs w))"
  by (induction cs arbitrary: w) (simp_all add: ingestion_step_ok)

text \<open>
  C33: whatever the feeds, the model and the embedder answer, whatever fails and in whatever order cron cycles,
  queue batches and feed edits come, the tables stay consistent: article ids are unique and positive, a feed
  has one article per guid, every article belongs to a feed, its R2 pointer and its vector id are its own,
  entities are unique by normalised name, and links and relations are unique and point to existing rows.
\<close>

theorem ingestion_history_ok:
  "tables_ok (iw_db (fold ingestion_step calls (new_world rls db_faults bucket_faults index_faults queue_faults)))"
  by (intro fold_ingestion_ok new_world_ok)

text \<open>
  An article without a summary that has a vector id, which is how ingestion leaves an article with a score
  when the summary fails, is never summarised and never expires: no later call changes or removes its row.
\<close>

theorem stranded_article_stays:
  assumes "tables_ok (iw_db w)" "a \<in> set (fdb_articles (iw_db w))"
    and "ar_summary a = []" "ar_vector a = Some v" "v \<noteq> []"
  shows "a \<in> set (fdb_articles (iw_db (fold ingestion_step calls w)))"
proof -
  have "stuck a" using assms(3-5) by (simp add: stuck_def)
  with assms(1,2) show ?thesis
    by (induction calls arbitrary: w) (simp_all add: ingestion_step_ok ingestion_step_keeps)
qed

section \<open>A blocked backfill\<close>

definition blocked :: "article_row list \<Rightarrow> feed_db \<Rightarrow> bool" where
  "blocked S d \<longleftrightarrow> tables_ok d \<and> set S \<subseteq> set (fdb_articles d) \<and> (\<forall>s \<in> set S. stuck s) \<and>
     distinct S \<and> length S = backfill_per_cycle \<and>
     (\<forall>a \<in> set (fdb_articles d). ar_summary a = [] \<longrightarrow> a \<in> set S \<or> (\<forall>s \<in> set S. ar_id s < ar_id a))"

lemma take_smallest:
  fixes f :: "'a \<Rightarrow> int"
  assumes "sorted (map f xs)" "distinct xs" "distinct S" "set S \<subseteq> set xs" "length S = n"
    and "\<forall>x \<in> set xs. x \<in> set S \<or> (\<forall>s \<in> set S. f s < f x)"
  shows "set (take n xs) \<subseteq> set S"
proof
  fix x assume x: "x \<in> set (take n xs)"
  show "x \<in> set S"
  proof (rule ccontr)
    assume "x \<notin> set S"
    moreover have "x \<in> set xs" using x by (rule in_set_takeD)
    ultimately have less: "\<forall>s \<in> set S. f s < f x" using assms(6) by blast
    have "s \<in> set (take n xs)" if s: "s \<in> set S" for s
    proof (rule ccontr)
      assume "s \<notin> set (take n xs)"
      moreover have "s \<in> set xs" using s assms(4) by blast
      ultimately have "s \<in> set (drop n xs)" by (metis Un_iff append_take_drop_id set_append)
      moreover have "sorted (map f (take n xs) @ map f (drop n xs))" using assms(1) by (metis append_take_drop_id map_append)
      ultimately have "f x \<le> f s" using x by (simp add: sorted_append)
      with less s show False by force
    qed
    then have "insert x (set S) \<subseteq> set (take n xs)" using x by blast
    then have "card (insert x (set S)) \<le> card (set (take n xs))" by (simp add: card_mono)
    also have "\<dots> \<le> length (take n xs)" by (rule card_length)
    also have "\<dots> \<le> n" by simp
    finally have "card (insert x (set S)) \<le> n" .
    with \<open>x \<notin> set S\<close> assms(3,5) show False by (simp add: distinct_card)
  qed
qed

lemma blocked_rows: "blocked S d \<Longrightarrow> set (backfill_rows 0 backfill_per_cycle d) \<subseteq> set S"
  unfolding backfill_rows_def
proof (rule take_smallest [where f = ar_id])
  assume b: "blocked S d"
  then have ids: "distinct (map ar_id (fdb_articles d))" by (simp add: blocked_def tables_ok_def articles_ok_def)
  let ?xs = "sort_key ar_id (filter (\<lambda>a. 0 < ar_id a \<and> ar_summary a = []) (fdb_articles d))"
  show "sorted (map ar_id ?xs)" by simp
  show "distinct ?xs" using ids by (simp add: distinct_map)
  show "distinct S" "length S = backfill_per_cycle" using b by (simp_all add: blocked_def)
  show "set S \<subseteq> set ?xs" using b by (auto simp: blocked_def stuck_def tables_ok_def articles_ok_def)
  show "\<forall>x \<in> set ?xs. x \<in> set S \<or> (\<forall>s \<in> set S. ar_id s < ar_id x)" using b by (auto simp: blocked_def)
qed

lemma backfill_loop_skips: "\<forall>b \<in> set bs. skipped b \<Longrightarrow> backfill_loop ctx s bs w = (0, w)"
  by (induction bs) (auto simp: backfill_one_skips)

lemma blocked_backfill:
  assumes "blocked S (iw_db w)"
  shows "fst (process_backfill ctx w) = 0" "wgrows w (snd (process_backfill ctx w))"
proof -
  obtain r w1 where q: "on_db (fdb_backfill_candidates 0 backfill_per_cycle) w = (r, w1)" by (rule prod.exhaust)
  have w1: "wgrows w w1" by (rule wgrows_on_db [OF q]) (simp add: fdb_backfill_candidates_def grows_query)
  have skips: "\<forall>b \<in> set bs. skipped b" if "r = Inr bs" for bs
    using backfill_query(3) [OF q that] blocked_rows [OF assms] assms
    by (auto simp: blocked_def skipped_def backfill_of_def stuck_def)
  show "fst (process_backfill ctx w) = 0" "wgrows w (snd (process_backfill ctx w))"
    using w1 q skips by (auto simp: process_backfill_def backfill_loop_skips split: option.splits sum.splits)
qed

lemma blocked_grows: "blocked S (iw_db w) \<Longrightarrow> wgrows w w1 \<Longrightarrow> blocked S (iw_db w1)"
proof -
  assume b: "blocked S (iw_db w)" and "wgrows w w1"
  then obtain P news where g: "tables_ok (iw_db w1)" "fdb_articles (iw_db w1) = filter P (fdb_articles (iw_db w)) @ news"
    "\<forall>a. ar_summary a = [] \<longrightarrow> P a"
    "\<forall>a \<in> set (fdb_articles (iw_db w)). ar_summary a = [] \<longrightarrow> (\<forall>x \<in> set news. ar_id a < ar_id x)"
    by (auto simp: wgrows_def grows_def blocked_def)
  with b show ?thesis unfolding blocked_def stuck_def by auto
qed

lemma blocked_step: "blocked S (iw_db w) \<Longrightarrow> blocked S (iw_db (ingestion_step c w))"
  using ingestion_step_cases [of w c] by (metis blocked_backfill(2) blocked_grows)

text \<open>
  C35: when the fifty unsummarised articles with the smallest ids all carry a vector id, which the backfill skips,
  it is blocked for good: after any history of calls each cycle still processes nothing, since it always
  queries from the first id.
\<close>

theorem backfill_starves:
  assumes "blocked S (iw_db w)"
  shows "fst (process_backfill ctx (fold ingestion_step calls w)) = 0 \<and>
    set S \<subseteq> set (fdb_articles (iw_db (fold ingestion_step calls w)))"
proof -
  from assms have "blocked S (iw_db (fold ingestion_step calls w))"
    by (induction calls arbitrary: w) (simp_all add: blocked_step)
  then show ?thesis by (simp add: blocked_backfill(1)) (simp add: blocked_def)
qed

section \<open>Garbage collection\<close>

lemma statement_ok: "fdb_faults d = [] \<Longrightarrow> fdb_statement f d = f d"
  by (simp add: fdb_statement_def)

lemma on_db_ok: "m (iw_db w) = (r, d) \<Longrightarrow> on_db m w = (r, w\<lparr>iw_db := d\<rparr>)"
  by (simp add: on_db_def)

lemma filter_keys: "filter (\<lambda>x. (case x of (k, _) \<Rightarrow> k \<noteq> a) \<and> (case x of (k, _) \<Rightarrow> k \<notin> B)) xs = filter (\<lambda>(k, _). k \<noteq> a \<and> k \<notin> B) xs"
  by (rule filter_cong) auto

lemma gc_delete_ok:
  "r2_faults (iw_bucket w) = [] \<Longrightarrow> gc_delete ks w =
     (length ks, w\<lparr>iw_bucket := (iw_bucket w)\<lparr>r2_objects := filter (\<lambda>(k, _). k \<notin> set ks) (r2_objects (iw_bucket w))\<rparr>\<rparr>)"
proof (induction ks arbitrary: w)
  case (Cons k ks)
  let ?w1 = "w\<lparr>iw_bucket := (iw_bucket w)\<lparr>r2_objects := filter (\<lambda>(k', _). k' \<noteq> k) (r2_objects (iw_bucket w))\<rparr>\<rparr>"
  have "on_bucket (bucket_delete k) w = (Inr (), ?w1)"
    using Cons.prems by (simp add: on_bucket_def bucket_delete_def r2_call_def)
  then show ?case using Cons.IH [of ?w1] Cons.prems by (simp add: filter_keys)
qed (simp add: case_prod_unfold)

text \<open>The R2 keys of the articles that expire at a time.\<close>

definition expired_keys :: "int \<Rightarrow> feed_db \<Rightarrow> string set" where
  "expired_keys now d = {k. \<exists>a \<in> set (fdb_articles d). article_expired (now - 30 * 86400) a \<and> ar_r2_key a = Some k}"

lemma fdb_expire_ok: "fdb_faults d = [] \<Longrightarrow> \<exists>n d'. fdb_expire_articles now 30 d = (Inr n, d') \<and> fdb_faults d' = [] \<and>
    fdb_articles d' = filter (\<lambda>a. \<not> article_expired (now - 30 * 86400) a) (fdb_articles d)"
  by (simp add: fdb_expire_articles_def statement_ok Let_def)

lemma map_filter_set: "set (List.map_filter f xs) = {y. \<exists>x \<in> set xs. f x = Some y}"
  by (force simp: List.map_filter_def)

lemma expired_keys_query:
  assumes "fdb_faults (iw_db w) = []"
  shows "\<exists>ks. on_db (fdb_expired_r2_keys now 30) w = (Inr ks, w) \<and> set ks = expired_keys now (iw_db w)"
proof -
  let ?ks = "List.map_filter ar_r2_key (filter (article_expired (now - 30 * 86400)) (fdb_articles (iw_db w)))"
  have "on_db (fdb_expired_r2_keys now 30) w = (Inr ?ks, w)"
    using assms by (simp add: on_db_def fdb_expired_r2_keys_def fdb_query_def statement_ok)
  moreover have "set ?ks = expired_keys now (iw_db w)" by (auto simp: map_filter_set expired_keys_def)
  ultimately show ?thesis by blast
qed

text \<open>
  When nothing fails and some expired article has an R2 key, the garbage collection deletes exactly the objects
  of the expired articles, and exactly the expired rows.
\<close>

theorem gc_exact:
  assumes "fdb_faults (iw_db w) = []" "r2_faults (iw_bucket w) = []" "expired_keys now (iw_db w) \<noteq> {}"
  shows "\<exists>n w'. gc_r2_objects True now w = (Inr n, w') \<and>
    r2_objects (iw_bucket w') = filter (\<lambda>(k, _). k \<notin> expired_keys now (iw_db w)) (r2_objects (iw_bucket w)) \<and>
    fdb_articles (iw_db w') = filter (\<lambda>a. \<not> article_expired (now - 30 * 86400) a) (fdb_articles (iw_db w))"
proof -
  from expired_keys_query [OF assms(1)] obtain ks where
    ks: "on_db (fdb_expired_r2_keys now 30) w = (Inr ks, w)" "set ks = expired_keys now (iw_db w)" by blast
  let ?w1 = "w\<lparr>iw_bucket := (iw_bucket w)\<lparr>r2_objects := filter (\<lambda>(k, _). k \<notin> set ks) (r2_objects (iw_bucket w))\<rparr>\<rparr>"
  from fdb_expire_ok [OF assms(1), of now] obtain n d' where d': "fdb_expire_articles now 30 (iw_db w) = (Inr n, d')"
    "fdb_articles d' = filter (\<lambda>a. \<not> article_expired (now - 30 * 86400) a) (fdb_articles (iw_db w))" by blast
  have "on_db (fdb_expire_articles now 30) ?w1 = (Inr n, ?w1\<lparr>iw_db := d'\<rparr>)" using d'(1) by (simp add: on_db_ok)
  with ks assms(3) have "gc_r2_objects True now w = (Inr (length ks), ?w1\<lparr>iw_db := d'\<rparr>)"
    by (auto simp: gc_r2_objects_def io_bind_def gc_delete_ok [OF assms(2)] io_ret_def)
  with ks(2) d'(2) show ?thesis by simp
qed

lemma article_key_inject:
  assumes "0 < i" "0 < j" "article_key i = article_key j"
  shows "i = j"
proof -
  have "show_i64 i = dec_nat (nat i)" "show_i64 j = dec_nat (nat j)" using assms(1,2) by (simp_all add: show_i64_def sign_str_def)
  with assms(3) have "parse_digits 0 (dec_nat (nat i)) = parse_digits 0 (dec_nat (nat j))" by (simp add: article_key_def)
  then show ?thesis using assms(1,2) by (simp add: parse_dec_nat)
qed

text \<open>
  In the order the cron handler runs them, ingestion removes the rows of the expired articles before the garbage
  collection looks for their keys: with nothing failing it then finds nothing to do, and the object of every
  expired article stays in the bucket although no row points to it any more.
\<close>

theorem gc_misses_expired:
  assumes "tables_ok (iw_db w)" "fdb_faults (iw_db w) = []" "process_all_feeds ctx True w = (r, w1)"
    and "a \<in> set (fdb_articles (iw_db w))" "article_expired (fc_now ctx - 30 * 86400) a" "ar_r2_key a = Some k"
  shows "gc_r2_objects b (fc_now ctx) w1 = (Inr 0, w1) \<and> iw_bucket w1 = iw_bucket w \<and>
    (\<forall>a' \<in> set (fdb_articles (iw_db w1)). ar_r2_key a' \<noteq> Some k)"
proof -
  let ?old = "article_expired (fc_now ctx - 30 * 86400)"
  obtain fs where "on_db (fdb_feeds_due (fc_now ctx) None) w = (Inr fs, w)"
    using assms(2) by (simp add: on_db_def fdb_feeds_due_def fdb_query_def statement_ok)
  moreover from fdb_expire_ok [OF assms(2), of "fc_now ctx"] obtain n d' where d':
    "fdb_expire_articles (fc_now ctx) 30 (iw_db w) = (Inr n, d')" "fdb_faults d' = []"
    "fdb_articles d' = filter (\<lambda>a. \<not> ?old a) (fdb_articles (iw_db w))" by blast
  ultimately have w1: "w1 = fold (\<lambda>f. queue_send (job_of f)) fs w\<lparr>iw_db := d'\<rparr>"
    using assms(3) by (simp add: process_all_feeds_def io_bind_def io_ignore_def on_db_def)
  have bucket: "iw_bucket (fold (\<lambda>f. queue_send (job_of f)) fs w) = iw_bucket w" for w :: "'a world"
    by (induction fs arbitrary: w) (auto simp: queue_send_def split: list.splits bool.splits)
  have "expired_keys (fc_now ctx) (iw_db w1) = {}" by (auto simp: expired_keys_def w1 d'(3))
  moreover from expired_keys_query [of w1 "fc_now ctx"] obtain ks where
    "on_db (fdb_expired_r2_keys (fc_now ctx) 30) w1 = (Inr ks, w1)" "set ks = expired_keys (fc_now ctx) (iw_db w1)"
    using d'(2) w1 by auto
  ultimately have "gc_r2_objects b (fc_now ctx) w1 = (Inr 0, w1)"
    by (auto simp: gc_r2_objects_def io_bind_def io_ret_def)
  moreover have "ar_r2_key a' \<noteq> Some k" if a': "a' \<in> set (fdb_articles (iw_db w1))" for a'
  proof
    assume "ar_r2_key a' = Some k"
    moreover have "a' \<in> set (fdb_articles (iw_db w))" "\<not> ?old a'" using a' by (auto simp: w1 d'(3))
    moreover have key: "0 < ar_id x \<and> (ar_r2_key x = None \<or> ar_r2_key x = Some (article_key (ar_id x)))"
      if "x \<in> set (fdb_articles (iw_db w))" for x using assms(1) that unfolding tables_ok_def articles_ok_def by blast
    ultimately have "0 < ar_id a'" "0 < ar_id a" "article_key (ar_id a') = article_key (ar_id a)"
      using assms(6) key [OF assms(4)] key [of a'] by auto
    then have "ar_id a' = ar_id a" by (rule article_key_inject)
    then have "a' = a" using assms(1,4) \<open>a' \<in> set (fdb_articles (iw_db w))\<close>
      by (auto simp: tables_ok_def articles_ok_def distinct_map dest: inj_onD)
    with assms(5) \<open>\<not> ?old a'\<close> show False by simp
  qed
  ultimately show ?thesis using bucket [of w] w1 by simp
qed

section \<open>Witnesses\<close>

text \<open>A server that answers with one entry until it is asked with the validator, and a model that fails.\<close>

definition demo_entry :: feed_entry where
  "demo_entry = \<lparr>fe_id = ''g1'', fe_title = Some ''t'', fe_links = [''u''], fe_published = Some 5, fe_summary = None,
     fe_content = None, fe_media = []\<rparr>"

definition demo_ctx :: "feed_entry list \<Rightarrow> unit feed_context" where
  "demo_ctx es = \<lparr>fc_guard = (\<lambda>_. Inr ()),
     fc_net = (\<lambda>_ _ etag _. Inr \<lparr>rs_status = (if etag = Some ''v1'' then 304 else 200), rs_body = [], rs_etag = Some ''v1'',
        rs_last_modified = None\<rparr>),
     fc_feed_parse = (\<lambda>_. Inr es), fc_select = (\<lambda>_ _. []), fc_words = (\<lambda>s. [s]), fc_unicode = ascii, fc_lossy = (\<lambda>s. s),
     fc_tags_json = (\<lambda>_. None),
     fc_rule_parse = (\<lambda>_. Some \<lparr>ru_name = ''r'', ru_audience_tag = ''default'', ru_condition = All_of [], ru_score_delta = Fin 1\<rparr>),
     fc_summarizer = Some (\<lambda>_ _ _. Inl (SummarizerError ''down'')), fc_embedder = None, fc_bucket = True,
     fc_vectorize = False, fc_rules = [], fc_now = 10000000\<rparr>"

definition demo_world :: "unit world" where
  "demo_world = fold ingestion_step [AddFeedCall ''f'' ''t'' ''c'' 60, TriggerCall False (demo_ctx [demo_entry])]
     (new_world [\<lparr>fr_json = ''r'', fr_audience = ''default'', fr_enabled = True\<rparr>] [] [] [] [])"

lemma demo_articles: "fdb_articles (iw_db demo_world) =
  [\<lparr>ar_id = 1, ar_feed = 1, ar_guid = ''g1'', ar_title = ''t'', ar_url = Some ''u'', ar_published = Some 5, ar_r2_key = None,
    ar_summary = [], ar_tags = Some ''[]'', ar_vector = Some ''article-1'', ar_score = Fin 1, ar_created = 0\<rparr>]"
  by code_simp

theorem stranded_article_stays_witness:
  "\<exists>a \<in> set (fdb_articles (iw_db demo_world)). ar_summary a = [] \<and>
     a \<in> set (fdb_articles (iw_db (fold ingestion_step [CronCall True False (demo_ctx [demo_entry]) 10000000] demo_world)))"
proof -
  let ?a = "hd (fdb_articles (iw_db demo_world))"
  have ok: "tables_ok (iw_db demo_world)" unfolding demo_world_def by (intro fold_ingestion_ok new_world_ok)
  have a: "?a \<in> set (fdb_articles (iw_db demo_world))" "ar_summary ?a = []" "ar_vector ?a = Some ''article-1''"
    by (simp_all add: demo_articles)
  with stranded_article_stays [OF ok a, of "[CronCall True False (demo_ctx [demo_entry]) 10000000]"] show ?thesis by auto
qed

definition stuck_row :: "nat \<Rightarrow> article_row" where
  "stuck_row n = \<lparr>ar_id = int n, ar_feed = 1, ar_guid = replicate n (CHR ''g''), ar_title = [], ar_url = None, ar_published = None,
     ar_r2_key = None, ar_summary = [], ar_tags = None, ar_vector = Some (vector_key (int n)), ar_score = Fin 1, ar_created = 0\<rparr>"

definition stuck_world :: "unit world" where
  "stuck_world = (let w = fold ingestion_step [AddFeedCall ''f'' ''t'' ''c'' 60] (new_world [] [] [] [] []) in
     w\<lparr>iw_db := (iw_db w)\<lparr>fdb_articles := map stuck_row [1..<51]\<rparr>\<rparr>)"

lemma stuck_world_blocked: "blocked (map stuck_row [1..<51]) (iw_db stuck_world)"
proof -
  have inj: "inj_on stuck_row A" "inj_on (\<lambda>n. guid_key (stuck_row n)) A" for A
    by (auto intro!: inj_onI simp: stuck_row_def guid_key_def)
  have db: "fdb_articles (iw_db stuck_world) = map stuck_row [1..<51]" "f_id ` set (fdb_feeds (iw_db stuck_world)) = {1}"
    "fdb_entities (iw_db stuck_world) = []" "fdb_links (iw_db stuck_world) = []" "fdb_relations (iw_db stuck_world) = []"
    by (simp_all add: stuck_world_def new_world_def io_ignore_def on_db_def fdb_insert_feed_def fdb_statement_def next_rowid_def Let_def)
  have "distinct (map ar_id (map stuck_row [1..<51]))" "distinct (map guid_key (map stuck_row [1..<51]))"
    using inj by (simp_all add: distinct_map o_def inj_on_def stuck_row_def)
  then have "tables_ok (iw_db stuck_world)"
    by (auto simp: tables_ok_def articles_ok_def entities_ok_def links_ok_def db stuck_row_def simp del: upt_Suc)
  moreover have "stuck (stuck_row n)" for n by (simp add: stuck_def stuck_row_def vector_key_def)
  ultimately show ?thesis using inj(1) by (simp add: blocked_def db distinct_map backfill_per_cycle_def del: upt_Suc)
qed

theorem backfill_starves_witness:
  "fst (process_backfill (demo_ctx []) (fold ingestion_step [CronCall True False (demo_ctx [demo_entry]) 10000000] stuck_world)) = 0"
  using backfill_starves [OF stuck_world_blocked] by blast

definition expired_row :: article_row where
  "expired_row = \<lparr>ar_id = 1, ar_feed = 1, ar_guid = ''g'', ar_title = [], ar_url = None, ar_published = Some 0,
     ar_r2_key = Some ''articles/1'', ar_summary = ''s'', ar_tags = None, ar_vector = None, ar_score = Fin 0, ar_created = 0\<rparr>"

definition expired_world :: "unit world" where
  "expired_world = (let w = fold ingestion_step [AddFeedCall ''f'' ''t'' ''c'' 60] (new_world [] [] [] [] []) in
     w\<lparr>iw_db := (iw_db w)\<lparr>fdb_articles := [expired_row]\<rparr>, iw_bucket := \<lparr>r2_objects = [(''articles/1'', ''text'')], r2_faults = []\<rparr>\<rparr>)"

lemma expired_world_db:
  "fdb_articles (iw_db expired_world) = [expired_row]" "f_id ` set (fdb_feeds (iw_db expired_world)) = {1}"
  "fdb_entities (iw_db expired_world) = []" "fdb_links (iw_db expired_world) = []" "fdb_relations (iw_db expired_world) = []"
  "fdb_faults (iw_db expired_world) = []" "iw_bucket expired_world = \<lparr>r2_objects = [(''articles/1'', ''text'')], r2_faults = []\<rparr>"
  by (simp_all add: expired_world_def new_world_def io_ignore_def on_db_def fdb_insert_feed_def fdb_statement_def next_rowid_def Let_def)

lemma expired_row_facts: "article_expired (10000000 - 30 * 86400) expired_row" "ar_r2_key expired_row = Some ''articles/1''"
  by (simp_all add: article_expired_def expired_row_def)

theorem gc_exact_witness:
  "\<exists>n w'. gc_r2_objects True 10000000 expired_world = (Inr n, w') \<and> r2_objects (iw_bucket w') = [] \<and> fdb_articles (iw_db w') = []"
proof -
  have k: "expired_keys 10000000 (iw_db expired_world) = {''articles/1''}"
    using expired_row_facts by (auto simp: expired_keys_def expired_world_db)
  with gc_exact [of expired_world 10000000] expired_row_facts(1) show ?thesis by (auto simp: expired_world_db)
qed

theorem gc_misses_expired_witness:
  "let w1 = snd (process_all_feeds (demo_ctx []) True expired_world) in
   gc_r2_objects True 10000000 w1 = (Inr 0, w1) \<and> r2_objects (iw_bucket w1) = [(''articles/1'', ''text'')] \<and>
   (\<forall>a' \<in> set (fdb_articles (iw_db w1)). ar_r2_key a' \<noteq> Some ''articles/1'')"
proof -
  have key: "article_key 1 = ''articles/1''" by code_simp
  have ok: "tables_ok (iw_db expired_world)"
    by (simp add: tables_ok_def articles_ok_def entities_ok_def links_ok_def expired_world_db) (simp add: expired_row_def key)
  have now: "fc_now (demo_ctx []) = 10000000" by (simp add: demo_ctx_def)
  from gc_misses_expired [OF ok expired_world_db(6) prod.collapse [symmetric], of expired_row "demo_ctx []" "''articles/1''" True]
  show ?thesis using expired_row_facts by (simp add: now expired_world_db Let_def)
qed

end
