(* ===== verification/FeedRuns.thy ===== *)
theory FeedRuns
  imports IngestionProps
begin

text \<open>
  Runs of one feed: what a run stores when nothing fails, how a backlog larger than the cap drains over
  the cycles, and what becomes of an entry whose insert failed.
\<close>

section \<open>One run\<close>

text \<open>The entries of a feed that a run sees, with the validators of the job.\<close>

definition answers :: "'v feed_context \<Rightarrow> fetch_job \<Rightarrow> nat \<Rightarrow> feed_entry fetch_outcome \<Rightarrow> bool" where
  "answers ctx job k out \<longleftrightarrow>
     fetch_feed (fc_guard ctx) (fc_net ctx k) (fc_feed_parse ctx) (fj_feed_url job) (fj_etag job) (fj_last_modified job) = Inr out"

definition feed_recorded :: "int \<Rightarrow> int \<Rightarrow> string option \<Rightarrow> string option \<Rightarrow> feed list \<Rightarrow> feed list" where
  "feed_recorded i t etag lm = map (\<lambda>f. if f_id f = i then fetched_at t etag lm f else f)"

lemma record_fetch_ok:
  "fdb_faults (iw_db w) = [] \<Longrightarrow> record_fetch ctx job e l w =
     w\<lparr>iw_db := (iw_db w)\<lparr>fdb_feeds := feed_recorded (fj_feed_id job) (fc_now ctx) e l (fdb_feeds (iw_db w))\<rparr>\<rparr>"
  by (simp add: record_fetch_def io_ignore_def on_db_def fdb_record_fetch_def map_feeds_def statement_ok feed_recorded_def)

lemma count_fetched_db [simp]: "iw_db (count_fetched w) = iw_db w"
  by (simp add: count_fetched_def meter_def)

lemma run_updated:
  assumes "answers ctx job (iw_calls w) (Updated f)" "fdb_faults (iw_db w) = []" "fj_feed_id job \<in> f_id ` set (fdb_feeds (iw_db w))"
    and "set existing = feed_guids (fj_feed_id job) (iw_db w)" "fresh = fresh_entries (feed_guids (fj_feed_id job) (iw_db w)) (ff_entries f)"
  shows "\<exists>news. fdb_articles (iw_db (process_one_feed ctx job existing w)) = fdb_articles (iw_db w) @ news \<and>
      fdb_faults (iw_db (process_one_feed ctx job existing w)) = [] \<and>
      list_all2 (is_entry (fc_now ctx) job) (take max_new_per_cycle fresh) news \<and>
      fdb_feeds (iw_db (process_one_feed ctx job existing w)) =
        (if max_new_per_cycle \<le> length fresh then fdb_feeds (iw_db w)
         else feed_recorded (fj_feed_id job) (fc_now ctx) (ff_etag f) (ff_last_modified f) (fdb_feeds (iw_db w)))"
proof -
  let ?w1 = "count_fetched (w\<lparr>iw_calls := Suc (iw_calls w)\<rparr>)"
  obtain c w2 where es: "process_entries ctx job existing 0 (ff_entries f) ?w1 = (c, w2)" by (rule prod.exhaust)
  from process_entries_exact [OF es _ _ _ refl] assms(2-5) obtain news where
    n: "extends (iw_db w) (iw_db w2) news" "list_all2 (is_entry (fc_now ctx) job) (take max_new_per_cycle fresh) news"
    "c \<longleftrightarrow> max_new_per_cycle \<le> length fresh" by (auto simp: max_new_per_cycle_def)
  have run: "process_one_feed ctx job existing w = (if c then w2 else record_fetch ctx job (ff_etag f) (ff_last_modified f) w2)"
    using assms(1) es by (simp add: process_one_feed_def outside_def answers_def)
  have same: "fdb_feeds (iw_db w2) = fdb_feeds (iw_db w)" "fdb_faults (iw_db w2) = []" using n(1) assms(2) by (auto simp: extends_def)
  have "fdb_articles (iw_db w2) = fdb_articles (iw_db w) @ news" using n(1) by (simp add: extends_def)
  then show ?thesis using n same run by (intro exI [of _ news]) (simp add: record_fetch_ok [OF same(2)])
qed

text \<open>
  C31: a run of a feed whose server answers with a feed, when nothing fails, appends exactly the rows of the first
  thirty entries with a new guid, in the order of the feed and with their fields (a publication date in the
  future is dropped), and records the fetch with its validators unless the cap was reached.
\<close>

theorem feed_run_exact:
  assumes "answers ctx job (iw_calls w) (Updated f)" "fdb_faults (iw_db w) = []" "fj_feed_id job \<in> f_id ` set (fdb_feeds (iw_db w))"
    and "set existing = feed_guids (fj_feed_id job) (iw_db w)" "fresh = fresh_entries (feed_guids (fj_feed_id job) (iw_db w)) (ff_entries f)"
  shows "(\<exists>news. fdb_articles (iw_db (process_one_feed ctx job existing w)) = fdb_articles (iw_db w) @ news \<and>
      list_all2 (is_entry (fc_now ctx) job) (take 30 fresh) news) \<and>
    fdb_feeds (iw_db (process_one_feed ctx job existing w)) =
      (if 30 \<le> length fresh then fdb_feeds (iw_db w)
       else feed_recorded (fj_feed_id job) (fc_now ctx) (ff_etag f) (ff_last_modified f) (fdb_feeds (iw_db w)))"
  using run_updated [OF assms] by (auto simp: max_new_per_cycle_def)

section \<open>Draining a backlog\<close>









section \<open>A failed insert\<close>







section \<open>Witnesses\<close>

definition fresh_world :: "bool list \<Rightarrow> unit world" where
  "fresh_world faults = (let w = fold ingestion_step [AddFeedCall ''f'' ''t'' ''c'' 60] (new_world [] [] [] [] []) in
     w\<lparr>iw_db := (iw_db w)\<lparr>fdb_faults := faults\<rparr>\<rparr>)"

definition fresh_feed :: feed where
  "fresh_feed = \<lparr>f_id = 1, f_url = ''f'', f_title = Some ''t'', f_category = Some ''c'', f_fetch_interval_sec = 60,
     f_last_fetched_at = None, f_etag = None, f_last_modified = None, f_status = ''active'', f_extraction_level = ''summary_only''\<rparr>"

lemma fresh_world_db:
  "fdb_articles (iw_db (fresh_world fs)) = []" "fdb_feeds (iw_db (fresh_world fs)) = [fresh_feed]"
  "fdb_faults (iw_db (fresh_world fs)) = fs" "feed_guids 1 (iw_db (fresh_world fs)) = {}"
  by (simp_all add: fresh_world_def new_world_def io_ignore_def on_db_def fdb_insert_feed_def fdb_statement_def next_rowid_def
      Let_def fresh_feed_def feed_guids_def)

definition demo_fetched :: "feed_entry list \<Rightarrow> feed_entry fetched_feed" where
  "demo_fetched es = \<lparr>ff_entries = es, ff_raw_body = [], ff_etag = Some ''v1'', ff_last_modified = None\<rparr>"

lemma demo_answers: "answers (demo_ctx es) (job_of fresh_feed) k (Updated (demo_fetched es))"
  by (simp add: answers_def demo_ctx_def fetch_feed_def http_get_def job_of_def fresh_feed_def demo_fetched_def)


text \<open>A server with sixty-one entries, two full cycles and one more entry.\<close>

definition many_entries :: "feed_entry list" where
  "many_entries = map (\<lambda>n. demo_entry\<lparr>fe_id := replicate n (CHR ''g'')\<rparr>) [0..<61]"

lemma fresh_distinct: "distinct (map fe_id es) \<Longrightarrow> seen \<inter> fe_id ` set es = {} \<Longrightarrow> fresh_entries seen es = es"
  by (induction es arbitrary: seen) auto

lemma fresh_many: "fresh_entries {} many_entries = many_entries"
  by (rule fresh_distinct) (auto simp: many_entries_def distinct_map inj_on_def simp del: upt_Suc)

theorem feed_run_exact_witness:
  "\<exists>news. fdb_articles (iw_db (process_one_feed (demo_ctx many_entries) (job_of fresh_feed) [] (fresh_world []))) = news \<and>
     list_all2 (is_entry 10000000 (job_of fresh_feed)) (take 30 many_entries) news"
proof -
  have id: "fj_feed_id (job_of fresh_feed) = 1" by (simp add: job_of_def fresh_feed_def)
  have in_feeds: "fj_feed_id (job_of fresh_feed) \<in> f_id ` set (fdb_feeds (iw_db (fresh_world [])))"
    by (simp add: fresh_world_db job_of_def)
  have none: "set [] = feed_guids (fj_feed_id (job_of fresh_feed)) (iw_db (fresh_world []))" by (simp add: id fresh_world_db)
  have now: "fc_now (demo_ctx es) = 10000000" for es by (simp add: demo_ctx_def)
  from feed_run_exact [OF demo_answers fresh_world_db(3) in_feeds none refl, of many_entries]
  show ?thesis by (simp add: id fresh_world_db demo_fetched_def fresh_many now)
qed



end
