(* ===== verification/MemoryEngine.thy ===== *)
theory MemoryEngine
  imports EventArchive FloatText
begin

text \<open>
  The memory engine: \<open>crates/memory-engine\<close> (candidates, evaluation, promotion, the cron worker),
  its adapter \<open>crates/infrastructure/src/memory_repository.rs\<close> and the statements of
  \<open>crates/store/src/d1/memory/crud.rs\<close> on the table of \<open>migrations/0025_memory_engine.sql\<close>, next to
  the outbox and the event index of the archive pipeline.  JSON text is a parameter
  (\<open>memory_json\<close>); scores are \<open>f32\<close> values.
\<close>

section \<open>The memory table\<close>

text \<open>
  \<open>mdb_rows\<close> is \<open>memory_index\<close>; the other tables, the clock and the schedule of statement failures
  are those of \<open>d1_tables\<close>.
\<close>

record memory_db =
  mdb_tables :: d1_tables
  mdb_rows :: "memory_row list"
  mdb_next :: int

type_synonym 'a mdb_io = "(memory_db, store_error, 'a) io"

definition mdb_lift :: "'a d1_io \<Rightarrow> 'a mdb_io" where
  "mdb_lift m d = (case m (mdb_tables d) of (r, t) \<Rightarrow> (r, d\<lparr>mdb_tables := t\<rparr>))"

text \<open>A statement on \<open>memory_index\<close>: it fails on schedule, or with the error it returns itself.\<close>

definition mdb_statement :: "(memory_db \<Rightarrow> (store_error, 'a) result \<times> memory_db) \<Rightarrow> 'a mdb_io" where
  "mdb_statement f = io_bind (mdb_lift (d1_statement (\<lambda>t. ((), t)))) (\<lambda>_. f)"

definition mdb_create_memory :: "new_memory \<Rightarrow> int mdb_io" where
  "mdb_create_memory e = mdb_statement (\<lambda>d.
     if nm_artifact_key e \<noteq> None \<and> list_ex (\<lambda>m. m_artifact_key m = nm_artifact_key e) (mdb_rows d)
     then (Inl (D1 ''UNIQUE constraint failed: memory_index.artifact_key''), d)
     else (Inr (mdb_next d),
           d\<lparr>mdb_next := mdb_next d + 1,
             mdb_rows := mdb_rows d @
               [\<lparr>m_id = mdb_next d, m_memory_type = nm_memory_type e, m_memory_origin = nm_memory_origin e,
                 m_statement = nm_statement e, m_confidence = nm_confidence e,
                 m_stability_score = nm_stability_score e, m_confidence_updated_at = None,
                 m_memory_sources = nm_memory_sources e, m_artifact_key = nm_artifact_key e,
                 m_status = nm_status e, m_usage_count = 0, m_validation_count = 0,
                 m_promoted_at = d1_clock (mdb_tables d), m_deprecated_at = None, m_last_used_at = None,
                 m_created_at = d1_clock (mdb_tables d)\<rparr>]\<rparr>))"

definition mdb_get_memory :: "int \<Rightarrow> memory_row option mdb_io" where
  "mdb_get_memory i = mdb_statement (\<lambda>d. (Inr (List.find (\<lambda>m. m_id m = i) (mdb_rows d)), d))"

definition mdb_list_memories :: "string option \<Rightarrow> string option \<Rightarrow> nat \<Rightarrow> memory_row list mdb_io" where
  "mdb_list_memories memory_type st limit = mdb_statement (\<lambda>d.
     (Inr (take limit (sort_by (\<lambda>x y. m_created_at y \<le> m_created_at x)
        (filter (\<lambda>m. (case memory_type of None \<Rightarrow> True | Some t \<Rightarrow> m_memory_type m = t) \<and>
                      (case st of None \<Rightarrow> True | Some x \<Rightarrow> m_status m = x)) (mdb_rows d)))), d))"

definition mdb_touch_memory :: "int \<Rightarrow> int \<Rightarrow> unit mdb_io" where
  "mdb_touch_memory i now = mdb_statement (\<lambda>d.
     (Inr (), d\<lparr>mdb_rows := map (\<lambda>m. if m_id m = i
        then m\<lparr>m_usage_count := m_usage_count m + 1, m_last_used_at := Some now\<rparr> else m) (mdb_rows d)\<rparr>))"

definition mdb_count_candidates :: "int mdb_io" where
  "mdb_count_candidates = mdb_statement (\<lambda>d.
     (Inr (int (length (filter (\<lambda>m. m_status m = ''candidate'') (mdb_rows d)))), d))"

section \<open>The repository adapter\<close>

datatype memory_error = MemPersistence string

fun memory_error_str :: "memory_error \<Rightarrow> string" where
  "memory_error_str (MemPersistence e) = ''persistence error: '' @ e"

record memory_event_ref =
  mer_event_id :: string
  mer_aggregate_id :: string
  mer_object_key :: string
  mer_occurred_at :: int

record 's memory_repo =
  mr_create_memory :: "new_memory \<Rightarrow> ('s, memory_error, int) io"
  mr_enqueue_event :: "string \<Rightarrow> string \<Rightarrow> string \<Rightarrow> ('s, memory_error, unit) io"
  mr_list_reflection_events :: "nat \<Rightarrow> ('s, memory_error, memory_event_ref list) io"

abbreviation mem_persistence :: "('s, store_error, 'a) io \<Rightarrow> ('s, memory_error, 'a) io" where
  "mem_persistence \<equiv> io_map_err (\<lambda>e. MemPersistence (store_error_str e))"

definition mrepo_create_memory :: "new_memory \<Rightarrow> (memory_db, memory_error, int) io" where
  "mrepo_create_memory m = mem_persistence (mdb_create_memory m)"

definition mrepo_enqueue_event :: "string \<Rightarrow> string \<Rightarrow> string \<Rightarrow> (memory_db, memory_error, unit) io" where
  "mrepo_enqueue_event object_type object_key payload =
     io_bind (mem_persistence (mdb_lift (d1_insert_outbox
       \<lparr>nob_object_type = object_type, nob_object_key = object_key, nob_payload = payload\<rparr>))) (\<lambda>_. io_ret ())"

definition event_ref :: "event_index_entry \<Rightarrow> memory_event_ref" where
  "event_ref e =
     \<lparr>mer_event_id = ei_event_id e, mer_aggregate_id = ei_aggregate_id e, mer_object_key = ei_object_key e,
      mer_occurred_at = ei_occurred_at e\<rparr>"

definition mrepo_list_reflection_events :: "nat \<Rightarrow> (memory_db, memory_error, memory_event_ref list) io" where
  "mrepo_list_reflection_events limit =
     io_bind (mem_persistence (mdb_lift (d1_find_event_keys ''reflection'' '''' limit)))
       (\<lambda>rows. io_ret (map event_ref rows))"

definition d1_memory_repo :: "memory_db memory_repo" where
  "d1_memory_repo =
     \<lparr>mr_create_memory = mrepo_create_memory, mr_enqueue_event = mrepo_enqueue_event,
      mr_list_reflection_events = mrepo_list_reflection_events\<rparr>"

section \<open>Candidates\<close>

record memory_candidate =
  mc_event_id :: string
  mc_reflection_id :: string
  mc_decision_id :: string
  mc_artifact_key :: string
  mc_quality_score :: f64
  mc_lesson_count :: int
  mc_rule_count :: int
  mc_occurred_at :: int

definition candidate_of :: "memory_event_ref \<Rightarrow> memory_candidate" where
  "candidate_of r =
     \<lparr>mc_event_id = mer_event_id r, mc_reflection_id = mer_aggregate_id r, mc_decision_id = '''',
      mc_artifact_key = mer_object_key r, mc_quality_score = Fin 0, mc_lesson_count = 0, mc_rule_count = 0,
      mc_occurred_at = mer_occurred_at r\<rparr>"

definition extract_candidates ::
  "'s memory_repo \<Rightarrow> int \<Rightarrow> nat \<Rightarrow> ('s, string, memory_candidate list) io" where
  "extract_candidates R since limit =
     io_bind (io_map_err (\<lambda>e. ''list_reflection_events failed: '' @ memory_error_str e) (mr_list_reflection_events R limit))
       (\<lambda>events. io_ret (map candidate_of (filter (\<lambda>r. since < mer_occurred_at r) events)))"

section \<open>Evaluation\<close>

record promotion_score =
  ps_confidence :: f32
  ps_recurrence :: f32
  ps_impact :: f32
  ps_evidence :: f32
  ps_stability :: f32
  ps_total :: f32

datatype evaluation_outcome = Promote promotion_score | Review promotion_score | Archive string

definition check_gate :: "f64 \<Rightarrow> bool \<Rightarrow> bool \<Rightarrow> bool \<Rightarrow> unit option" where
  "check_gate quality_score has_outcome has_evidence has_lessons_or_rules =
     (if flt quality_score (lit64 0.7) then None
      else if \<not> has_outcome then None
      else if \<not> has_evidence then None
      else if \<not> has_lessons_or_rules then None
      else Some ())"

abbreviation add32 :: "f32 \<Rightarrow> f32 \<Rightarrow> f32" where "add32 \<equiv> fadd binary32"
abbreviation mul32 :: "f32 \<Rightarrow> f32 \<Rightarrow> f32" where "mul32 \<equiv> fmul binary32"

definition calculate_score :: "f32 \<Rightarrow> f32 \<Rightarrow> f32 \<Rightarrow> f32 \<Rightarrow> f32 \<Rightarrow> promotion_score" where
  "calculate_score confidence recurrence impact evidence stability =
     (let total = add32 (add32 (add32 (add32 (mul32 (lit32 0.25) confidence) (mul32 (lit32 0.20) recurrence))
            (mul32 (lit32 0.20) impact)) (mul32 (lit32 0.20) evidence)) (mul32 (lit32 0.15) stability)
      in \<lparr>ps_confidence = confidence, ps_recurrence = recurrence, ps_impact = impact, ps_evidence = evidence,
          ps_stability = stability, ps_total = total\<rparr>)"

definition evaluate ::
  "f64 \<Rightarrow> bool \<Rightarrow> bool \<Rightarrow> bool \<Rightarrow> f32 \<Rightarrow> f32 \<Rightarrow> f32 \<Rightarrow> evaluation_outcome" where
  "evaluate quality_score has_outcome has_evidence has_lessons_or_rules recurrence impact stability =
     (case check_gate quality_score has_outcome has_evidence has_lessons_or_rules of
        Some _ \<Rightarrow>
          (let score = calculate_score (fcast binary32 quality_score) recurrence impact (lit32 0.8) stability
           in if flt (lit32 0.75) (ps_total score) then Promote score
              else if fle (lit32 0.4) (ps_total score) then Review score
              else Archive (''score too low: '' @ fmt_fixed 2 (ps_total score)))
      | None \<Rightarrow> Archive ''promotion gate failed'')"

text \<open>\<open>expf\<close> is the platform's exponential.\<close>

definition effective_confidence :: "(f64 \<Rightarrow> f64) \<Rightarrow> f64 \<Rightarrow> int \<Rightarrow> f64 \<Rightarrow> f64" where
  "effective_confidence expf confidence days_since lambda =
     (if days_since \<le> 0 then confidence
      else fmul binary64 confidence (expf (fmul binary64 (fneg lambda) (of_i64 binary64 days_since))))"

section \<open>Promotion\<close>

text \<open>\<open>replace(p, q)\<close>: every occurrence from the left, without overlaps.\<close>

fun replace_all :: "string \<Rightarrow> string \<Rightarrow> nat \<Rightarrow> string \<Rightarrow> string" where
  "replace_all p q 0 s = s"
| "replace_all p q (Suc n) s =
     (case s of [] \<Rightarrow> []
      | c # cs \<Rightarrow> (case strip_prefix p s of Some r \<Rightarrow> q @ replace_all p q n r | None \<Rightarrow> c # replace_all p q n cs))"

definition str_replace :: "string \<Rightarrow> string \<Rightarrow> string \<Rightarrow> string" where
  "str_replace p q s = replace_all p q (length s) s"

text \<open>The three JSON texts \<open>promote\<close> builds, as functions of the values put in them.\<close>

record memory_json =
  mj_sources :: "string \<Rightarrow> string"
  mj_event :: "string \<Rightarrow> string \<Rightarrow> f32 \<Rightarrow> string \<Rightarrow> string"
  mj_archive :: "string \<Rightarrow> string \<Rightarrow> f32 \<Rightarrow> f32 \<Rightarrow> string \<Rightarrow> string \<Rightarrow> int \<Rightarrow> string"

definition memory_artifact_key :: "memory_candidate \<Rightarrow> string" where
  "memory_artifact_key c = ''memory/insights/'' @ str_replace ''REF'' ''MEM'' (mc_reflection_id c) @ ''.json''"

definition promoted_memory :: "memory_json \<Rightarrow> memory_candidate \<Rightarrow> promotion_score \<Rightarrow> string \<Rightarrow> new_memory" where
  "promoted_memory J c score st =
     \<lparr>nm_memory_type = ''strategic_pattern'', nm_memory_origin = ''derived'', nm_statement = st,
      nm_confidence = fcast binary64 (ps_total score), nm_stability_score = Some (fcast binary64 (ps_stability score)),
      nm_memory_sources = Some (mj_sources J (mc_reflection_id c)),
      nm_artifact_key = Some (memory_artifact_key c), nm_status = ''active''\<rparr>"

text \<open>\<open>clock\<close> is the reading of \<open>Date.now()\<close> in seconds.\<close>

definition promote ::
  "'s memory_repo \<Rightarrow> memory_json \<Rightarrow> int \<Rightarrow> memory_candidate \<Rightarrow> promotion_score \<Rightarrow> string \<Rightarrow> ('s, string, int) io" where
  "promote R J clock c score st =
     io_bind (io_map_err (\<lambda>e. ''create_memory failed: '' @ memory_error_str e)
       (mr_create_memory R (promoted_memory J c score st))) (\<lambda>memory_id s.
       let mid = ''MEM-'' @ show_i64_06 memory_id;
           s1 = io_ignore (mr_enqueue_event R ''event:memory'' (''mem_'' @ show_i64 clock @ ''_'' @ show_i64 memory_id)
                  (mj_event J mid (mc_reflection_id c) (ps_total score) (memory_artifact_key c))) s;
           s2 = io_ignore (mr_enqueue_event R ''archive:memory'' (memory_artifact_key c)
                  (mj_archive J mid st (ps_total score) (ps_stability score) (mc_reflection_id c)
                    (mc_decision_id c) clock)) s1
       in (Inr memory_id, s2))"

section \<open>The cron worker\<close>

text \<open>
  \<open>kv\<close> is the cache entry \<open>memory:last_run\<close> as reading it gives it: \<open>None\<close> when it is absent or the
  read fails.  \<open>put_ok\<close> says whether the final write succeeds.  In the branch without candidates the
  write is built but never executed.
\<close>

definition default_batch_size :: nat where "default_batch_size = 50"

definition memory_step ::
  "'s memory_repo \<Rightarrow> memory_json \<Rightarrow> int \<Rightarrow> memory_candidate \<Rightarrow> 's \<Rightarrow> 's" where
  "memory_step R J clock c s =
     (case evaluate (lit64 0.75) True True True (lit32 0.5) (lit32 0.5) (lit32 0.5) of
        Promote score \<Rightarrow> io_ignore (promote R J clock c score ''Consolidated memory from reflection'') s
      | Review _ \<Rightarrow> s
      | Archive _ \<Rightarrow> s)"

definition memory_process_pending ::
  "'s memory_repo \<Rightarrow> memory_json \<Rightarrow> int \<Rightarrow> bool \<Rightarrow> int \<Rightarrow> string option \<times> 's \<Rightarrow> string option \<times> 's" where
  "memory_process_pending R J clock put_ok now st =
     (let (kv, s) = st in
      if (case Option.bind kv (\<lambda>v. parse_i64 (trim v)) of Some ts \<Rightarrow> now - ts < 86400 | None \<Rightarrow> False) then (kv, s)
      else case extract_candidates R (now - 86400 * 7) default_batch_size s of
             (Inl _, s1) \<Rightarrow> (kv, s1)
           | (Inr cs, s1) \<Rightarrow>
               (if cs = [] then (kv, s1)
                else (if put_ok then Some (show_i64 now) else kv, fold (memory_step R J clock) cs s1)))"


section \<open>The constant evaluation\<close>

lemma flat_score: "evaluate (lit64 0.75) True True True (lit32 0.5) (lit32 0.5) (lit32 0.5) =
    Review (calculate_score (lit32 0.75) (lit32 0.5) (lit32 0.5) (lit32 0.8) (lit32 0.5))"
proof -
  have gate: "check_gate (lit64 0.75) True True True = Some ()" by code_simp
  have cast: "fcast binary32 (lit64 0.75) = lit32 0.75" by code_simp
  have lo: "\<not> flt (lit32 0.75) (ps_total (calculate_score (lit32 0.75) (lit32 0.5) (lit32 0.5) (lit32 0.8) (lit32 0.5)))"
    by code_simp
  have hi: "fle (lit32 0.4) (ps_total (calculate_score (lit32 0.75) (lit32 0.5) (lit32 0.5) (lit32 0.8) (lit32 0.5)))"
    by code_simp
  show ?thesis
    unfolding evaluate_def gate cast Let_def using lo hi by simp
qed

lemma memory_step_id [simp]: "memory_step R J clock c s = s"
  unfolding memory_step_def flat_score by simp

lemma fold_memory_step [simp]: "fold (memory_step R J clock) cs s = s"
  by (induction cs) simp_all

lemma memory_process_pending_state:
  "snd (memory_process_pending R J clock put_ok now (kv, s)) =
     (if (case Option.bind kv (\<lambda>v. parse_i64 (trim v)) of Some ts \<Rightarrow> now - ts < 86400 | None \<Rightarrow> False) then s
      else snd (extract_candidates R (now - 86400 * 7) default_batch_size s))"
  by (auto simp: memory_process_pending_def split: prod.splits sum.splits)

section \<open>Reading events\<close>

text \<open>What reading the index leaves alone: everything but the schedule of failures.\<close>

definition same_contents :: "memory_db \<Rightarrow> memory_db \<Rightarrow> bool" where
  "same_contents d d' \<longleftrightarrow>
     mdb_rows d' = mdb_rows d \<and> mdb_next d' = mdb_next d \<and>
     d1_outbox (mdb_tables d') = d1_outbox (mdb_tables d) \<and> d1_index (mdb_tables d') = d1_index (mdb_tables d)"

lemma same_contents_refl [simp]: "same_contents d d"
  by (simp add: same_contents_def)

lemma find_event_keys_reads:
  "d1_find_event_keys a b n t = (r, t') \<Longrightarrow>
     d1_outbox t' = d1_outbox t \<and> d1_index t' = d1_index t \<and>
     (\<forall>rows. r = Inr rows \<longrightarrow> set rows \<subseteq> {e \<in> set (d1_index t). ei_aggregate_type e = a \<and> ei_aggregate_id e = b})"
  by (auto simp: d1_find_event_keys_def d1_statement_def split: list.splits bool.splits dest!: in_set_takeD)

lemma extract_candidates_reads:
  assumes "extract_candidates d1_memory_repo since n d = (r, d')"
  shows "same_contents d d' \<and> (\<forall>cs. r = Inr cs \<longrightarrow>
           cs \<noteq> [] \<longrightarrow> (\<exists>e \<in> set (d1_index (mdb_tables d)). ei_aggregate_type e = ''reflection'' \<and> ei_aggregate_id e = ''''))"
proof (cases "d1_find_event_keys ''reflection'' '''' n (mdb_tables d)")
  case (Pair q t)
  note reads = find_event_keys_reads [OF Pair]
  show ?thesis
  proof (cases q)
    case (Inl e)
    with assms Pair reads show ?thesis
      by (auto simp: extract_candidates_def d1_memory_repo_def mrepo_list_reflection_events_def mdb_lift_def io
          map_err_def same_contents_def)
  next
    case (Inr rows)
    with assms Pair have "r = Inr (map candidate_of (filter (\<lambda>r. since < mer_occurred_at r) (map event_ref rows)))"
      "d' = d\<lparr>mdb_tables := t\<rparr>"
      by (simp_all add: extract_candidates_def d1_memory_repo_def mrepo_list_reflection_events_def mdb_lift_def io
          map_err_def)
    with reads Inr show ?thesis
      by (cases rows) (auto simp: same_contents_def)
  qed
qed


section \<open>What the worker does\<close>

text \<open>
  C39: the memory worker never promotes anything.  Whatever the event index holds and whatever fails,
  a run leaves \<open>memory_index\<close>, the outbox and the index as they were: every candidate is judged by
  the same constants, whose score 0.6225 asks for a review.  And as long as no reflection event has
  the empty aggregate id (the id the query asks for), there are no candidates at all and even the
  time of the run is not recorded.
\<close>

theorem memory_never_promotes:
  assumes "memory_process_pending d1_memory_repo J clock put_ok now (kv, d) = (kv', d')"
  shows "mdb_rows d' = mdb_rows d \<and> mdb_next d' = mdb_next d \<and>
      d1_outbox (mdb_tables d') = d1_outbox (mdb_tables d) \<and> d1_index (mdb_tables d') = d1_index (mdb_tables d) \<and>
      ((\<forall>e \<in> set (d1_index (mdb_tables d)). ei_aggregate_type e = ''reflection'' \<longrightarrow> ei_aggregate_id e \<noteq> '''')
        \<longrightarrow> kv' = kv)"
proof (cases "extract_candidates d1_memory_repo (now - 86400 * 7) default_batch_size d")
  case (Pair r d1)
  from extract_candidates_reads [OF Pair] have same: "same_contents d d1"
    and none: "\<And>cs. r = Inr cs \<Longrightarrow>
      \<forall>e \<in> set (d1_index (mdb_tables d)). ei_aggregate_type e = ''reflection'' \<longrightarrow> ei_aggregate_id e \<noteq> '''' \<Longrightarrow> cs = []"
    by blast+
  from assms Pair have "d' = d \<or> d' = d1"
    and "kv' = kv \<or> (\<exists>cs. r = Inr cs \<and> cs \<noteq> [])"
    by (auto simp: memory_process_pending_def split: if_splits sum.splits)
  with same none show ?thesis
    unfolding same_contents_def by metis
qed

definition memory_sample_index :: "event_index_entry list" where
  "memory_sample_index =
     [\<lparr>ei_id = 1, ei_event_id = ''EVT-1'', ei_aggregate_type = ''reflection'', ei_aggregate_id = ''REF-000001'',
       ei_event_type = ''reflection.generated'', ei_object_key = ''k'', ei_occurred_at = 1000, ei_created_at = 1000\<rparr>]"

definition sample_mdb :: memory_db where
  "sample_mdb = \<lparr>mdb_tables = d1_empty\<lparr>d1_index := memory_sample_index\<rparr>, mdb_rows = [], mdb_next = 1\<rparr>"

definition sample_json :: memory_json where
  "sample_json = \<lparr>mj_sources = (\<lambda>s. s), mj_event = (\<lambda>m r x k. m @ r @ k), mj_archive = (\<lambda>m st x y r d c. m @ st @ r @ d)\<rparr>"

lemma memory_never_promotes_witness:
  "memory_process_pending d1_memory_repo sample_json 2000 True 2000 (None, sample_mdb) = (None, sample_mdb)
     \<and> mdb_rows sample_mdb = []"
proof -
  have run: "memory_process_pending d1_memory_repo sample_json 2000 True 2000 (None, sample_mdb) = (None, sample_mdb)"
    by code_simp
  have "mdb_rows sample_mdb = mdb_rows sample_mdb \<and> True"
    using memory_never_promotes [OF run] by blast
  with run show ?thesis by (simp add: sample_mdb_def)
qed


section \<open>Promotion of a reflection\<close>

definition mdb_quiet :: "memory_db \<Rightarrow> bool" where
  "mdb_quiet d \<longleftrightarrow> d1_faults (mdb_tables d) = []"

definition key_taken :: "string \<Rightarrow> memory_db \<Rightarrow> bool" where
  "key_taken k d \<longleftrightarrow> (\<exists>m \<in> set (mdb_rows d). m_artifact_key m = Some k)"

definition memory_of :: "int \<Rightarrow> int \<Rightarrow> new_memory \<Rightarrow> memory_row" where
  "memory_of i now e =
     \<lparr>m_id = i, m_memory_type = nm_memory_type e, m_memory_origin = nm_memory_origin e,
      m_statement = nm_statement e, m_confidence = nm_confidence e, m_stability_score = nm_stability_score e,
      m_confidence_updated_at = None, m_memory_sources = nm_memory_sources e, m_artifact_key = nm_artifact_key e,
      m_status = nm_status e, m_usage_count = 0, m_validation_count = 0, m_promoted_at = now,
      m_deprecated_at = None, m_last_used_at = None, m_created_at = now\<rparr>"

lemma create_memory_quiet:
  assumes "mdb_quiet d"
  shows "mdb_create_memory e d =
    (if nm_artifact_key e \<noteq> None \<and> list_ex (\<lambda>m. m_artifact_key m = nm_artifact_key e) (mdb_rows d)
     then (Inl (D1 ''UNIQUE constraint failed: memory_index.artifact_key''), d)
     else (Inr (mdb_next d), d\<lparr>mdb_next := mdb_next d + 1,
             mdb_rows := mdb_rows d @ [memory_of (mdb_next d) (d1_clock (mdb_tables d)) e]\<rparr>))"
  using assms by (simp add: mdb_create_memory_def mdb_statement_def mdb_lift_def d1_statement_def io mdb_quiet_def memory_of_def)

lemma enqueue_event_quiet:
  assumes "mdb_quiet d"
  shows "io_ignore (mrepo_enqueue_event ty k p) d =
    d\<lparr>mdb_tables := (mdb_tables d)\<lparr>d1_next_outbox := d1_next_outbox (mdb_tables d) + 1,
       d1_outbox := d1_outbox (mdb_tables d) @
         [fresh_row (d1_next_outbox (mdb_tables d)) (d1_clock (mdb_tables d))
            \<lparr>nob_object_type = ty, nob_object_key = k, nob_payload = p\<rparr>]\<rparr>\<rparr>"
  using assms
  by (simp add: mrepo_enqueue_event_def mdb_lift_def d1_insert_outbox_def d1_statement_def io mdb_quiet_def fresh_row_def)

text \<open>
  Promoting a reflection in a working database stores one memory under the next number, with the
  score's total as its confidence, and queues its event and its artifact; promoting the same
  reflection a second time is refused by the unique artifact key and changes nothing.
\<close>

theorem promote_once:
  assumes "mdb_quiet d" "\<not> key_taken (memory_artifact_key c) d"
  shows "\<exists>d1 ev. promote d1_memory_repo J clock c score st d = (Inr (mdb_next d), d1)
     \<and> mdb_rows d1 = mdb_rows d @ [memory_of (mdb_next d) (d1_clock (mdb_tables d)) (promoted_memory J c score st)]
     \<and> map (\<lambda>e. (ob_object_type e, ob_object_key e, ob_status e)) (d1_outbox (mdb_tables d1)) =
         map (\<lambda>e. (ob_object_type e, ob_object_key e, ob_status e)) (d1_outbox (mdb_tables d)) @
         [(''event:memory'', ev, ''pending''), (''archive:memory'', memory_artifact_key c, ''pending'')]
     \<and> promote d1_memory_repo J clock' c score' st' d1 =
         (Inl (''create_memory failed: persistence error: '' @
               store_error_str (D1 ''UNIQUE constraint failed: memory_index.artifact_key'')), d1)"
proof -
  let ?n = "promoted_memory J c score st"
  let ?d = "d\<lparr>mdb_next := mdb_next d + 1, mdb_rows := mdb_rows d @ [memory_of (mdb_next d) (d1_clock (mdb_tables d)) ?n]\<rparr>"
  have key: "nm_artifact_key (promoted_memory J c s t) = Some (memory_artifact_key c)" for s t
    by (simp add: promoted_memory_def)
  have create: "mdb_create_memory ?n d = (Inr (mdb_next d), ?d)"
    using assms by (auto simp: create_memory_quiet key key_taken_def list_ex_iff)
  obtain d1 where run: "promote d1_memory_repo J clock c score st d = (Inr (mdb_next d), d1)"
    and d1: "d1 = snd (promote d1_memory_repo J clock c score st d)"
    by (simp add: promote_def d1_memory_repo_def mrepo_create_memory_def create io Let_def)
  have quiet: "mdb_quiet ?d" using assms(1) by (simp add: mdb_quiet_def)
  have parts: "mdb_rows d1 = mdb_rows ?d \<and> mdb_quiet d1 \<and>
      (\<exists>ev. map (\<lambda>e. (ob_object_type e, ob_object_key e, ob_status e)) (d1_outbox (mdb_tables d1)) =
         map (\<lambda>e. (ob_object_type e, ob_object_key e, ob_status e)) (d1_outbox (mdb_tables d)) @
         [(''event:memory'', ev, ''pending''), (''archive:memory'', memory_artifact_key c, ''pending'')])"
    using quiet unfolding d1
    by (simp add: promote_def d1_memory_repo_def mrepo_create_memory_def create io_bind_def io_map_err_def Let_def
        enqueue_event_quiet mdb_quiet_def fresh_row_def)
  have again: "promote d1_memory_repo J clock' c score' st' d1 =
      (Inl (''create_memory failed: persistence error: '' @
            store_error_str (D1 ''UNIQUE constraint failed: memory_index.artifact_key'')), d1)"
    using parts
    by (simp add: promote_def d1_memory_repo_def mrepo_create_memory_def io_bind_def io_map_err_def
        create_memory_quiet key memory_of_def)
  from run parts again show ?thesis by auto
qed

definition memory_sample_candidate :: memory_candidate where
  "memory_sample_candidate =
     candidate_of \<lparr>mer_event_id = ''EVT-1'', mer_aggregate_id = ''REF-000001'', mer_object_key = ''k'', mer_occurred_at = 1000\<rparr>"

lemma promote_once_witness:
  "\<exists>d1. promote d1_memory_repo sample_json 2000 memory_sample_candidate (calculate_score (Fin 1) (Fin 1) (Fin 1) (Fin 1) (Fin 1)) ''s'' sample_mdb
     = (Inr 1, d1) \<and> length (mdb_rows d1) = 1"
proof -
  have s: "mdb_quiet sample_mdb" "\<not> key_taken (memory_artifact_key memory_sample_candidate) sample_mdb"
    and m: "mdb_next sample_mdb = 1" "mdb_rows sample_mdb = []"
    by (simp_all add: mdb_quiet_def key_taken_def sample_mdb_def d1_empty_def)
  from promote_once [OF s, of sample_json 2000 "calculate_score (Fin 1) (Fin 1) (Fin 1) (Fin 1) (Fin 1)" "''s''" 3000
      "calculate_score (Fin 1) (Fin 1) (Fin 1) (Fin 1) (Fin 1)" "''t''"]
  show ?thesis unfolding m by fastforce
qed

end
