(* ===== verification/Confidence.thy ===== *)
theory Confidence
  imports FloatText
begin

text \<open>
  The confidence engine: \<open>crates/intelligence-domain/src/confidence\<close> (factors, policy, calculator).
  \<open>exp\<close> and \<open>powf\<close> are the platform's functions, the arguments \<open>expf\<close> and \<open>powf\<close>; what the bounds
  rest on is only that \<open>exp\<close> maps the values that are not positive into [0,1] and that a power of a
  value in [0,1] is a number.
\<close>

abbreviation add64 :: "f64 \<Rightarrow> f64 \<Rightarrow> f64" where "add64 \<equiv> fadd binary64"
abbreviation sub64 :: "f64 \<Rightarrow> f64 \<Rightarrow> f64" where "sub64 \<equiv> fsub binary64"
abbreviation mul64 :: "f64 \<Rightarrow> f64 \<Rightarrow> f64" where "mul64 \<equiv> fmul binary64"
abbreviation div64 :: "f64 \<Rightarrow> f64 \<Rightarrow> f64" where "div64 \<equiv> fdiv binary64"

section \<open>Factors and policy\<close>

record confidence_factors =
  cf_evidence_count :: nat
  cf_evidence_strength :: f64
  cf_source_trust :: f64
  cf_freshness :: f64
  cf_calibration_score :: f64

definition confidence_factors_zero :: confidence_factors where
  "confidence_factors_zero =
     \<lparr>cf_evidence_count = 0, cf_evidence_strength = Fin 0, cf_source_trust = Fin 0, cf_freshness = Fin 0,
      cf_calibration_score = Fin 0\<rparr>"

record factor_explanation =
  fe_factor :: string
  fe_value :: f64
  fe_weight :: f64
  fe_impact :: f64

record confidence_result =
  cr_score :: f64
  cr_factors :: "factor_explanation list"
  cr_summary :: string

record confidence_policy =
  cp_min_confidence :: f64
  cp_max_confidence :: f64
  cp_evidence_saturation :: nat

definition default_policy :: confidence_policy where
  "default_policy =
     \<lparr>cp_min_confidence = lit64 0.05, cp_max_confidence = lit64 0.98, cp_evidence_saturation = 10\<rparr>"

section \<open>The calculator\<close>

definition explain_factor :: "string \<Rightarrow> f64 \<Rightarrow> f64 \<Rightarrow> factor_explanation" where
  "explain_factor name val weight =
     (let delta = sub64 val (lit64 0.5); impact = mul64 (mul64 delta weight) (Fin 2)
      in \<lparr>fe_factor = name, fe_value = val, fe_weight = weight,
          fe_impact = fclamp impact (lit64 (- 0.5)) (lit64 0.5)\<rparr>)"

definition confidence_drivers :: "f64 \<Rightarrow> f64 \<Rightarrow> f64 \<Rightarrow> f64 \<Rightarrow> string list" where
  "confidence_drivers evidence src freshness calibration =
     (if flt (lit64 0.6) evidence then [''strong evidence'']
      else if flt evidence (lit64 0.3) then [''limited evidence''] else []) @
     (if flt (lit64 0.7) src then [''high-quality source'']
      else if flt src (lit64 0.4) then [''low-trust source''] else []) @
     (if flt freshness (lit64 0.3) then [''stale data''] else []) @
     (if flt (lit64 0.7) calibration then [''good historical accuracy''] else [])"

text \<open>The em dash of the summary is three bytes of UTF-8.\<close>

definition em_dash :: string where
  "em_dash = [char_of (226::nat), char_of (128::nat), char_of (148::nat)]"

definition summarize :: "f64 \<Rightarrow> f64 \<Rightarrow> f64 \<Rightarrow> f64 \<Rightarrow> f64 \<Rightarrow> string" where
  "summarize evidence src freshness calibration score =
     (let drivers = confidence_drivers evidence src freshness calibration
      in ''Confidence '' @ fmt_fixed 0 (mul64 score (Fin 100)) @ ''% '' @ em_dash @ '' '' @
         (if drivers = [] then ''neutral factors'' else join '', '' drivers))"

text \<open>The three \<open>clamp\<close>s to [0,1] cannot panic; the last one does when the policy's bounds are crossed.\<close>

definition evidence_contrib :: "(f64 \<Rightarrow> f64) \<Rightarrow> confidence_factors \<Rightarrow> confidence_policy \<Rightarrow> f64" where
  "evidence_contrib expf f p =
     mul64 (cf_evidence_strength f)
       (sub64 (Fin 1) (expf (div64 (fneg (of_i64 binary64 (int (cf_evidence_count f))))
                                   (of_i64 binary64 (int (cp_evidence_saturation p))))))"

definition clamp01 :: "f64 \<Rightarrow> f64" where
  "clamp01 x = fclamp x (Fin 0) (Fin 1)"

definition calculate ::
  "(f64 \<Rightarrow> f64) \<Rightarrow> (f64 \<Rightarrow> f64 \<Rightarrow> f64) \<Rightarrow> confidence_factors \<Rightarrow> confidence_policy \<Rightarrow> confidence_result option" where
  "calculate expf powf f p =
     (let ev = clamp01 (evidence_contrib expf f p);
          st = clamp01 (cf_source_trust f);
          fr = clamp01 (cf_freshness f);
          ca = clamp01 (cf_calibration_score f);
          raw = powf (mul64 (mul64 (mul64 ev st) fr) ca) (lit64 0.25)
      in case fclamp_checked raw (cp_min_confidence p) (cp_max_confidence p) of
           None \<Rightarrow> None
         | Some score \<Rightarrow> Some
             \<lparr>cr_score = score,
              cr_factors = [explain_factor ''evidence_strength'' ev (lit64 0.25),
                            explain_factor ''source_trust'' st (lit64 0.25),
                            explain_factor ''freshness'' fr (lit64 0.25),
                            explain_factor ''calibration'' ca (lit64 0.25)],
              cr_summary = summarize ev st fr ca score\<rparr>)"

section \<open>Bounds\<close>

definition finite_val :: "f64 \<Rightarrow> bool" where
  "finite_val x \<longleftrightarrow> (\<exists>q. x = Fin q)"

lemma clamp01_between: "x \<noteq> NaN \<Longrightarrow> between 0 1 (clamp01 x)"
  by (simp add: clamp01_def between_fclamp)

lemma between01_mul:
  assumes "between 0 1 x" "between 0 1 y"
  shows "between 0 1 (mul64 x y)"
  using between_fmul [OF assms, of binary64 0 1] by simp

lemma between01_sub:
  assumes "between 0 1 x"
  shows "between 0 1 (sub64 (Fin 1) x)"
proof -
  from assms obtain q where "x = Fin q" "0 \<le> q" "q \<le> 1" by (auto simp: between_iff)
  then show ?thesis
    using between_rnd [of 0 "1 - q" 1 binary64 0 1] by (simp add: fsub_def)
qed

lemma rnd_le_0:
  assumes "q \<le> 0" "0 < prec m"
  shows "fle (rnd m q) (Fin 0)"
  using rnd_mono [OF assms] by simp

lemma rnd_ge_0:
  assumes "0 \<le> q" "0 < prec m"
  shows "fle (Fin 0) (rnd m q)"
  using rnd_mono [OF assms] by simp

lemma exponent_not_positive:
  "fle (div64 (fneg (of_i64 binary64 (int n))) (of_i64 binary64 10)) (Fin 0)"
proof -
  have ten: "of_i64 binary64 10 = Fin 10" by code_simp
  have "fle (Fin 0) (of_i64 binary64 (int n))" by (simp add: of_i64_def rnd_ge_0)
  then consider "of_i64 binary64 (int n) = PInf" | q where "of_i64 binary64 (int n) = Fin q" "0 \<le> q"
    by (auto simp: fle_Fin_iff)
  then show ?thesis
    by cases (simp_all add: ten rnd_le_0)
qed

lemma evidence_contrib_number:
  assumes "\<forall>x. fle x (Fin 0) \<longrightarrow> between 0 1 (expf x)" "finite_val (cf_evidence_strength f)"
  shows "evidence_contrib expf f default_policy \<noteq> NaN"
proof -
  have "between 0 1 (expf (div64 (fneg (of_i64 binary64 (int (cf_evidence_count f)))) (of_i64 binary64 10)))"
    using assms(1) exponent_not_positive by blast
  from between01_sub [OF this] assms(2) show ?thesis
    by (auto simp: evidence_contrib_def default_policy_def between_iff finite_val_def rnd_not_NaN)
qed

lemma explain_factor_bounds:
  assumes "between 0 1 v"
  shows "between (- 0.25) 0.25 (fe_impact (explain_factor name v (lit64 0.25)))"
proof -
  have lits: "lit64 0.5 = Fin 0.5" "lit64 0.25 = Fin 0.25" "lit64 (- 0.5) = Fin (- 0.5)"
    "rnd binary64 (- 0.5) = Fin (- 0.5)" "rnd binary64 (- 0.25) = Fin (- 0.25)" "rnd binary64 (- 0.125) = Fin (- 0.125)"
    "rnd binary64 0.125 = Fin 0.125" "rnd binary64 0.25 = Fin 0.25"
    by code_simp+
  from assms obtain q where v: "v = Fin q" "0 \<le> q" "q \<le> 1" by (auto simp: between_iff)
  have "between (- 0.5) 0.5 (sub64 v (lit64 0.5))"
    unfolding v(1) lits fsub_def fneg.simps fadd.simps
    by (rule between_rnd [OF _ _ lits(4) lits(1)]) (use v in simp_all)
  then obtain d where d: "sub64 v (lit64 0.5) = Fin d" "- 0.5 \<le> d" "d \<le> 0.5" by (auto simp: between_iff)
  have "between (- 0.125) 0.125 (mul64 (Fin d) (lit64 0.25))"
    unfolding lits fmul.simps by (rule between_rnd [OF _ _ lits(6) lits(7)]) (use d in simp_all)
  then obtain i where i: "mul64 (Fin d) (lit64 0.25) = Fin i" "- 0.125 \<le> i" "i \<le> 0.125" by (auto simp: between_iff)
  have "between (- 0.25) 0.25 (mul64 (Fin i) (Fin 2))"
    unfolding fmul.simps by (rule between_rnd [OF _ _ lits(5) lits(8)]) (use i in simp_all)
  then obtain k where k: "mul64 (Fin i) (Fin 2) = Fin k" "- 0.25 \<le> k" "k \<le> 0.25" by (auto simp: between_iff)
  have "fe_impact (explain_factor name v (lit64 0.25)) = fclamp (Fin k) (Fin (- 0.5)) (Fin 0.5)"
    unfolding explain_factor_def Let_def factor_explanation.simps d(1) i(1) k(1) by (simp only: lits(1,3))
  with k show ?thesis by (simp add: fclamp_def)
qed

text \<open>
  For every finite evidence strength and every source trust, freshness and calibration that is a
  number, the default policy's confidence lies between the literals 0.05 and 0.98, and the explanation
  names the four factors, each with a value in [0,1], weight 0.25 and an impact of at most 0.25 either
  way.
\<close>

theorem confidence_bounds:
  assumes exp: "\<forall>x. fle x (Fin 0) \<longrightarrow> between 0 1 (expf x)"
    and pow: "\<forall>x. between 0 1 x \<longrightarrow> powf x (lit64 0.25) \<noteq> NaN"
    and inputs: "finite_val (cf_evidence_strength f)" "cf_source_trust f \<noteq> NaN" "cf_freshness f \<noteq> NaN"
      "cf_calibration_score f \<noteq> NaN"
  shows "\<exists>r. calculate expf powf f default_policy = Some r
     \<and> in_range (lit64 0.05) (lit64 0.98) (cr_score r)
     \<and> map fe_factor (cr_factors r) = [''evidence_strength'', ''source_trust'', ''freshness'', ''calibration'']
     \<and> (\<forall>e \<in> set (cr_factors r). between 0 1 (fe_value e) \<and> fe_weight e = lit64 0.25 \<and>
           between (- 0.25) 0.25 (fe_impact e))"
proof -
  let ?ev = "clamp01 (evidence_contrib expf f default_policy)"
  let ?st = "clamp01 (cf_source_trust f)" and ?fr = "clamp01 (cf_freshness f)" and ?ca = "clamp01 (cf_calibration_score f)"
  let ?raw = "powf (mul64 (mul64 (mul64 ?ev ?st) ?fr) ?ca) (lit64 0.25)"
  have b: "between 0 1 ?ev" "between 0 1 ?st" "between 0 1 ?fr" "between 0 1 ?ca"
    using inputs evidence_contrib_number [OF exp inputs(1)] by (simp_all add: clamp01_between)
  then have "between 0 1 (mul64 (mul64 (mul64 ?ev ?st) ?fr) ?ca)" by (intro between01_mul)
  with pow have raw: "?raw \<noteq> NaN" by blast
  have order: "fle (lit64 0.05) (lit64 0.98)" by code_simp
  from fclamp_bounds [OF raw order] have score: "in_range (lit64 0.05) (lit64 0.98) (fclamp ?raw (lit64 0.05) (lit64 0.98))"
    by (simp add: in_range_def)
  have clamp: "fclamp_checked ?raw (cp_min_confidence default_policy) (cp_max_confidence default_policy) =
      Some (fclamp ?raw (lit64 0.05) (lit64 0.98))"
    unfolding default_policy_def confidence_policy.simps fclamp_checked_def using order by argo
  have parts: "fe_factor (explain_factor n v w) = n" "fe_value (explain_factor n v w) = v"
    "fe_weight (explain_factor n v w) = w" for n v w
    by (simp_all add: explain_factor_def Let_def)
  show ?thesis
    unfolding calculate_def Let_def clamp option.case
    using score b explain_factor_bounds [OF b(1)] explain_factor_bounds [OF b(2)] explain_factor_bounds [OF b(3)]
      explain_factor_bounds [OF b(4)]
    by (simp only: option.inject ex_simps confidence_result.simps list.simps parts simp_thms ball_simps)
qed

definition sample_factors :: confidence_factors where
  "sample_factors =
     \<lparr>cf_evidence_count = 5, cf_evidence_strength = Fin 1, cf_source_trust = Fin 1, cf_freshness = Fin 0.5,
      cf_calibration_score = Fin 0.5\<rparr>"

lemma confidence_bounds_witness:
  "\<exists>r. calculate (\<lambda>x. Fin 0.5) (\<lambda>x y. x) sample_factors default_policy = Some r \<and> length (cr_factors r) = 4"
proof -
  have e: "\<forall>x. fle x (Fin 0) \<longrightarrow> between 0 1 (Fin 0.5)" by simp
  have p: "\<forall>x. between 0 1 x \<longrightarrow> x \<noteq> NaN" by (auto simp: between_def)
  have "finite_val (cf_evidence_strength sample_factors)" "cf_source_trust sample_factors \<noteq> NaN"
    "cf_freshness sample_factors \<noteq> NaN" "cf_calibration_score sample_factors \<noteq> NaN"
    by (simp_all add: sample_factors_def finite_val_def)
  from confidence_bounds [OF e p this]
  obtain r where r: "calculate (\<lambda>x. Fin 0.5) (\<lambda>x y. x) sample_factors default_policy = Some r"
    "map fe_factor (cr_factors r) = [''evidence_strength'', ''source_trust'', ''freshness'', ''calibration'']"
    by (elim exE conjE) (rule that)
  from arg_cong [OF r(2), of length] have "length (cr_factors r) = 4" by simp
  with r(1) show ?thesis by blast
qed

end
