(* ===== verification/ContextEngine.thy ===== *)
theory ContextEngine
  imports MemoryEngine Content Confidence MemoryStore
begin

text \<open>
  The context engine: \<open>crates/context-engine\<close> (intent, plan, retrieval, ranking, patterns, assembly and
  the builder) and its adapter \<open>crates/infrastructure/src/context_repository.rs\<close> over the decision,
  memory and snapshot tables, in D1 and in memory.  JSON text and the iteration order of a hash map are
  parameters.
\<close>

section \<open>Intents\<close>

datatype cognitive_stage = Explore | Decide | StageReview | Learn
datatype desired_outcome = Recommendation | Explanation | Comparison | OutcomePrediction

record intent =
  in_intent_type :: string
  in_stage :: cognitive_stage
  in_desired_outcome :: desired_outcome
  in_domain :: "string option"
  in_action :: "string option"
  in_entity :: "string option"

definition contains_any :: "string \<Rightarrow> string list \<Rightarrow> bool" where
  "contains_any q ws \<longleftrightarrow> list_ex (str_contains q) ws"

definition intent_goal :: "string \<Rightarrow> cognitive_stage \<times> desired_outcome" where
  "intent_goal q =
     (if contains_any q [''should i'', ''invest'', ''buy'', ''enter''] then (Explore, Recommendation)
      else if contains_any q [''why did'', ''why does'', ''why is'', ''fail'', ''what did i learn'', ''lesson'', ''reflect'']
      then (StageReview, Explanation)
      else (Learn, Explanation))"

definition intent_domain :: "string \<Rightarrow> string option" where
  "intent_domain q =
     (if contains_any q [''invest'', ''startup'', ''market'', ''ai''] then Some ''investment''
      else if contains_any q [''career'', ''job'', ''work''] then Some ''career''
      else if contains_any q [''product'', ''build'', ''launch''] then Some ''product''
      else None)"

fun stage_intent_type :: "cognitive_stage \<Rightarrow> string" where
  "stage_intent_type Explore = ''decision_support''"
| "stage_intent_type Decide = ''decision_support''"
| "stage_intent_type StageReview = ''reflection''"
| "stage_intent_type Learn = ''pattern_analysis''"

fun outcome_action :: "desired_outcome \<Rightarrow> string" where
  "outcome_action Recommendation = ''evaluate''"
| "outcome_action Explanation = ''understand''"
| "outcome_action Comparison = ''compare''"
| "outcome_action OutcomePrediction = ''predict''"

definition parse_intent :: "unicode \<Rightarrow> string \<Rightarrow> intent" where
  "parse_intent U query =
     (let q = uc_lower U query; (stage, goal) = intent_goal q
      in \<lparr>in_intent_type = stage_intent_type stage, in_stage = stage, in_desired_outcome = goal,
          in_domain = intent_domain q, in_action = Some (outcome_action goal), in_entity = None\<rparr>)"

section \<open>The retrieval plan\<close>

record decision_query =
  dq_domain :: "string option"
  dq_statuses :: "string list"
  dq_limit :: nat

record reflection_query =
  rq_status :: "string option"
  rq_min_quality :: "f64 option"
  rq_limit :: nat

record memory_query =
  mq_memory_types :: "string list"
  mq_status :: "string option"
  mq_min_confidence :: "f64 option"
  mq_limit :: nat

record retrieval_plan =
  pl_decision_query :: "decision_query option"
  pl_reflection_query :: "reflection_query option"
  pl_memory_query :: "memory_query option"
  pl_pattern_enabled :: bool
  pl_max_results :: nat

definition plan_retrieval :: "intent \<Rightarrow> retrieval_plan" where
  "plan_retrieval i =
     \<lparr>pl_decision_query = Some \<lparr>dq_domain = in_domain i, dq_statuses = [''active'', ''completed''], dq_limit = 10\<rparr>,
      pl_reflection_query =
        (if in_stage i = StageReview
         then Some \<lparr>rq_status = Some ''generated'', rq_min_quality = Some (lit64 0.5), rq_limit = 10\<rparr>
         else Some \<lparr>rq_status = Some ''generated'', rq_min_quality = None, rq_limit = 5\<rparr>),
      pl_memory_query = Some
        \<lparr>mq_memory_types = [''strategic_pattern'', ''decision_heuristic'', ''domain_knowledge''],
         mq_status = Some ''active'', mq_min_confidence = None, mq_limit = 10\<rparr>,
      pl_pattern_enabled = (in_stage i = StageReview \<or> in_stage i = Learn), pl_max_results = 10\<rparr>"

section \<open>Context items\<close>

record rank_components =
  rc_query_alignment :: f64
  rc_confidence :: f64
  rc_recency :: f64
  rc_usage_frequency :: f64
  rc_user_specificity :: f64

record scored_decision =
  sd_id :: string
  sd_title :: string
  sd_decision_type :: string
  sd_status :: string
  sd_confidence :: f64
  sd_relevance_score :: f64
  sd_rank_components :: rank_components

record scored_reflection =
  sf_id :: string
  sf_result :: "string option"
  sf_quality_score :: f64
  sf_relevance_score :: f64
  sf_rank_components :: rank_components

record scored_memory =
  sm_id :: string
  sm_statement :: string
  sm_memory_type :: string
  sm_confidence :: f64
  sm_relevance_score :: f64
  sm_rank_components :: rank_components

record context_evidence =
  ce_source_type :: string
  ce_source_id :: string
  ce_selection_reason :: string
  ce_relevance_score :: f64

record pattern_context =
  pt_pattern_type :: string
  pt_description :: string
  pt_frequency :: nat
  pt_evidence_refs :: "string list"

record context_confidence =
  cx_overall :: f64
  cx_coverage :: f64
  cx_data_quality :: f64
  cx_recency :: f64
  cx_consistency :: f64

record agent_context =
  ac_snapshot_id :: string
  ac_query :: string
  ac_intent :: intent
  ac_evidence :: "context_evidence list"
  ac_decisions :: "scored_decision list"
  ac_reflections :: "scored_reflection list"
  ac_memories :: "scored_memory list"
  ac_patterns :: "pattern_context list"
  ac_confidence :: context_confidence
  ac_engine_version :: string
  ac_generated_at :: int

section \<open>The repository port\<close>

record decision_record =
  dc_id :: int
  dc_title :: string
  dc_decision_type :: string
  dc_status :: string
  dc_confidence :: f64

record memory_record =
  mm_id :: int
  mm_statement :: string
  mm_memory_type :: string
  mm_confidence :: f64
  mm_usage_count :: int

record ctx_snapshot =
  cn_id :: string
  cn_query :: string
  cn_intent :: string
  cn_domain :: "string option"
  cn_context_json :: string
  cn_evidence_refs :: "string option"
  cn_confidence :: f64
  cn_user_scope :: "string option"

datatype context_error = CtxPersistence string

fun context_error_str :: "context_error \<Rightarrow> string" where
  "context_error_str (CtxPersistence e) = ''context persistence error: '' @ e"

record 's context_repo =
  cr_list_decisions :: "string list \<Rightarrow> nat \<Rightarrow> ('s, context_error, decision_record list) io"
  cr_list_memories :: "string option \<Rightarrow> nat \<Rightarrow> ('s, context_error, memory_record list) io"
  cr_save_snapshot :: "ctx_snapshot \<Rightarrow> ('s, context_error, unit) io"

section \<open>Retrieval\<close>

definition in_query_domain :: "unicode \<Rightarrow> string option \<Rightarrow> decision_record \<Rightarrow> bool" where
  "in_query_domain U topic d =
     (case topic of None \<Rightarrow> True
      | Some x \<Rightarrow> str_contains (dc_decision_type d) x \<or> str_contains (uc_lower U (dc_title d)) (uc_lower U x))"

definition score_decision :: "decision_record \<Rightarrow> scored_decision" where
  "score_decision d =
     \<lparr>sd_id = ''DEC-'' @ show_i64_06 (dc_id d), sd_title = dc_title d, sd_decision_type = dc_decision_type d,
      sd_status = dc_status d, sd_confidence = dc_confidence d, sd_relevance_score = Fin 0,
      sd_rank_components = \<lparr>rc_query_alignment = Fin 0, rc_confidence = dc_confidence d, rc_recency = Fin 0,
        rc_usage_frequency = Fin 0, rc_user_specificity = Fin 1\<rparr>\<rparr>"

definition retrieve_decisions ::
  "unicode \<Rightarrow> 's context_repo \<Rightarrow> decision_query \<Rightarrow> ('s, string, scored_decision list) io" where
  "retrieve_decisions U R q =
     (if dq_statuses q = [] then io_ret []
      else io_bind (io_map_err (\<lambda>e. ''list_decisions: '' @ context_error_str e)
             (cr_list_decisions R (dq_statuses q) (dq_limit q)))
           (\<lambda>ds. io_ret (map score_decision (filter (in_query_domain U (dq_domain q)) ds))))"

definition retrieve_reflections :: "reflection_query \<Rightarrow> ('s, string, scored_reflection list) io" where
  "retrieve_reflections q = io_ret []"

definition score_memory :: "memory_record \<Rightarrow> scored_memory" where
  "score_memory m =
     \<lparr>sm_id = ''MEM-'' @ show_i64_06 (mm_id m), sm_statement = mm_statement m, sm_memory_type = mm_memory_type m,
      sm_confidence = mm_confidence m, sm_relevance_score = Fin 0,
      sm_rank_components = \<lparr>rc_query_alignment = Fin 0, rc_confidence = mm_confidence m, rc_recency = Fin 0,
        rc_usage_frequency = of_i64 binary64 (mm_usage_count m), rc_user_specificity = Fin 1\<rparr>\<rparr>"

definition retrieve_memories :: "'s context_repo \<Rightarrow> memory_query \<Rightarrow> ('s, string, scored_memory list) io" where
  "retrieve_memories R q =
     io_bind (io_map_err (\<lambda>e. ''list_memories: '' @ context_error_str e) (cr_list_memories R (mq_status q) (mq_limit q)))
       (\<lambda>ms. io_ret (map score_memory ms))"

section \<open>Ranking and patterns\<close>

definition default_rank_score :: "rank_components \<Rightarrow> f64" where
  "default_rank_score c =
     add64 (add64 (add64 (add64 (mul64 (lit64 0.30) (rc_query_alignment c)) (mul64 (lit64 0.25) (rc_confidence c)))
       (mul64 (lit64 0.20) (rc_recency c))) (mul64 (lit64 0.15) (rc_usage_frequency c)))
       (mul64 (lit64 0.10) (rc_user_specificity c))"

text \<open>\<open>sort_by\<close> with the comparison reversed: \<open>x\<close> may stay before \<open>y\<close> unless its score is less.\<close>

definition rank_items :: "('a \<Rightarrow> f64) \<Rightarrow> 'a list \<Rightarrow> 'a list" where
  "rank_items score items = sort_by (\<lambda>x y. \<not> flt (score x) (score y)) items"

definition count_types :: "scored_decision list \<Rightarrow> (string \<times> nat) list" where
  "count_types ds =
     foldl (\<lambda>m d. map_insert (sd_decision_type d)
       (Suc (case map_of m (sd_decision_type d) of Some n \<Rightarrow> n | None \<Rightarrow> 0)) m) [] ds"

text \<open>\<open>order\<close> is the order in which the hash map gives its entries.\<close>

definition detect_patterns ::
  "((string \<times> nat) list \<Rightarrow> (string \<times> nat) list) \<Rightarrow> scored_decision list \<Rightarrow> scored_reflection list \<Rightarrow> pattern_context list" where
  "detect_patterns order ds rs =
     map (\<lambda>(t, n). \<lparr>pt_pattern_type = ''recurring_theme'',
            pt_description = ''You have made '' @ show_i64 (int n) @ '' decisions in '' @ [CHR 0x27] @ t @ [CHR 0x27],
            pt_frequency = n, pt_evidence_refs = map sd_id (filter (\<lambda>d. sd_decision_type d = t) ds)\<rparr>)
       (filter (\<lambda>(t, n). 2 \<le> n) (order (count_types ds)))"

section \<open>Assembly\<close>

definition decision_evidence :: "scored_decision \<Rightarrow> context_evidence" where
  "decision_evidence d =
     \<lparr>ce_source_type = ''decision'', ce_source_id = sd_id d, ce_selection_reason = ''matched domain/decision_type'',
      ce_relevance_score = sd_relevance_score d\<rparr>"

definition reflection_evidence :: "scored_reflection \<Rightarrow> context_evidence" where
  "reflection_evidence r =
     \<lparr>ce_source_type = ''reflection'', ce_source_id = sf_id r, ce_selection_reason = ''matched review criteria'',
      ce_relevance_score = sf_relevance_score r\<rparr>"

definition memory_evidence :: "scored_memory \<Rightarrow> context_evidence" where
  "memory_evidence m =
     \<lparr>ce_source_type = ''memory'', ce_source_id = sm_id m, ce_selection_reason = ''matched memory_type/confidence'',
      ce_relevance_score = sm_relevance_score m\<rparr>"

definition context_scores ::
  "scored_decision list \<Rightarrow> scored_reflection list \<Rightarrow> scored_memory list \<Rightarrow> pattern_context list \<Rightarrow> context_confidence" where
  "context_scores ds rs ms ps =
     (let n_total = of_i64 binary64 (int (length ds + length rs + length ms));
          coverage = fmin (div64 n_total (Fin 30)) (Fin 1);
          total = add64 (add64 (fsum binary64 (map sd_relevance_score ds)) (fsum binary64 (map sf_relevance_score rs)))
                    (fsum binary64 (map sm_relevance_score ms));
          avg = div64 total (fmax n_total (Fin 1));
          consistency = (if length ps \<le> 1 then lit64 0.8 else lit64 0.5);
          recency = lit64 0.5;
          q = lit64 0.25
      in \<lparr>cx_overall = add64 (add64 (add64 (mul64 q coverage) (mul64 q avg)) (mul64 q recency)) (mul64 q consistency),
          cx_coverage = coverage, cx_data_quality = avg, cx_recency = recency, cx_consistency = consistency\<rparr>)"

definition assemble_context ::
  "int \<Rightarrow> string \<Rightarrow> string \<Rightarrow> intent \<Rightarrow> scored_decision list \<Rightarrow> scored_reflection list \<Rightarrow> scored_memory list
    \<Rightarrow> pattern_context list \<Rightarrow> agent_context" where
  "assemble_context now snapshot_id query i ds rs ms ps =
     \<lparr>ac_snapshot_id = snapshot_id, ac_query = query, ac_intent = i,
      ac_evidence = map decision_evidence ds @ map reflection_evidence rs @ map memory_evidence ms,
      ac_decisions = ds, ac_reflections = rs, ac_memories = ms, ac_patterns = ps,
      ac_confidence = context_scores ds rs ms ps, ac_engine_version = ''context-engine-v1'', ac_generated_at = now\<rparr>"

section \<open>The builder\<close>

text \<open>The environment: Unicode, hash order, JSON of contexts, intents and id lists, and the two clock readings.\<close>

record context_env =
  ev_unicode :: unicode
  ev_order :: "(string \<times> nat) list \<Rightarrow> (string \<times> nat) list"
  ev_context_json :: "agent_context \<Rightarrow> string"
  ev_intent_json :: "intent \<Rightarrow> string"
  ev_refs_json :: "string list \<Rightarrow> string"
  ev_now_id :: int
  ev_now_assembly :: int

definition option_step :: "('q \<Rightarrow> ('s, string, 'a list) io) \<Rightarrow> 'q option \<Rightarrow> ('s, string, 'a list) io" where
  "option_step f q = (case q of Some x \<Rightarrow> f x | None \<Rightarrow> io_ret [])"

definition snapshot_of :: "context_env \<Rightarrow> string option \<Rightarrow> agent_context \<Rightarrow> ctx_snapshot" where
  "snapshot_of E user_scope c =
     \<lparr>cn_id = ac_snapshot_id c, cn_query = ac_query c, cn_intent = ev_intent_json E (ac_intent c),
      cn_domain = in_domain (ac_intent c), cn_context_json = ev_context_json E c,
      cn_evidence_refs = Some (ev_refs_json E (map ce_source_id (ac_evidence c))),
      cn_confidence = cx_overall (ac_confidence c), cn_user_scope = user_scope\<rparr>"

definition build_agent_context ::
  "context_env \<Rightarrow> 's context_repo \<Rightarrow> string \<Rightarrow> string option \<Rightarrow> ('s, string, agent_context) io" where
  "build_agent_context E R query user_scope =
     (let i = parse_intent (ev_unicode E) query; pl = plan_retrieval i in
      io_bind (option_step (retrieve_decisions (ev_unicode E) R) (pl_decision_query pl)) (\<lambda>ds0.
      io_bind (option_step retrieve_reflections (pl_reflection_query pl)) (\<lambda>rs0.
      io_bind (option_step (retrieve_memories R) (pl_memory_query pl)) (\<lambda>ms0 s.
        let ds = rank_items sd_relevance_score ds0; rs = rank_items sf_relevance_score rs0;
            ms = rank_items sm_relevance_score ms0;
            ps = (if pl_pattern_enabled pl then detect_patterns (ev_order E) ds rs else []);
            c = assemble_context (ev_now_assembly E) (''CTX-'' @ show_i64 (ev_now_id E)) query i ds rs ms ps
        in (Inr c, io_ignore (cr_save_snapshot R (snapshot_of E user_scope c)) s)))))"


section \<open>The adapter\<close>

record 's context_store_ops =
  cso_list_decisions :: "string option \<Rightarrow> nat \<Rightarrow> ('s, store_error, decision_row list) io"
  cso_list_memories :: "string option \<Rightarrow> string option \<Rightarrow> nat \<Rightarrow> ('s, store_error, memory_row list) io"
  cso_save_snapshot :: "new_context_snapshot \<Rightarrow> ('s, store_error, unit) io"

abbreviation ctx_persistence :: "('s, store_error, 'a) io \<Rightarrow> ('s, context_error, 'a) io" where
  "ctx_persistence \<equiv> io_map_err (\<lambda>e. CtxPersistence (store_error_str e))"

text \<open>\<open>created_at DESC, id DESC\<close>, then the first \<open>limit\<close>.\<close>

definition newer :: "decision_row \<Rightarrow> decision_row \<Rightarrow> bool" where
  "newer a b \<longleftrightarrow> d_created_at b < d_created_at a \<or> d_created_at a = d_created_at b \<and> d_id b \<le> d_id a"

definition merge_eligible :: "decision_row list \<Rightarrow> nat \<Rightarrow> decision_row list" where
  "merge_eligible rows limit = take limit (sort_by newer rows)"

fun list_each :: "'s context_store_ops \<Rightarrow> nat \<Rightarrow> string list \<Rightarrow> ('s, context_error, decision_row list) io" where
  "list_each S limit [] = io_ret []"
| "list_each S limit (st # sts) =
     io_bind (ctx_persistence (cso_list_decisions S (Some st) limit)) (\<lambda>rows.
     io_bind (list_each S limit sts) (\<lambda>rest. io_ret (rows @ rest)))"

definition to_decision_record :: "decision_row \<Rightarrow> decision_record" where
  "to_decision_record d =
     \<lparr>dc_id = d_id d, dc_title = d_title d, dc_decision_type = d_decision_type d, dc_status = d_status d,
      dc_confidence = d_confidence d\<rparr>"

definition crepo_list_decisions ::
  "'s context_store_ops \<Rightarrow> string list \<Rightarrow> nat \<Rightarrow> ('s, context_error, decision_record list) io" where
  "crepo_list_decisions S statuses limit =
     (if statuses = [] then io_ret []
      else io_bind (list_each S limit statuses) (\<lambda>rows. io_ret (map to_decision_record (merge_eligible rows limit))))"

definition to_memory_record :: "memory_row \<Rightarrow> memory_record" where
  "to_memory_record m =
     \<lparr>mm_id = m_id m, mm_statement = m_statement m, mm_memory_type = m_memory_type m, mm_confidence = m_confidence m,
      mm_usage_count = m_usage_count m\<rparr>"

definition crepo_list_memories ::
  "'s context_store_ops \<Rightarrow> string option \<Rightarrow> nat \<Rightarrow> ('s, context_error, memory_record list) io" where
  "crepo_list_memories S st limit =
     io_bind (ctx_persistence (cso_list_memories S None st limit)) (\<lambda>rows. io_ret (map to_memory_record rows))"

definition crepo_save_snapshot :: "'s context_store_ops \<Rightarrow> ctx_snapshot \<Rightarrow> ('s, context_error, unit) io" where
  "crepo_save_snapshot S n =
     ctx_persistence (cso_save_snapshot S
       \<lparr>ncs_id = cn_id n, ncs_query = cn_query n, ncs_intent = cn_intent n, ncs_domain = cn_domain n,
        ncs_context_json = cn_context_json n, ncs_object_key = None, ncs_object_size = None,
        ncs_evidence_refs = cn_evidence_refs n, ncs_confidence = cn_confidence n, ncs_user_scope = cn_user_scope n\<rparr>)"

definition d1_context_repo :: "'s context_store_ops \<Rightarrow> 's context_repo" where
  "d1_context_repo S =
     \<lparr>cr_list_decisions = crepo_list_decisions S, cr_list_memories = crepo_list_memories S,
      cr_save_snapshot = crepo_save_snapshot S\<rparr>"

section \<open>The tables\<close>

definition memory_context_ops :: "memory_store context_store_ops" where
  "memory_context_ops =
     \<lparr>cso_list_decisions = list_decisions, cso_list_memories = list_memories,
      cso_save_snapshot = save_context_snapshot\<rparr>"

text \<open>In D1: \<open>decisions\<close>, \<open>memory_index\<close> and \<open>context_snapshots\<close>, whose id is the primary key.\<close>

record advisor_db =
  adb_decisions :: "decision_row list"
  adb_memory :: memory_db
  adb_snapshots :: "context_snapshot list"

type_synonym 'a adb_io = "(advisor_db, store_error, 'a) io"

definition adb_lift :: "'a mdb_io \<Rightarrow> 'a adb_io" where
  "adb_lift m d = (case m (adb_memory d) of (r, t) \<Rightarrow> (r, d\<lparr>adb_memory := t\<rparr>))"

definition adb_statement :: "(advisor_db \<Rightarrow> (store_error, 'a) result \<times> advisor_db) \<Rightarrow> 'a adb_io" where
  "adb_statement f = io_bind (adb_lift (mdb_statement (\<lambda>t. (Inr (), t)))) (\<lambda>_. f)"

definition adb_list_decisions :: "string option \<Rightarrow> nat \<Rightarrow> decision_row list adb_io" where
  "adb_list_decisions st limit = adb_statement (\<lambda>d.
     (Inr (take limit (sort_by (\<lambda>x y. d_created_at y \<le> d_created_at x)
        (case st of Some x \<Rightarrow> filter (\<lambda>r. d_status r = x) (adb_decisions d) | None \<Rightarrow> adb_decisions d))), d))"

definition adb_save_snapshot :: "new_context_snapshot \<Rightarrow> unit adb_io" where
  "adb_save_snapshot n = adb_statement (\<lambda>d.
     if list_ex (\<lambda>c. cs_id c = ncs_id n) (adb_snapshots d)
     then (Inl (D1 ''UNIQUE constraint failed: context_snapshots.id''), d)
     else (Inr (), d\<lparr>adb_snapshots := adb_snapshots d @
        [\<lparr>cs_id = ncs_id n, cs_query = ncs_query n, cs_intent = ncs_intent n, cs_domain = ncs_domain n,
          cs_engine_version = ''context-engine-v1'', cs_context_json = ncs_context_json n,
          cs_object_key = ncs_object_key n, cs_object_size = ncs_object_size n,
          cs_evidence_refs = ncs_evidence_refs n, cs_confidence = ncs_confidence n,
          cs_user_scope = ncs_user_scope n, cs_created_at = d1_clock (mdb_tables (adb_memory d))\<rparr>]\<rparr>))"

definition adb_get_snapshot :: "string \<Rightarrow> context_snapshot option adb_io" where
  "adb_get_snapshot i = adb_statement (\<lambda>d. (Inr (List.find (\<lambda>c. cs_id c = i) (adb_snapshots d)), d))"

definition d1_context_ops :: "advisor_db context_store_ops" where
  "d1_context_ops =
     \<lparr>cso_list_decisions = adb_list_decisions, cso_list_memories = (\<lambda>ty st n. adb_lift (mdb_list_memories ty st n)),
      cso_save_snapshot = adb_save_snapshot\<rparr>"

end
