(* ===== verification/Advisor.thy ===== *)
theory Advisor
  imports ContextEngine ModelRuntime
begin

text \<open>
  The advisor: \<open>crates/agent-engine\<close> (policy, prompt, trace, runtime, the adapter to a model provider) and
  its route \<open>crates/worker-entry/src/routes/agent.rs\<close>, over the context engine and the model runtime.  The
  state is a pair: what the context repository and what the model's client act on.
\<close>

section \<open>Policy, prompt and trace\<close>

datatype agent_mode = DecisionAdvisor

record agent_request =
  aq_query :: string
  aq_mode :: agent_mode
  aq_session_id :: "string option"

record reasoning_policy =
  rp_min_evidence_items :: int
  rp_prompt_version :: string

definition insufficient_evidence_disclaimer :: string where
  "insufficient_evidence_disclaimer = ''This recommendation is based on limited decision history.''"

fun policy_for_mode :: "agent_mode \<Rightarrow> reasoning_policy" where
  "policy_for_mode DecisionAdvisor = \<lparr>rp_min_evidence_items = 5, rp_prompt_version = ''decision_advisor.v1''\<rparr>"

definition policy_insufficient :: "reasoning_policy \<Rightarrow> int \<Rightarrow> bool" where
  "policy_insufficient p evidence_count \<longleftrightarrow> evidence_count < rp_min_evidence_items p"

record built_prompt =
  bp_system :: string
  bp_user :: string
  bp_version :: string

definition decision_advisor_system :: string where
  "decision_advisor_system =
     ''You are Sulix Intelligence Agent '' @ em_dash @ '' a personal decision intelligence assistant.'' @ newline @
     ''You have access to the user'' @ [CHR 0x27] @ ''s personal decision history, reflections, and learned patterns.'' @ newline @ newline @
     ''Rules:'' @ newline @
     ''- Always cite specific past decisions/reflections/memories as evidence'' @ newline @
     ''- Only cite decisions that are actually present in the CONTEXT below; never invent or reuse decision ids that are not listed'' @ newline @
     ''- If the CONTEXT provides no or very few decisions, state that the evidence is sparse rather than fabricating history'' @ newline @
     ''- Distinguish between facts and assumptions'' @ newline @
     ''- Mention uncertainty when evidence is insufficient'' @ newline @
     ''- Connect patterns across multiple decisions'' @ newline @
     ''- Be concise but specific''"

text \<open>\<open>pretty\<close> is the indented JSON of a context.\<close>

definition build_prompt :: "(agent_context \<Rightarrow> string) \<Rightarrow> agent_context \<Rightarrow> agent_mode \<Rightarrow> string \<Rightarrow> built_prompt" where
  "build_prompt pretty c mode query =
     (let p = policy_for_mode mode
      in \<lparr>bp_system = decision_advisor_system @ newline @ newline @ ''Prompt version: '' @ rp_prompt_version p,
          bp_user = ''CONTEXT:'' @ newline @ pretty c @ newline @ newline @ ''USER QUERY:'' @ newline @ query,
          bp_version = rp_prompt_version p\<rparr>)"

record reasoning_trace =
  rt_confidence :: f64
  rt_evidence_refs :: "string list"
  rt_assumptions :: "string list"
  rt_uncertainty :: "string list"
  rt_reasoning_version :: string

definition build_trace :: "string list \<Rightarrow> f64 \<Rightarrow> reasoning_trace" where
  "build_trace refs confidence =
     \<lparr>rt_confidence = confidence, rt_evidence_refs = refs, rt_assumptions = [], rt_uncertainty = [],
      rt_reasoning_version = ''v1''\<rparr>"

section \<open>The language model port\<close>

record llm_request =
  lq_system_prompt :: string
  lq_user_message :: string
  lq_max_tokens :: int

record llm_response =
  lr_text :: string
  lr_finish_reason :: string
  lr_usage :: "token_usage option"

datatype llm_error = LAuthenticationFailed | LRateLimited | LTimeout | LInvalidResponse | LProviderError string

record 's llm_port =
  lp_capability :: model_capabilities
  lp_complete :: "llm_request \<Rightarrow> ('s, llm_error, llm_response) io"

fun to_llm_error :: "model_error \<Rightarrow> llm_error" where
  "to_llm_error AuthenticationFailed = LAuthenticationFailed"
| "to_llm_error RateLimited = LRateLimited"
| "to_llm_error Timeout = LTimeout"
| "to_llm_error (InvalidResponse _) = LInvalidResponse"
| "to_llm_error (ProviderError msg) = LProviderError msg"

definition model_provider_llm :: "'s model_provider \<Rightarrow> 's llm_port" where
  "model_provider_llm P =
     \<lparr>lp_capability = mp_capabilities P,
      lp_complete = (\<lambda>r. io_bind (io_map_err to_llm_error (mp_generate P
        \<lparr>mq_task = AgentAnswer, mq_system_prompt = lq_system_prompt r,
         mq_context = [\<lparr>cb_title = ''user'', cb_content = lq_user_message r, cb_priority = Fin 1\<rparr>],
         mq_output_schema = None,
         mq_parameters = \<lparr>gp_temperature = lit64 0.3, gp_max_tokens = lq_max_tokens r\<rparr>\<rparr>))
        (\<lambda>x. io_ret \<lparr>lr_text = mr_text x, lr_finish_reason = mr_finish_reason x, lr_usage = mr_usage x\<rparr>))\<rparr>"

definition noop_llm :: "'s llm_port" where
  "noop_llm =
     \<lparr>lp_capability = noop_caps,
      lp_complete = (\<lambda>_. io_ret \<lparr>lr_text = ''Noop response '' @ em_dash @ '' LLM not configured.'',
        lr_finish_reason = ''stop'', lr_usage = None\<rparr>)\<rparr>"

section \<open>The runtime\<close>

record context_answer =
  ca_context :: agent_context
  ca_snapshot_id :: string
  ca_confidence :: f64

datatype agent_stage = ContextBuilding | PromptConstruction | LLMInference | StageCompleted

record context_summary =
  su_decisions_count :: int
  su_reflections_count :: int
  su_memories_count :: int
  su_patterns_count :: int
  su_evidence_refs :: "string list"

record execution_metadata =
  xm_mode :: agent_mode
  xm_model :: string
  xm_prompt_version :: string
  xm_reasoning_version :: string
  xm_generated_at :: int
  xm_latency_ms :: int
  xm_stages :: "agent_stage list"

record agent_response =
  ap_answer :: string
  ap_reasoning :: reasoning_trace
  ap_context :: context_summary
  ap_context_id :: string
  ap_execution :: execution_metadata
  ap_session_id :: "string option"
  ap_insufficient_evidence :: bool
  ap_disclaimer :: "string option"

text \<open>\<open>f64 as u64\<close> truncates and saturates at both ends.\<close>

fun to_u64 :: "f64 \<Rightarrow> int" where
  "to_u64 (Fin q) = max 0 (min (2 ^ 64 - 1) (trunc_rat q))"
| "to_u64 PInf = 2 ^ 64 - 1"
| "to_u64 _ = 0"

definition count_u32 :: "'a list \<Rightarrow> int" where
  "count_u32 xs = as_u32 (int (length xs))"

text \<open>
  \<open>execute\<close>: \<open>provider\<close> builds the context, \<open>show_err\<close> is the debug text of a model error, \<open>t0\<close> and \<open>t1\<close>
  are the two readings of the clock.
\<close>

definition agent_execute ::
  "(string \<Rightarrow> ('c, string, context_answer) io) \<Rightarrow> 'm llm_port \<Rightarrow> (agent_context \<Rightarrow> string) \<Rightarrow> (llm_error \<Rightarrow> string)
    \<Rightarrow> f64 \<Rightarrow> f64 \<Rightarrow> agent_request \<Rightarrow> ('c \<times> 'm, string, agent_response) io" where
  "agent_execute provider L pretty show_err t0 t1 req st =
     (case provider (aq_query req) (fst st) of
        (Inl e, c') \<Rightarrow> (Inl e, (c', snd st))
      | (Inr a, c') \<Rightarrow>
          (let ctx = ca_context a;
               insufficient = policy_insufficient (policy_for_mode (aq_mode req)) (count_u32 (ac_evidence ctx));
               prompt = build_prompt pretty ctx (aq_mode req) (aq_query req)
           in case lp_complete L \<lparr>lq_system_prompt = bp_system prompt, lq_user_message = bp_user prompt, lq_max_tokens = 1024\<rparr> (snd st) of
                (Inl e, m') \<Rightarrow> (Inl (''LLM error: '' @ show_err e), (c', m'))
              | (Inr r, m') \<Rightarrow>
                  (let refs = map ce_source_id (ac_evidence ctx)
                   in (Inr
                     \<lparr>ap_answer = lr_text r, ap_reasoning = build_trace refs (ca_confidence a),
                      ap_context = \<lparr>su_decisions_count = count_u32 (ac_decisions ctx),
                        su_reflections_count = count_u32 (ac_reflections ctx),
                        su_memories_count = count_u32 (ac_memories ctx), su_patterns_count = count_u32 (ac_patterns ctx),
                        su_evidence_refs = refs\<rparr>,
                      ap_context_id = ca_snapshot_id a,
                      ap_execution = \<lparr>xm_mode = aq_mode req, xm_model = mcap_model_name (lp_capability L),
                        xm_prompt_version = bp_version prompt, xm_reasoning_version = ''v1'',
                        xm_generated_at = to_i64 (div64 t0 (Fin 1000)), xm_latency_ms = to_u64 (sub64 t1 t0),
                        xm_stages = [ContextBuilding, PromptConstruction, LLMInference, StageCompleted]\<rparr>,
                      ap_session_id = aq_session_id req, ap_insufficient_evidence = insufficient,
                      ap_disclaimer = (if insufficient then Some insufficient_evidence_disclaimer else None)\<rparr>,
                     (c', m')))))"

section \<open>The route\<close>

definition context_wrapper :: "context_env \<Rightarrow> 's context_repo \<Rightarrow> string \<Rightarrow> ('s, string, context_answer) io" where
  "context_wrapper E R query =
     io_bind (build_agent_context E R query None) (\<lambda>c. io_ret
       \<lparr>ca_context = c, ca_snapshot_id = ac_snapshot_id c, ca_confidence = cx_overall (ac_confidence c)\<rparr>)"

record worker_env =
  we_api_key :: "string option"
  we_base_url :: "string option"
  we_chat_model :: "string option"
  we_ai_provider :: "string option"

definition try_build_provider :: "worker_env \<Rightarrow> (string \<Rightarrow> json option) \<Rightarrow> 'm http_client \<Rightarrow> 'm model_provider option" where
  "try_build_provider V parse client =
     Option.bind (we_api_key V) (\<lambda>k.
       case model_config_from_env k (we_base_url V) (we_chat_model V) of
         Inl _ \<Rightarrow> None | Inr D \<Rightarrow> Some (build_provider D parse client))"

definition select_agent_provider ::
  "worker_env \<Rightarrow> (string \<Rightarrow> json option) \<Rightarrow> 'm http_client \<Rightarrow> 'm model_provider option" where
  "select_agent_provider V parse client =
     (case try_build_provider V parse client of
        Some p \<Rightarrow> Some p
      | None \<Rightarrow>
          (if (case we_ai_provider V of Some v \<Rightarrow> ascii_lower v = ''noop'' | None \<Rightarrow> False) then Some noop_new else None))"

datatype agent_reply = ReplyOk agent_response | ReplyErr nat string

definition agent_run ::
  "worker_env \<Rightarrow> (string \<Rightarrow> json option) \<Rightarrow> 'm http_client \<Rightarrow> context_env \<Rightarrow> 's context_store_ops
    \<Rightarrow> (agent_context \<Rightarrow> string) \<Rightarrow> (llm_error \<Rightarrow> string) \<Rightarrow> f64 \<Rightarrow> f64 \<Rightarrow> agent_request option
    \<Rightarrow> 's \<times> 'm \<Rightarrow> agent_reply \<times> 's \<times> 'm" where
  "agent_run V parse client E S pretty show_err t0 t1 body st =
     (case body of None \<Rightarrow> (ReplyErr 400 ''invalid request body'', st)
      | Some req \<Rightarrow>
          (case select_agent_provider V parse client of
             None \<Rightarrow> (ReplyErr 503 ''advisor unavailable: AI_API_KEY not configured'', st)
           | Some p \<Rightarrow>
               (case agent_execute (context_wrapper E (d1_context_repo S)) (model_provider_llm p) pretty show_err t0 t1 req st of
                  (Inr r, st') \<Rightarrow> (ReplyOk r, st')
                | (Inl _, st') \<Rightarrow> (ReplyErr 500 ''agent execution failed'', st'))))"

end
