(* ===== verification/AdvisorProps.thy ===== *)
theory AdvisorProps
  imports Advisor
begin

text \<open>
  What the advisor promises.  The locale \<open>evidence_store\<close> states what it needs of the tables: listing
  by status gives stored rows with that status and changes nothing.  The D1 tables and the in-memory
  store both provide it.
\<close>

section \<open>The tables the evidence comes from\<close>

locale evidence_store =
  fixes S :: "'s context_store_ops"
    and decisions_in :: "'s \<Rightarrow> decision_row list"
    and memories_in :: "'s \<Rightarrow> memory_row list"
  assumes list_decisions_any: "cso_list_decisions S (Some x) n s = (dr, s') \<Longrightarrow>
        decisions_in s' = decisions_in s \<and> memories_in s' = memories_in s \<and>
        (\<forall>rows. dr = Inr rows \<longrightarrow> set rows \<subseteq> {d \<in> set (decisions_in s). d_status d = x})"
    and list_memories_any: "cso_list_memories S None (Some x) n s = (mr, s') \<Longrightarrow>
        decisions_in s' = decisions_in s \<and> memories_in s' = memories_in s \<and>
        (\<forall>rows. mr = Inr rows \<longrightarrow> set rows \<subseteq> {m \<in> set (memories_in s). m_status m = x})"
begin

lemma list_each_any:
  "list_each S n sts s = (r, s') \<Longrightarrow>
     decisions_in s' = decisions_in s \<and> memories_in s' = memories_in s \<and>
     (\<forall>rows. r = Inr rows \<longrightarrow> set rows \<subseteq> {d \<in> set (decisions_in s). d_status d \<in> set sts})"
proof (induction sts arbitrary: s r s')
  case (Cons st sts)
  obtain q s1 where q: "cso_list_decisions S (Some st) n s = (q, s1)" by (rule prod.exhaust)
  note first = list_decisions_any [OF q]
  show ?case
  proof (cases q)
    case (Inl e)
    with Cons.prems q first show ?thesis by (auto simp: io)
  next
    case (Inr rows)
    obtain r2 s2 where r2: "list_each S n sts s1 = (r2, s2)" by (rule prod.exhaust)
    with Cons.prems q Inr have "s' = s2" "\<And>all. r = Inr all \<Longrightarrow> \<exists>rest. r2 = Inr rest \<and> all = rows @ rest"
      by (auto simp: io split: sum.splits)
    with first Inr Cons.IH [OF r2] show ?thesis by fastforce
  qed
qed (simp add: io)

lemma retrieve_decisions_any:
  assumes "retrieve_decisions U (d1_context_repo S) q s = (r, s')"
  shows "decisions_in s' = decisions_in s \<and> memories_in s' = memories_in s \<and>
    (\<forall>ds. r = Inr ds \<longrightarrow> length ds \<le> dq_limit q \<and> (\<forall>x \<in> set ds. sd_relevance_score x = Fin 0 \<and>
       (\<exists>d \<in> set (decisions_in s). d_status d \<in> set (dq_statuses q) \<and> sd_id x = ''DEC-'' @ show_i64_06 (d_id d))))"
proof (cases "dq_statuses q = []")
  case True
  with assms show ?thesis by (auto simp: retrieve_decisions_def)
next
  case False
  obtain r1 s1 where r1: "list_each S (dq_limit q) (dq_statuses q) s = (r1, s1)" by (rule prod.exhaust)
  note rows = list_each_any [OF r1]
  from assms False r1 have s': "s' = s1"
    by (auto simp: retrieve_decisions_def d1_context_repo_def crepo_list_decisions_def io map_err_def split: sum.splits)
  have "r = Inr ds \<Longrightarrow> \<exists>rs. r1 = Inr rs \<and>
      ds = map score_decision (filter (in_query_domain U (dq_domain q)) (map to_decision_record (merge_eligible rs (dq_limit q))))" for ds
    using assms False r1
    by (auto simp: retrieve_decisions_def d1_context_repo_def crepo_list_decisions_def io map_err_def split: sum.splits)
  then have "\<forall>ds. r = Inr ds \<longrightarrow> length ds \<le> dq_limit q \<and> (\<forall>x \<in> set ds. sd_relevance_score x = Fin 0 \<and>
       (\<exists>d \<in> set (decisions_in s). d_status d \<in> set (dq_statuses q) \<and> sd_id x = ''DEC-'' @ show_i64_06 (d_id d)))"
    using rows
    by (fastforce simp: merge_eligible_def score_decision_def to_decision_record_def
        intro: order_trans [OF length_filter_le] dest!: in_set_takeD)
  with rows s' show ?thesis by blast
qed

lemma retrieve_memories_any:
  assumes "retrieve_memories (d1_context_repo S) q s = (r, s')" "mq_status q = Some x"
  shows "decisions_in s' = decisions_in s \<and> memories_in s' = memories_in s \<and>
    (\<forall>ms. r = Inr ms \<longrightarrow> (\<forall>y \<in> set ms. sm_relevance_score y = Fin 0 \<and>
       (\<exists>m \<in> set (memories_in s). m_status m = x \<and> sm_id y = ''MEM-'' @ show_i64_06 (m_id m))))"
proof -
  obtain r1 s1 where r1: "cso_list_memories S None (Some x) (mq_limit q) s = (r1, s1)" by (rule prod.exhaust)
  note rows = list_memories_any [OF r1]
  from assms r1 have s': "s' = s1"
    by (auto simp: retrieve_memories_def d1_context_repo_def crepo_list_memories_def io map_err_def split: sum.splits)
  have "r = Inr ms \<Longrightarrow> \<exists>rs. r1 = Inr rs \<and> ms = map score_memory (map to_memory_record rs)" for ms
    using assms r1
    by (auto simp: retrieve_memories_def d1_context_repo_def crepo_list_memories_def io map_err_def split: sum.splits)
  with rows s' show ?thesis
    by (fastforce simp: score_memory_def to_memory_record_def)
qed

end







interpretation ms_evidence: evidence_store memory_context_ops decisions "\<lambda>s. map snd (memories s)"
  by unfold_locales (auto simp: memory_context_ops_def list_decisions_def list_memories_def)


section \<open>Where the evidence of a context comes from\<close>

text \<open>The ids a context may cite: executing and completed decisions, and active memories.\<close>

definition citable :: "decision_row list \<Rightarrow> memory_row list \<Rightarrow> string set" where
  "citable ds ms =
     {''DEC-'' @ show_i64_06 (d_id d) | d. d \<in> set ds \<and> d_status d \<in> {''active'', ''completed''}} \<union>
     {''MEM-'' @ show_i64_06 (m_id m) | m. m \<in> set ms \<and> m_status m = ''active''}"

text \<open>A built context: its parts are what was retrieved, in rank order.\<close>

definition context_ok :: "decision_row list \<Rightarrow> memory_row list \<Rightarrow> agent_context \<Rightarrow> bool" where
  "context_ok ds ms c \<longleftrightarrow>
     set (map ce_source_id (ac_evidence c)) \<subseteq> citable ds ms \<and> length (ac_decisions c) \<le> 10 \<and> ac_reflections c = [] \<and>
     length (ac_evidence c) = length (ac_decisions c) + length (ac_memories c) \<and>
     (\<forall>x \<in> set (ac_decisions c). sd_relevance_score x = Fin 0) \<and>
     (\<forall>x \<in> set (ac_memories c). sm_relevance_score x = Fin 0) \<and>
     ac_confidence c = context_scores (ac_decisions c) (ac_reflections c) (ac_memories c) (ac_patterns c)"

lemma set_rank_items [simp]: "set (rank_items f xs) = set xs" "length (rank_items f xs) = length xs"
  by (simp_all add: rank_items_def)

text \<open>The queries every plan holds, and what a successful build has retrieved with them.\<close>

definition advisor_query :: "intent \<Rightarrow> decision_query" where
  "advisor_query i = \<lparr>dq_domain = in_domain i, dq_statuses = [''active'', ''completed''], dq_limit = 10\<rparr>"

definition memory_recall :: memory_query where
  "memory_recall =
     \<lparr>mq_memory_types = [''strategic_pattern'', ''decision_heuristic'', ''domain_knowledge''],
      mq_status = Some ''active'', mq_min_confidence = None, mq_limit = 10\<rparr>"

lemma plan_queries:
  "pl_decision_query (plan_retrieval i) = Some (advisor_query i)"
  "\<exists>q. pl_reflection_query (plan_retrieval i) = Some q"
  "pl_memory_query (plan_retrieval i) = Some memory_recall"
  by (simp_all add: plan_retrieval_def advisor_query_def memory_recall_def)

lemma build_context_parts:
  assumes "build_agent_context E R query us s = (Inr c, s')"
  obtains ds ms s1 s2 ps where "retrieve_decisions (ev_unicode E) R (advisor_query (parse_intent (ev_unicode E) query)) s = (Inr ds, s1)"
    "retrieve_memories R memory_recall s1 = (Inr ms, s2)"
    "c = assemble_context (ev_now_assembly E) (''CTX-'' @ show_i64 (ev_now_id E)) query (parse_intent (ev_unicode E) query)
           (rank_items sd_relevance_score ds) [] (rank_items sm_relevance_score ms) ps"
    "s' = io_ignore (cr_save_snapshot R (snapshot_of E us c)) s2"
proof -
  let ?U = "ev_unicode E"
  obtain rq where rq: "pl_reflection_query (plan_retrieval (parse_intent ?U query)) = Some rq"
    using plan_queries(2) by blast
  obtain r1 s1 where r1: "retrieve_decisions ?U R (advisor_query (parse_intent ?U query)) s = (r1, s1)" by (rule prod.exhaust)
  obtain r2 s2 where r2: "retrieve_memories R memory_recall s1 = (r2, s2)" by (rule prod.exhaust)
  from assms r1 r2 rq that [of _ s1 _ s2] show ?thesis
    by (auto simp: build_agent_context_def option_step_def retrieve_reflections_def io Let_def plan_queries(1,3) rank_items_def
        split: sum.splits)
qed

lemma assembled_ok:
  assumes "length ds \<le> 10"
    and "\<forall>x \<in> set ds. sd_relevance_score x = Fin 0 \<and>
       (\<exists>d \<in> set D. d_status d \<in> {''active'', ''completed''} \<and> sd_id x = ''DEC-'' @ show_i64_06 (d_id d))"
    and "\<forall>y \<in> set ms. sm_relevance_score y = Fin 0 \<and>
       (\<exists>m \<in> set M. m_status m = ''active'' \<and> sm_id y = ''MEM-'' @ show_i64_06 (m_id m))"
  shows "context_ok D M (assemble_context now i q n ds [] ms ps)"
proof -
  have "sd_id x \<in> citable D M" if "x \<in> set ds" for x
    using assms(2) that unfolding citable_def by blast
  moreover have "sm_id y \<in> citable D M" if "y \<in> set ms" for y
    using assms(3) that unfolding citable_def by blast
  ultimately show ?thesis
    using assms by (auto simp: context_ok_def assemble_context_def decision_evidence_def memory_evidence_def)
qed

context evidence_store
begin

lemma build_context_ok:
  assumes "build_agent_context E (d1_context_repo S) query us s = (Inr c, s')"
  shows "context_ok (decisions_in s) (memories_in s) c"
proof -
  from assms obtain ds ms s1 s2 ps where
    r: "retrieve_decisions (ev_unicode E) (d1_context_repo S) (advisor_query (parse_intent (ev_unicode E) query)) s = (Inr ds, s1)"
      "retrieve_memories (d1_context_repo S) memory_recall s1 = (Inr ms, s2)"
    and c: "c = assemble_context (ev_now_assembly E) (''CTX-'' @ show_i64 (ev_now_id E)) query (parse_intent (ev_unicode E) query)
           (rank_items sd_relevance_score ds) [] (rank_items sm_relevance_score ms) ps"
    by (rule build_context_parts)
  have active: "mq_status memory_recall = Some ''active''" by (simp add: memory_recall_def)
  have st: "dq_statuses (advisor_query i) = [''active'', ''completed'']" "dq_limit (advisor_query i) = 10" for i
    by (simp_all add: advisor_query_def)
  from retrieve_decisions_any [OF r(1)] retrieve_memories_any [OF r(2) active] show ?thesis
    unfolding st c by (auto intro!: assembled_ok)
qed

end



section \<open>The confidence of a context\<close>







section \<open>The advisor's answer\<close>


lemma count_u32_small: "length xs \<le> 20 \<Longrightarrow> count_u32 xs = int (length xs)"
  by (simp add: count_u32_def as_u32_def)



definition sample_decision :: "int \<Rightarrow> string \<Rightarrow> decision_row" where
  "sample_decision i st =
     \<lparr>d_id = i, d_signal_thread_id = None, d_actor_id = None, d_decision_type = ''career'', d_title = ''Move'',
      d_hypothesis = None, d_rationale = None, d_confidence = Fin 1, d_status = st, d_priority = ''medium'',
      d_expected_outcomes = None, d_created_at = i, d_updated_at = i\<rparr>"

definition sample_adb :: advisor_db where
  "sample_adb =
     \<lparr>adb_decisions = [sample_decision 1 ''active'', sample_decision 2 ''proposed'', sample_decision 3 ''completed''],
      adb_memory = sample_mdb, adb_snapshots = []\<rparr>"

definition sample_env :: context_env where
  "sample_env =
     \<lparr>ev_unicode = ascii, ev_order = (\<lambda>m. m), ev_context_json = (\<lambda>c. ''{}''), ev_intent_json = (\<lambda>i. ''{}''),
      ev_refs_json = concat, ev_now_id = 1000, ev_now_assembly = 1000\<rparr>"







section \<open>Snapshots\<close>

definition adb_quiet :: "advisor_db \<Rightarrow> bool" where
  "adb_quiet d \<longleftrightarrow> mdb_quiet (adb_memory d)"

lemma mdb_statement_quiet: "mdb_quiet d \<Longrightarrow> mdb_statement f d = f d"
  by (simp add: mdb_statement_def mdb_lift_def d1_statement_def io mdb_quiet_def)

lemma adb_statement_quiet: "adb_quiet d \<Longrightarrow> adb_statement f d = f d"
  by (simp add: adb_statement_def adb_lift_def mdb_statement_quiet adb_quiet_def io_bind_def)

lemma list_each_quiet: "adb_quiet d \<Longrightarrow> snd (list_each d1_context_ops n sts d) = d"
proof (induction sts)
  case (Cons st sts)
  then show ?case
    by (cases "list_each d1_context_ops n sts d")
       (auto simp: d1_context_ops_def adb_list_decisions_def adb_statement_quiet io split: sum.splits)
qed (simp add: io)

lemma retrieve_quiet:
  assumes "adb_quiet d"
  shows "snd (retrieve_decisions U (d1_context_repo d1_context_ops) q d) = d"
    and "snd (retrieve_memories (d1_context_repo d1_context_ops) mq d) = d"
proof -
  show "snd (retrieve_decisions U (d1_context_repo d1_context_ops) q d) = d"
    using list_each_quiet [OF assms, of "dq_limit q" "dq_statuses q"]
    by (cases "list_each d1_context_ops (dq_limit q) (dq_statuses q) d")
       (auto simp: retrieve_decisions_def d1_context_repo_def crepo_list_decisions_def io split: sum.splits)
  from assms have "mdb_quiet (adb_memory d)" by (simp add: adb_quiet_def)
  then show "snd (retrieve_memories (d1_context_repo d1_context_ops) mq d) = d"
    by (simp add: retrieve_memories_def d1_context_repo_def crepo_list_memories_def d1_context_ops_def adb_lift_def
        mdb_list_memories_def mdb_statement_quiet io map_err_def)
qed

text \<open>
  A context's snapshot is named after the second it was built in.  In a working database a build
  stores it when the name is free; when another context was built in the same second, the insert is
  refused, the refusal is ignored, and the caller gets the id under which the other query's context is
  stored.
\<close>

theorem snapshot_exact:
  assumes "adb_quiet d" "build_agent_context E (d1_context_repo d1_context_ops) query us d = (Inr c, d')"
  shows "ac_snapshot_id c = ''CTX-'' @ show_i64 (ev_now_id E) \<and> ac_query c = query \<and>
     adb_decisions d' = adb_decisions d \<and> adb_memory d' = adb_memory d \<and>
     (if list_ex (\<lambda>x. cs_id x = ac_snapshot_id c) (adb_snapshots d) then adb_snapshots d' = adb_snapshots d
      else \<exists>n. adb_snapshots d' = adb_snapshots d @ [n] \<and> cs_id n = ac_snapshot_id c \<and> cs_query n = query \<and>
             cs_context_json n = ev_context_json E c)"
proof -
  let ?R = "d1_context_repo d1_context_ops"
  from assms(2) obtain ds ms s1 s2 ps where
    r: "retrieve_decisions (ev_unicode E) ?R (advisor_query (parse_intent (ev_unicode E) query)) d = (Inr ds, s1)"
      "retrieve_memories ?R memory_recall s1 = (Inr ms, s2)"
    and c: "c = assemble_context (ev_now_assembly E) (''CTX-'' @ show_i64 (ev_now_id E)) query (parse_intent (ev_unicode E) query)
           (rank_items sd_relevance_score ds) [] (rank_items sm_relevance_score ms) ps"
    and d': "d' = io_ignore (cr_save_snapshot ?R (snapshot_of E us c)) s2"
    by (rule build_context_parts)
  from retrieve_quiet(1) [OF assms(1)] r(1) have "s1 = d" by (metis snd_conv)
  with retrieve_quiet(2) [OF assms(1)] r(2) have s2: "s2 = d" by (metis snd_conv)
  have id: "ac_snapshot_id c = ''CTX-'' @ show_i64 (ev_now_id E)" "ac_query c = query" by (simp_all add: c assemble_context_def)
  have save: "d' = (if list_ex (\<lambda>x. cs_id x = ac_snapshot_id c) (adb_snapshots d) then d else
      d\<lparr>adb_snapshots := adb_snapshots d @
        [\<lparr>cs_id = ac_snapshot_id c, cs_query = ac_query c, cs_intent = ev_intent_json E (ac_intent c),
          cs_domain = in_domain (ac_intent c), cs_engine_version = ''context-engine-v1'',
          cs_context_json = ev_context_json E c, cs_object_key = None, cs_object_size = None,
          cs_evidence_refs = Some (ev_refs_json E (map ce_source_id (ac_evidence c))),
          cs_confidence = cx_overall (ac_confidence c), cs_user_scope = us,
          cs_created_at = d1_clock (mdb_tables (adb_memory d))\<rparr>]\<rparr>)"
    unfolding d' s2 using assms(1)
    by (simp add: d1_context_repo_def crepo_save_snapshot_def d1_context_ops_def adb_save_snapshot_def adb_statement_quiet
        snapshot_of_def io_ignore_def io_map_err_def)
  show ?thesis unfolding save using id by simp
qed

definition sample_context :: agent_context where
  "sample_context =
     (case fst (build_agent_context sample_env (d1_context_repo d1_context_ops) ''a job'' None sample_adb) of Inr c \<Rightarrow> c)"

lemma snapshot_exact_witness:
  "ac_snapshot_id sample_context = ''CTX-1000'' \<and> adb_quiet sample_adb"
proof -
  have q: "adb_quiet sample_adb" by code_simp
  define d' where "d' = snd (build_agent_context sample_env (d1_context_repo d1_context_ops) ''a job'' None sample_adb)"
  have "is_ok (fst (build_agent_context sample_env (d1_context_repo d1_context_ops) ''a job'' None sample_adb))" by code_simp
  then have "build_agent_context sample_env (d1_context_repo d1_context_ops) ''a job'' None sample_adb = (Inr sample_context, d')"
    by (cases "build_agent_context sample_env (d1_context_repo d1_context_ops) ''a job'' None sample_adb")
       (auto simp: sample_context_def d'_def split: sum.splits)
  from snapshot_exact [OF q this] have "ac_snapshot_id sample_context = ''CTX-'' @ show_i64 (ev_now_id sample_env)" by blast
  moreover have "''CTX-'' @ show_i64 (ev_now_id sample_env) = ''CTX-1000''" by code_simp
  ultimately show ?thesis using q by simp
qed

section \<open>Intents\<close>

text \<open>
  A query about a failure is always put in the investment domain, since the text \<open>fail\<close> contains
  \<open>ai\<close>; so its decisions of other domains are filtered out.
\<close>

lemma str_contains_iff: "str_contains s p \<longleftrightarrow> (\<exists>u v. s = u @ p @ v)"
proof (induction s)
  case (Cons c cs)
  show ?case
  proof
    assume "str_contains (c # cs) p"
    then consider v where "c # cs = p @ v" | u v where "cs = u @ p @ v"
      using Cons by (auto simp: starts_with_def strip_prefix_Some)
    then show "\<exists>u v. c # cs = u @ p @ v" by cases (metis append_Nil, metis append_Cons)
  next
    assume "\<exists>u v. c # cs = u @ p @ v"
    then obtain u v where "c # cs = u @ p @ v" by blast
    then have "(\<exists>v. c # cs = p @ v) \<or> (\<exists>u v. cs = u @ p @ v)" by (cases u) auto
    with Cons show "str_contains (c # cs) p" by (auto simp: starts_with_def strip_prefix_Some)
  qed
qed auto

lemma failure_queries_are_investments:
  assumes "str_contains (uc_lower U query) ''fail''"
  shows "in_domain (parse_intent U query) = Some ''investment''"
proof -
  from assms obtain u v where "uc_lower U query = u @ ''fail'' @ v" unfolding str_contains_iff by blast
  then have "uc_lower U query = (u @ ''f'') @ ''ai'' @ (''l'' @ v)" by simp
  then have "str_contains (uc_lower U query) ''ai''" unfolding str_contains_iff by blast
  then show ?thesis by (simp add: parse_intent_def Let_def intent_domain_def contains_any_def split: prod.split)
qed

section \<open>Routing\<close>

text \<open>The router never reads a priority: renumbering them changes no answer.\<close>

lemma router_ignores_priority:
  "router_generate (map (\<lambda>e. e\<lparr>pe_priority := f e\<rparr>) R) r = router_generate R r"
proof -
  have find: "List.find (\<lambda>e. satisfies (pe_capabilities e) q) (map (\<lambda>e. e\<lparr>pe_priority := f e\<rparr>) R) =
      map_option (\<lambda>e. e\<lparr>pe_priority := f e\<rparr>) (List.find (\<lambda>e. satisfies (pe_capabilities e) q) R)" for q
    by (induction R) auto
  show ?thesis
    unfolding router_generate_def find by (auto split: option.split list.split)
qed

end
