(* ===== verification/Claims.thy ===== *)
theory Claims
  imports Content Confidence ModelRuntime
begin

text \<open>
  Claim extraction: \<open>crates/claim-engine\<close> (domain, prompt, parser, the extractor over a model provider,
  and the confidence of a candidate).  A panic of the parser is \<open>None\<close>.  \<open>from_json\<close> is serde's reading
  of the model's output; a field with a serde default that is missing arrives as the empty value.
\<close>

section \<open>Claims\<close>

datatype claim_type = Fact | Trend | Prediction | Causal | Opinion
datatype uncertainty = UncertaintyLow | UncertaintyMedium | UncertaintyHigh

record evidence_ref =
  er_article_id :: int
  er_relevance :: f64

record framework_ref =
  fr_framework_id :: string
  fr_relevance :: f64
  fr_reasoning :: string

record claim_candidate =
  cc_statement :: string
  cc_claim_type :: claim_type
  cc_reasoning :: string
  cc_falsification :: string
  cc_evidence_refs :: "evidence_ref list"
  cc_counter_arguments :: "string list"
  cc_frameworks_applied :: "framework_ref list"
  cc_uncertainty :: uncertainty

record llm_claim_item =
  li_claim_type :: string
  li_statement :: string
  li_reasoning :: string
  li_falsification :: string
  li_evidence_article_ids :: "int list"
  li_counter_arguments :: "string list"
  li_frameworks_applied :: "framework_ref list"
  li_uncertainty :: string

section \<open>The parser\<close>

text \<open>\<open>find(c)\<close> and \<open>rfind(p)\<close>: the first position of a character, the last of a pattern.\<close>

fun find_char :: "char \<Rightarrow> string \<Rightarrow> nat option" where
  "find_char c [] = None"
| "find_char c (x # xs) = (if x = c then Some 0 else map_option Suc (find_char c xs))"

fun rfind_str :: "string \<Rightarrow> string \<Rightarrow> nat option" where
  "rfind_str p [] = (if p = [] then Some 0 else None)"
| "rfind_str p (x # xs) =
     (case rfind_str p xs of Some i \<Rightarrow> Some (Suc i)
      | None \<Rightarrow> if starts_with p (x # xs) then Some 0 else None)"

definition fence :: string where "fence = replicate 3 (CHR 0x60)"

text \<open>\<open>&s[start..end]\<close> panics when the range is decreasing or out of bounds.\<close>

definition slice :: "nat \<Rightarrow> nat \<Rightarrow> string \<Rightarrow> string option" where
  "slice i j s = (if i \<le> j \<and> j \<le> length s then Some (take (j - i) (drop i s)) else None)"

definition strip_markdown_fences :: "unicode \<Rightarrow> string \<Rightarrow> string option" where
  "strip_markdown_fences U raw =
     (let s = uc_trim U raw in
      if starts_with fence s then
        (case rfind_str fence s of
           None \<Rightarrow> Some s
         | Some e \<Rightarrow>
             (let start = (case find_char (CHR 0x0A) s of Some i \<Rightarrow> i + 1 | None \<Rightarrow> 3)
              in map_option (uc_trim U) (slice start e s)))
      else Some s)"

definition parse_claim_type :: "unicode \<Rightarrow> string \<Rightarrow> (string, claim_type) result" where
  "parse_claim_type U s =
     (let t = uc_lower U (uc_trim U s) in
      if t = ''fact'' then Inr Fact else if t = ''trend'' then Inr Trend
      else if t = ''prediction'' then Inr Prediction else if t = ''causal'' then Inr Causal
      else if t = ''opinion'' then Inr Opinion else Inl (''Unknown claim type: '' @ t))"

definition parse_uncertainty :: "unicode \<Rightarrow> string \<Rightarrow> (string, uncertainty) result" where
  "parse_uncertainty U s =
     (let t = uc_lower U (uc_trim U s) in
      if t = ''low'' then Inr UncertaintyLow else if t = ''medium'' then Inr UncertaintyMedium
      else if t = ''high'' then Inr UncertaintyHigh else Inl (''Unknown uncertainty: '' @ t))"

definition claim_of_item :: "unicode \<Rightarrow> llm_claim_item \<Rightarrow> (string, claim_candidate) result" where
  "claim_of_item U item =
     (case parse_claim_type U (li_claim_type item) of Inl e \<Rightarrow> Inl e
      | Inr ty \<Rightarrow>
          (case parse_uncertainty U (li_uncertainty item) of Inl e \<Rightarrow> Inl e
           | Inr u \<Rightarrow> Inr
               \<lparr>cc_statement = li_statement item, cc_claim_type = ty, cc_reasoning = li_reasoning item,
                cc_falsification = li_falsification item,
                cc_evidence_refs = map (\<lambda>i. \<lparr>er_article_id = i, er_relevance = Fin 1\<rparr>) (li_evidence_article_ids item),
                cc_counter_arguments = li_counter_arguments item,
                cc_frameworks_applied = li_frameworks_applied item, cc_uncertainty = u\<rparr>))"

text \<open>The first item that does not parse ends the loop with its error.\<close>

fun claims_of_items :: "unicode \<Rightarrow> llm_claim_item list \<Rightarrow> (string, claim_candidate list) result" where
  "claims_of_items U [] = Inr []"
| "claims_of_items U (x # xs) =
     (case claim_of_item U x of Inl e \<Rightarrow> Inl e
      | Inr c \<Rightarrow> (case claims_of_items U xs of Inl e \<Rightarrow> Inl e | Inr cs \<Rightarrow> Inr (c # cs)))"

definition parse_claims_from_response ::
  "unicode \<Rightarrow> (string \<Rightarrow> (string, llm_claim_item list) result) \<Rightarrow> string \<Rightarrow> (string, claim_candidate list) result option" where
  "parse_claims_from_response U from_json response =
     map_option (\<lambda>cleaned.
       case from_json cleaned of
         Inl e \<Rightarrow> Inl (''Failed to parse LLM claim output: '' @ e)
       | Inr items \<Rightarrow> claims_of_items U items) (strip_markdown_fences U response)"

section \<open>The prompt\<close>

definition frameworks_section :: "string option \<Rightarrow> string" where
  "frameworks_section ctx =
     (let nl = newline; q = [CHR 0x22] in
      case ctx of
        Some c \<Rightarrow> (if c = [] then [] else
          nl @ nl @ ''Applicable Reasoning Frameworks:'' @ nl @ c @ nl @
          ''For each claim, identify which frameworks apply and how:'' @ nl @
          q @ ''frameworks_applied'' @ q @ '': [{'' @ q @ ''framework_id'' @ q @ '': '' @ q @ ''...'' @ q @ '', '' @
          q @ ''relevance'' @ q @ '': 0.8, '' @ q @ ''reasoning'' @ q @ '': '' @ q @ ''...'' @ q @ ''}]'')
      | None \<Rightarrow> [])"

definition build_claim_extraction_prompt :: "string \<Rightarrow> string \<Rightarrow> string option \<Rightarrow> string" where
  "build_claim_extraction_prompt title body ctx =
     (let nl = newline; q = [CHR 0x22]; dash = '' '' @ em_dash @ '' '';
          str = (\<lambda>k v. q @ k @ q @ '': '' @ q @ v @ q)
      in
      ''Extract atomic, falsifiable claims from the following article.'' @ nl @ nl @
      ''RULES:'' @ nl @
      ''1. Each claim must be independently testable'' @ dash @ ''it should be possible to verify or falsify.'' @ nl @
      ''2. Separate facts from predictions from opinions.'' @ nl @
      ''3. For each claim, identify the specific evidence that supports it.'' @ nl @
      ''4. Identify what would prove the claim wrong (falsification condition).'' @ nl @
      ''5. Note counter-arguments present in the article.'' @ nl @ nl @
      ''Claim types:'' @ nl @
      ''- fact: verifiable, specific, about past or present'' @ nl @
      ''- trend: directional change over time'' @ nl @
      ''- prediction: future outcome or forecast'' @ nl @
      ''- causal: X causes or influences Y'' @ nl @
      ''- opinion: value judgment or interpretation'' @ frameworks_section ctx @ nl @ nl @
      ''Output ONLY valid JSON:'' @ nl @
      ''{'' @ q @ ''claims'' @ q @ '': [{'' @ str ''claim_type'' ''fact|trend|prediction|causal|opinion'' @ '', '' @
      str ''statement'' ''...'' @ '', '' @ str ''reasoning'' ''...'' @ '', '' @ str ''falsification'' ''...'' @ '', '' @
      q @ ''evidence_article_ids'' @ q @ '': [1,2], '' @ q @ ''counter_arguments'' @ q @ '': [], '' @
      q @ ''frameworks_applied'' @ q @ '': [{'' @ str ''framework_id'' ''...'' @ '', '' @
      q @ ''relevance'' @ q @ '': 0.8, '' @ str ''reasoning'' ''...'' @ ''}], '' @
      str ''uncertainty'' ''low|medium|high'' @ ''}]}'' @ nl @ nl @
      ''Title: '' @ title @ nl @ nl @
      ''Body: '' @ body)"

section \<open>The extractor\<close>

text \<open>\<open>None\<close> is a panic.  \<open>to_text\<close> is \<open>Value::to_string\<close>.\<close>

definition llm_extract ::
  "unicode \<Rightarrow> (string \<Rightarrow> (string, llm_claim_item list) result) \<Rightarrow> (json \<Rightarrow> string) \<Rightarrow> 's model_provider
    \<Rightarrow> string \<Rightarrow> string \<Rightarrow> string option \<Rightarrow> 's \<Rightarrow> (string, claim_candidate list) result option \<times> 's" where
  "llm_extract U from_json to_text P title body ctx s =
     (case mp_generate P
        \<lparr>mq_task = ClaimExtraction, mq_system_prompt = build_claim_extraction_prompt title body ctx, mq_context = [],
         mq_output_schema = Some (JObj [(''type'', JStr ''json_object'')]),
         mq_parameters = \<lparr>gp_temperature = lit64 0.2, gp_max_tokens = 2048\<rparr>\<rparr> s of
        (Inl e, s') \<Rightarrow> (Some (Inl (''Claim extraction failed: '' @ model_error_str e)), s')
      | (Inr r, s') \<Rightarrow>
          (parse_claims_from_response U from_json (case mr_parsed r of Some j \<Rightarrow> to_text j | None \<Rightarrow> mr_text r), s'))"

section \<open>The confidence of a candidate\<close>

definition claim_factors :: "claim_candidate \<Rightarrow> f64 \<Rightarrow> f64 \<Rightarrow> confidence_factors" where
  "claim_factors c source_trust freshness =
     (let n = length (cc_evidence_refs c) mod 2 ^ 32
      in \<lparr>cf_evidence_count = n,
          cf_evidence_strength = (if 0 < n then div64 (fsum binary64 (map er_relevance (cc_evidence_refs c)))
             (of_i64 binary64 (int n)) else Fin 0),
          cf_source_trust = source_trust, cf_freshness = freshness, cf_calibration_score = lit64 0.5\<rparr>)"

definition evaluate_claim_confidence ::
  "(f64 \<Rightarrow> f64) \<Rightarrow> (f64 \<Rightarrow> f64 \<Rightarrow> f64) \<Rightarrow> claim_candidate \<Rightarrow> f64 \<Rightarrow> f64 \<Rightarrow> confidence_result option" where
  "evaluate_claim_confidence expf powf c source_trust freshness =
     calculate expf powf (claim_factors c source_trust freshness) default_policy"


section \<open>Fences\<close>

lemma rfind_str_append: "p \<noteq> [] \<Longrightarrow> rfind_str p (xs @ p) = Some (length xs)"
proof (induction xs)
  case Nil
  have late: "rfind_str p ys = None" if "length ys < length p" for ys
    using that by (induction ys) (auto simp: starts_with_def strip_prefix_Some dest: arg_cong [of _ _ length])
  from Nil obtain c cs where "p = c # cs" by (cases p) auto
  with late [of cs] show ?case by (auto simp: starts_with_def strip_prefix_Some)
qed simp

lemma rfind_str_none:
  assumes "p \<noteq> []" "\<forall>i. take (length p) (drop i s) \<noteq> p"
  shows "rfind_str p s = None"
  using assms(2)
proof (induction s)
  case (Cons x xs)
  have "\<forall>i. take (length p) (drop i xs) \<noteq> p" using Cons.prems by (metis drop_Suc_Cons)
  moreover have "\<not> starts_with p (x # xs)"
    using spec [OF Cons.prems, of 0] by (auto simp: starts_with_def strip_prefix_Some)
  ultimately show ?case using Cons.IH by simp
qed (use assms(1) in simp)

lemma find_char_append: "c \<notin> set xs \<Longrightarrow> find_char c (xs @ c # ys) = Some (length xs)"
  by (induction xs) auto

lemma starts_with_append [simp]: "starts_with p (p @ s)"
  by (simp add: starts_with_def)

definition open_fence :: "string \<Rightarrow> string" where
  "open_fence info = fence @ info @ newline"

definition has_fence :: "string \<Rightarrow> bool" where
  "has_fence s \<longleftrightarrow> (\<exists>i. take 3 (drop i s) = fence)"

lemma fence_simps: "fence \<noteq> []" "length fence = 3" "CHR 0x0A \<notin> set fence"
  by (simp_all add: fence_def)

lemma rfind_first_only:
  assumes "\<not> has_fence (drop 1 (fence @ s))"
  shows "rfind_str fence (fence @ s) = Some 0"
proof -
  obtain u where u: "fence @ s = CHR 0x60 # u" "drop 1 (fence @ s) = u" by (simp add: fence_def numeral_3_eq_3)
  with assms have "rfind_str fence u = None" by (intro rfind_str_none) (auto simp: has_fence_def fence_simps)
  moreover have "starts_with fence (CHR 0x60 # u)" using starts_with_append [of fence s] unfolding u(1) .
  ultimately show ?thesis unfolding u(1) by simp
qed

text \<open>
  C40: a response in a Markdown block is stripped to the trimmed text between the line of the opening
  fence and the last fence; a response that opens a block and never closes it makes the slice run
  backwards, so the parser panics instead of returning an error.
\<close>

theorem fences_stripped_or_panic:
  assumes "CHR 0x0A \<notin> set info" "uc_trim U (open_fence info @ body @ fence) = open_fence info @ body @ fence"
    "uc_trim U (open_fence info @ rest) = open_fence info @ rest" "\<not> has_fence (drop 1 (open_fence info @ rest))"
  shows "strip_markdown_fences U (open_fence info @ body @ fence) = Some (uc_trim U body)
     \<and> parse_claims_from_response U from_json (open_fence info @ rest) = None"
proof
  have nl: "CHR 0x0A \<notin> set (fence @ info)" using assms(1) by (simp add: fence_simps)
  have pos: "find_char (CHR 0x0A) (open_fence info @ t) = Some (3 + length info)" for t
    using find_char_append [OF nl, of t] by (simp add: open_fence_def newline_def fence_simps)
  have start: "starts_with fence (open_fence info @ t)" for t by (simp add: open_fence_def)
  have len: "length (open_fence info) = 4 + length info" by (simp add: open_fence_def newline_def fence_simps)
  have last: "rfind_str fence (open_fence info @ body @ fence) = Some (4 + length info + length body)"
    using rfind_str_append [OF fence_simps(1), of "open_fence info @ body"] by (simp add: len)
  have "slice (4 + length info) (4 + length info + length body) (open_fence info @ body @ fence) = Some body"
    by (simp add: slice_def len)
  with assms(2) pos start last show "strip_markdown_fences U (open_fence info @ body @ fence) = Some (uc_trim U body)"
    by (simp add: strip_markdown_fences_def Let_def)
  have "rfind_str fence (open_fence info @ rest) = Some 0"
    using rfind_first_only [of "info @ newline @ rest"] assms(4) by (simp add: open_fence_def)
  with assms(3) pos start show "parse_claims_from_response U from_json (open_fence info @ rest) = None"
    by (simp add: parse_claims_from_response_def strip_markdown_fences_def Let_def slice_def)
qed

lemma fences_stripped_or_panic_witness:
  "strip_markdown_fences ascii (open_fence ''json'' @ (''{}'' @ newline) @ fence) = Some ''{}''
     \<and> parse_claims_from_response ascii (\<lambda>s. Inr []) (open_fence ''json'' @ ''{}'') = None"
proof -
  have a: "CHR 0x0A \<notin> set ''json''" by simp
  have b: "uc_trim ascii (open_fence ''json'' @ (''{}'' @ newline) @ fence) = open_fence ''json'' @ (''{}'' @ newline) @ fence"
    by code_simp
  have c: "uc_trim ascii (open_fence ''json'' @ ''{}'') = open_fence ''json'' @ ''{}''" by code_simp
  have "take 3 (drop i (drop 1 (open_fence ''json'' @ ''{}''))) \<noteq> fence" for i
  proof -
    have all: "list_all (\<lambda>j. take 3 (drop j (drop 1 (open_fence ''json'' @ ''{}''))) \<noteq> fence) [0..<9]" by code_simp
    have "length (drop 1 (open_fence ''json'' @ ''{}'')) = 9" by code_simp
    then have "9 \<le> i \<Longrightarrow> take 3 (drop i (drop 1 (open_fence ''json'' @ ''{}''))) = []" by simp
    with all fence_simps(1) show ?thesis by (cases "i < 9") (auto simp only: list_all_iff set_upt atLeastLessThan_iff)
  qed
  then have d: "\<not> has_fence (drop 1 (open_fence ''json'' @ ''{}''))" by (simp add: has_fence_def)
  have e: "uc_trim ascii (''{}'' @ newline) = ''{}''" by code_simp
  show ?thesis using fences_stripped_or_panic [OF a b c d, of "\<lambda>s. Inr []"] unfolding e .
qed

section \<open>All or nothing\<close>

definition valid_item :: "unicode \<Rightarrow> llm_claim_item \<Rightarrow> bool" where
  "valid_item U i \<longleftrightarrow>
     uc_lower U (uc_trim U (li_claim_type i)) \<in> {''fact'', ''trend'', ''prediction'', ''causal'', ''opinion''} \<and>
     uc_lower U (uc_trim U (li_uncertainty i)) \<in> {''low'', ''medium'', ''high''}"

lemma parse_claim_type_ok: "is_ok (parse_claim_type U s) \<longleftrightarrow>
    uc_lower U (uc_trim U s) \<in> {''fact'', ''trend'', ''prediction'', ''causal'', ''opinion''}"
  by (simp add: parse_claim_type_def Let_def)

lemma parse_uncertainty_ok: "is_ok (parse_uncertainty U s) \<longleftrightarrow> uc_lower U (uc_trim U s) \<in> {''low'', ''medium'', ''high''}"
  by (simp add: parse_uncertainty_def Let_def)

lemma claim_of_item_ok: "is_ok (claim_of_item U i) \<longleftrightarrow> valid_item U i"
  unfolding valid_item_def parse_claim_type_ok [symmetric] parse_uncertainty_ok [symmetric]
  by (simp add: claim_of_item_def is_ok_def split: sum.splits)

lemma claim_of_item_fields:
  "claim_of_item U i = Inr c \<Longrightarrow>
     cc_statement c = li_statement i \<and> map er_article_id (cc_evidence_refs c) = li_evidence_article_ids i \<and>
     (\<forall>r \<in> set (cc_evidence_refs c). er_relevance r = Fin 1)"
  by (auto simp: claim_of_item_def o_def split: sum.splits)

lemma claims_of_items_ok: "is_ok (claims_of_items U xs) \<longleftrightarrow> list_all (valid_item U) xs"
proof (induction xs)
  case (Cons x xs)
  then show ?case
    by (cases "claim_of_item U x"; cases "claims_of_items U xs") (auto simp flip: claim_of_item_ok)
qed simp

lemma claims_of_items_fields:
  "claims_of_items U xs = Inr cs \<Longrightarrow>
     map cc_statement cs = map li_statement xs \<and>
     map (\<lambda>c. map er_article_id (cc_evidence_refs c)) cs = map li_evidence_article_ids xs \<and>
     (\<forall>c \<in> set cs. \<forall>r \<in> set (cc_evidence_refs c). er_relevance r = Fin 1)"
proof (induction xs arbitrary: cs)
  case (Cons x xs)
  then obtain c ds where "claim_of_item U x = Inr c" "claims_of_items U xs = Inr ds" "cs = c # ds"
    by (auto split: sum.splits)
  with Cons.IH [of ds] claim_of_item_fields [of U x c] show ?case by simp
qed simp

text \<open>
  The extraction of a whole article stands or falls together.  It yields claims exactly when every
  item names one of the five types and one of the three levels of uncertainty, and then one claim per
  item, in order, with the item's articles as evidence at relevance 1; in particular an item without
  the optional field \<open>uncertainty\<close>, which serde reads as the empty string, loses all the others.
\<close>

theorem claims_all_or_nothing:
  assumes "from_json s = Inr items" "strip_markdown_fences U response = Some s" "uc_lower U (uc_trim U '''') = ''''"
  shows "(\<exists>r. parse_claims_from_response U from_json response = Some r \<and>
        (is_ok r \<longleftrightarrow> list_all (valid_item U) items) \<and>
        (\<forall>cs. r = Inr cs \<longrightarrow> map cc_statement cs = map li_statement items \<and>
           map (\<lambda>c. map er_article_id (cc_evidence_refs c)) cs = map li_evidence_article_ids items))
     \<and> ((\<exists>i \<in> set items. li_uncertainty i = '''') \<longrightarrow> (\<exists>e. parse_claims_from_response U from_json response = Some (Inl e)))"
proof -
  have run: "parse_claims_from_response U from_json response = Some (claims_of_items U items)"
    using assms(1,2) by (simp add: parse_claims_from_response_def)
  have empty: "\<not> valid_item U i" if "li_uncertainty i = ''''" for i
    using that assms(3) by (simp add: valid_item_def)
  have bad: "\<exists>e. claims_of_items U items = Inl e" if "i \<in> set items" "li_uncertainty i = ''''" for i
  proof -
    from that empty have "\<not> list_all (valid_item U) items" by (auto simp: list_all_iff)
    then show ?thesis by (cases "claims_of_items U items") (auto simp flip: claims_of_items_ok)
  qed
  show ?thesis
    unfolding run using bad claims_of_items_fields [of U items] claims_of_items_ok [of U items] by blast
qed

definition sample_item :: "string \<Rightarrow> llm_claim_item" where
  "sample_item u =
     \<lparr>li_claim_type = ''Trend'', li_statement = ''s'', li_reasoning = ''r'', li_falsification = '''',
      li_evidence_article_ids = [1, 2], li_counter_arguments = [], li_frameworks_applied = [], li_uncertainty = u\<rparr>"

lemma claims_all_or_nothing_witness:
  "\<exists>e. parse_claims_from_response ascii (\<lambda>s. Inr [sample_item ''low'', sample_item '''']) ''{}'' = Some (Inl e)"
proof -
  have s: "strip_markdown_fences ascii ''{}'' = Some ''{}''" and l: "uc_lower ascii (uc_trim ascii '''') = ''''"
    by code_simp+
  have "\<exists>i \<in> set [sample_item ''low'', sample_item '''']. li_uncertainty i = ''''" by (simp add: sample_item_def)
  with claims_all_or_nothing [of "\<lambda>s. Inr [sample_item ''low'', sample_item '''']", OF refl s l] show ?thesis by blast
qed

end
