(* ===== verification/Frameworks.thy ===== *)
theory Frameworks
  imports Content Confidence
begin

text \<open>
  Reasoning frameworks: \<open>crates/reasoning-framework\<close> (trigger rules, selection, calibration).  The
  repository has no implementation in the program, so it is a record of operations on a state \<open>'s\<close>.
\<close>

section \<open>Frameworks and trigger rules\<close>

datatype framework_category =
  MathematicalModels | FinancialIntelligence | HumanBehavior | StrategicModels | SystemsThinking | ScientificThinking

fun category_label :: "framework_category \<Rightarrow> string" where
  "category_label MathematicalModels = ''Mathematics''"
| "category_label FinancialIntelligence = ''Finance''"
| "category_label HumanBehavior = ''Human Behavior''"
| "category_label StrategicModels = ''Strategy''"
| "category_label SystemsThinking = ''Systems Thinking''"
| "category_label ScientificThinking = ''Scientific Thinking''"

record trigger_rule =
  tr_signal_type :: "string option"
  tr_entity_type :: "string option"
  tr_question_type :: "string option"
  tr_keywords :: "string list"

definition field_matches :: "string option \<Rightarrow> string option \<Rightarrow> bool" where
  "field_matches wanted given = (case wanted of None \<Rightarrow> True | Some w \<Rightarrow> given = Some w)"

definition eq_ignore_ascii_case :: "string \<Rightarrow> string \<Rightarrow> bool" where
  "eq_ignore_ascii_case a b \<longleftrightarrow> ascii_lower a = ascii_lower b"

definition rule_matches ::
  "trigger_rule \<Rightarrow> string option \<Rightarrow> string option \<Rightarrow> string option \<Rightarrow> string list \<Rightarrow> bool" where
  "rule_matches r signal_type entity_type question_type keywords =
     (if \<not> field_matches (tr_signal_type r) signal_type then False
      else if \<not> field_matches (tr_entity_type r) entity_type then False
      else if \<not> field_matches (tr_question_type r) question_type then False
      else if tr_keywords r \<noteq> [] \<and> keywords \<noteq> [] \<and>
              \<not> list_ex (\<lambda>k. list_ex (\<lambda>kw. eq_ignore_ascii_case kw k) (tr_keywords r)) keywords then False
      else tr_signal_type r \<noteq> None \<or> tr_entity_type r \<noteq> None \<or> tr_question_type r \<noteq> None \<or> tr_keywords r \<noteq> [])"

record new_framework =
  nf_id :: string
  nf_name :: string
  nf_category :: framework_category
  nf_description :: string
  nf_trigger_rules :: "trigger_rule list"
  nf_reasoning_template :: string
  nf_evidence_requirements :: "string list"

record reasoning_framework =
  fw_id :: string
  fw_name :: string
  fw_category :: framework_category
  fw_description :: string
  fw_trigger_rules :: "trigger_rule list"
  fw_reasoning_template :: string
  fw_evidence_requirements :: "string list"
  fw_calibration_score :: f64
  fw_usage_count :: int
  fw_confidence_delta_avg :: f64

definition framework_of_new :: "new_framework \<Rightarrow> reasoning_framework" where
  "framework_of_new n =
     \<lparr>fw_id = nf_id n, fw_name = nf_name n, fw_category = nf_category n, fw_description = nf_description n,
      fw_trigger_rules = nf_trigger_rules n, fw_reasoning_template = nf_reasoning_template n,
      fw_evidence_requirements = nf_evidence_requirements n, fw_calibration_score = Fin 0, fw_usage_count = 0,
      fw_confidence_delta_avg = Fin 0\<rparr>"

record framework_impact =
  fi_framework_id :: string
  fi_claim_id :: int
  fi_confidence_before :: f64
  fi_confidence_after :: f64
  fi_delta :: f64

definition impact_new :: "string \<Rightarrow> int \<Rightarrow> f64 \<Rightarrow> f64 \<Rightarrow> framework_impact" where
  "impact_new fid claim before after =
     \<lparr>fi_framework_id = fid, fi_claim_id = claim, fi_confidence_before = before, fi_confidence_after = after,
      fi_delta = sub64 after before\<rparr>"

datatype framework_error = FwNotFound string | InvalidTrigger string | FwRepository string | Seed string

section \<open>Selection\<close>

record 's framework_repo =
  fwr_find :: "string \<Rightarrow> ('s, framework_error, reasoning_framework option) io"
  fwr_by_category :: "framework_category \<Rightarrow> ('s, framework_error, reasoning_framework list) io"
  fwr_list_all :: "('s, framework_error, reasoning_framework list) io"
  fwr_update_calibration :: "string \<Rightarrow> f64 \<Rightarrow> int \<Rightarrow> f64 \<Rightarrow> ('s, framework_error, unit) io"

definition triggered ::
  "string option \<Rightarrow> string option \<Rightarrow> string option \<Rightarrow> string list \<Rightarrow> reasoning_framework \<Rightarrow> bool" where
  "triggered st et qt ks f \<longleftrightarrow> list_ex (\<lambda>r. rule_matches r st et qt ks) (fw_trigger_rules f)"

definition select_frameworks ::
  "'s framework_repo \<Rightarrow> string option \<Rightarrow> string option \<Rightarrow> string option \<Rightarrow> string list
    \<Rightarrow> ('s, framework_error, reasoning_framework list) io" where
  "select_frameworks R st et qt ks =
     io_bind (fwr_list_all R) (\<lambda>fws. io_ret (filter (triggered st et qt ks) fws))"

definition parse_category :: "unicode \<Rightarrow> string \<Rightarrow> framework_category option" where
  "parse_category U s =
     (let c = uc_lower U s in
      if c \<in> {''mathematics'', ''mathematical''} then Some MathematicalModels
      else if c \<in> {''finance'', ''financial''} then Some FinancialIntelligence
      else if c \<in> {''behavior'', ''human_behavior'', ''psychology''} then Some HumanBehavior
      else if c \<in> {''strategy'', ''strategic''} then Some StrategicModels
      else if c \<in> {''systems'', ''systems_thinking''} then Some SystemsThinking
      else if c \<in> {''science'', ''scientific''} then Some ScientificThinking
      else None)"

definition frameworks_by_category ::
  "unicode \<Rightarrow> 's framework_repo \<Rightarrow> string \<Rightarrow> ('s, framework_error, reasoning_framework list) io" where
  "frameworks_by_category U R category =
     (case parse_category U category of None \<Rightarrow> io_ret [] | Some c \<Rightarrow> fwr_by_category R c)"

section \<open>Calibration\<close>

text \<open>
  The running means after one more outcome.  \<open>usage_count + 1\<close> on a \<open>u64\<close> wraps at its last value.
\<close>

definition next_usage :: "reasoning_framework \<Rightarrow> int" where
  "next_usage f = (fw_usage_count f + 1) mod 2 ^ 64"

definition next_mean :: "f64 \<Rightarrow> int \<Rightarrow> f64 \<Rightarrow> int \<Rightarrow> f64" where
  "next_mean mean usage x new_usage =
     div64 (add64 (mul64 mean (of_i64 binary64 usage)) x) (of_i64 binary64 new_usage)"

definition outcome_score :: "bool \<Rightarrow> f64" where
  "outcome_score achieved = (if achieved then Fin 1 else Fin 0)"

definition record_impact ::
  "'s framework_repo \<Rightarrow> bool \<Rightarrow> framework_impact \<Rightarrow> ('s, framework_error, unit) io" where
  "record_impact R achieved i =
     io_bind (fwr_find R (fi_framework_id i)) (\<lambda>fw.
       case fw of None \<Rightarrow> io_ret ()
       | Some f \<Rightarrow> fwr_update_calibration R (fi_framework_id i)
           (next_mean (fw_calibration_score f) (fw_usage_count f) (outcome_score achieved) (next_usage f))
           (next_usage f)
           (next_mean (fw_confidence_delta_avg f) (fw_usage_count f) (fi_delta i) (next_usage f)))"

fun record_outcome ::
  "'s framework_repo \<Rightarrow> bool \<Rightarrow> framework_impact list \<Rightarrow> ('s, framework_error, unit) io" where
  "record_outcome R achieved [] = io_ret ()"
| "record_outcome R achieved (i # is) = io_bind (record_impact R achieved i) (\<lambda>_. record_outcome R achieved is)"

definition top_frameworks :: "'s framework_repo \<Rightarrow> int \<Rightarrow> ('s, framework_error, string list) io" where
  "top_frameworks R min_usage =
     io_bind (fwr_list_all R) (\<lambda>fws. io_ret (map fw_id
       (sort_by (\<lambda>x y. \<not> flt (fw_calibration_score x) (fw_calibration_score y))
          (filter (\<lambda>f. min_usage \<le> fw_usage_count f) fws))))"

section \<open>Whole numbers in binary64\<close>

lemma rnd64_int:
  assumes "0 \<le> n" "n < 2 ^ 53"
  shows "rnd binary64 (of_int n) = Fin (of_int n)"
proof (cases "n = 0")
  case False
  with assms have n: "0 < n" by simp
  let ?q = "of_int n :: rat" and ?e = "ulp_exp binary64 (of_int n)"
  have q: "0 < ?q" using n by simp
  have "?q < p2 53"
  proof -
    have "(of_int n :: rat) < of_int (2 ^ 53)" using assms(2) by (simp only: of_int_less_iff)
    then show ?thesis by (simp add: p2_def)
  qed
  with q have lg: "ilog2 ?q < 53" by (rule ilog2_less)
  then have e: "?e \<le> 0" by (simp add: ulp_exp_def binary64_def)
  have "?q = of_int (n * 2 ^ nat (- ?e)) * p2 ?e"
    using e by (simp add: p2_def)
  then have r: "round_pos binary64 ?q = ?q" by (rule round_pos_repr [OF q])
  have "\<not> overflows binary64 ?q" using lg by (simp add: overflows_def binary64_def)
  with q r show ?thesis by (simp add: rnd_def Let_def)
qed simp

text \<open>One step of the mean of values in [0,1] stays in [0,1], rounding included.\<close>

lemma next_mean_between:
  assumes "between 0 1 mean" "between 0 1 x" "0 \<le> n" "n + 1 < 2 ^ 53"
  shows "between 0 1 (next_mean mean n x (n + 1))"
proof -
  have n: "of_i64 binary64 n = Fin (of_int n)" "of_i64 binary64 (n + 1) = Fin (of_int n + 1)"
    "rnd binary64 (of_int n) = Fin (of_int n)" "rnd binary64 (of_int n + 1) = Fin (of_int n + 1)"
    using rnd64_int [of n] rnd64_int [of "n + 1"] assms(3,4) by (simp_all add: of_i64_def)
  have "between (of_int n) (of_int n) (Fin (of_int n))" by simp
  from between_fmul [OF assms(1) this, of binary64 0 "of_int n"] assms(3) n(3)
  have m: "between 0 (of_int n) (mul64 mean (Fin (of_int n)))" by simp
  from between_fadd [OF m assms(2), of binary64 0 "of_int n + 1"] n(4)
  have s: "between 0 (of_int n + 1) (add64 (mul64 mean (Fin (of_int n))) x)" by simp
  then obtain q where q: "add64 (mul64 mean (Fin (of_int n))) x = Fin q" "0 \<le> q" "q \<le> of_int n + 1"
    by (auto simp: between_iff)
  have pos: "(0 :: rat) < of_int n + 1" using assms(3) by (simp add: add_nonneg_pos)
  have "between 0 1 (rnd binary64 (q / (of_int n + 1)))"
    by (rule between_rnd [of 0 _ 1 _ 0 1]) (use q pos in simp_all)
  with q pos show ?thesis by (simp add: next_mean_def n)
qed

section \<open>Histories of outcomes\<close>

text \<open>A framework after one more outcome, and after a list of them.\<close>

definition calibrate :: "bool \<times> f64 \<Rightarrow> reasoning_framework \<Rightarrow> reasoning_framework" where
  "calibrate o' f = f\<lparr>
     fw_calibration_score := next_mean (fw_calibration_score f) (fw_usage_count f) (outcome_score (fst o')) (next_usage f),
     fw_usage_count := next_usage f,
     fw_confidence_delta_avg := next_mean (fw_confidence_delta_avg f) (fw_usage_count f) (snd o') (next_usage f)\<rparr>"

lemma calibrate_history:
  assumes "between 0 1 (fw_calibration_score f)" "0 \<le> fw_usage_count f" "fw_usage_count f + int (length os) < 2 ^ 53"
  shows "between 0 1 (fw_calibration_score (fold calibrate os f)) \<and>
         fw_usage_count (fold calibrate os f) = fw_usage_count f + int (length os) \<and>
         fw_id (fold calibrate os f) = fw_id f"
  using assms
proof (induction os arbitrary: f)
  case (Cons o' os)
  have usage: "next_usage f = fw_usage_count f + 1"
    using Cons.prems by (simp add: next_usage_def)
  have "between 0 1 (outcome_score b)" for b by (simp add: outcome_score_def)
  with Cons.prems have "between 0 1 (fw_calibration_score (calibrate o' f))"
    unfolding calibrate_def usage by (simp add: next_mean_between)
  moreover have "fw_usage_count (calibrate o' f) = fw_usage_count f + 1" by (simp add: calibrate_def usage)
  moreover have "fw_id (calibrate o' f) = fw_id f" by (simp add: calibrate_def)
  ultimately show ?case using Cons.IH [of "calibrate o' f"] Cons.prems by simp
qed simp


text \<open>
  The calibration score of a framework is a mean of outcomes and stays one under rounding.
  Recording an outcome hands the repository exactly the framework's next running means, and from a new
  framework any history of fewer than 2^53 outcomes leaves a score in [0,1] and counts every outcome.
\<close>

theorem calibration_history:
  assumes "fwr_find R (fi_framework_id i) s = (Inr (Some f), s1)"
    and "f = fold calibrate os (framework_of_new n)" "int (length os) < 2 ^ 53 - 1"
  shows "record_impact R achieved i s =
       fwr_update_calibration R (fi_framework_id i) (fw_calibration_score (calibrate (achieved, fi_delta i) f))
         (fw_usage_count (calibrate (achieved, fi_delta i) f)) (fw_confidence_delta_avg (calibrate (achieved, fi_delta i) f)) s1
     \<and> between 0 1 (fw_calibration_score (calibrate (achieved, fi_delta i) f))
     \<and> fw_usage_count (calibrate (achieved, fi_delta i) f) = int (length os) + 1"
proof -
  have new: "between 0 1 (fw_calibration_score (framework_of_new n))" "fw_usage_count (framework_of_new n) = 0"
    by (simp_all add: framework_of_new_def)
  have "calibrate (achieved, fi_delta i) f = fold calibrate (os @ [(achieved, fi_delta i)]) (framework_of_new n)"
    by (simp add: assms(2))
  with calibrate_history [OF new(1), of "os @ [(achieved, fi_delta i)]"] assms(3) new(2)
  have "between 0 1 (fw_calibration_score (calibrate (achieved, fi_delta i) f))"
    "fw_usage_count (calibrate (achieved, fi_delta i) f) = int (length os) + 1" by simp_all
  with assms(1) show ?thesis by (simp add: record_impact_def io_bind_def calibrate_def)
qed

definition sample_framework :: new_framework where
  "sample_framework =
     \<lparr>nf_id = ''f'', nf_name = ''F'', nf_category = StrategicModels, nf_description = '''', nf_trigger_rules = [],
      nf_reasoning_template = '''', nf_evidence_requirements = []\<rparr>"

definition sample_fw_repo :: "reasoning_framework framework_repo" where
  "sample_fw_repo =
     \<lparr>fwr_find = (\<lambda>i s. (Inr (if fw_id s = i then Some s else None), s)), fwr_by_category = (\<lambda>c s. (Inr [s], s)),
      fwr_list_all = (\<lambda>s. (Inr [s], s)),
      fwr_update_calibration = (\<lambda>i c n d s. (Inr (), s\<lparr>fw_calibration_score := c, fw_usage_count := n, fw_confidence_delta_avg := d\<rparr>))\<rparr>"

lemma calibration_history_witness:
  "fw_usage_count (snd (record_impact sample_fw_repo True (impact_new ''f'' 1 (Fin 0) (Fin 1))
      (fold calibrate [(True, Fin 0), (False, Fin 0)] (framework_of_new sample_framework)))) = 3"
proof -
  let ?f = "fold calibrate [(True, Fin 0), (False, Fin 0)] (framework_of_new sample_framework)"
  have find: "fwr_find sample_fw_repo (fi_framework_id (impact_new ''f'' 1 (Fin 0) (Fin 1))) ?f = (Inr (Some ?f), ?f)"
    by (simp add: sample_fw_repo_def impact_new_def calibrate_def framework_of_new_def sample_framework_def)
  have "int (length [(True, Fin 0), (False, Fin 0)]) < 2 ^ 53 - 1" by simp
  from calibration_history [OF find refl this, of True] show ?thesis by (simp add: sample_fw_repo_def)
qed

end
