(* ===== verification/SignalReads.thy ===== *)
theory SignalReads
  imports SignalEngine ModelRuntime Confidence
begin

text \<open>
  The read models of the signals: the thread, evidence and relation queries of the D1 store
  (\<open>store/src/d1/signal/thread.rs\<close>, \<open>detail.rs\<close>), the detail and entity queries of the engine
  (\<open>signal-engine/src/query\<close>) and the adapter between them (\<open>infrastructure/src/signal_repository.rs\<close>),
  which copies every field.  The tables are those of \<open>SignalTables\<close> with the evidence links and the
  entity relations; a query may fail and changes nothing.
\<close>

section \<open>Tables and rows\<close>

record entity_relation_row =
  er_source :: int
  er_target :: int
  er_confidence :: f64

record read_db =
  rd_signals :: signal_db
  rd_evidence :: "(int \<times> int) list"
  rd_relations :: "entity_relation_row list"
  rd_events :: "signal_event_row list"

type_synonym 'a rd_io = "(read_db, store_error, 'a) io"

definition rd_query :: "(read_db \<Rightarrow> 'a) \<Rightarrow> 'a rd_io" where
  "rd_query f d =
     (case db_statement (\<lambda>s. ((), s)) (rd_signals d) of
        (Inl e, s) \<Rightarrow> (Inl e, d\<lparr>rd_signals := s\<rparr>)
      | (Inr _, s) \<Rightarrow> (Inr (f (d\<lparr>rd_signals := s\<rparr>)), d\<lparr>rd_signals := s\<rparr>))"

fun io_mapM :: "('a \<Rightarrow> ('s, 'e, 'b) io) \<Rightarrow> 'a list \<Rightarrow> ('s, 'e, 'b list) io" where
  "io_mapM f [] = io_ret []"
| "io_mapM f (x # xs) = io_bind (f x) (\<lambda>y. io_bind (io_mapM f xs) (\<lambda>ys. io_ret (y # ys)))"

record instance_summary =
  is_id :: int
  is_score :: f64
  is_confidence :: f64
  is_trend :: string
  is_articles :: int
  is_sources :: int
  is_generated :: int

record signal_brief_input =
  bi_thread :: int
  bi_key :: string
  bi_anchor :: "string option"
  bi_title :: string
  bi_description :: string
  bi_status :: string
  bi_health :: f64
  bi_score :: f64
  bi_trend :: string
  bi_cumulative :: int
  bi_recent :: int
  bi_sources :: int
  bi_velocity :: f64
  bi_instances :: "instance_summary list"
  bi_evidence :: "brief_article list"
  bi_related :: "related_entity_ref list"

record thread_filter =
  tf_statuses :: "string list"
  tf_limit :: nat
  tf_min_score :: f64

section \<open>Threads with their instances, evidence and relations\<close>

definition instance_summary_of :: "signal_instance \<Rightarrow> instance_summary" where
  "instance_summary_of i =
     \<lparr>is_id = si_id i, is_score = si_score i, is_confidence = si_confidence i, is_trend = si_trend i,
      is_articles = si_articles i, is_sources = si_sources i, is_generated = si_created i\<rparr>"

text \<open>\<open>WHERE signal_thread_id = ?1 ORDER BY created_at DESC LIMIT 30\<close>.\<close>

definition thread_instances :: "int \<Rightarrow> instance_summary list rd_io" where
  "thread_instances tid = rd_query (\<lambda>d. map instance_summary_of (take 30
     (sort_by (\<lambda>a b. si_created b \<le> si_created a) (filter (\<lambda>i. si_thread i = tid) (db_instances (rd_signals d))))))"

definition brief_of :: "read_db \<Rightarrow> db_article \<Rightarrow> brief_article" where
  "brief_of d a = \<lparr>ba_id = at_id a, ba_title = at_title a, ba_url = at_url a,
     ba_feed = map_of (db_feeds (rd_signals d)) (at_feed a), ba_score = at_score a\<rparr>"

text \<open>The evidence links joined with the articles and with the thread of their signal.\<close>

definition evidence_rows :: "read_db \<Rightarrow> (int \<times> brief_article) list" where
  "evidence_rows d = List.map_filter (\<lambda>(sid, aid).
     Option.bind (List.find (\<lambda>a. at_id a = aid) (db_articles (rd_signals d))) (\<lambda>a.
     Option.bind (List.find (\<lambda>i. si_id i = sid) (db_instances (rd_signals d))) (\<lambda>i.
       Some (si_thread i, brief_of d a)))) (rd_evidence d)"

definition score_desc :: "brief_article \<Rightarrow> brief_article \<Rightarrow> bool" where
  "score_desc x y \<longleftrightarrow> fle (ba_score y) (ba_score x)"

definition distinct_rows :: "'a list \<Rightarrow> 'a list" where
  "distinct_rows xs = rev (remdups (rev xs))"

definition rows_of :: "int \<Rightarrow> (int \<times> 'a) list \<Rightarrow> 'a list" where
  "rows_of tid rows = map snd (filter (\<lambda>r. fst r = tid) rows)"

definition thread_evidence :: "int \<Rightarrow> brief_article list rd_io" where
  "thread_evidence tid = rd_query (\<lambda>d. take 10 (sort_by score_desc (distinct_rows (rows_of tid (evidence_rows d)))))"

text \<open>The relations of a thread's anchor, each with the entity at its other end.\<close>

definition relation_rows :: "read_db \<Rightarrow> signal_thread \<Rightarrow> (f64 \<times> related_entity_ref) list" where
  "relation_rows d t =
     (case st_anchor t of None \<Rightarrow> [] | Some a \<Rightarrow>
        List.map_filter (\<lambda>r. if er_source r = a \<or> er_target r = a
          then map_option (\<lambda>e. (er_confidence r,
                 \<lparr>re_id = en_id e, re_name = en_name e, re_type = en_type e, re_relation_type = ''mentioned_together'',
                  re_relation = None, re_confidence = None\<rparr>))
               (List.find (\<lambda>e. en_id e = (if er_source r = a then er_target r else er_source r)) (db_entities (rd_signals d)))
          else None) (rd_relations d))"

definition conf_desc :: "f64 \<times> 'a \<Rightarrow> f64 \<times> 'a \<Rightarrow> bool" where
  "conf_desc x y \<longleftrightarrow> fle (fst y) (fst x)"

definition find_thread :: "read_db \<Rightarrow> int \<Rightarrow> signal_thread option" where
  "find_thread d tid = List.find (\<lambda>t. st_id t = tid) (db_threads (rd_signals d))"

definition load_thread_related_entities :: "int \<Rightarrow> nat \<Rightarrow> related_entity_ref list rd_io" where
  "load_thread_related_entities tid limit = rd_query (\<lambda>d.
     case find_thread d tid of None \<Rightarrow> []
     | Some t \<Rightarrow> map snd (take limit (sort_by conf_desc (relation_rows d t))))"

definition anchor_name :: "read_db \<Rightarrow> signal_thread \<Rightarrow> string option" where
  "anchor_name d t = Option.bind (st_anchor t) (\<lambda>i.
     map_option en_name (List.find (\<lambda>e. en_id e = i) (db_entities (rd_signals d))))"

fun null_le :: "int option \<Rightarrow> int option \<Rightarrow> bool" where
  "null_le None b = True"
| "null_le (Some a) None = False"
| "null_le (Some a) (Some b) = (a \<le> b)"

text \<open>\<open>ORDER BY health_score DESC, last_seen_at DESC\<close>.\<close>

definition by_health :: "signal_thread \<Rightarrow> signal_thread \<Rightarrow> bool" where
  "by_health a b \<longleftrightarrow> flt (st_health b) (st_health a) \<or>
     (\<not> flt (st_health a) (st_health b) \<and> null_le (st_last_seen b) (st_last_seen a))"

definition thread_passes :: "thread_filter \<Rightarrow> signal_thread \<Rightarrow> bool" where
  "thread_passes f t \<longleftrightarrow> st_status t \<in> set (tf_statuses f) \<and>
     (flt (Fin 0) (tf_min_score f) \<longrightarrow> fle (tf_min_score f) (st_health t))"

definition head_score :: "instance_summary list \<Rightarrow> f64" where
  "head_score is = (case is of i # _ \<Rightarrow> is_score i | [] \<Rightarrow> Fin 0)"

definition head_trend :: "instance_summary list \<Rightarrow> string" where
  "head_trend is = (case is of i # _ \<Rightarrow> is_trend i | [] \<Rightarrow> ''stable'')"

definition head_sources :: "instance_summary list \<Rightarrow> int" where
  "head_sources is = (case is of i # _ \<Rightarrow> is_sources i | [] \<Rightarrow> 0)"

definition count_articles :: "instance_summary list \<Rightarrow> int" where
  "count_articles is = sum_list (map is_articles is)"

text \<open>The common assembly; \<open>recent\<close> and \<open>velocity\<close> are where the two listings differ.\<close>

definition assemble_thread ::
  "(instance_summary list \<Rightarrow> int) \<Rightarrow> (instance_summary list \<Rightarrow> f64) \<Rightarrow> signal_thread \<times> string option
    \<Rightarrow> signal_brief_input rd_io" where
  "assemble_thread recent velocity = (\<lambda>(t, entity_name).
     io_bind (thread_instances (st_id t)) (\<lambda>is.
     io_bind (thread_evidence (st_id t)) (\<lambda>ev.
     io_bind (load_thread_related_entities (st_id t) 5) (\<lambda>related.
       io_ret \<lparr>bi_thread = st_id t, bi_key = st_key t, bi_anchor = entity_name, bi_title = st_title t,
         bi_description = st_description t, bi_status = st_status t, bi_health = st_health t,
         bi_score = head_score is, bi_trend = head_trend is, bi_cumulative = count_articles is,
         bi_recent = recent is, bi_sources = head_sources is, bi_velocity = velocity is,
         bi_instances = is, bi_evidence = ev, bi_related = related\<rparr>))))"

definition list_threads :: "thread_filter \<Rightarrow> (signal_thread \<times> string option) list rd_io" where
  "list_threads f = rd_query (\<lambda>d. map (\<lambda>t. (t, anchor_name d t)) (take (tf_limit f)
     (sort_by by_health (filter (thread_passes f) (db_threads (rd_signals d))))))"

definition recent_since :: "int \<Rightarrow> instance_summary list \<Rightarrow> int" where
  "recent_since t is = sum_list (map is_articles (filter (\<lambda>i. t \<le> is_generated i) is))"

definition recent_velocity :: "int \<Rightarrow> instance_summary list \<Rightarrow> f64" where
  "recent_velocity t is =
     (if 0 < count_articles is
      then fdiv binary64 (of_i64 binary64 (recent_since t is)) (of_i64 binary64 (count_articles is)) else lit64 0.5)"

definition list_signal_threads :: "int \<Rightarrow> thread_filter \<Rightarrow> signal_brief_input list rd_io" where
  "list_signal_threads now f =
     io_bind (list_threads f) (io_mapM (assemble_thread (recent_since (now - 7 * 86400)) (recent_velocity (now - 7 * 86400))))"

definition get_active_signal_threads :: "nat \<Rightarrow> signal_brief_input list rd_io" where
  "get_active_signal_threads limit =
     io_bind (list_threads \<lparr>tf_statuses = [''active'', ''decaying''], tf_limit = limit, tf_min_score = Fin 0\<rparr>)
       (io_mapM (assemble_thread count_articles (\<lambda>_. lit64 0.5)))"

section \<open>The batch queries\<close>

definition push_row :: "int \<times> 'a \<Rightarrow> (int \<Rightarrow> 'a list option) \<Rightarrow> int \<Rightarrow> 'a list option" where
  "push_row r m = m(fst r := Some ((case m (fst r) of Some xs \<Rightarrow> xs | None \<Rightarrow> []) @ [snd r]))"

definition group_rows :: "(int \<times> 'a) list \<Rightarrow> int \<Rightarrow> 'a list option" where
  "group_rows rows = fold push_row rows Map.empty"

definition thread_score_order :: "int \<times> brief_article \<Rightarrow> int \<times> brief_article \<Rightarrow> bool" where
  "thread_score_order x y \<longleftrightarrow> fst x < fst y \<or> (fst x = fst y \<and> score_desc (snd x) (snd y))"

definition batch_evidence :: "int list \<Rightarrow> (int \<Rightarrow> brief_article list option) rd_io" where
  "batch_evidence ids =
     (if ids = [] then io_ret Map.empty
      else io_bind (rd_query (\<lambda>d. sort_by thread_score_order (filter (\<lambda>r. fst r \<in> set ids) (evidence_rows d)))) (\<lambda>rows.
        io_ret (\<lambda>k. map_option (take 10) (group_rows rows k))))"

definition thread_conf_order :: "int \<times> f64 \<times> 'a \<Rightarrow> int \<times> f64 \<times> 'a \<Rightarrow> bool" where
  "thread_conf_order x y \<longleftrightarrow> fst x < fst y \<or> (fst x = fst y \<and> conf_desc (snd x) (snd y))"

definition batch_related_entities :: "int list \<Rightarrow> (int \<Rightarrow> related_entity_ref list option) rd_io" where
  "batch_related_entities ids =
     (if ids = [] then io_ret Map.empty
      else io_bind (rd_query (\<lambda>d. sort_by thread_conf_order (concat (map (\<lambda>t. map (\<lambda>r. (st_id t, r)) (relation_rows d t))
               (filter (\<lambda>t. st_id t \<in> set ids) (db_threads (rd_signals d))))))) (\<lambda>rows.
        io_ret (\<lambda>k. map_option (take 5) (group_rows (map (\<lambda>(k, _, e). (k, e)) rows) k))))"

section \<open>The detail of a thread\<close>

record health_components =
  hc_volume :: f64
  hc_diversity :: f64
  hc_quality :: f64
  hc_velocity :: f64
  hc_persistence :: f64

record health_detail =
  hd_score :: f64
  hd_components :: health_components

record timeline_event =
  te_timestamp :: int
  te_event_type :: string
  te_score :: f64
  te_article_count :: int
  te_description :: string

record entity_signal_ref =
  es_id :: int
  es_name :: string
  es_type :: string

record related_signal_ref =
  rs_id :: int
  rs_title :: string
  rs_status :: string
  rs_health_score :: f64

record signal_analysis =
  an_why_it_matters :: string
  an_impact :: string
  an_confidence_reason :: string

record signal_detail =
  dt_id :: int
  dt_title :: string
  dt_description :: string
  dt_status :: string
  dt_trend :: string
  dt_health :: health_detail
  dt_anchor_entity :: "entity_signal_ref option"
  dt_first_seen_at :: int
  dt_last_seen_at :: int
  dt_timeline :: "timeline_event list"
  dt_evidence_top :: "brief_article list"
  dt_related_entities :: "related_entity_ref list"
  dt_related_signals :: "related_signal_ref list"
  dt_analysis :: "signal_analysis option"

text \<open>The days between the oldest and the newest of the loaded instances, at least one.\<close>

definition total_days :: "instance_summary list \<Rightarrow> f64" where
  "total_days is =
     (if 1 < length is
      then fmax (fdiv binary64 (of_i64 binary64 (is_generated (hd is) - is_generated (last is))) (Fin 86400)) (Fin 1)
      else Fin 1)"

definition detail_volume :: "signal_brief_input \<Rightarrow> f64" where
  "detail_volume i = round2 (fdiv binary64
     (fmin (fdiv binary64 (of_i64 binary64 (bi_recent i)) (total_days (bi_instances i))) (Fin 20)) (Fin 20))"

definition detail_diversity :: "signal_brief_input \<Rightarrow> f64" where
  "detail_diversity i = round2 (fdiv binary64 (fmin (of_i64 binary64 (bi_sources i)) (Fin 15)) (Fin 15))"

definition detail_quality :: "signal_brief_input \<Rightarrow> f64" where
  "detail_quality i = round2 (fclamp (fdiv binary64 (bi_score i) (Fin 10)) (Fin 0) (Fin 1))"

definition detail_persistence :: "signal_brief_input \<Rightarrow> f64" where
  "detail_persistence i = round2 (fdiv binary64 (fmin (total_days (bi_instances i)) (Fin 30)) (Fin 30))"

definition build_health :: "signal_brief_input \<Rightarrow> health_detail" where
  "build_health i =
     (let velocity = trend_velocity (bi_trend i);
          score = wsum binary64 [(lit64 0.35, detail_volume i), (lit64 0.25, detail_diversity i),
            (lit64 0.20, detail_quality i), (lit64 0.20, velocity)]
      in \<lparr>hd_score = round2 score,
          hd_components = \<lparr>hc_volume = detail_volume i, hc_diversity = detail_diversity i,
            hc_quality = detail_quality i, hc_velocity = velocity, hc_persistence = detail_persistence i\<rparr>\<rparr>)"

definition created_event :: "int \<Rightarrow> timeline_event list" where
  "created_event created_at =
     (if 0 < created_at
      then [\<lparr>te_timestamp = created_at, te_event_type = ''created'', te_score = Fin 0, te_article_count = 0,
             te_description = ''Signal detected and monitoring began''\<rparr>] else [])"

definition instance_event :: "nat \<Rightarrow> nat \<Rightarrow> instance_summary \<Rightarrow> timeline_event" where
  "instance_event n k i =
     \<lparr>te_timestamp = is_generated i,
      te_event_type = (if k = n - 1 then ''created'' else ''score_changed''),
      te_score = is_score i, te_article_count = is_articles i,
      te_description =
        (if k = 0 then ''Current score: '' @ fmt_fixed 2 (is_score i) @ '', trend: '' @ is_trend i
         else if k = n - 1 then ''Signal detected '' @ em_dash @ '' score: '' @ fmt_fixed 2 (is_score i)
         else ''Updated '' @ em_dash @ '' score: '' @ fmt_fixed 2 (is_score i) @ '', '' @ show_i64 (is_articles i) @ '' articles'')\<rparr>"

definition earlier :: "timeline_event \<Rightarrow> timeline_event \<Rightarrow> bool" where
  "earlier a b \<longleftrightarrow> te_timestamp a \<le> te_timestamp b"

definition build_timeline :: "instance_summary list \<Rightarrow> int \<Rightarrow> timeline_event list" where
  "build_timeline is created_at =
     sort_by earlier (created_event created_at @ map (\<lambda>(k, i). instance_event (length is) k i) (enumerate 0 is))"

definition load_single_thread :: "int \<Rightarrow> (signal_brief_input \<times> int option \<times> int option) option rd_io" where
  "load_single_thread tid =
     io_bind (rd_query (\<lambda>d. map_option (\<lambda>t. (t, anchor_name d t)) (find_thread d tid))) (\<lambda>row.
     case row of None \<Rightarrow> io_ret None
     | Some (t, entity_name) \<Rightarrow>
         io_bind (thread_instances tid) (\<lambda>is.
         io_bind (thread_evidence tid) (\<lambda>ev.
           io_ret (Some (\<lparr>bi_thread = st_id t, bi_key = '''', bi_anchor = entity_name, bi_title = st_title t,
             bi_description = st_description t, bi_status = st_status t, bi_health = st_health t,
             bi_score = head_score is, bi_trend = head_trend is, bi_cumulative = count_articles is,
             bi_recent = count_articles is, bi_sources = head_sources is, bi_velocity = lit64 0.5,
             bi_instances = is, bi_evidence = ev, bi_related = []\<rparr>, st_first_seen t, st_last_seen t)))))"

definition load_related_signals :: "int \<Rightarrow> related_signal_ref list rd_io" where
  "load_related_signals tid = rd_query (\<lambda>d.
     case Option.bind (find_thread d tid) st_anchor of None \<Rightarrow> []
     | Some a \<Rightarrow> map (\<lambda>t. \<lparr>rs_id = st_id t, rs_title = st_title t, rs_status = st_status t, rs_health_score = st_health t\<rparr>)
         (take 5 (sort_by (\<lambda>x y. fle (st_health y) (st_health x))
           (filter (\<lambda>t. st_anchor t = Some a \<and> st_id t \<noteq> tid \<and> st_status t \<in> {''active'', ''decaying''})
             (db_threads (rd_signals d))))))"

definition zero_default :: "int option \<Rightarrow> int" where
  "zero_default x = (case x of Some n \<Rightarrow> n | None \<Rightarrow> 0)"

definition load_signal_detail :: "int \<Rightarrow> signal_detail option rd_io" where
  "load_signal_detail tid =
     io_bind (load_single_thread tid) (\<lambda>row.
     case row of None \<Rightarrow> io_ret None
     | Some (thread, first_opt, last_opt) \<Rightarrow>
         io_bind (thread_evidence tid) (\<lambda>ev.
         io_bind (load_thread_related_entities tid 5) (\<lambda>ents.
         io_bind (load_related_signals tid) (\<lambda>sigs.
           io_ret (Some \<lparr>dt_id = tid, dt_title = bi_title thread, dt_description = bi_description thread,
             dt_status = bi_status thread, dt_trend = bi_trend thread, dt_health = build_health thread,
             dt_anchor_entity = map_option (\<lambda>n. \<lparr>es_id = 0, es_name = n, es_type = ''''\<rparr>) (bi_anchor thread),
             dt_first_seen_at = zero_default first_opt, dt_last_seen_at = zero_default last_opt,
             dt_timeline = build_timeline (bi_instances thread) (zero_default first_opt),
             dt_evidence_top = ev, dt_related_entities = ents, dt_related_signals = sigs, dt_analysis = None\<rparr>)))))"

text \<open>\<open>WHERE thread_id = ?1 ORDER BY created_at DESC LIMIT ?2\<close>.\<close>

definition d1_load_signal_events :: "int \<Rightarrow> nat \<Rightarrow> signal_event_row list rd_io" where
  "d1_load_signal_events tid limit = rd_query (\<lambda>d. take limit
     (sort_by (\<lambda>a b. se_created_at b \<le> se_created_at a) (filter (\<lambda>e. se_thread_id e = tid) (rd_events d))))"

section \<open>The engine's queries\<close>

record 's signal_query =
  sq_detail :: "int \<Rightarrow> ('s, signal_error, signal_detail option) io"
  sq_events :: "int \<Rightarrow> nat \<Rightarrow> ('s, signal_error, signal_event_row list) io"
  sq_threads :: "thread_filter \<Rightarrow> ('s, signal_error, signal_brief_input list) io"

type_synonym 's event_loader = "string \<Rightarrow> nat \<Rightarrow> ('s, signal_error, json signal_event list) io"

definition or_f64 :: "f64 option \<Rightarrow> f64" where
  "or_f64 x = (case x of Some v \<Rightarrow> v | None \<Rightarrow> Fin 0)"

text \<open>\<open>from_json\<close> is serde's reading of a payload; a payload that is no JSON counts as none.\<close>

definition describe_event :: "(string \<Rightarrow> json option) \<Rightarrow> string \<Rightarrow> string option \<Rightarrow> f64 \<times> int \<times> string" where
  "describe_event from_json event_type payload =
     (let parsed = Option.bind payload from_json;
          score = or_f64 (Option.bind parsed (\<lambda>v. json_f64 (json_get ''score'' v)));
          article_count = zero_default (Option.bind parsed (\<lambda>v. json_i64 (json_get ''article_count'' v)));
          description =
            (if event_type = ''created'' then ''Signal thread created''
             else if event_type = ''score_changed'' then
               (case parsed of None \<Rightarrow> ''Score changed''
                | Some p \<Rightarrow> ''Score changed to '' @ fmt_fixed 1 (or_f64 (json_f64 (json_get ''score'' p))) @ '' ('' @
                    show_i64 (zero_default (json_i64 (json_get ''article_count'' p))) @ '' articles, trend: '' @
                    (case json_str (json_get ''trend'' p) of Some t \<Rightarrow> t | None \<Rightarrow> ''stable'') @ '')'')
             else if event_type = ''status_changed'' then ''Status changed''
             else if event_type = ''accelerating'' then ''Signal accelerating '' @ em_dash @ '' velocity increasing significantly''
             else if event_type = ''decaying'' then ''Signal decaying '' @ em_dash @ '' activity decreasing''
             else if event_type = ''resolved'' then ''Signal resolved '' @ em_dash @ '' no recent activity detected''
             else if event_type = ''evidence_added''
             then show_i64 (zero_default (Option.bind parsed (\<lambda>p. json_i64 (json_get ''count'' p)))) @ '' new evidence articles added''
             else ''Event: '' @ map (\<lambda>c. if c = CHR 0x5F then CHR 0x20 else c) event_type)
      in (score, article_count, description))"

definition logged_event :: "json signal_event \<Rightarrow> timeline_event" where
  "logged_event e =
     \<lparr>te_timestamp = se_occurred_at e, te_event_type = se_type e,
      te_score = or_f64 (json_f64 (json_get ''score'' (signal_event.se_payload e))),
      te_article_count = zero_default (json_i64 (json_get ''article_count'' (signal_event.se_payload e))),
      te_description = se_type e\<rparr>"

definition stored_event :: "(string \<Rightarrow> json option) \<Rightarrow> signal_event_row \<Rightarrow> timeline_event" where
  "stored_event from_json e =
     (case describe_event from_json (se_event_type e) (signal_event_row.se_payload e) of (s, n, text) \<Rightarrow>
        \<lparr>te_timestamp = se_created_at e, te_event_type = se_event_type e, te_score = s, te_article_count = n,
         te_description = text\<rparr>)"

definition newest_first :: "timeline_event \<Rightarrow> timeline_event \<Rightarrow> bool" where
  "newest_first a b \<longleftrightarrow> te_timestamp b \<le> te_timestamp a"

definition same_moment :: "timeline_event \<Rightarrow> timeline_event \<Rightarrow> bool" where
  "same_moment a b \<longleftrightarrow> te_timestamp a = te_timestamp b \<and> te_event_type a = te_event_type b"

text \<open>\<open>Vec::dedup_by\<close>: an element that matches the one kept before it goes.\<close>

fun dedup_by :: "('a \<Rightarrow> 'a \<Rightarrow> bool) \<Rightarrow> 'a list \<Rightarrow> 'a list" where
  "dedup_by same (x # y # ys) = (if same y x then dedup_by same (x # ys) else x # dedup_by same (y # ys))"
| "dedup_by same xs = xs"

definition merge_events :: "timeline_event list \<Rightarrow> timeline_event list \<Rightarrow> timeline_event list" where
  "merge_events own others = dedup_by same_moment (sort_by newest_first (own @ others))"

definition merge_stored_events ::
  "(string \<Rightarrow> json option) \<Rightarrow> 's signal_query \<Rightarrow> int \<Rightarrow> timeline_event list \<Rightarrow> ('s, signal_error, timeline_event list) io" where
  "merge_stored_events from_json Q tid own =
     io_bind (sq_events Q tid 50) (\<lambda>es.
       io_ret (if es = [] then own else merge_events own (map (stored_event from_json) es)))"

definition merge_signal_events ::
  "(string \<Rightarrow> json option) \<Rightarrow> 's signal_query \<Rightarrow> 's event_loader option \<Rightarrow> int \<Rightarrow> timeline_event list
    \<Rightarrow> ('s, signal_error, timeline_event list) io" where
  "merge_signal_events from_json Q elog tid own s =
     (case elog of None \<Rightarrow> merge_stored_events from_json Q tid own s
      | Some load \<Rightarrow>
          (case load (agg_signal tid) 50 s of
             (Inr (e # es), s1) \<Rightarrow> (Inr (merge_events own (map logged_event (e # es))), s1)
           | (_, s1) \<Rightarrow> merge_stored_events from_json Q tid own s1))"

definition build_analysis :: "signal_detail \<Rightarrow> signal_analysis option" where
  "build_analysis d =
     (let h = dt_health d; vol = hc_volume (hd_components h); qual = hc_quality (hd_components h);
          vel = hc_velocity (hd_components h); score = hd_score h;
          label = (if fle (lit64 0.6) score then ''High confidence'' else if fle (lit64 0.3) score then ''Moderate confidence''
                   else ''Developing signal'');
          impact = (if fle (lit64 0.6) score then ''High'' else if fle (lit64 0.3) score then ''Moderate'' else ''Low'');
          pace = (if fle (lit64 0.7) vel then ''rapidly increasing velocity'' else if fle (lit64 0.4) vel then ''steady velocity''
                  else ''declining velocity'');
          sources = length (dt_related_entities d) + 1; n = length (dt_evidence_top d);
          quality = fmt_fixed 0 (fmul binary64 qual (Fin 100))
      in Some \<lparr>an_why_it_matters = label @ '' '' @ em_dash @ '' Signal shows '' @
             (if fle (lit64 0.4) vol then ''strong'' else ''developing'') @ '' activity across '' @ dec_nat sources @
             '' sources with '' @ pace @ ''. '' @ dec_nat n @ '' evidence articles, quality '' @ quality @ ''%.'',
           an_impact = impact,
           an_confidence_reason = dec_nat n @ '' articles across '' @ dec_nat sources @ '' source'' @
             (if 1 < sources then ''s'' else []) @ '' with '' @ quality @ ''% quality score''\<rparr>)"

definition thread_detail ::
  "(string \<Rightarrow> json option) \<Rightarrow> 's signal_query \<Rightarrow> 's event_loader option \<Rightarrow> int \<Rightarrow> ('s, signal_error, signal_detail option) io" where
  "thread_detail from_json Q elog tid =
     io_bind (sq_detail Q tid) (\<lambda>found.
     case found of None \<Rightarrow> io_ret None
     | Some d \<Rightarrow> io_bind (merge_signal_events from_json Q elog tid (dt_timeline d)) (\<lambda>merged.
         let d' = d\<lparr>dt_timeline := merged\<rparr> in io_ret (Some (d'\<lparr>dt_analysis := build_analysis d'\<rparr>))))"

record thread_summary =
  ts_thread_id :: int
  ts_title :: string
  ts_status :: string
  ts_health_score :: f64
  ts_trend :: string
  ts_current_score :: f64
  ts_latest_impact :: string
  ts_instance_count :: nat
  ts_total_articles :: int
  ts_first_seen_at :: int
  ts_last_seen_at :: int

definition entity_key_prefix :: string where "entity_key_prefix = ''entity:''"

definition anchored_at :: "int \<Rightarrow> signal_brief_input \<Rightarrow> bool" where
  "anchored_at entity_id t \<longleftrightarrow>
     \<not> (bi_anchor t = Some '''' \<and> bi_key t \<noteq> entity_key_prefix @ show_i64 entity_id) \<and>
     take 7 (bi_key t) = entity_key_prefix \<and> parse_i64 (drop 7 (bi_key t)) = Some entity_id"

definition thread_summary_of :: "signal_brief_input \<Rightarrow> thread_summary" where
  "thread_summary_of t =
     \<lparr>ts_thread_id = bi_thread t, ts_title = bi_title t, ts_status = bi_status t, ts_health_score = bi_health t,
      ts_trend = bi_trend t, ts_current_score = bi_score t, ts_latest_impact = '''',
      ts_instance_count = length (bi_instances t), ts_total_articles = bi_cumulative t,
      ts_first_seen_at = (if bi_instances t = [] then 0 else is_generated (last (bi_instances t))),
      ts_last_seen_at = (if bi_instances t = [] then 0 else is_generated (hd (bi_instances t)))\<rparr>"

definition entity_threads :: "'s signal_query \<Rightarrow> int \<Rightarrow> nat \<Rightarrow> ('s, signal_error, thread_summary list) io" where
  "entity_threads Q entity_id limit =
     io_bind (sq_threads Q \<lparr>tf_statuses = [''active'', ''decaying'', ''resolved'', ''archived''], tf_limit = limit,
         tf_min_score = Fin 0\<rparr>) (\<lambda>found.
       io_ret (map thread_summary_of (filter (anchored_at entity_id) found)))"

text \<open>The adapter: the store's rows with its errors as query errors.\<close>

abbreviation to_query :: "('s, store_error, 'a) io \<Rightarrow> ('s, signal_error, 'a) io" where
  "to_query \<equiv> io_map_err (\<lambda>e. SigQuery (store_error_str e))"

definition d1_signal_query :: "int \<Rightarrow> read_db signal_query" where
  "d1_signal_query now =
     \<lparr>sq_detail = (\<lambda>tid. to_query (load_signal_detail tid)),
      sq_events = (\<lambda>tid limit. to_query (d1_load_signal_events tid limit)),
      sq_threads = (\<lambda>f. to_query (list_signal_threads now f))\<rparr>"

end
