(* ===== verification/Briefing.thy ===== *)
theory Briefing
  imports SignalReads Ingestion EventKeys MemoryStore
begin

text \<open>
  The daily briefing: the generator of \<open>ai-pipeline/src/briefing\<close> (types, converter, prompt, parser,
  generator), the context of \<open>store/src/d1/briefing_context.rs\<close>, the job of
  \<open>worker-entry/src/jobs/briefing.rs\<close> with its lock, archive and cache, and the read route
  \<open>worker-entry/src/routes/briefing.rs\<close>.  JSON text, the Unicode white space and the model are parameters.
\<close>

section \<open>Signals, insights and briefings\<close>

type_synonym evidence_article = brief_article

record entity_context =
  ect_name :: string
  ect_type :: string
  ect_relevance :: f64

record decision_context =
  dct_id :: int
  dct_title :: string
  dct_status :: string
  dct_evaluation :: "string option"

record briefing_context =
  bct_entities :: "entity_context list"
  bct_decisions :: "decision_context list"

record briefing_signal =
  bs_id :: string
  bs_title :: string
  bs_category :: string
  bs_summary :: string
  bs_article_count :: int
  bs_source_count :: int
  bs_avg_score :: f64
  bs_trend :: string
  bs_articles :: "evidence_article list"
  bs_context :: briefing_context

record generated_insight =
  gi_title :: string
  gi_category :: string
  gi_summary :: string
  gi_why_it_matters :: string
  gi_recommendation :: string
  gi_impact :: string
  gi_confidence :: f64
  gi_evidence_signal_ids :: "string list"

record insight =
  ng_title :: string
  ng_category :: string
  ng_summary :: string
  ng_why_it_matters :: string
  ng_recommendation :: string
  ng_impact :: string
  ng_confidence :: f64
  ng_evidence_count :: int
  ng_source_count :: int
  ng_trend :: string
  ng_articles :: "evidence_article list"

record briefing =
  bf_date :: string
  bf_generated_at :: int
  bf_signal_count :: int
  bf_insights :: "insight list"

section \<open>Conversion\<close>

definition entity_context_of :: "related_entity_ref \<Rightarrow> entity_context" where
  "entity_context_of e = \<lparr>ect_name = re_name e, ect_type = re_type e,
     ect_relevance = (case re_confidence e of Some c \<Rightarrow> c | None \<Rightarrow> lit64 0.5)\<rparr>"

text \<open>\<open>as usize\<close> keeps 32 bits on the target.\<close>

definition briefing_signal_of :: "signal_brief_input \<Rightarrow> briefing_signal" where
  "briefing_signal_of i =
     \<lparr>bs_id = ''thread:'' @ show_i64 (bi_thread i), bs_title = bi_title i, bs_category = '''', bs_summary = bi_description i,
      bs_article_count = as_u32 (bi_recent i), bs_source_count = as_u32 (bi_sources i), bs_avg_score = bi_score i,
      bs_trend = bi_trend i, bs_articles = bi_evidence i,
      bs_context = \<lparr>bct_entities = map entity_context_of (bi_related i), bct_decisions = []\<rparr>\<rparr>"

section \<open>The prompt\<close>

definition lines_of :: "string list \<Rightarrow> string" where
  "lines_of ls = concat (map (\<lambda>l. l @ newline) ls)"

definition system_prompt :: string where
  "system_prompt = (let q = [CHR 0x22];
      field = (\<lambda>k v. ''      '' @ q @ k @ q @ '': '' @ v); str = (\<lambda>k v. field k (q @ v @ q) @ '','')
    in lines_of
     [''You are a strategic intelligence analyst.'', '''',
      ''Your task is to interpret the signals below. Each signal is an entity-anchored'',
      ''intelligence observation discovered by the signal detection engine.'', '''',
      ''For each insight you produce:'',
      ''- Reference evidence_signal_ids that support the insight'',
      ''- Base your analysis on the signal'' @ [CHR 0x27] @ ''s context (entities, prior decisions) as well as its metrics'',
      ''- Do NOT invent new signal categories or rename signals'', '''',
      ''Each signal includes a `## Context` section with:'',
      ''- **Entities**: entities frequently mentioned alongside this signal with type and relevance'',
      ''- **Decisions**: your prior decisions tracking this signal with status and latest evaluation'', '''',
      ''Use this context to:'',
      ''- Identify cross-signal connections visible through shared entities'',
      ''- Consider whether prior decisions (active, confirmed, or contradicted) affect your recommendation'',
      ''- If a prior decision was contradicted, treat it as a learning signal and adjust confidence accordingly'',
      ''- Prioritize signals that are actively being decided upon'', '''',
      ''Output exactly 3-5 intelligence insights as JSON. No markdown, no code fences.'', '''',
      ''{'', ''  '' @ q @ ''schema_version'' @ q @ '': 1,'', ''  '' @ q @ ''insights'' @ q @ '': ['', ''    {'',
      str ''title'' ''Short, direct headline (max 10 words)'',
      str ''category'' ''Security | AI | Market | Policy | Product'',
      str ''summary'' ''2-3 sentence synthesis of what is happening'',
      str ''why_it_matters'' ''1-2 sentences on why this changes the landscape'',
      str ''recommendation'' ''1 sentence on what a decision-maker should do'',
      str ''impact'' ''High | Medium | Low'',
      field ''confidence'' ''0.0-1.0,'',
      field ''evidence_signal_ids'' (''['' @ q @ ''entity_123'' @ q @ '', ...]''),
      ''    }'', ''  ]'', ''}'', '''',
      ''For evidence_signal_ids, reference the signal IDs listed below that support each insight.'',
      ''Use the signal'' @ [CHR 0x27] @ ''s entity name and evidence as the basis for your interpretation.'',
      ''Do NOT suggest that the signals themselves are wrong or incomplete '' @ em_dash @ '' they are data-driven.''])"

definition entity_line :: "entity_context \<Rightarrow> string" where
  "entity_line e = ''    - '' @ ect_name e @ '' ('' @ ect_type e @ '', relevance:'' @ fmt_fixed 2 (ect_relevance e) @ '')''"

definition decision_line :: "decision_context \<Rightarrow> string" where
  "decision_line d = ''    - ['' @ dct_status d @ ''] '' @ dct_title d @ '' | Latest: '' @
     (case dct_evaluation d of Some e \<Rightarrow> e | None \<Rightarrow> ''no evaluation'')"

definition context_section :: "briefing_context \<Rightarrow> string" where
  "context_section c =
     (if bct_entities c = [] then []
      else lines_of ([''  ## Context'', ''  Entities:''] @ map entity_line (bct_entities c) @
        (if bct_decisions c = [] then [] else ''  Decisions:'' # map decision_line (bct_decisions c))))"

definition signal_section :: "briefing_signal \<Rightarrow> string" where
  "signal_section s =
     (let titles = map brief_article.ba_title (take 3 (bs_articles s)) in
      ''['' @ bs_id s @ ''] '' @ bs_title s @ newline @
      ''  Articles: '' @ show_i64 (bs_article_count s) @ '' | Sources: '' @ show_i64 (bs_source_count s) @
      '' | Avg Score: '' @ fmt_fixed 1 (bs_avg_score s) @ '' | Trend: '' @ bs_trend s @ newline @
      ''  '' @ context_section (bs_context s) @ ''  Key Evidence: '' @
      (if titles = [] then ''none'' else join '' | '' titles) @ newline @ newline)"

definition build_briefing_prompt :: "briefing_signal list \<Rightarrow> string" where
  "build_briefing_prompt cs =
     system_prompt @ newline @ newline @ ''---'' @ newline @ newline @ ''Analyze these '' @ dec_nat (length cs) @
     '' intelligence signals:'' @ newline @ newline @
     ''Current Intelligence Signals:'' @ newline @ newline @ concat (map signal_section cs)"

section \<open>The parser\<close>

text \<open>
  After the first \<open>trim\<close> the text ends in no white space, so \<open>trim_end\<close> of what follows the opening fence
  changes nothing.
\<close>

definition code_fence :: string where "code_fence = replicate 3 (CHR 0x60)"

definition unfence :: "string \<Rightarrow> string" where
  "unfence t =
     (let inner = (case strip_prefix (code_fence @ ''json'') t of Some r \<Rightarrow> Some r | None \<Rightarrow> strip_prefix code_fence t) in
      case inner of
        None \<Rightarrow> t
      | Some r \<Rightarrow> (if ends_with code_fence r then take (length r - 3) r else r))"

definition validate_insight :: "generated_insight \<Rightarrow> nat \<Rightarrow> (string, unit) result" where
  "validate_insight g i =
     (let here = ''insight['' @ dec_nat i @ '']''; len = (\<lambda>s :: string. dec_nat (length s)) in
      if length (gi_title g) < 5 then Inl (here @ '' title too short ('' @ len (gi_title g) @ '')'')
      else if length (gi_summary g) < 80
      then Inl (here @ '' summary too short ('' @ len (gi_summary g) @ '' chars, need >= 80)'')
      else if length (gi_recommendation g) < 20
      then Inl (here @ '' recommendation too short ('' @ len (gi_recommendation g) @ '' chars, need >= 20)'')
      else if \<not> in_range (Fin 0) (Fin 1) (gi_confidence g)
      then Inl (here @ '' confidence '' @ fmt_fixed 2 (gi_confidence g) @ '' out of range [0.0, 1.0]'')
      else if gi_impact g \<notin> {''High'', ''Medium'', ''Low''} then Inl (here @ '' invalid impact: '' @ gi_impact g)
      else Inr ())"

fun validate_all :: "nat \<Rightarrow> generated_insight list \<Rightarrow> (string, generated_insight list) result" where
  "validate_all i [] = Inr []"
| "validate_all i (g # gs) =
     (case validate_insight g i of Inl e \<Rightarrow> Inl e
      | Inr _ \<Rightarrow> (case validate_all (Suc i) gs of Inl e \<Rightarrow> Inl e | Inr vs \<Rightarrow> Inr (g # vs)))"

definition parse_briefing_json ::
  "unicode \<Rightarrow> (string \<Rightarrow> (string, generated_insight list) result) \<Rightarrow> string \<Rightarrow> (string, generated_insight list) result" where
  "parse_briefing_json U from_json t =
     (case from_json (unfence (uc_trim U t)) of
        Inl e \<Rightarrow> Inl (''failed to parse LLM output as JSON: '' @ e)
      | Inr gs \<Rightarrow>
          (if gs = [] then Inl ''LLM returned zero insights''
           else if 5 < length gs then Inl (''LLM returned '' @ dec_nat (length gs) @ '' insights (max 5)'')
           else validate_all 0 gs))"


section \<open>The generator\<close>

text \<open>The integer square root, and \<open>f64::sqrt\<close> of a count: the exact root rounded once.\<close>

fun isqrt :: "nat \<Rightarrow> nat" where
  "isqrt n = (if n = 0 then 0
     else let r = 2 * isqrt (n div 4) in if (r + 1) * (r + 1) \<le> n then r + 1 else r)"

declare isqrt.simps [simp del]

text \<open>
  The root to 60 binary places; when it is not exact half a place more stands for the rest, which is
  past every point where the rounding could change.
\<close>

definition sqrt_count :: "nat \<Rightarrow> f64" where
  "sqrt_count n =
     (let r = isqrt (n * 4 ^ 60) in
      if r * r = n * 4 ^ 60 then rnd binary64 (of_nat r / 2 ^ 60) else rnd binary64 (of_nat (2 * r + 1) / 2 ^ 61))"

definition rank_signal :: "int \<Rightarrow> f64 \<Rightarrow> f64" where
  "rank_signal n confidence = (if n = 0 then Fin 0 else fmul binary64 confidence (sqrt_count (nat n)))"

definition signal_rank :: "briefing_signal \<Rightarrow> f64" where
  "signal_rank s = rank_signal (bs_article_count s) (fdiv binary64 (bs_avg_score s) (Fin 10))"

definition select_signals :: "briefing_signal list \<Rightarrow> nat \<Rightarrow> briefing_signal list" where
  "select_signals cs n = take n (sort_by (\<lambda>a b. \<not> flt (signal_rank a) (signal_rank b)) cs)"

definition signal_map :: "briefing_signal list \<Rightarrow> string \<Rightarrow> briefing_signal option" where
  "signal_map cs = map_of (rev (map (\<lambda>s. (bs_id s, s)) cs))"

text \<open>\<open>seen_ids.insert(id)\<close> guards the push.\<close>

definition add_article :: "evidence_article \<Rightarrow> int set \<times> evidence_article list \<Rightarrow> int set \<times> evidence_article list" where
  "add_article a = (\<lambda>(seen, out).
     if brief_article.ba_id a \<in> seen then (seen, out) else (insert (brief_article.ba_id a) seen, out @ [a]))"

definition bind_evidence :: "(string \<Rightarrow> briefing_signal option) \<Rightarrow> string list \<Rightarrow> int set \<times> evidence_article list" where
  "bind_evidence m ids =
     fold (\<lambda>i acc. case m i of None \<Rightarrow> acc | Some s \<Rightarrow> fold add_article (bs_articles s) acc) ids ({}, [])"

definition next_trend :: "(string \<Rightarrow> briefing_signal option) \<Rightarrow> generated_insight \<Rightarrow> string \<Rightarrow> string" where
  "next_trend m g t =
     (case gi_evidence_signal_ids g of [] \<Rightarrow> t | i # _ \<Rightarrow> (case m i of Some s \<Rightarrow> bs_trend s | None \<Rightarrow> t))"

fun assemble_insights :: "(string \<Rightarrow> briefing_signal option) \<Rightarrow> string \<Rightarrow> generated_insight list \<Rightarrow> insight list" where
  "assemble_insights m trend [] = []"
| "assemble_insights m trend (g # gs) =
     (let (seen, out) = bind_evidence m (gi_evidence_signal_ids g); trend' = next_trend m g trend
      in \<lparr>ng_title = gi_title g, ng_category = gi_category g, ng_summary = gi_summary g,
          ng_why_it_matters = gi_why_it_matters g, ng_recommendation = gi_recommendation g, ng_impact = gi_impact g,
          ng_confidence = gi_confidence g, ng_evidence_count = int (length out), ng_source_count = int (card seen),
          ng_trend = trend', ng_articles = out\<rparr> # assemble_insights m trend' gs)"

type_synonym summarizer = "string \<Rightarrow> string \<Rightarrow> (pipeline_error, summary_result) result"

definition generate_daily_brief ::
  "unicode \<Rightarrow> (string \<Rightarrow> (string, generated_insight list) result) \<Rightarrow> summarizer \<Rightarrow> briefing_signal list \<Rightarrow> string \<Rightarrow> int
    \<Rightarrow> (string, briefing) result" where
  "generate_daily_brief U from_json llm signals date now =
     (let cs = select_signals signals 20 in
      if cs = [] then Inl ''no signals available for briefing''
      else
        (case llm ''Daily Intelligence Brief'' (build_briefing_prompt cs) of
           Inl e \<Rightarrow> Inl (''LLM call failed: '' @ pipeline_error_str e)
         | Inr r \<Rightarrow>
             (case parse_briefing_json U from_json (sr_summary r) of
                Inl e \<Rightarrow> Inl e
              | Inr gs \<Rightarrow> Inr \<lparr>bf_date = date, bf_generated_at = now, bf_signal_count = int (length cs),
                  bf_insights = assemble_insights (signal_map cs) ''stable'' gs\<rparr>)))"


section \<open>The stores of the job\<close>

text \<open>
  The key-value cache: an entry is there until its expiry.  \<open>kv_faults\<close> is the schedule of failing
  calls; a failing read counts as a miss, a failing write is ignored.
\<close>

record kv_state =
  kv_entries :: "string \<Rightarrow> (string \<times> int) option"
  kv_faults :: "bool list"

definition kv_get :: "int \<Rightarrow> string \<Rightarrow> kv_state \<Rightarrow> string option \<times> kv_state" where
  "kv_get now key k =
     (let k' = k\<lparr>kv_faults := tl (kv_faults k)\<rparr> in
      case kv_faults k of
        True # _ \<Rightarrow> (None, k')
      | _ \<Rightarrow> (case kv_entries k key of
            Some (v, expiry) \<Rightarrow> (if now < expiry then Some v else None, k')
          | None \<Rightarrow> (None, k')))"

definition kv_put :: "int \<Rightarrow> string \<Rightarrow> string \<Rightarrow> int \<Rightarrow> kv_state \<Rightarrow> kv_state" where
  "kv_put now key v ttl k =
     (let k' = k\<lparr>kv_faults := tl (kv_faults k)\<rparr> in
      case kv_faults k of True # _ \<Rightarrow> k' | _ \<Rightarrow> k'\<lparr>kv_entries := (kv_entries k)(key \<mapsto> (v, now + ttl))\<rparr>)"

record artifact_record =
  ar_id :: int
  ar_type :: string
  ar_date :: string
  ar_object_key :: string
  ar_schema_version :: int
  ar_content_hash :: "string option"
  ar_size_bytes :: "int option"
  ar_metadata :: "string option"
  ar_created_at :: int

text \<open>A binding that is missing is \<open>None\<close>; \<open>bw_clock\<close> is the time the stores read.\<close>

record brief_world =
  bw_cache :: "kv_state option"
  bw_db :: "read_db option"
  bw_bucket :: "r2_state option"
  bw_decisions :: "decision_row list"
  bw_evaluations :: "decision_evaluation list"
  bw_artifacts :: "artifact_record list"
  bw_next_artifact :: int
  bw_briefs :: "(int \<times> string \<times> string) list"
  bw_clock :: int

type_synonym 'a bw_io = "(brief_world, store_error, 'a) io"

text \<open>A computation on the database; the job has checked that the binding is there.\<close>

definition on_reads :: "'a rd_io \<Rightarrow> 'a bw_io" where
  "on_reads m w =
     (case bw_db w of None \<Rightarrow> (Inl (D1 ''no binding''), w)
      | Some d \<Rightarrow> (case m d of (r, d') \<Rightarrow> (r, w\<lparr>bw_db := Some d'\<rparr>)))"

definition on_signals :: "'a db_io \<Rightarrow> 'a rd_io" where
  "on_signals m d = (case m (rd_signals d) of (r, s) \<Rightarrow> (r, d\<lparr>rd_signals := s\<rparr>))"

definition bw_query :: "(brief_world \<Rightarrow> 'a) \<Rightarrow> 'a bw_io" where
  "bw_query f = io_bind (on_reads (rd_query (\<lambda>_. ()))) (\<lambda>_ w. (Inr (f w), w))"

definition on_cache :: "(kv_state \<Rightarrow> kv_state) \<Rightarrow> brief_world \<Rightarrow> brief_world" where
  "on_cache f w = w\<lparr>bw_cache := map_option f (bw_cache w)\<rparr>"

definition cache_get :: "string \<Rightarrow> brief_world \<Rightarrow> string option \<times> brief_world" where
  "cache_get key w =
     (case bw_cache w of None \<Rightarrow> (None, w)
      | Some k \<Rightarrow> (case kv_get (bw_clock w) key k of (v, k') \<Rightarrow> (v, w\<lparr>bw_cache := Some k'\<rparr>)))"

definition cache_put :: "string \<Rightarrow> string \<Rightarrow> int \<Rightarrow> brief_world \<Rightarrow> brief_world" where
  "cache_put key v ttl w = on_cache (kv_put (bw_clock w) key v ttl) w"

section \<open>The context of the signals\<close>

record context_bundle =
  cbn_entities :: "int \<Rightarrow> (string \<times> string \<times> f64) list option"
  cbn_decisions :: "int \<Rightarrow> decision_row list option"
  cbn_evaluations :: "int \<Rightarrow> string option"

definition empty_bundle :: context_bundle where
  "empty_bundle = \<lparr>cbn_entities = Map.empty, cbn_decisions = Map.empty, cbn_evaluations = Map.empty\<rparr>"

text \<open>Only the relations whose source is the anchor, and fifty rows for all threads together.\<close>

definition anchor_relations :: "read_db \<Rightarrow> signal_thread \<Rightarrow> (f64 \<times> int \<times> string \<times> string \<times> f64) list" where
  "anchor_relations d t =
     (case st_anchor t of None \<Rightarrow> [] | Some a \<Rightarrow>
        List.map_filter (\<lambda>r. if er_source r = a
          then map_option (\<lambda>e. (er_confidence r, st_id t, en_name e, en_type e, er_confidence r))
                 (List.find (\<lambda>e. en_id e = er_target r) (db_entities (rd_signals d)))
          else None) (rd_relations d))"

definition decisions_of :: "int list \<Rightarrow> decision_row list \<Rightarrow> decision_row list" where
  "decisions_of ids ds = sort_by (\<lambda>a b. d_created_at b \<le> d_created_at a)
     (filter (\<lambda>r. \<exists>t \<in> set ids. d_signal_thread_id r = Some t) ds)"

definition thread_row :: "decision_row \<Rightarrow> int \<times> decision_row" where
  "thread_row r = (case d_signal_thread_id r of Some t \<Rightarrow> t | None \<Rightarrow> 0, r)"

text \<open>Of each decision the evaluation with the largest id.\<close>

definition latest_evaluation :: "decision_evaluation list \<Rightarrow> int \<Rightarrow> string option" where
  "latest_evaluation evs did =
     (case filter (\<lambda>e. ev_decision_id e = did) evs of [] \<Rightarrow> None
      | e # es \<Rightarrow> Some (evaluation_result_str (ev_evaluation (fold (\<lambda>x best. if ev_id best < ev_id x then x else best) es e))))"

definition get_context_bundle :: "int list \<Rightarrow> context_bundle bw_io" where
  "get_context_bundle ids =
     (if ids = [] then io_ret empty_bundle
      else io_bind (on_reads (rd_query (\<lambda>d. map snd (take 50 (sort_by conf_desc
               (concat (map (anchor_relations d) (filter (\<lambda>t. st_id t \<in> set ids) (db_threads (rd_signals d))))))))))
        (\<lambda>ents. io_bind (bw_query (\<lambda>w. decisions_of ids (bw_decisions w))) (\<lambda>ds.
           let dids = map d_id ds; groups = group_rows (map thread_row ds) in
           if ds = [] then io_ret \<lparr>cbn_entities = group_rows ents, cbn_decisions = groups, cbn_evaluations = Map.empty\<rparr>
           else io_bind (bw_query (\<lambda>w. latest_evaluation (bw_evaluations w))) (\<lambda>latest.
             io_ret \<lparr>cbn_entities = group_rows ents, cbn_decisions = groups,
               cbn_evaluations = (\<lambda>i. if i \<in> set dids then latest i else None)\<rparr>))))"

definition with_decisions :: "context_bundle \<Rightarrow> signal_brief_input \<Rightarrow> briefing_signal" where
  "with_decisions b i =
     (let s = briefing_signal_of i in
      case cbn_decisions b (bi_thread i) of None \<Rightarrow> s
      | Some ds \<Rightarrow> s\<lparr>bs_context := (bs_context s)\<lparr>bct_decisions := map (\<lambda>r. \<lparr>dct_id = d_id r, dct_title = d_title r,
          dct_status = d_status r, dct_evaluation = cbn_evaluations b (d_id r)\<rparr>) ds\<rparr>\<rparr>)"

section \<open>The signals of today\<close>

record today_signal =
  td_id :: string
  td_title :: string
  td_summary :: string
  td_confidence :: f64
  td_evidence_count :: int
  td_trend :: string
  td_articles :: "signal_evidence list"

definition today_signal_of :: "entity_signal_candidate \<Rightarrow> today_signal" where
  "today_signal_of c =
     \<lparr>td_id = ''entity_'' @ show_i64 (ec_entity c), td_title = ec_name c,
      td_summary = ec_name c @ '' '' @ em_dash @ '' '' @ show_i64 (ec_articles c) @ '' articles across '' @
        show_i64 (ec_sources c) @ '' sources. Score: '' @ fmt_fixed 1 (ec_avg c) @ '', Trend: '' @ ec_trend c,
      td_confidence = fmin (ec_score c) (Fin 1), td_evidence_count = int (length (ec_evidence c)),
      td_trend = ec_trend c, td_articles = ec_evidence c\<rparr>"

definition signals_today :: "(f64 list \<Rightarrow> f64) \<Rightarrow> int \<Rightarrow> today_signal list rd_io" where
  "signals_today avg now =
     io_bind (on_signals (d1_entity_signal_candidates avg now 7 30)) (\<lambda>cs. io_ret (map today_signal_of cs))"

definition today_candidate :: "today_signal \<Rightarrow> briefing_signal" where
  "today_candidate s =
     \<lparr>bs_id = td_id s, bs_title = td_title s, bs_category = '''', bs_summary = td_summary s,
      bs_article_count = int (length (td_articles s)), bs_source_count = 1, bs_avg_score = td_confidence s,
      bs_trend = td_trend s,
      bs_articles = map (\<lambda>a. \<lparr>brief_article.ba_id = sv_id a, ba_title = sv_title a, ba_url = sv_url a, ba_feed = sv_feed a,
        ba_score = sv_score a\<rparr>) (td_articles s),
      bs_context = \<lparr>bct_entities = [], bct_decisions = []\<rparr>\<rparr>"

definition fallback_signals_today ::
  "(f64 list \<Rightarrow> f64) \<Rightarrow> int \<Rightarrow> brief_world \<Rightarrow> briefing_signal list option \<times> brief_world" where
  "fallback_signals_today avg now w =
     (case on_reads (signals_today avg now) w of
        (Inl _, w') \<Rightarrow> (None, w')
      | (Inr ts, w') \<Rightarrow> (if ts = [] then None else Some (map today_candidate ts), w'))"


section \<open>The job\<close>

definition date_ymd :: "int \<Rightarrow> string" where
  "date_ymd ts = (case decompose_ts ts of (y, m, d) \<Rightarrow> show_pad 4 y @ ''-'' @ show_pad 2 m @ ''-'' @ show_pad 2 d)"

definition lock_key :: "string \<Rightarrow> string" where "lock_key date = ''briefing_lock:'' @ date"
definition brief_cache_key :: "string \<Rightarrow> string" where "brief_cache_key date = ''briefing:'' @ date"
definition provenance_key :: "string \<Rightarrow> string" where "provenance_key date = ''briefing_provenance:'' @ date"

text \<open>The codecs and the model: what the job takes from outside the repository.\<close>

record brief_env =
  be_unicode :: unicode
  be_from_json :: "string \<Rightarrow> (string, generated_insight list) result"
  be_summarizer :: "summarizer option"
  be_to_json :: "briefing \<Rightarrow> string"
  be_envelope :: "briefing \<Rightarrow> int \<Rightarrow> string"      \<comment> \<open>schema 1, type \<open>daily_briefing\<close>, date, content, counts, time\<close>
  be_metadata :: "int \<Rightarrow> nat \<Rightarrow> string"
  be_provenance :: "briefing \<Rightarrow> int \<Rightarrow> string"
  be_open_envelope :: "string \<Rightarrow> (int \<times> string \<times> string) option"   \<comment> \<open>version, type and the text of the content\<close>
  be_avg :: "f64 list \<Rightarrow> f64"

text \<open>The upsert keeps the id and the creation time of the row of the type and date.\<close>

definition put_artifact :: "string \<Rightarrow> string \<Rightarrow> string \<Rightarrow> int option \<Rightarrow> string option \<Rightarrow> brief_world \<Rightarrow> (store_error, int) result \<times> brief_world" where
  "put_artifact ty date key bytes meta w =
     (case on_reads (rd_query (\<lambda>_. ())) w of
        (Inl e, w') \<Rightarrow> (Inl e, w')
      | (Inr _, w') \<Rightarrow>
          (case List.find (\<lambda>a. ar_type a = ty \<and> ar_date a = date) (bw_artifacts w') of
             Some old \<Rightarrow> (Inr (ar_id old), w'\<lparr>bw_artifacts := map (\<lambda>a. if ar_type a = ty \<and> ar_date a = date
                 then a\<lparr>ar_object_key := key, ar_schema_version := 1, ar_content_hash := None, ar_size_bytes := bytes,
                        ar_metadata := meta\<rparr> else a) (bw_artifacts w')\<rparr>)
           | None \<Rightarrow> (Inr (bw_next_artifact w'),
               w'\<lparr>bw_artifacts := bw_artifacts w' @ [\<lparr>ar_id = bw_next_artifact w', ar_type = ty, ar_date = date,
                    ar_object_key = key, ar_schema_version = 1, ar_content_hash = None, ar_size_bytes = bytes,
                    ar_metadata = meta, ar_created_at = bw_clock w'\<rparr>],
                  bw_next_artifact := bw_next_artifact w' + 1\<rparr>)))"

definition archive_briefing :: "brief_env \<Rightarrow> briefing \<Rightarrow> string \<Rightarrow> int \<Rightarrow> brief_world \<Rightarrow> brief_world" where
  "archive_briefing E b date now w =
     (case bw_bucket w of None \<Rightarrow> w
      | Some bucket \<Rightarrow>
          (let env = be_envelope E b now in
           case r2_write (bw_clock w) (key_briefing date) env bucket of
             (Inl _, bucket') \<Rightarrow> w\<lparr>bw_bucket := Some bucket'\<rparr>
           | (Inr _, bucket') \<Rightarrow> snd (put_artifact ''daily_briefing'' date (key_briefing date) (Some (int (length env)))
               (Some (be_metadata E (bf_signal_count b) (length (bf_insights b)))) (w\<lparr>bw_bucket := Some bucket'\<rparr>))))"

definition generate_and_persist ::
  "brief_env \<Rightarrow> summarizer \<Rightarrow> briefing_signal list \<Rightarrow> string \<Rightarrow> int \<Rightarrow> brief_world \<Rightarrow> (string, unit) result \<times> brief_world" where
  "generate_and_persist E llm signals date now w =
     (case generate_daily_brief (be_unicode E) (be_from_json E) llm signals date now of
        Inl e \<Rightarrow> (Inl (''generation failed: '' @ e), w)
      | Inr b \<Rightarrow>
          (Inr (), cache_put (provenance_key date) (be_provenance E b (int (length signals))) 21600
             (cache_put (brief_cache_key date) (be_to_json E b) 21600 (archive_briefing E b date now w))))"

text \<open>Both paths end the same way: the lock is taken before the generation, whose error is only logged.\<close>

definition locked_generation ::
  "brief_env \<Rightarrow> summarizer \<Rightarrow> briefing_signal list \<Rightarrow> string \<Rightarrow> int \<Rightarrow> brief_world \<Rightarrow> brief_world" where
  "locked_generation E llm signals date now w =
     snd (generate_and_persist E llm signals date now (cache_put (lock_key date) ''1'' 3600 w))"

definition brief_filter :: thread_filter where
  "brief_filter = \<lparr>tf_statuses = [''active'', ''decaying''], tf_limit = 30, tf_min_score = Fin 0\<rparr>"

definition fallback_path :: "brief_env \<Rightarrow> string \<Rightarrow> int \<Rightarrow> brief_world \<Rightarrow> brief_world" where
  "fallback_path E date now w =
     (case fallback_signals_today (be_avg E) now w of
        (None, w') \<Rightarrow> w'
      | (Some cs, w') \<Rightarrow>
          (case be_summarizer E of None \<Rightarrow> w' | Some llm \<Rightarrow> locked_generation E llm cs date now w'))"

definition thread_path :: "brief_env \<Rightarrow> string \<Rightarrow> int \<Rightarrow> signal_brief_input list \<Rightarrow> brief_world \<Rightarrow> brief_world" where
  "thread_path E date now inputs w =
     (case get_context_bundle (map bi_thread inputs) w of
        (r, w') \<Rightarrow>
          (let b = (case r of Inr b \<Rightarrow> b | Inl _ \<Rightarrow> empty_bundle); cs = map (with_decisions b) inputs in
           case be_summarizer E of None \<Rightarrow> w'
           | Some llm \<Rightarrow> locked_generation E llm cs date now
               (snd (on_reads (on_signals (d1_update_signal_lifecycle now)) w'))))"

definition generate_briefing_task :: "brief_env \<Rightarrow> int \<Rightarrow> brief_world \<Rightarrow> brief_world" where
  "generate_briefing_task E now w0 =
     (let date = date_ymd now in
      case cache_get (lock_key date) w0 of
        (Some _, w) \<Rightarrow> w
      | (None, w) \<Rightarrow>
          (if bw_db w = None then w
           else
             (case on_reads (list_signal_threads (bw_clock w) brief_filter) w of
                (Inl _, w') \<Rightarrow> w'
              | (Inr inputs, w') \<Rightarrow> if inputs = [] then fallback_path E date now w' else thread_path E date now inputs w')))"

section \<open>Reading\<close>

datatype brief_answer = BriefFound string | BriefProcessing | BriefUnavailable | BriefCorrupted

definition load_today_briefing :: "string \<Rightarrow> string option bw_io" where
  "load_today_briefing date = bw_query (\<lambda>w. map_option (snd \<circ> snd) (List.find (\<lambda>(_, d, _). d = date) (bw_briefs w)))"

definition read_briefing_from_r2 :: "brief_env \<Rightarrow> string \<Rightarrow> brief_world \<Rightarrow> string option \<times> brief_world" where
  "read_briefing_from_r2 E date w =
     (case bw_bucket w of None \<Rightarrow> (None, w)
      | Some bucket \<Rightarrow>
          (case r2_read (key_briefing date) bucket of
             (r, bucket') \<Rightarrow>
               (case r of Inr (Some text) \<Rightarrow>
                    (case be_open_envelope E text of
                       Some (v, ty, content) \<Rightarrow> if v \<noteq> 1 \<or> ty \<noteq> ''daily_briefing'' then None else Some content
                     | None \<Rightarrow> None)
                | _ \<Rightarrow> None, w\<lparr>bw_bucket := Some bucket'\<rparr>)))"

text \<open>\<open>valid\<close> says whether a text is JSON.\<close>

definition today_briefing :: "brief_env \<Rightarrow> (string \<Rightarrow> bool) \<Rightarrow> brief_world \<Rightarrow> brief_answer \<times> brief_world" where
  "today_briefing E valid w0 =
     (let date = date_ymd (bw_clock w0) in
      case cache_get (brief_cache_key date) w0 of
        (cached, w) \<Rightarrow>
          (if cached \<noteq> None \<and> valid (the cached) then (BriefFound (the cached), w)
           else
             (case read_briefing_from_r2 E date w of
                (Some b, w1) \<Rightarrow> (BriefFound b, cache_put (brief_cache_key date) b 86400 w1)
              | (None, w1) \<Rightarrow>
                  (case load_today_briefing date w1 of
                     (Inr (Some content), w2) \<Rightarrow>
                       (if valid content then (BriefFound content, cache_put (brief_cache_key date) content 86400 w2)
                        else (BriefCorrupted, w2))
                   | (Inr None, w2) \<Rightarrow> (BriefProcessing, w2)
                   | (Inl _, w2) \<Rightarrow> (BriefUnavailable, w2)))))"

end
