(* ===== verification/SignalReadsProps.thy ===== *)
theory SignalReadsProps
  imports SignalReads SignalProps
begin

text \<open>
  Properties of the signal read models: the batch queries of the radar give what the per-thread
  queries give, the health shown in a detail is bounded, and what the merged timeline contains.
\<close>

section \<open>Stable sorting and grouping\<close>






definition or_none :: "'a list option \<Rightarrow> 'a list" where
  "or_none x = (case x of Some ys \<Rightarrow> ys | None \<Rightarrow> [])"

lemma or_none_simps [simp]: "or_none None = []" "or_none (Some ys) = ys"
  by (simp_all add: or_none_def)






lemma rd_query_quiet: "db_faults (rd_signals d) = [] \<Longrightarrow> rd_query f d = (Inr (f d), d)"
  by (simp add: rd_query_def db_statement_def)

section \<open>Batch and per-thread queries\<close>




















definition read_article :: "int \<Rightarrow> f64 \<Rightarrow> db_article" where
  "read_article i score = \<lparr>at_id = i, at_feed = 1, at_title = ''t'', at_url = None, at_published = None,
     at_vector = None, at_score = score, at_created = 0\<rparr>"

definition read_instance :: "int \<Rightarrow> int \<Rightarrow> signal_instance" where
  "read_instance i tid = \<lparr>si_id = i, si_thread = tid, si_anchor = Some 7, si_score = Fin 5, si_confidence = Fin 1,
     si_impact = ''x'', si_trend = ''stable'', si_articles = 2, si_sources = 1, si_avg = Fin 5, si_created = i\<rparr>"

definition read_sample :: "(int \<times> int) list \<Rightarrow> read_db" where
  "read_sample evidence =
     \<lparr>rd_signals = (sample_db [sample_thread ''active'' 4])\<lparr>db_articles := [read_article 10 (Fin 3), read_article 11 (Fin 8)],
        db_instances := [read_instance 20 1, read_instance 21 1],
        db_entities := [\<lparr>en_id = 8, en_name = ''Rust'', en_type = ''tool''\<rparr>]\<rparr>,
      rd_evidence = evidence,
      rd_relations = [\<lparr>er_source = 7, er_target = 8, er_confidence = Fin 1\<rparr>], rd_events = []\<rparr>"


text \<open>
  Without that condition they differ: an article that is evidence of two signals of a thread is
  listed twice by the batch query, and takes two of the ten places.
\<close>

lemma batch_lists_article_twice:
  "map ba_id (case thread_evidence 1 (read_sample [(20, 10), (21, 10)]) of (Inr xs, _) \<Rightarrow> xs | _ \<Rightarrow> []) = [10]"
  "map ba_id (case batch_evidence [1] (read_sample [(20, 10), (21, 10)]) of (Inr m, _) \<Rightarrow> or_none (m 1) | _ \<Rightarrow> []) = [10, 10]"
  by code_simp+

section \<open>The health of a detail\<close>

lemma total_days_ge_1: "fle (Fin 1) (total_days is)"
proof -
  have "fle (Fin 1) (fmax x (Fin 1))" for x by (cases x) auto
  then show ?thesis by (simp add: total_days_def)
qed

lemma total_days_positive: "\<not> flt (total_days is) (Fin 0)" "nan_or_nonneg (total_days is)"
  using total_days_ge_1 [of "is"] by (cases "total_days is"; simp)+

lemma round2_unit: "between 0 1 x \<Longrightarrow> between 0 1 (round2 x)"
proof -
  assume x: "between 0 1 x"
  then have two: "between 0 2 x" by (auto simp: between_iff)
  have "round2 (Fin 0) = Fin 0" by code_simp
  with round2_mono [of "Fin 0" x] round2_mono [of x "Fin 1"] x two round2_one
  show ?thesis by (simp add: between_fle)
qed

lemma detail_factors:
  assumes "0 \<le> bi_recent i" "0 \<le> bi_sources i" "bi_score i \<noteq> NaN"
  shows "between 0 1 (detail_volume i)" "between 0 1 (detail_diversity i)" "between 0 1 (detail_quality i)"
    "between 0 1 (detail_persistence i)"
  unfolding detail_volume_def detail_diversity_def detail_quality_def detail_persistence_def
  using assms total_days_positive
  by (simp_all add: round2_unit factor_between fdiv_nonneg count_nonneg clamp_div_between)

text \<open>
  The health shown in a detail and its components lie in [0, 1] for every non-negative count and
  every age of the instances, and the score is never below the credit of a declining trend.
\<close>

lemma detail_health_bounds:
  assumes "0 \<le> bi_recent i" "0 \<le> bi_sources i" "bi_score i \<noteq> NaN"
  shows "fle (lit64 0.03) (hd_score (build_health i)) \<and> fle (hd_score (build_health i)) (Fin 1) \<and>
    list_all (between 0 1) [hc_volume (hd_components (build_health i)), hc_diversity (hd_components (build_health i)),
      hc_quality (hd_components (build_health i)), hc_velocity (hd_components (build_health i)),
      hc_persistence (hd_components (build_health i))]"
proof -
  note f = detail_factors [OF assms]
  from health_bounds [of "detail_volume i" "detail_diversity i" "detail_quality i" "bi_trend i"] f
  show ?thesis by (simp add: build_health_def Let_def trend_velocity_between)
qed

section \<open>The timeline of a detail\<close>

lemma dedup_by_subset: "set (dedup_by same xs) \<subseteq> set xs"
  by (induction same xs rule: dedup_by.induct) auto

lemma hd_dedup_by: "xs \<noteq> [] \<Longrightarrow> dedup_by same xs \<noteq> [] \<and> hd (dedup_by same xs) = hd xs"
  by (induction same xs rule: dedup_by.induct) auto

lemma dedup_by_sorted:
  assumes "sorted_wrt newest_first xs"
  shows "sorted_wrt newest_first (dedup_by same xs)"
  using assms
proof (induction same xs rule: dedup_by.induct)
  case (1 same x y ys)
  then show ?case using dedup_by_subset [of same "y # ys"] by (auto split: if_splits)
qed auto

lemma same_moment_trans: "same_moment a b \<Longrightarrow> same_moment b c \<Longrightarrow> same_moment a c"
  by (simp add: same_moment_def)

lemma dedup_by_covers: "e \<in> set xs \<Longrightarrow> \<exists>e' \<in> set (dedup_by same_moment xs). same_moment e e'"
proof (induction same_moment xs arbitrary: e rule: dedup_by.induct)
  case (1 x y ys)
  show ?case
  proof (cases "same_moment y x")
    case True
    then obtain e0 where e0: "e0 \<in> set (x # ys)" "same_moment e e0"
      using 1(3) by (auto simp: same_moment_def)
    from 1(1) [OF True e0(1)] True same_moment_trans [OF e0(2)] show ?thesis by auto
  next
    case False
    have "same_moment x x" by (simp add: same_moment_def)
    with False 1(2) [OF False] 1(3) show ?thesis by auto
  qed
qed (auto simp: same_moment_def)

lemma merge_events_sorted: "sorted_wrt newest_first (merge_events own others)"
  unfolding merge_events_def
  by (intro dedup_by_sorted sort_by_sorted) (auto simp: newest_first_def)


text \<open>
  The timeline a detail shows: with no stored event the timeline built from the instances, oldest
  first; else newest first, only events of either source, and every event of either source up to one
  of the same second and type.
\<close>

lemma detail_timeline:
  assumes "thread_detail from_json Q None tid s = (Inr (Some d'), s')"
  obtains d s1 es where "sq_detail Q tid s = (Inr (Some d), s1)" "sq_events Q tid 50 s1 = (Inr es, s')"
    and "es = [] \<Longrightarrow> dt_timeline d' = dt_timeline d"
    and "es \<noteq> [] \<Longrightarrow> sorted_wrt newest_first (dt_timeline d')"
    and "es \<noteq> [] \<Longrightarrow> set (dt_timeline d') \<subseteq> set (dt_timeline d) \<union> set (map (stored_event from_json) es)"
    and "es \<noteq> [] \<Longrightarrow> e \<in> set (dt_timeline d) \<union> set (map (stored_event from_json) es) \<Longrightarrow>
           \<exists>e' \<in> set (dt_timeline d'). same_moment e e'"
proof -
  from assms obtain d s1 es where f: "sq_detail Q tid s = (Inr (Some d), s1)" "sq_events Q tid 50 s1 = (Inr es, s')"
    and t: "dt_timeline d' = (if es = [] then dt_timeline d else merge_events (dt_timeline d) (map (stored_event from_json) es))"
    by (auto simp: thread_detail_def merge_signal_events_def merge_stored_events_def io_bind_Inr_iff Let_def io_ret_def
        split: option.splits)
  show thesis
  proof (rule that [OF f])
    show "set (dt_timeline d') \<subseteq> set (dt_timeline d) \<union> set (map (stored_event from_json) es)" if "es \<noteq> []"
      using that t dedup_by_subset [of same_moment "sort_by newest_first (dt_timeline d @ map (stored_event from_json) es)"]
      by (auto simp: merge_events_def)
    show "\<exists>e' \<in> set (dt_timeline d'). same_moment e e'"
      if "es \<noteq> []" "e \<in> set (dt_timeline d) \<union> set (map (stored_event from_json) es)"
      using that t dedup_by_covers [of e "sort_by newest_first (dt_timeline d @ map (stored_event from_json) es)"]
      by (simp add: merge_events_def)
  qed (use t merge_events_sorted in auto)
qed

section \<open>The threads of an entity\<close>

text \<open>
  The limit is applied to all threads by health and the entity is looked for in what is left: the
  listing is a part of the first \<open>limit\<close> threads, so an entity's thread behind \<open>limit\<close> healthier ones
  of other entities is never listed, whatever the limit was meant for.
\<close>

lemma entity_threads_of_window:
  assumes "entity_threads (d1_signal_query now) k limit d = (Inr ts, d')" "db_faults (rd_signals d) = []"
  shows "set (map ts_thread_id ts) \<subseteq> set (map st_id (take limit (sort_by by_health
    (filter (\<lambda>t. st_status t \<in> {''active'', ''decaying'', ''resolved'', ''archived''}) (db_threads (rd_signals d))))))"
proof -
  have "map bi_thread bs = map (st_id \<circ> fst) ts" if "io_mapM (assemble_thread r v) ts d1 = (Inr bs, d2)"
    for r v ts bs d1 d2
    using that
  proof (induction ts arbitrary: bs d1)
    case (Cons t ts)
    then show ?case by (cases t) (fastforce simp: io_bind_Inr_iff assemble_thread_def io_ret_def)
  qed (simp add: io_ret_def)
  moreover have "thread_passes \<lparr>tf_statuses = [''active'', ''decaying'', ''resolved'', ''archived''], tf_limit = limit,
      tf_min_score = Fin 0\<rparr> = (\<lambda>t. st_status t \<in> {''active'', ''decaying'', ''resolved'', ''archived''})"
    by (auto simp: thread_passes_def fun_eq_iff)
  moreover from assms obtain bs where
    "list_signal_threads now \<lparr>tf_statuses = [''active'', ''decaying'', ''resolved'', ''archived''], tf_limit = limit,
       tf_min_score = Fin 0\<rparr> d = (Inr bs, d')" "ts = map thread_summary_of (filter (anchored_at k) bs)"
    by (auto simp: entity_threads_def d1_signal_query_def io_bind_Inr_iff io_map_err_def io_ret_def split: prod.splits sum.splits)
  ultimately have "map bi_thread bs = map st_id (take limit (sort_by by_health
      (filter (\<lambda>t. st_status t \<in> {''active'', ''decaying'', ''resolved'', ''archived''}) (db_threads (rd_signals d)))))"
    using assms(2)
    by (fastforce simp: list_signal_threads_def io_bind_Inr_iff list_threads_def rd_query_quiet o_def)
  moreover have "set (map ts_thread_id ts) \<subseteq> set (map bi_thread bs)"
    using \<open>ts = _\<close> by (auto simp: thread_summary_of_def)
  ultimately show ?thesis by simp
qed

end
