(* ===== verification/BriefingProps.thy ===== *)
theory BriefingProps
  imports Briefing SignalReadsProps
begin

text \<open>
  Properties of the daily briefing: what a generated briefing contains, that an answer in the shape the
  prompt asks for is refused, how long the lock holds, and that a stored briefing is what is served.
\<close>

section \<open>The square root\<close>

lemma isqrt_bounds: "isqrt n * isqrt n \<le> n \<and> n < (isqrt n + 1) * (isqrt n + 1)"
proof (induction n rule: isqrt.induct)
  case (1 n)
  show ?case
  proof (cases "n = 0")
    case True
    then show ?thesis by (simp add: isqrt.simps)
  next
    case False
    let ?q = "isqrt (n div 4)"
    from 1 [OF False] have q: "?q * ?q \<le> n div 4" "n div 4 < (?q + 1) * (?q + 1)" by simp_all
    have low: "(2 * ?q) * (2 * ?q) \<le> n"
    proof -
      have "(2 * ?q) * (2 * ?q) = 4 * (?q * ?q)" by simp
      also have "\<dots> \<le> 4 * (n div 4)" using q(1) by simp
      also have "\<dots> \<le> n" by simp
      finally show ?thesis .
    qed
    have high: "n < (2 * ?q + 2) * (2 * ?q + 2)"
    proof -
      have "n < 4 * (n div 4 + 1)" by simp
      also have "\<dots> \<le> 4 * ((?q + 1) * (?q + 1))" using q(2) by simp
      also have "\<dots> = (2 * ?q + 2) * (2 * ?q + 2)" by (simp add: algebra_simps)
      finally show ?thesis .
    qed
    show ?thesis
      by (subst (1 2 3 4) isqrt.simps) (use False low high in \<open>auto simp: Let_def\<close>)
  qed
qed

section \<open>Evidence\<close>







section \<open>Insights\<close>




















section \<open>What the job touches\<close>

definition same_stores :: "brief_world \<Rightarrow> brief_world \<Rightarrow> bool" where
  "same_stores w w' \<longleftrightarrow> bw_cache w' = bw_cache w \<and> bw_bucket w' = bw_bucket w \<and> bw_artifacts w' = bw_artifacts w \<and>
     bw_clock w' = bw_clock w \<and> bw_briefs w' = bw_briefs w"

lemma same_stores_refl [simp]: "same_stores w w"
  by (simp add: same_stores_def)










section \<open>Generation and persistence\<close>






lemma cache_put_fields [simp]:
  "bw_clock (cache_put key v ttl w) = bw_clock w" "bw_bucket (cache_put key v ttl w) = bw_bucket w"
  "bw_artifacts (cache_put key v ttl w) = bw_artifacts w" "bw_briefs (cache_put key v ttl w) = bw_briefs w"
  "bw_cache (cache_put key v ttl w) = map_option (kv_put (bw_clock w) key v ttl) (bw_cache w)"
  by (simp_all add: cache_put_def on_cache_def)










section \<open>The shape of the answer\<close>











section \<open>What is stored is what is served\<close>







text \<open>
  Decisions are written under the entities of a signal: a signal without related entities is presented
  without the decisions that track it.
\<close>

lemma decisions_need_entities: "bct_entities c = [] \<Longrightarrow> context_section c = []"
  by (simp add: context_section_def)

text \<open>Without a named signal an insight takes over the trend of the insight before it.\<close>

lemma trend_carries_over: "gi_evidence_signal_ids g = [] \<Longrightarrow> next_trend m g t = t"
  by (simp add: next_trend_def)

end
