(* ===== verification/DecisionReads.thy ===== *)
theory DecisionReads
  imports SignalReads MemoryStore EventKeys
begin

text \<open>
  The read side of the application layer: the decision graph (\<open>application/src/graph.rs\<close>), the timeline
  and the explanation of a decision (\<open>services/decision_read.rs\<close>), the radar (\<open>radar.rs\<close>) and the trust
  report (\<open>services/trust.rs\<close>).  The services are generic over the store; its read methods are a record
  of ports on a state \<open>'s\<close>, which the in-memory store provides at the end.
\<close>

section \<open>Ports\<close>

record 's decision_reads =
  dr_list :: "string option \<Rightarrow> nat \<Rightarrow> ('s, store_error, decision_row list) io"
  dr_find :: "int \<Rightarrow> ('s, store_error, decision_row option) io"
  dr_outcomes :: "int \<Rightarrow> ('s, store_error, outcome_event list) io"
  dr_evaluations :: "int \<Rightarrow> ('s, store_error, decision_evaluation list) io"
  dr_reflection :: "int \<Rightarrow> ('s, store_error, reflection_row option) io"
  dr_history :: "string \<Rightarrow> string \<Rightarrow> ('s, store_error, confidence_event list) io"
  dr_signal_detail :: "int \<Rightarrow> ('s, store_error, signal_detail option) io"
  dr_traces :: "int \<Rightarrow> ('s, store_error, json list) io"

text \<open>A read whose failure counts as \<open>d\<close>: \<open>if let Ok\<close>, \<open>unwrap_or_default\<close>, \<open>ok().flatten()\<close>.\<close>

definition io_soft :: "'a \<Rightarrow> ('s, 'e, 'a) io \<Rightarrow> ('s, 'e, 'a) io" where
  "io_soft d m s = (case m s of (Inl _, s') \<Rightarrow> (Inr d, s') | (Inr a, s') \<Rightarrow> (Inr a, s'))"

section \<open>The graph\<close>

datatype graph_node_type = SignalNode | DecisionNode | OutcomeNode | ReflectionNode | MemoryNode | StrategyNode | ClaimNode

datatype graph_edge_type =
  EvidenceFor | Influenced | Triggered | ResultedIn | EvaluatedBy | LearnedFrom | AlignedWith |
  EvidenceSupportsClaim | ClaimGeneratesSignal

record graph_node_data =
  nd_confidence :: "f64 option"
  nd_status :: "string option"
  nd_source_count :: "int option"
  nd_article_count :: "int option"
  nd_url :: "string option"

record graph_node =
  gn_id :: string
  gn_entity_id :: int
  gn_type :: graph_node_type
  gn_title :: string
  gn_data :: graph_node_data

record graph_edge =
  ge_source :: string
  ge_target :: string
  ge_type :: graph_edge_type

record graph_response =
  gr_projection :: string
  gr_root_id :: string
  gr_root_type :: graph_node_type
  gr_nodes :: "graph_node list"
  gr_edges :: "graph_edge list"
  gr_generated_at :: int

definition empty_graph :: "string \<Rightarrow> graph_response" where
  "empty_graph p = \<lparr>gr_projection = p, gr_root_id = '''', gr_root_type = DecisionNode, gr_nodes = [], gr_edges = [],
     gr_generated_at = 0\<rparr>"

definition decision_node :: "decision_row \<Rightarrow> graph_node" where
  "decision_node d =
     \<lparr>gn_id = agg_decision (d_id d), gn_entity_id = d_id d, gn_type = DecisionNode, gn_title = d_title d,
      gn_data = \<lparr>nd_confidence = Some (d_confidence d), nd_status = Some (d_status d), nd_source_count = None,
        nd_article_count = None, nd_url = Some (''/intelligence/decisions/'' @ show_i64 (d_id d))\<rparr>\<rparr>"

definition signal_node :: "int \<Rightarrow> graph_node" where
  "signal_node n =
     \<lparr>gn_id = agg_signal n, gn_entity_id = n, gn_type = SignalNode, gn_title = ''Signal #'' @ show_i64 n,
      gn_data = \<lparr>nd_confidence = None, nd_status = None, nd_source_count = None, nd_article_count = None,
        nd_url = Some (''/intelligence/signals/'' @ show_i64 n)\<rparr>\<rparr>"

definition outcome_node :: "outcome_event \<Rightarrow> graph_node" where
  "outcome_node oc =
     \<lparr>gn_id = agg_outcome (o_id oc), gn_entity_id = o_id oc, gn_type = OutcomeNode, gn_title = o_outcome_type oc,
      gn_data = \<lparr>nd_confidence = None, nd_status = Some (o_observation oc), nd_source_count = None,
        nd_article_count = None, nd_url = None\<rparr>\<rparr>"

definition influence_edge :: "int \<Rightarrow> int \<Rightarrow> graph_edge" where
  "influence_edge n d = \<lparr>ge_source = agg_signal n, ge_target = agg_decision d, ge_type = Influenced\<rparr>"

definition result_edge :: "int \<Rightarrow> outcome_event \<Rightarrow> graph_edge" where
  "result_edge d oc = \<lparr>ge_source = agg_decision d, ge_target = agg_outcome (o_id oc), ge_type = ResultedIn\<rparr>"

definition decision_part :: "decision_row \<Rightarrow> graph_node list \<times> graph_edge list" where
  "decision_part d =
     (case d_signal_thread_id d of None \<Rightarrow> ([decision_node d], [])
      | Some n \<Rightarrow> ([decision_node d, signal_node n], [influence_edge n (d_id d)]))"

definition outcome_part :: "(int \<Rightarrow> outcome_event list option) \<Rightarrow> decision_row \<Rightarrow> graph_node list \<times> graph_edge list" where
  "outcome_part m d =
     (case m (d_id d) of None \<Rightarrow> ([], [])
      | Some os \<Rightarrow> (map outcome_node os, map (result_edge (d_id d)) os))"

fun graph_outcomes :: "'s decision_reads \<Rightarrow> int list \<Rightarrow> (int \<Rightarrow> outcome_event list option)
    \<Rightarrow> ('s, store_error, int \<Rightarrow> outcome_event list option) io" where
  "graph_outcomes R [] m = io_ret m"
| "graph_outcomes R (i # is) m =
     io_bind (io_soft None (io_bind (dr_outcomes R i) (\<lambda>os. io_ret (Some os)))) (\<lambda>r.
       graph_outcomes R is (case r of None \<Rightarrow> m | Some os \<Rightarrow> m(i \<mapsto> os)))"

definition build_decision_graph :: "'s decision_reads \<Rightarrow> nat \<Rightarrow> ('s, store_error, graph_response) io" where
  "build_decision_graph R limit =
     io_bind (dr_list R None limit) (\<lambda>ds.
       if ds = [] then io_ret (empty_graph ''decision-graph'')
       else io_bind (graph_outcomes R (map d_id ds) Map.empty) (\<lambda>m.
         let parts = map decision_part ds @ map (outcome_part m) ds
         in io_ret \<lparr>gr_projection = ''decision-graph'', gr_root_id = agg_decision (d_id (hd ds)), gr_root_type = DecisionNode,
              gr_nodes = concat (map fst parts), gr_edges = concat (map snd parts), gr_generated_at = 0\<rparr>))"

text \<open>\<open>node_id.split('-')\<close>.\<close>

fun split_dash :: "string \<Rightarrow> string list" where
  "split_dash [] = [[]]"
| "split_dash (c # cs) =
     (if c = CHR ''-'' then [] # split_dash cs
      else (case split_dash cs of p # ps \<Rightarrow> (c # p) # ps | [] \<Rightarrow> [[c]]))"

definition node_entity_id :: "string \<Rightarrow> int" where
  "node_entity_id node_id =
     (case split_dash node_id of _ # p # _ \<Rightarrow> (case parse_i64 p of Some n \<Rightarrow> n | None \<Rightarrow> 0) | _ \<Rightarrow> 0)"

definition expand :: "'s decision_reads \<Rightarrow> string \<Rightarrow> ('s, store_error, graph_node list \<times> graph_edge list) io" where
  "expand R node_id =
     (let i = node_entity_id node_id in
      if i = 0 \<or> hd (split_dash node_id) \<noteq> ''DEC'' then io_ret ([], [])
      else io_bind (io_soft None (dr_find R i)) (\<lambda>found.
        case found of None \<Rightarrow> io_ret ([], [])
        | Some d \<Rightarrow> io_bind (io_soft [] (dr_outcomes R i)) (\<lambda>os.
            io_ret (decision_node d # map outcome_node os,
              map (result_edge (d_id d)) os @
              (case d_signal_thread_id d of None \<Rightarrow> [] | Some n \<Rightarrow> [influence_edge n (d_id d)])))))"


section \<open>The timeline of a decision\<close>

record decision_timeline_event =
  dte_timestamp :: int
  dte_event_type :: string
  dte_title :: string
  dte_description :: string

record decision_timeline =
  dtl_events :: "decision_timeline_event list"
  dtl_learning :: "string option"

definition created_entry :: "decision_row \<Rightarrow> decision_timeline_event" where
  "created_entry d =
     \<lparr>dte_timestamp = d_created_at d, dte_event_type = ''decision.created'', dte_title = ''Decision registered'',
      dte_description = ''Status: '' @ d_status d @ '', Confidence: '' @
        fmt_fixed 0 (fmul binary64 (d_confidence d) (Fin 100)) @ ''%''\<rparr>"

definition outcome_entry :: "outcome_event \<Rightarrow> decision_timeline_event" where
  "outcome_entry oc =
     \<lparr>dte_timestamp = o_observed_at oc, dte_event_type = ''outcome.observed'', dte_title = ''Outcome: '' @ o_outcome_type oc,
      dte_description = o_observation oc\<rparr>"

definition evaluation_entry :: "decision_evaluation \<Rightarrow> decision_timeline_event" where
  "evaluation_entry e =
     \<lparr>dte_timestamp = ev_evaluated_at e, dte_event_type = ''decision.evaluated'',
      dte_title = ''Judgment: '' @ evaluation_result_str (ev_evaluation e),
      dte_description = (case ev_reasoning e of Some r \<Rightarrow> r | None \<Rightarrow> '''')\<rparr>"

definition reflection_entries :: "reflection_row option \<Rightarrow> decision_timeline_event list" where
  "reflection_entries r =
     (case r of None \<Rightarrow> []
      | Some row \<Rightarrow> (case r_started_at row of None \<Rightarrow> []
          | Some started \<Rightarrow> [\<lparr>dte_timestamp = started, dte_event_type = ''reflection.generated'', dte_title = ''AI Reflection'',
              dte_description = (case r_result row of Some t \<Rightarrow> t | None \<Rightarrow> '''')\<rparr>]))"

definition before :: "decision_timeline_event \<Rightarrow> decision_timeline_event \<Rightarrow> bool" where
  "before a b \<longleftrightarrow> dte_timestamp a \<le> dte_timestamp b"

definition timeline :: "'s decision_reads \<Rightarrow> int \<Rightarrow> ('s, store_error, decision_timeline option) io" where
  "timeline R i =
     io_bind (dr_find R i) (\<lambda>found.
     case found of None \<Rightarrow> io_ret None
     | Some d \<Rightarrow>
         io_bind (io_soft [] (dr_outcomes R i)) (\<lambda>os.
         io_bind (io_soft [] (dr_evaluations R i)) (\<lambda>evs.
         io_bind (io_soft None (dr_reflection R i)) (\<lambda>r.
         io_bind (io_soft None (dr_reflection R i)) (\<lambda>r'.
           io_ret (Some \<lparr>dtl_events = sort_by before
               (created_entry d # map outcome_entry os @ map evaluation_entry evs @ reflection_entries r),
             dtl_learning = Option.bind r' r_result\<rparr>))))))"

section \<open>The explanation of a decision\<close>

record supporting_evidence =
  sup_title :: string
  sup_strength :: f64
  sup_source :: "string option"

record confidence_driver =
  drv_factor :: string
  drv_impact :: string

record framework_trace =
  frt_id :: string
  frt_name :: string
  frt_category :: string
  frt_relevance :: f64
  frt_reasoning :: string

record decision_explanation =
  dx_decision_id :: string
  dx_decision_title :: string
  dx_hypothesis :: "string option"
  dx_confidence :: f64
  dx_trend :: string
  dx_evidence :: "supporting_evidence list"
  dx_drivers :: "confidence_driver list"
  dx_uncertainties :: "string list"
  dx_outcome_summary :: "string option"
  dx_frameworks :: "framework_trace list"

definition confidence_trend :: "confidence_event list \<Rightarrow> string" where
  "confidence_trend es =
     (if 2 \<le> length es then
        (let latest = last es; prev = es ! (length es - 2) in
         if flt (or_f64 (ce_previous_confidence prev)) (ce_confidence latest) then ''increasing''
         else if flt (ce_confidence latest) (ce_confidence prev) then ''decreasing'' else ''stable'')
      else ''stable'')"

definition evidence_of :: "signal_detail option \<Rightarrow> supporting_evidence list" where
  "evidence_of d =
     (case d of None \<Rightarrow> []
      | Some x \<Rightarrow> map (\<lambda>a. \<lparr>sup_title = brief_article.ba_title a, sup_strength = fclamp (brief_article.ba_score a) (Fin 0) (Fin 1),
          sup_source = brief_article.ba_feed a\<rparr>) (dt_evidence_top x))"

definition summarise_outcomes :: "outcome_event list \<Rightarrow> string option" where
  "summarise_outcomes os =
     (if os = [] then None
      else Some (dec_nat (length (filter (\<lambda>oc. o_outcome_type oc \<in> {''confirmed'', ''prediction_correct''}) os)) @ ''/'' @
        dec_nat (length os) @ '' outcomes confirmed''))"

definition drivers_of :: "nat \<Rightarrow> string \<Rightarrow> string option \<Rightarrow> confidence_driver list" where
  "drivers_of n trend hypothesis =
     (if 3 \<le> n then [\<lparr>drv_factor = ''evidence'', drv_impact = dec_nat n @ '' independent sources''\<rparr>]
      else if 1 \<le> n then [\<lparr>drv_factor = ''evidence'', drv_impact = dec_nat n @ '' source''\<rparr>] else []) @
     (if trend = ''increasing'' then [\<lparr>drv_factor = ''trend'', drv_impact = ''Confidence rising over time''\<rparr>] else []) @
     (if hypothesis \<noteq> None then [\<lparr>drv_factor = ''analysis'', drv_impact = ''Based on structured hypothesis testing''\<rparr>] else [])"

definition uncertainties_of :: "nat \<Rightarrow> string option \<Rightarrow> string list" where
  "uncertainties_of n summary =
     (if n < 5 then [''Limited number of supporting sources''] else []) @
     (if summary = None then [''Outcome not yet observed '' @ em_dash @ '' prediction pending''] else [])"

definition or_empty :: "string option \<Rightarrow> string" where
  "or_empty x = (case x of Some s \<Rightarrow> s | None \<Rightarrow> '''')"

definition trace_of :: "json \<Rightarrow> framework_trace" where
  "trace_of row =
     \<lparr>frt_id = or_empty (json_str (json_get ''framework_id'' row)), frt_name = or_empty (json_str (json_get ''name'' row)),
      frt_category = or_empty (json_str (json_get ''category'' row)),
      frt_relevance = or_f64 (json_f64 (json_get ''relevance'' row)),
      frt_reasoning = or_empty (json_str (json_get ''reasoning'' row))\<rparr>"

definition signal_evidence_of :: "'s decision_reads \<Rightarrow> decision_row \<Rightarrow> ('s, store_error, signal_detail option) io" where
  "signal_evidence_of R d =
     (case d_signal_thread_id d of None \<Rightarrow> io_ret None | Some n \<Rightarrow> io_soft None (dr_signal_detail R n))"

definition explanation :: "'s decision_reads \<Rightarrow> int \<Rightarrow> ('s, store_error, decision_explanation option) io" where
  "explanation R i =
     io_bind (dr_find R i) (\<lambda>found.
     case found of None \<Rightarrow> io_ret None
     | Some d \<Rightarrow>
         io_bind (io_soft [] (dr_history R ''decision'' (show_i64 i))) (\<lambda>es.
         io_bind (signal_evidence_of R d) (\<lambda>detail.
         io_bind (io_soft [] (dr_outcomes R i)) (\<lambda>os.
         io_bind (io_soft [] (dr_traces R i)) (\<lambda>rows.
           let trend = confidence_trend es; ev = evidence_of detail; summary = summarise_outcomes os
           in io_ret (Some \<lparr>dx_decision_id = agg_decision i, dx_decision_title = d_title d, dx_hypothesis = d_hypothesis d,
                dx_confidence = d_confidence d, dx_trend = trend, dx_evidence = ev,
                dx_drivers = drivers_of (length ev) trend (d_hypothesis d),
                dx_uncertainties = uncertainties_of (length ev) summary, dx_outcome_summary = summary,
                dx_frameworks = map trace_of rows\<rparr>))))))"


section \<open>The radar\<close>

record signal_evidence_summary =
  sgs_articles :: int
  sgs_sources :: int
  sgs_avg_score :: f64
  sgs_last_seen :: int
  sgs_velocity_24h :: int

record radar_signal_item =
  rsi_id :: int
  rsi_title :: string
  rsi_status :: string
  rsi_trend :: string
  rsi_health_score :: f64
  rsi_current_score :: f64
  rsi_evidence_count :: int
  rsi_source_count :: int
  rsi_anchor_entity :: "string option"
  rsi_signal_key :: string
  rsi_health :: signal_health
  rsi_evidence :: signal_evidence_summary
  rsi_related :: "related_entity_ref list"
  rsi_first_seen_at :: int
  rsi_last_evidence_at :: int

record radar_result =
  rdr_generated_at :: int
  rdr_signal_count :: nat
  rdr_signals :: "radar_signal_item list"

definition radar_velocity :: "string \<Rightarrow> f64" where
  "radar_velocity t = (if t = ''rising'' then lit64 0.8 else if t = ''declining'' then lit64 0.2 else lit64 0.5)"

definition articles_score :: "brief_article list option \<Rightarrow> f64" where
  "articles_score v =
     (case v of None \<Rightarrow> Fin 0
      | Some as \<Rightarrow> fdiv binary64 (fsum binary64 (map brief_article.ba_score as)) (of_i64 binary64 (int (length as))))"

definition opt_count :: "'a list option \<Rightarrow> int" where
  "opt_count v = (case v of Some xs \<Rightarrow> int (length xs) | None \<Rightarrow> 0)"

definition radar_item ::
  "(int \<Rightarrow> brief_article list option) \<Rightarrow> (int \<Rightarrow> related_entity_ref list option) \<Rightarrow> signal_brief_input \<Rightarrow> radar_signal_item" where
  "radar_item ev ents t =
     (let evidence_count = opt_count (ev (bi_thread t)); entity_count = opt_count (ents (bi_thread t))
      in \<lparr>rsi_id = bi_thread t, rsi_title = bi_title t, rsi_status = bi_status t, rsi_trend = bi_trend t,
          rsi_health_score = bi_health t, rsi_current_score = bi_score t, rsi_evidence_count = evidence_count,
          rsi_source_count = bi_sources t, rsi_anchor_entity = bi_anchor t, rsi_signal_key = bi_key t,
          rsi_health = \<lparr>sh_score = bi_health t,
            sh_breakdown = \<lparr>hb_activity = fmax (bi_score t) (Fin 0),
              hb_diversity = fmin (fdiv binary64 (of_i64 binary64 entity_count) (Fin 10)) (Fin 1),
              hb_quality = fmin (fadd binary64 (fmul binary64 (bi_health t) (lit64 0.7)) (fmul binary64 (bi_score t) (lit64 0.3))) (Fin 1),
              hb_velocity = radar_velocity (bi_trend t)\<rparr>\<rparr>,
          rsi_evidence = \<lparr>sgs_articles = evidence_count, sgs_sources = bi_sources t,
            sgs_avg_score = articles_score (ev (bi_thread t)), sgs_last_seen = 0,
            sgs_velocity_24h = to_i64 (fround (fdiv binary64 (of_i64 binary64 (max evidence_count 0)) (Fin 7)))\<rparr>,
          rsi_related = (case ents (bi_thread t) of Some xs \<Rightarrow> xs | None \<Rightarrow> []),
          rsi_first_seen_at = 0, rsi_last_evidence_at = 0\<rparr>)"

definition radar_build :: "nat \<Rightarrow> radar_result rd_io" where
  "radar_build limit =
     io_bind (get_active_signal_threads limit) (\<lambda>ts.
     io_bind (batch_evidence (map bi_thread ts)) (\<lambda>ev.
     io_bind (batch_related_entities (map bi_thread ts)) (\<lambda>ents.
       let items = map (radar_item ev ents) ts
       in io_ret \<lparr>rdr_generated_at = 0, rdr_signal_count = length items, rdr_signals = items\<rparr>)))"

section \<open>The trust report\<close>

record 's trust_reads =
  tr_health :: "('s, store_error, int) io"   \<comment> \<open>the article count of the health row\<close>
  tr_decision_stats :: "('s, store_error, decision_stats_row) io"
  tr_sources :: "('s, store_error, source_row list) io"
  tr_model :: "('s, store_error, json list) io"
  tr_calibration :: "('s, store_error, json list) io"
  tr_accuracy :: "('s, store_error, json list) io"
  tr_success :: "('s, store_error, json list) io"

record reliability_row =
  rel_name :: string
  rel_tier :: string
  rel_trust_score :: f64
  rel_verified :: bool
  rel_policy :: string

record trust_report =
  trp_signals_analyzed :: int
  trp_active_sources :: nat
  trp_total_decisions :: int
  trp_total_evaluations :: int
  trp_accuracy_rate :: "f64 option"
  trp_source_reliability :: "reliability_row list"
  trp_evaluation_summary :: "eval_summary option"
  trp_model_reliability :: "json list"
  trp_calibration :: "json list"
  trp_decision_accuracy :: "json list"
  trp_outcome_success :: "json list"

definition source_reliability :: "source_row list \<Rightarrow> reliability_row list" where
  "source_reliability ss =
     map (\<lambda>x. \<lparr>rel_name = (case s_name x of Some n \<Rightarrow> n | None \<Rightarrow> ''Unknown''), rel_tier = s_tier x,
                rel_trust_score = or_f64 (s_trust_score x), rel_verified = s_verified x, rel_policy = s_policy x\<rparr>)
       (filter (\<lambda>x. s_trust_score x \<noteq> None) ss)"

definition accuracy_rate :: "eval_summary \<Rightarrow> f64 option" where
  "accuracy_rate x =
     (if 0 < sum_total_evaluated x
      then Some (fdiv binary64 (of_i64 binary64 (sum_confirmed x)) (of_i64 binary64 (sum_total_evaluated x))) else None)"

definition io_some :: "('s, 'e, 'a) io \<Rightarrow> ('s, 'e, 'a option) io" where
  "io_some m = io_bind m (\<lambda>a. io_ret (Some a))"

definition trust_build :: "'s trust_reads \<Rightarrow> ('s, store_error, trust_report) io" where
  "trust_build T =
     io_bind (io_soft None (io_some (tr_health T))) (\<lambda>health.
     io_bind (io_soft None (io_some (tr_decision_stats T))) (\<lambda>stats.
     io_bind (io_soft [] (tr_sources T)) (\<lambda>srcs.
     io_bind (io_soft [] (tr_model T)) (\<lambda>model.
     io_bind (io_soft [] (tr_calibration T)) (\<lambda>calibration.
     io_bind (io_soft [] (tr_accuracy T)) (\<lambda>accuracy.
     io_bind (io_soft [] (tr_success T)) (\<lambda>success.
       io_ret \<lparr>trp_signals_analyzed = (case health of Some n \<Rightarrow> n | None \<Rightarrow> 0), trp_active_sources = length srcs,
         trp_total_decisions = (case stats of Some x \<Rightarrow> st_total_decisions x | None \<Rightarrow> 0),
         trp_total_evaluations = (case stats of Some x \<Rightarrow> sum_total_evaluated (st_evaluation_summary x) | None \<Rightarrow> 0),
         trp_accuracy_rate = Option.bind stats (\<lambda>x. accuracy_rate (st_evaluation_summary x)),
         trp_source_reliability = source_reliability srcs,
         trp_evaluation_summary = map_option st_evaluation_summary stats,
         trp_model_reliability = model, trp_calibration = calibration, trp_decision_accuracy = accuracy,
         trp_outcome_success = success\<rparr>)))))))"

section \<open>The ports of the in-memory store\<close>

text \<open>It has no signal details, and its framework traces are an error.\<close>

definition memory_reads :: "memory_store decision_reads" where
  "memory_reads =
     \<lparr>dr_list = list_decisions, dr_find = find_decision, dr_outcomes = list_outcomes, dr_evaluations = list_evaluations,
      dr_reflection = get_reflection_by_decision, dr_history = list_confidence_history,
      dr_signal_detail = (\<lambda>_. io_ret None), dr_traces = (\<lambda>_. io_err (D1 ''not implemented''))\<rparr>"

end
