(* ===== verification/DecisionReadsProps.thy ===== *)
theory DecisionReadsProps
  imports DecisionReads SignalReadsProps
begin

text \<open>
  Properties of the read services: the decision graph is well typed and closed, the timeline is the
  sorted union of its sources, what the explanation takes for the trend, and how many statements the
  radar runs.
\<close>

section \<open>A store whose reads succeed\<close>

text \<open>What the read services may rely on: a read returns the view of the state and changes nothing.\<close>

locale read_store =
  fixes R :: "'s decision_reads"
    and listed :: "string option \<Rightarrow> nat \<Rightarrow> 's \<Rightarrow> decision_row list"
    and found :: "int \<Rightarrow> 's \<Rightarrow> decision_row option"
    and outs :: "int \<Rightarrow> 's \<Rightarrow> outcome_event list"
    and evals :: "int \<Rightarrow> 's \<Rightarrow> decision_evaluation list"
    and refl :: "int \<Rightarrow> 's \<Rightarrow> reflection_row option"
    and hist :: "string \<Rightarrow> string \<Rightarrow> 's \<Rightarrow> confidence_event list"
  assumes list_law: "dr_list R st n s = (Inr (listed st n s), s)"
    and find_law: "dr_find R i s = (Inr (found i s), s)"
    and outcomes_law: "dr_outcomes R i s = (Inr (outs i s), s)"
    and evaluations_law: "dr_evaluations R i s = (Inr (evals i s), s)"
    and reflection_law: "dr_reflection R i s = (Inr (refl i s), s)"
    and history_law: "dr_history R ty k s = (Inr (hist ty k s), s)"
    and detail_keeps: "snd (dr_signal_detail R i s) = s"
    and traces_keep: "snd (dr_traces R i s) = s"
begin

lemmas laws = list_law find_law outcomes_law evaluations_law reflection_law history_law

lemma soft_Inr: "m s = (Inr a, s) \<Longrightarrow> io_soft d m s = (Inr a, s)"
  by (simp add: io_soft_def)

lemma soft_keeps: "snd (m s) = s \<Longrightarrow> snd (io_soft d m s) = s \<and> (\<exists>a. fst (io_soft d m s) = Inr a)"
  by (auto simp: io_soft_def split: prod.splits sum.splits)

lemma graph_outcomes_eq:
  "graph_outcomes R ids m s = (Inr (\<lambda>i. if i \<in> set ids then Some (outs i s) else m i), s)"
  by (induction ids arbitrary: m) (auto simp: io_bind_def io_ret_def io_soft_def laws fun_eq_iff)

lemma graph_total: "\<exists>g. build_decision_graph R n s = (Inr g, s)"
  by (auto simp: build_decision_graph_def io_bind_def io_ret_def graph_outcomes_eq laws Let_def)

text \<open>The timeline of a stored decision.\<close>

lemma timeline_eq:
  "found i s = Some d \<Longrightarrow> timeline R i s = (Inr (Some \<lparr>dtl_events = sort_by before
     (created_entry d # map outcome_entry (outs i s) @ map evaluation_entry (evals i s) @ reflection_entries (refl i s)),
     dtl_learning = Option.bind (refl i s) r_result\<rparr>), s)"
  by (simp add: timeline_def io_bind_def io_ret_def io_soft_def laws)

lemma explanation_eq:
  assumes "found i s = Some d"
  obtains x where "explanation R i s = (Inr (Some x), s)" "dx_trend x = confidence_trend (hist ''decision'' (show_i64 i) s)"
    and "dx_outcome_summary x = summarise_outcomes (outs i s)" "dx_confidence x = d_confidence d"
    and "dx_drivers x = drivers_of (length (dx_evidence x)) (dx_trend x) (d_hypothesis d)"
proof -
  have "snd (io_soft None (dr_signal_detail R n) s) = s \<and> (\<exists>a. fst (io_soft None (dr_signal_detail R n) s) = Inr a)" for n
    by (rule soft_keeps) (rule detail_keeps)
  then have "\<exists>a. signal_evidence_of R d s = (Inr a, s)"
    by (auto simp: signal_evidence_of_def io_ret_def prod_eq_iff split: option.split)
  then obtain a where a: "signal_evidence_of R d s = (Inr a, s)" by blast
  obtain rows where rows: "io_soft [] (dr_traces R i) s = (Inr rows, s)"
    using soft_keeps [of "dr_traces R i" s "[]", OF traces_keep] by (auto simp: prod_eq_iff)
  show thesis
    by (rule that, simp add: explanation_def io_bind_def io_ret_def laws assms a rows soft_Inr Let_def) simp_all
qed

end

interpretation mem_reads: read_store memory_reads "\<lambda>st n s. case list_decisions st n s of (Inr ds, _) \<Rightarrow> ds | _ \<Rightarrow> []"
  "\<lambda>i s. List.find (\<lambda>d. d_id d = i) (decisions s)" "\<lambda>i s. filter (\<lambda>oc. o_decision_id oc = i) (outcomes s)"
  "\<lambda>i s. case list_evaluations i s of (Inr es, _) \<Rightarrow> es | _ \<Rightarrow> []" "\<lambda>i s. map_of (reflections s) i"
  "\<lambda>ty k s. sort_by (\<lambda>a b. ce_created_at a \<le> ce_created_at b) (filter (same_entity ty k) (confidence_events s))"
  by unfold_locales (simp_all add: memory_reads_def list_decisions_def find_decision_def list_outcomes_def
      list_evaluations_def get_reflection_by_decision_def list_confidence_history_def io_ret_def io_err_def Let_def
      split: option.split)

section \<open>The graph is well typed\<close>

fun node_prefix :: "graph_node_type \<Rightarrow> string" where
  "node_prefix SignalNode = ''SIG-''"
| "node_prefix DecisionNode = ''DEC-''"
| "node_prefix OutcomeNode = ''OUT-''"
| "node_prefix _ = ''''"

definition node_ok :: "graph_node \<Rightarrow> bool" where
  "node_ok n \<longleftrightarrow> gn_type n \<in> {SignalNode, DecisionNode, OutcomeNode} \<and>
     gn_id n = node_prefix (gn_type n) @ show_i64_06 (gn_entity_id n)"

fun edge_types :: "graph_edge_type \<Rightarrow> (graph_node_type \<times> graph_node_type) option" where
  "edge_types Influenced = Some (SignalNode, DecisionNode)"
| "edge_types ResultedIn = Some (DecisionNode, OutcomeNode)"
| "edge_types _ = None"

definition edge_ok :: "graph_node list \<Rightarrow> graph_edge \<Rightarrow> bool" where
  "edge_ok ns e \<longleftrightarrow> (\<exists>a \<in> set ns. \<exists>b \<in> set ns. ge_source e = gn_id a \<and> ge_target e = gn_id b \<and>
     edge_types (ge_type e) = Some (gn_type a, gn_type b))"

definition graph_ok :: "graph_node list \<Rightarrow> graph_edge list \<Rightarrow> bool" where
  "graph_ok ns es \<longleftrightarrow> list_all node_ok ns \<and> list_all (edge_ok ns) es"

lemma edge_ok_mono: "set ns \<subseteq> set ns' \<Longrightarrow> edge_ok ns e \<Longrightarrow> edge_ok ns' e"
  unfolding edge_ok_def by blast

lemma nodes_ok [simp]: "node_ok (decision_node d)" "node_ok (signal_node n)" "node_ok (outcome_node oc)"
  by (simp_all add: node_ok_def decision_node_def signal_node_def outcome_node_def agg_decision_def agg_signal_def agg_outcome_def)

lemma influence_ok: "edge_ok (decision_node d # signal_node n # ns) (influence_edge n (d_id d))"
  by (simp add: edge_ok_def influence_edge_def decision_node_def signal_node_def)

lemma result_ok: "decision_node d \<in> set ns \<Longrightarrow> outcome_node oc \<in> set ns \<Longrightarrow> edge_ok ns (result_edge (d_id d) oc)"
  unfolding edge_ok_def
  by (rule bexI [of _ "decision_node d"], rule bexI [of _ "outcome_node oc"])
    (simp_all add: result_edge_def decision_node_def outcome_node_def)

lemma decision_part_ok:
  "decision_node d \<in> set (fst (decision_part d))" "graph_ok (fst (decision_part d)) (snd (decision_part d))"
  by (simp_all add: decision_part_def graph_ok_def influence_ok split: option.split)

lemma graph_ok_parts:
  assumes "\<forall>p \<in> set ps. list_all node_ok (fst p)" "\<forall>p \<in> set ps. list_all (edge_ok (concat (map fst ps))) (snd p)"
  shows "graph_ok (concat (map fst ps)) (concat (map snd ps))"
  using assms by (auto simp: graph_ok_def list_all_iff)

lemma decision_graph_ok:
  fixes ds m
  defines "parts \<equiv> map decision_part ds @ map (outcome_part m) ds"
  shows "graph_ok (concat (map fst parts)) (concat (map snd parts))"
proof (rule graph_ok_parts)
  show "\<forall>p \<in> set parts. list_all node_ok (fst p)"
    unfolding parts_def
    by (auto simp: decision_part_def outcome_part_def list_all_iff split: option.splits)
  show "\<forall>p \<in> set parts. list_all (edge_ok (concat (map fst parts))) (snd p)"
  proof
    fix p assume p: "p \<in> set parts"
    then obtain d where d: "d \<in> set ds" "p = decision_part d \<or> p = outcome_part m d" unfolding parts_def by auto
    have sub: "set (fst p) \<subseteq> set (concat (map fst parts))" using p by auto
    have dn: "decision_node d \<in> set (concat (map fst parts))"
      using d(1) decision_part_ok(1) [of d] unfolding parts_def by auto
    from d(2) show "list_all (edge_ok (concat (map fst parts))) (snd p)"
    proof
      assume "p = decision_part d"
      with decision_part_ok(2) [of d] edge_ok_mono [OF sub] show ?thesis by (auto simp: graph_ok_def list_all_iff)
    next
      assume "p = outcome_part m d"
      then show ?thesis
      proof (cases "m (d_id d)")
        case (Some os)
        have "edge_ok (concat (map fst parts)) (result_edge (d_id d) oc)" if "oc \<in> set os" for oc
          by (rule result_ok [OF dn]) (use sub \<open>p = outcome_part m d\<close> Some that in \<open>auto simp: outcome_part_def\<close>)
        with \<open>p = outcome_part m d\<close> Some show ?thesis by (simp add: outcome_part_def list_all_iff)
      qed (simp add: outcome_part_def)
    qed
  qed
qed

text \<open>
  C26: whatever the store answers and however many of its outcome reads fail, the decision graph is
  well typed and closed: every node's id is the prefix of its type and its entity's number, every edge
  goes from a node of the graph to a node of the graph, a signal to a decision it influenced or a
  decision to an outcome it resulted in, and the root of a graph that is not empty is its first node.
\<close>

theorem decision_graph_typed:
  assumes "build_decision_graph R limit s = (Inr g, s')"
  shows "graph_ok (gr_nodes g) (gr_edges g) \<and>
    (gr_nodes g \<noteq> [] \<longrightarrow> gr_root_id g = gn_id (hd (gr_nodes g)) \<and> gr_root_type g = gn_type (hd (gr_nodes g)))"
proof -
  from assms obtain ds s1 where ds: "dr_list R None limit s = (Inr ds, s1)"
    "(if ds = [] then io_ret (empty_graph ''decision-graph'')
      else io_bind (graph_outcomes R (map d_id ds) Map.empty) (\<lambda>m.
         let parts = map decision_part ds @ map (outcome_part m) ds
         in io_ret \<lparr>gr_projection = ''decision-graph'', gr_root_id = agg_decision (d_id (hd ds)), gr_root_type = DecisionNode,
              gr_nodes = concat (map fst parts), gr_edges = concat (map snd parts), gr_generated_at = 0\<rparr>)) s1 = (Inr g, s')"
    unfolding build_decision_graph_def io_bind_Inr_iff by blast
  show ?thesis
  proof (cases ds)
    case Nil
    with ds(2) show ?thesis by (auto simp: empty_graph_def graph_ok_def)
  next
    case (Cons d ds')
    with ds(2) obtain m where g: "gr_nodes g = concat (map fst (map decision_part ds @ map (outcome_part m) ds))"
      "gr_edges g = concat (map snd (map decision_part ds @ map (outcome_part m) ds))"
      "gr_root_id g = agg_decision (d_id d)" "gr_root_type g = DecisionNode"
      by (auto simp: io_bind_Inr_iff Let_def)
    have "hd (gr_nodes g) = decision_node d"
      unfolding g(1) Cons by (simp add: decision_part_def split: option.split)
    then show ?thesis using decision_graph_ok [of ds m] g by (simp add: decision_node_def)
  qed
qed

definition graph_decision :: "int \<Rightarrow> decision_row" where
  "graph_decision i = \<lparr>d_id = i, d_signal_thread_id = Some 9, d_actor_id = None, d_decision_type = ''x'', d_title = ''t'',
     d_hypothesis = None, d_rationale = None, d_confidence = Fin 1, d_status = ''proposed'', d_priority = ''p'',
     d_expected_outcomes = None, d_created_at = 5, d_updated_at = 5\<rparr>"

definition graph_outcome :: outcome_event where
  "graph_outcome = \<lparr>o_id = 4, o_decision_id = 2, o_outcome_type = ''confirmed'', o_observation = ''seen'', o_evidence_url = None,
     o_observed_at = 3, o_created_at = 3\<rparr>"

definition graph_store :: memory_store where
  "graph_store = memory_store_new\<lparr>decisions := [graph_decision 1, graph_decision 2], outcomes := [graph_outcome]\<rparr>"

definition sample_graph :: graph_response where
  "sample_graph = (case build_decision_graph memory_reads 10 graph_store of (Inr g, _) \<Rightarrow> g | _ \<Rightarrow> empty_graph '''')"

lemma sample_graph_built: "build_decision_graph memory_reads 10 graph_store = (Inr sample_graph, graph_store)"
proof -
  obtain g where "build_decision_graph memory_reads 10 graph_store = (Inr g, graph_store)"
    using mem_reads.graph_total [of 10 graph_store] by blast
  then show ?thesis by (simp add: sample_graph_def)
qed

theorem decision_graph_typed_witness:
  "graph_ok (gr_nodes sample_graph) (gr_edges sample_graph) \<and>
    gr_root_id sample_graph = gn_id (hd (gr_nodes sample_graph)) \<and> gr_root_type sample_graph = gn_type (hd (gr_nodes sample_graph))"
proof -
  have "length (gr_nodes sample_graph) = 5" by code_simp
  then have "gr_nodes sample_graph \<noteq> []" by (metis length_greater_0_conv zero_less_numeral)
  with decision_graph_typed [OF sample_graph_built] show ?thesis by blast
qed

text \<open>
  Two decisions on the same signal give its node twice; and an expansion draws the edge from the
  signal of a decision without the signal's node.
\<close>

lemma graph_repeats_signal:
  "map gn_id (filter (\<lambda>n. gn_type n = SignalNode) (gr_nodes sample_graph)) = [''SIG-000009'', ''SIG-000009'']"
  by code_simp

lemma expansion_misses_signal:
  "case expand memory_reads ''DEC-000002'' graph_store of
     (Inr (ns, es), _) \<Rightarrow> map gn_id ns = [''DEC-000002'', ''OUT-000004''] \<and> map ge_source es = [''DEC-000002'', ''SIG-000009'']
   | _ \<Rightarrow> False"
  by code_simp


section \<open>The timeline\<close>

text \<open>
  The timeline of a stored decision is in the order of time and holds exactly its creation, its
  outcomes, its evaluations and its reflection once that has started, each once.
\<close>

theorem timeline_exact:
  assumes "List.find (\<lambda>d. d_id d = i) (decisions s) = Some d"
  shows "\<exists>t. timeline memory_reads i s = (Inr (Some t), s) \<and> sorted_wrt before (dtl_events t) \<and>
    mset (dtl_events t) = {#created_entry d#} +
      image_mset outcome_entry (filter_mset (\<lambda>oc. o_decision_id oc = i) (mset (outcomes s))) +
      image_mset evaluation_entry (filter_mset (\<lambda>e. ev_decision_id e = i) (mset (evaluations s))) +
      mset (reflection_entries (map_of (reflections s) i)) \<and>
    dtl_learning t = Option.bind (map_of (reflections s) i) r_result"
proof -
  have sorted: "sorted_wrt before (sort_by before es)" for es
    by (rule sort_by_sorted) (auto simp: before_def)
  have evs: "(case list_evaluations i s of (Inr es, _) \<Rightarrow> es | _ \<Rightarrow> []) = filter (\<lambda>e. ev_decision_id e = i) (evaluations s)"
    by (simp add: list_evaluations_def)
  show ?thesis unfolding mem_reads.timeline_eq [OF assms] evs
    by (rule exI, rule conjI, rule refl) (simp add: sorted mset_filter del: sort_by_simps)
qed

theorem timeline_exact_witness:
  "\<exists>t. timeline memory_reads 2 graph_store = (Inr (Some t), graph_store) \<and> sorted_wrt before (dtl_events t) \<and>
    mset (dtl_events t) = {#created_entry (graph_decision 2)#} +
      image_mset outcome_entry (filter_mset (\<lambda>oc. o_decision_id oc = 2) (mset (outcomes graph_store))) +
      image_mset evaluation_entry (filter_mset (\<lambda>e. ev_decision_id e = 2) (mset (evaluations graph_store))) +
      mset (reflection_entries (map_of (reflections graph_store) 2)) \<and>
    dtl_learning t = Option.bind (map_of (reflections graph_store) 2) r_result"
  by (rule timeline_exact) (simp add: graph_store_def graph_decision_def)

section \<open>The trend of the confidence\<close>

definition confidence_of :: "int \<Rightarrow> f64 \<Rightarrow> new_confidence_event" where
  "confidence_of i c = \<lparr>nce_entity_type = ''decision'', nce_entity_id = show_i64 i, nce_confidence = c, nce_reason = None,
     nce_trigger_event = None, nce_factors_json = None\<rparr>"

definition append_all :: "int \<Rightarrow> f64 list \<Rightarrow> memory_store \<Rightarrow> memory_store" where
  "append_all i cs s = fold (\<lambda>c s. snd (append_confidence (confidence_of i c) s)) cs s"

lemma append_one:
  "confidence_events (snd (append_confidence (confidence_of i c) s)) = confidence_events s @
     [\<lparr>ce_id = next_confidence_event_id s, ce_entity_type = ''decision'', ce_entity_id = show_i64 i,
       ce_previous_confidence = map_option ce_confidence (List.find (same_entity ''decision'' (show_i64 i)) (rev (confidence_events s))),
       ce_confidence = c, ce_reason = None, ce_trigger_event = None, ce_factors_json = None, ce_created_at = 1000000\<rparr>]"
  "decisions (snd (append_confidence (confidence_of i c) s)) = decisions s"
  by (simp_all add: append_confidence_def confidence_of_def Let_def)

text \<open>
  C27: the trend an explanation shows compares the latest confidence with the one before the previous
  one, and with 0 when there is none: a decision whose confidence was recorded twice is reported as
  increasing, and so explained by a rising confidence, also when it fell.
\<close>

theorem falling_confidence_increasing:
  assumes "List.find (\<lambda>d. d_id d = i) (decisions s) = Some d" "\<forall>e \<in> set (confidence_events s). \<not> same_entity ''decision'' (show_i64 i) e"
    and "flt (Fin 0) c2" "flt c2 c1"
  shows "\<exists>x s'. explanation memory_reads i (append_all i [c1, c2] s) = (Inr (Some x), s') \<and> dx_trend x = ''increasing'' \<and>
    \<lparr>drv_factor = ''trend'', drv_impact = ''Confidence rising over time''\<rparr> \<in> set (dx_drivers x)"
proof -
  let ?s = "append_all i [c1, c2] s"
  have none: "filter (same_entity ''decision'' (show_i64 i)) (confidence_events s) = []" using assms(2) by simp
  have found: "List.find (\<lambda>d. d_id d = i) (decisions ?s) = Some d" using assms(1) by (simp add: append_all_def append_one)
  let ?h = "sort_by (\<lambda>a b. ce_created_at a \<le> ce_created_at b) (filter (same_entity ''decision'' (show_i64 i)) (confidence_events ?s))"
  have first: "List.find (same_entity ''decision'' (show_i64 i)) (rev (confidence_events s)) = None"
    using assms(2) by (simp add: find_None_iff)
  have "confidence_trend ?h = ''increasing''"
    using assms(3) none first by (simp add: append_all_def append_one same_entity_def confidence_trend_def or_f64_def)
  moreover obtain x where "explanation memory_reads i ?s = (Inr (Some x), ?s)" "dx_trend x = confidence_trend ?h"
      "dx_drivers x = drivers_of (length (dx_evidence x)) (dx_trend x) (d_hypothesis d)"
    by (rule mem_reads.explanation_eq [OF found])
  ultimately show ?thesis by (intro exI [of _ x] exI [of _ ?s]) (simp add: drivers_of_def)
qed

theorem falling_confidence_increasing_witness:
  "\<exists>x s'. explanation memory_reads 2 (append_all 2 [Fin 1, Fin (1 / 2)] graph_store) = (Inr (Some x), s') \<and>
    dx_trend x = ''increasing'' \<and>
    \<lparr>drv_factor = ''trend'', drv_impact = ''Confidence rising over time''\<rparr> \<in> set (dx_drivers x)"
  by (rule falling_confidence_increasing [where d = "graph_decision 2"])
    (simp_all add: graph_store_def graph_decision_def memory_store_new_def)

section \<open>The statements of the radar\<close>

text \<open>With a schedule of \<open>k\<close> statements that succeed, what \<open>k\<close> statements leave of it.\<close>

definition scheduled :: "nat \<Rightarrow> read_db \<Rightarrow> read_db" where
  "scheduled k d = d\<lparr>rd_signals := (rd_signals d)\<lparr>db_faults := replicate k False @ db_faults (rd_signals d)\<rparr>\<rparr>"



lemma scheduled_Suc: "scheduled (Suc k) d = scheduled 1 (scheduled k d)"
  by (simp add: scheduled_def)














text \<open>The share of confirmed evaluations.\<close>

lemma ratio_between:
  assumes "0 \<le> c" "c \<le> t" "0 < t" "t \<le> 2 ^ 53"
  shows "between 0 1 (fdiv binary64 (of_i64 binary64 c) (of_i64 binary64 t))"
proof -
  have one: "rnd binary64 1 = Fin 1" and top: "rnd binary64 (2 ^ 53) = Fin (2 ^ 53)" by code_simp+
  have "of_int t \<le> (2 ^ 53 :: rat)" "(1 :: rat) \<le> of_int t"
    using assms(3,4) of_int_le_iff [of t "2 ^ 53", where 'a = rat] by simp_all
  from between_rnd [OF this(2,1) one top] obtain qt where t: "of_i64 binary64 t = Fin qt" "1 \<le> qt"
    by (auto simp: of_i64_def between_iff)
  from count_mono [OF assms(2)] count_nonneg [OF assms(1)] t obtain qc where c: "of_i64 binary64 c = Fin qc" "0 \<le> qc" "qc \<le> qt"
    by (cases "of_i64 binary64 c") auto
  then have "0 \<le> qc / qt" "qc / qt \<le> 1" using t(2) by simp_all
  from between_rnd [OF this, of binary64 0 1] one show ?thesis using c t by simp
qed

lemma accuracy_between:
  assumes "0 \<le> sum_confirmed x" "sum_confirmed x \<le> sum_total_evaluated x" "sum_total_evaluated x \<le> 2 ^ 53" "accuracy_rate x = Some r"
  shows "between 0 1 r"
  using assms ratio_between by (auto simp: accuracy_rate_def split: if_splits)

end
