(* ===== verification/Spec2Isabelle.thy ===== *)
theory Spec2Isabelle
  imports DecisionRoutes ArchiveProps ReflectionClaims SignalProps FeedRuns AdvisorProps Claims Frameworks BriefingProps DecisionReadsProps
begin

text \<open>
  Sulix Intelligence: a verification library for the Rust crates under \<open>src/crates\<close>.

  The program reads feeds, summarises and embeds their articles, finds signals in them, and keeps
  decisions, their outcomes, reflections and memories, which an advisor and a daily briefing use.  It
  runs as a worker on a platform that provides a relational database (D1), an object store (R2), a
  key-value cache, a vector index and the network.  A cron trigger drives ingestion, garbage
  collection, backfill, the signal engine, the briefing, the archive of events, reflections and the
  memory engine, in this order; HTTP routes drive the services.

  How the code is modelled.  A struct is a \<open>record\<close>, an enum a \<open>datatype\<close>, a fallible function a sum
  with the error on the left, an effectful one a computation \<open>'s \<Rightarrow> ('e + 'a) \<times> 's\<close> (\<open>io\<close> in
  \<open>Prelude\<close>), where \<open>?\<close> is \<open>io_bind\<close>.  A table is a list of rows in the order of insertion, and a
  statement a function on the tables that may fail first: the schedule of failures is a field of the
  state, so theorems without a hypothesis on it hold whatever fails.  Machine integers are \<open>int\<close> with
  the wrap-around written out where the code casts; floats are exact rationals rounded once per
  operation, with infinities and one NaN (\<open>Floats\<close>: \<open>binary64\<close> and \<open>binary32\<close>, ties to even; the sign of
  a zero is not kept).  Text is UTF-8, one \<open>char\<close> per byte.  What is not in the repository is a
  parameter: serde's codecs, Unicode tables, URL and feed parsers, the model, the clock.

  The theories and the code they model.

  \<^item> \<open>Prelude\<close>, \<open>RustText\<close>, \<open>Floats\<close>, \<open>FloatText\<close>, \<open>Ids\<close>: computations, tables, stable sorting; decimal
    text and parsing; floating point; formatted floats; the id types of \<open>shared-kernel\<close>.
  \<^item> \<open>StoreModels\<close>, \<open>MemoryStore\<close>: the rows of \<open>domain/src/models\<close> and the in-memory store of
    \<open>store/src/memory\<close>, which the services are run on.
  \<^item> \<open>Decision\<close>, \<open>DecisionRepo\<close>, \<open>DecisionService\<close>, \<open>DecisionProps\<close>, \<open>DecisionRoutes\<close>: the aggregate of
    \<open>decision-engine\<close>, the adapter \<open>infrastructure/src/decision_repository.rs\<close>, the service of
    \<open>application/src/services/decision.rs\<close> and the handlers of \<open>worker-entry/src/routes/decision_write.rs\<close>.
  \<^item> \<open>EventKeys\<close>, \<open>EventArchive\<close>, \<open>ArchiveProps\<close>: keys and calendar of \<open>event-store\<close> and \<open>object-store\<close>,
    the outbox and index tables, the event store over them and the archive worker.
  \<^item> \<open>Reflection\<close>, \<open>ReflectionEngine\<close>, \<open>ReflectionProps\<close>, \<open>ReflectionClaims\<close>: the engine of
    \<open>intelligence/reflection-engine\<close>, its adapters and its cron cycle.
  \<^item> \<open>Clustering\<close>, \<open>Scoring\<close>, \<open>SignalTables\<close>, \<open>SignalEngine\<close>, \<open>SignalLaws\<close>, \<open>SignalProps\<close>: the engine of
    \<open>intelligence/signal-engine\<close> with its tables in \<open>store/src/d1/signal\<close>, adapters and job.
  \<^item> \<open>SignalReads\<close>, \<open>SignalReadsProps\<close>: the listings, batch queries, details and timelines of signals.
  \<^item> \<open>Ssrf\<close>, \<open>FeedTables\<close>, \<open>Content\<close>, \<open>Ingestion\<close>, \<open>IngestionLaws\<close>, \<open>IngestionProps\<close>, \<open>FeedRuns\<close>: the fetcher
    and its guard, the tables of feeds and articles, rules, tags, entities and policies, and ingestion,
    queue, backfill and garbage collection of \<open>worker-entry\<close>.
  \<^item> \<open>Confidence\<close>, \<open>MemoryEngine\<close>, \<open>Frameworks\<close>, \<open>Claims\<close>: \<open>intelligence-domain\<close>, \<open>memory-engine\<close>,
    \<open>reasoning-framework\<close> and \<open>claim-engine\<close>.
  \<^item> \<open>ContextEngine\<close>, \<open>ModelRuntime\<close>, \<open>Advisor\<close>, \<open>AdvisorProps\<close>: \<open>context-engine\<close>, \<open>model-runtime\<close>,
    \<open>agent-engine\<close> and the agent route.
  \<^item> \<open>Briefing\<close>, \<open>BriefingProps\<close>: the generator of \<open>ai-pipeline/src/briefing\<close>, its context queries, the
    job with lock, archive and cache, and the endpoint of today.
  \<^item> \<open>DecisionReads\<close>, \<open>DecisionReadsProps\<close>: graph, timeline, explanation, radar and trust report of
    \<open>application\<close>.

  Interfaces.  Where a component relies on another its contract is a locale: \<open>decision_store\<close>,
  \<open>decision_repository\<close> and \<open>decision_service\<close> (a store of rows gives a repository of aggregates gives
  the use cases), \<open>outbox_store\<close>, \<open>object_store\<close> and \<open>archive_pipeline\<close>, \<open>reflection_repository\<close> and
  \<open>reflection_cron\<close>, \<open>signal_store\<close>, \<open>evidence_store\<close> and \<open>capped_evidence_store\<close>, \<open>read_store\<close>.  Each is
  interpreted on the models of the code's own stores (\<open>ms_store\<close>, \<open>ms_adapter\<close>, \<open>msvc\<close>, \<open>d1\<close>,
  \<open>ms_outbox\<close>, \<open>blob\<close>, \<open>r2\<close>, \<open>d1_archive\<close>, \<open>ms_archive\<close>, \<open>engine_repo\<close>, \<open>engine_cron\<close>, \<open>d1_signals\<close>,
  \<open>d1_evidence\<close>, \<open>ms_evidence\<close>, \<open>d1_capped\<close>, \<open>mem_reads\<close>), and the properties rest on these facts.

  What the lemmas show.

  \<^item> Decisions: every stored aggregate keeps its invariants under any service calls, histories only
    go forward on the lifecycle graph, which ends; each endpoint is given on every branch, with the
    events it emits; what is saved is found again.
  \<^item> Events: the outbox row is archived only after its object is written, under any failures;
    progress when nothing fails; a hundred rows that cannot be decoded stop it for good.
  \<^item> Reflections: only validated drafts are stored as generated; settled rows stay; a valid draft
    gets there; an error of the model leaves the row in generation.
  \<^item> Signals: the tables stay well formed and lifecycles go one way; a run is described by its
    report; clusters are the connected components; scores stay in [0, 1] with every rounding; the batch
    queries of the radar agree with the queries they replace.
  \<^item> Ingestion: the tables' invariant over every cron cycle and queue batch; the SSRF guard as an
    equivalence; what one run stores; backlogs drain; the entries whose insert failed are lost.
  \<^item> Advisor, memories, claims: evidence gates, grounding, the parser's panics, and that the worker
    never promotes a memory.
  \<^item> Briefing and reads: what a briefing contains, how long the lock holds, that what is stored is
    served, that the graph is typed and closed.

  Bounds.  Loops of the code are structural recursion or carry a measure (\<open>year_loop\<close>, \<open>isqrt\<close>); the
  create loop has the code's own number of attempts (\<open>create_retries\<close>).  No definition runs on fuel of
  the model's own.  Square roots are computed to sixty binary places, past every rounding point of a
  64-bit float of a count.

  Not modelled, and why.  The text codecs of serde and the Unicode tables (outside the repository);
  the network, the platform's bindings and the clock beyond their documented answers; SQL that only
  lists or counts (the paginated listings and searches of \<open>store/src/d1\<close>, \<open>search\<close>); the delegations of
  \<open>store/src/d1_delegate.rs\<close> and of the services that forward to one store call; the routes of \<open>api\<close>,
  which decode a request and encode the answer; the prompt text and response reading of the reflection
  engine (\<open>generator/prompt.rs\<close>, \<open>generator/real.rs\<close>), whose model port is a parameter; seeds, wiring
  (\<open>composition\<close>) and console output.  Arithmetic on timestamps is taken not to overflow 64 bits.
\<close>

end
